(* ===== verification/Prelude.thy ===== *)
theory Prelude
  imports Complex_Main "HOL-Library.Word" "HOL-Library.AList"
begin

text \<open>
  Shared vocabulary of the development: the C++ primitives the service uses (binary64 values under comparison,
  \<open>steady_clock\<close> readings, \<open>std::to_string\<close>, \<open>std::string\<close> searches) and the list
  facts that several components need.
\<close>

section \<open>Floating point values\<close>

text \<open>
  The code under \<open>src/\<close> copies and compares \<open>double\<close>s and tests them with
  \<open>std::isfinite\<close>; it never computes with them. A finite value is represented by its
  rational value; the two zeros are one value, which no comparison can tell apart.
\<close>

datatype dbl = Fin rat | PosInf | NegInf | NaN

fun isfinite :: "dbl \<Rightarrow> bool" where
  "isfinite (Fin _) = True"
| "isfinite _ = False"

fun dbl_lt :: "dbl \<Rightarrow> dbl \<Rightarrow> bool" where
  "dbl_lt (Fin a) (Fin b) = (a < b)"
| "dbl_lt (Fin _) PosInf = True"
| "dbl_lt NegInf (Fin _) = True"
| "dbl_lt NegInf PosInf = True"
| "dbl_lt _ _ = False"

fun dbl_eq :: "dbl \<Rightarrow> dbl \<Rightarrow> bool" where
  "dbl_eq (Fin a) (Fin b) = (a = b)"
| "dbl_eq PosInf PosInf = True"
| "dbl_eq NegInf NegInf = True"
| "dbl_eq _ _ = False"

definition dbl_le :: "dbl \<Rightarrow> dbl \<Rightarrow> bool" where
  "dbl_le a b = (dbl_lt a b \<or> dbl_eq a b)"

abbreviation dbl_zero :: dbl where
  "dbl_zero \<equiv> Fin 0"

lemma dbl_le_Fin [simp]: "dbl_le (Fin a) (Fin b) = (a \<le> b)"
  by (auto simp: dbl_le_def)

lemma isfinite_iff: "isfinite d \<longleftrightarrow> (\<exists>r. d = Fin r)"
  by (cases d) auto

lemma dbl_eq_refl_iff: "dbl_eq d d \<longleftrightarrow> d \<noteq> NaN"
  by (cases d) auto

lemma dbl_eq_refl_finite [simp]: "isfinite d \<Longrightarrow> dbl_eq d d"
  by (cases d) auto

lemma dbl_eq_sym: "dbl_eq a b = dbl_eq b a"
  by (cases a; cases b) auto

lemma not_dbl_lt_finite:
  "isfinite a \<Longrightarrow> isfinite b \<Longrightarrow> \<not> dbl_lt a b \<longleftrightarrow> dbl_le b a"
  by (cases a; cases b) auto

section \<open>Time\<close>

text \<open>
  \<open>steady_clock::time_point\<close> is a count of nanoseconds (\<open>time\<close>); \<open>milliseconds\<close> are
  counts of milliseconds (\<open>millis\<close>). Comparing a duration in nanoseconds with one in
  milliseconds converts the latter to the common type, a multiplication in a signed 64-bit
  integer: \<open>ns_of_ms\<close> keeps its width and wraps the way the machine instruction does
  (the language leaves the overflow undefined).

  An operation that reads the clock several times takes a \<open>clock\<close>: its \<open>k\<close>-th
  \<open>steady_clock::now()\<close>, in program order, is \<open>clk k\<close>. Nothing is assumed about the
  readings unless a theorem says so.
\<close>

type_synonym "time" = int
type_synonym millis = int
type_synonym clock = "nat \<Rightarrow> time"

definition wrap64 :: "int \<Rightarrow> int" where
  "wrap64 x = (x + 2 ^ 63) mod 2 ^ 64 - 2 ^ 63"

definition ns_of_ms :: "millis \<Rightarrow> time" where
  "ns_of_ms ms = wrap64 (ms * 1000000)"

definition ms_in_range :: "millis \<Rightarrow> bool" where
  "ms_in_range ms \<longleftrightarrow> - 9223372036854 \<le> ms \<and> ms \<le> 9223372036854"

lemma wrap64_id: "- (2 ^ 63) \<le> x \<Longrightarrow> x < 2 ^ 63 \<Longrightarrow> wrap64 x = x"
  by (simp add: wrap64_def)

lemma wrap64_range: "- (2 ^ 63) \<le> wrap64 x \<and> wrap64 x < 2 ^ 63"
  by (simp add: wrap64_def)

lemma ns_of_ms_in_range: "ms_in_range ms \<Longrightarrow> ns_of_ms ms = ms * 1000000"
  unfolding ns_of_ms_def ms_in_range_def by (rule wrap64_id) auto

lemma ns_of_ms_int32: "- (2 ^ 31) \<le> ms \<Longrightarrow> ms < 2 ^ 31 \<Longrightarrow> ns_of_ms ms = ms * 1000000"
  by (rule ns_of_ms_in_range) (simp add: ms_in_range_def)

section \<open>Strings\<close>

text \<open>\<open>std::to_string\<close> on unsigned and signed integers.\<close>

definition digit_char :: "nat \<Rightarrow> char" where
  "digit_char d = char_of (48 + d)"

fun show_nat :: "nat \<Rightarrow> string" where
  "show_nat n = (if n < 10 then [digit_char n]
                 else show_nat (n div 10) @ [digit_char (n mod 10)])"

declare show_nat.simps [simp del]

definition show_int :: "int \<Rightarrow> string" where
  "show_int i = (if i < 0 then CHR ''-'' # show_nat (nat (- i)) else show_nat (nat i))"

lemma digit_char_inj: "d < 10 \<Longrightarrow> e < 10 \<Longrightarrow> digit_char d = digit_char e \<longleftrightarrow> d = e"
  unfolding digit_char_def by (auto simp: char_of_eq_iff take_bit_eq_mod)

lemma digit_char_not: "d < 10 \<Longrightarrow> digit_char d \<noteq> CHR ''-'' \<and> digit_char d \<noteq> CHR 0x0A"
  unfolding digit_char_def by (auto simp: char_of_eq_iff take_bit_eq_mod)

lemma show_nat_nonempty [simp]: "show_nat n \<noteq> []"
  by (subst show_nat.simps) simp

lemma show_nat_inj: "show_nat m = show_nat n \<Longrightarrow> m = n"
proof (induction m arbitrary: n rule: show_nat.induct)
  case (1 m)
  show ?case
  proof (cases "m < 10 \<or> n < 10")
    case True
    with "1.prems" show ?thesis
      by (auto simp: show_nat.simps [of m] show_nat.simps [of n] digit_char_inj
          show_nat_nonempty [symmetric] split: if_splits)
  next
    case False
    with "1.prems" have "show_nat (m div 10) = show_nat (n div 10)" and "m mod 10 = n mod 10"
      by (simp_all add: show_nat.simps [of m] show_nat.simps [of n] digit_char_inj)
    with "1.IH" False show ?thesis
      by (metis div_mod_decomp)
  qed
qed

lemma show_nat_chars: "CHR ''-'' \<notin> set (show_nat n) \<and> CHR 0x0A \<notin> set (show_nat n)"
proof (induction n rule: show_nat.induct)
  case (1 n)
  then show ?case
    using digit_char_not [of n] digit_char_not [of "n mod 10"]
    by (simp add: show_nat.simps [of n]) (metis (full_types))
qed

text \<open>The text after the last separator decides: what \<open>"lease-<time>-<number>"\<close> needs.\<close>

lemma split_at_last:
  assumes "xs @ c # ys = us @ c # vs" and "c \<notin> set ys" and "c \<notin> set vs"
  shows "xs = us \<and> ys = vs"
  using assms by (auto simp: append_eq_append_conv2 append_eq_Cons_conv Cons_eq_append_conv)

text \<open>The text before the first separator decides: what the idempotency key needs.\<close>

lemma split_at_first:
  assumes "xs @ c # ys = us @ c # vs" and "c \<notin> set xs" and "c \<notin> set us"
  shows "xs = us \<and> ys = vs"
  using assms by (auto simp: append_eq_append_conv2 append_eq_Cons_conv Cons_eq_append_conv)

text \<open>\<open>s.rfind(p, 0) == 0\<close>: the string starts with the prefix.\<close>

fun starts_with :: "string \<Rightarrow> string \<Rightarrow> bool" where
  "starts_with [] _ = True"
| "starts_with (_ # _) [] = False"
| "starts_with (p # ps) (c # cs) = (p = c \<and> starts_with ps cs)"

lemma starts_with_iff: "starts_with p s \<longleftrightarrow> (\<exists>r. s = p @ r)"
  by (induction p s rule: starts_with.induct) auto

section \<open>Results\<close>

text \<open>
  A C++ call either returns or throws. \<open>Threw (Some w)\<close> is a \<open>std::exception\<close> whose
  \<open>what()\<close> is \<open>w\<close>, \<open>Threw None\<close> any other exception object.
\<close>

datatype 'a outcome = Returned 'a | Threw "string option"

section \<open>Lists\<close>

lemma sorted_wrt_remove1: "sorted_wrt P xs \<Longrightarrow> sorted_wrt P (remove1 x xs)"
  by (induction xs) (auto dest: notin_set_remove1 set_mp [OF set_remove1_subset])

lemma find_None_iff_list: "find P xs = None \<longleftrightarrow> (\<forall>x\<in>set xs. \<not> P x)"
  by (auto simp: find_None_iff)

lemma find_Some_in: "find P xs = Some x \<Longrightarrow> x \<in> set xs \<and> P x"
  by (induction xs) (auto split: if_splits)

text \<open>Erasing the last occurrence: what \<open>erase\<close> does at an iterator found from the back.\<close>

definition remove_last :: "'a \<Rightarrow> 'a list \<Rightarrow> 'a list" where
  "remove_last x xs = rev (remove1 x (rev xs))"

lemma remove_last_distinct: "distinct xs \<Longrightarrow> remove_last x xs = remove1 x xs"
  by (simp add: remove_last_def distinct_remove1_removeAll removeAll_filter_not_eq rev_filter)

lemma length_remove_last: "x \<in> set xs \<Longrightarrow> length (remove_last x xs) = length xs - 1"
  by (simp add: remove_last_def length_remove1)

lemma mset_remove_last_subset: "set (remove_last x xs) \<subseteq> set xs"
  using set_remove1_subset [of x "rev xs"] by (simp add: remove_last_def)

end
