(* ===== verification/Types.thy ===== *)
theory Types
  imports Prelude
begin

text \<open>
  The domain vocabulary shared by every component: \<open>include/robot/types/status.h\<close>,
  \<open>types.h\<close> and \<open>command.h\<close>. Structs are records whose fields carry a short prefix of
  their struct, scoped enums are datatypes with the source's enumerators (two of them are
  called \<open>kUnknown\<close> in the source and are told apart here), and the default member
  initialisers are the \<open>default_*\<close> constants.
\<close>

section \<open>status.h\<close>

datatype status_code =
    kOk | kInvalidArgument | kFailedPrecondition | kPermissionDenied | kNotFound
  | kAlreadyExists | kResourceExhausted | kUnavailable | kDeadlineExceeded
  | kControllerFault | kInternal

record status =
  st_code :: status_code
  st_message :: string
  st_vendor_code :: int

text \<open>The constructor \<open>Status(code, message)\<close>, and \<open>Status::Ok()\<close>.\<close>

abbreviation Status :: "status_code \<Rightarrow> string \<Rightarrow> status" where
  "Status c m \<equiv> \<lparr>st_code = c, st_message = m, st_vendor_code = 0\<rparr>"

abbreviation StatusOk :: status where
  "StatusOk \<equiv> Status kOk []"

definition status_ok :: "status \<Rightarrow> bool" where
  "status_ok s = (st_code s = kOk)"

text \<open>\<open>StatusOr<T>\<close>: \<open>Inl\<close> the error status, \<open>Inr\<close> the value.\<close>

type_synonym 'a status_or = "status + 'a"

lemma status_ok_Status [simp]:
  "status_ok \<lparr>st_code = c, st_message = m, st_vendor_code = v\<rparr> \<longleftrightarrow> c = kOk"
  by (simp add: status_ok_def)

section \<open>types.h\<close>

type_synonym u32 = "32 word"

datatype robot_lifecycle_state =
    kDisconnected | kConnecting | kStandby | kReady | kExecuting | kPaused | kFault
  | kEmergencyStop | kLifecycleUnknown

datatype controller_mode = kManual | kManualFast | kAutomatic | kModeUnknown

datatype stop_mode = kControlled | kQuick | kPowerOffRequest

datatype jog_frame = kJoint | kRobot | kTool | kUser | kWorld

datatype jog_direction = kNegative | kPositive

record connection_options =
  co_robot_id :: string
  co_address :: string
  co_expected_model :: string
  co_expected_axis_count :: nat
  co_verify_sdk_version :: bool
  co_sdk_debug_logging :: bool

record cartesian_pose =
  x_mm :: dbl
  y_mm :: dbl
  z_mm :: dbl
  a_deg :: dbl
  b_deg :: dbl
  c_deg :: dbl
  configuration :: int
  joint_1_turn :: int
  joint_4_turn :: int
  joint_6_turn :: int

record joint_motion_profile =
  jp_speed_percent :: int
  jp_blend :: dbl

record cartesian_motion_profile =
  cp_speed_mm_per_second :: int
  cp_blend_mm :: dbl

record joint_target =
  jt_position :: "dbl list"
  jt_tool_name :: string
  jt_work_object_name :: string

record cartesian_target =
  ct_pose :: cartesian_pose
  ct_tool_name :: string
  ct_work_object_name :: string

record circular_target =
  cc_via :: cartesian_pose
  cc_target :: cartesian_pose
  cc_tool_name :: string
  cc_work_object_name :: string

record jog_command =
  jc_frame :: jog_frame
  jc_axis :: u32
  jc_direction :: jog_direction
  jc_start :: bool

record alarm =
  al_code :: int
  al_severity :: int
  al_occurred_at :: string
  al_message :: string

record robot_snapshot =
  sn_sequence :: nat
  sn_observed_at :: "time"
  sn_lifecycle :: robot_lifecycle_state
  sn_controller_mode :: controller_mode
  sn_connected :: bool
  sn_api_control :: bool
  sn_servo_on :: bool
  sn_emergency_stop :: bool
  sn_alarm_active :: bool
  sn_moving :: bool
  sn_paused :: bool
  sn_program_running :: bool
  sn_speed_ratio :: u32
  sn_tcp_speed_mm_per_second :: dbl
  sn_controller_model :: string
  sn_axis_count :: nat
  sn_active_tool :: string
  sn_active_work_object :: string
  sn_joints :: "dbl list"
  sn_tcp_pose :: cartesian_pose

record joint_limit =
  minimum_deg :: dbl
  maximum_deg :: dbl

record cartesian_workspace =
  minimum_x_mm :: dbl
  maximum_x_mm :: dbl
  minimum_y_mm :: dbl
  maximum_y_mm :: dbl
  minimum_z_mm :: dbl
  maximum_z_mm :: dbl

record safety_policy =
  sp_motion_enabled :: bool
  sp_program_execution_enabled :: bool
  sp_joint_limits_verified :: bool
  sp_cartesian_workspace_verified :: bool
  sp_maximum_joint_speed_percent :: int
  sp_maximum_linear_speed_mm_per_second :: int
  sp_joint_limits :: "joint_limit list"
  sp_cartesian_workspace :: cartesian_workspace
  sp_cartesian_workspace_frame :: string
  sp_writable_digital_outputs :: "u32 list"
  sp_approved_programs :: "string list"

definition default_pose :: cartesian_pose where
  "default_pose = \<lparr>x_mm = dbl_zero, y_mm = dbl_zero, z_mm = dbl_zero, a_deg = dbl_zero,
     b_deg = dbl_zero, c_deg = dbl_zero, configuration = 0, joint_1_turn = 0,
     joint_4_turn = 0, joint_6_turn = 0\<rparr>"

definition default_snapshot :: robot_snapshot where
  "default_snapshot = \<lparr>sn_sequence = 0, sn_observed_at = 0, sn_lifecycle = kLifecycleUnknown,
     sn_controller_mode = kModeUnknown, sn_connected = False, sn_api_control = False,
     sn_servo_on = False, sn_emergency_stop = False, sn_alarm_active = False,
     sn_moving = False, sn_paused = False, sn_program_running = False, sn_speed_ratio = 0,
     sn_tcp_speed_mm_per_second = dbl_zero, sn_controller_model = [], sn_axis_count = 0,
     sn_active_tool = [], sn_active_work_object = [], sn_joints = [],
     sn_tcp_pose = default_pose\<rparr>"

definition default_connection :: connection_options where
  "default_connection = \<lparr>co_robot_id = [], co_address = [], co_expected_model = [],
     co_expected_axis_count = 0, co_verify_sdk_version = True, co_sdk_debug_logging = False\<rparr>"

definition default_policy :: safety_policy where
  "default_policy = \<lparr>sp_motion_enabled = False, sp_program_execution_enabled = False,
     sp_joint_limits_verified = False, sp_cartesian_workspace_verified = False,
     sp_maximum_joint_speed_percent = 20, sp_maximum_linear_speed_mm_per_second = 500,
     sp_joint_limits = [],
     sp_cartesian_workspace = \<lparr>minimum_x_mm = dbl_zero, maximum_x_mm = dbl_zero,
       minimum_y_mm = dbl_zero, maximum_y_mm = dbl_zero, minimum_z_mm = dbl_zero,
       maximum_z_mm = dbl_zero\<rparr>,
     sp_cartesian_workspace_frame = ''wobj0'', sp_writable_digital_outputs = [],
     sp_approved_programs = []\<rparr>"

section \<open>command.h\<close>

datatype command_type =
    kAcquireControl | kReleaseControl | kPowerOn | kPowerOff | kClearFault
  | kSetGlobalSpeed | kMoveJ | kMoveL | kMoveC | kHold | kResume | kStop | kJog
  | kWriteDigitalOutput | kLoadProgram | kStartProgram | kStopProgram

datatype command_state =
  kQueued | kRunning | kSucceeded | kFailed | kCancelled | kTimedOut | kStopped

record move_j_payload =
  mj_target :: joint_target
  mj_profile :: joint_motion_profile

record move_l_payload =
  ml_target :: cartesian_target
  ml_profile :: cartesian_motion_profile

record move_c_payload =
  mc_target :: circular_target
  mc_profile :: cartesian_motion_profile

record digital_output_payload =
  do_index :: u32
  do_value :: bool

text \<open>
  The \<open>std::variant\<close> of \<open>CommandPayload\<close>: one constructor per alternative, in order
  (\<open>StopPayload\<close>, \<open>SpeedPayload\<close> and \<open>ProgramPayload\<close> have one field each).
\<close>

datatype command_payload =
    Monostate
  | MoveJPayload move_j_payload
  | MoveLPayload move_l_payload
  | MoveCPayload move_c_payload
  | StopPayload stop_mode
  | SpeedPayload u32
  | JogPayload jog_command
  | DigitalOutputPayload digital_output_payload
  | ProgramPayload string

text \<open>\<open>variant::index()\<close>.\<close>

primrec payload_index :: "command_payload \<Rightarrow> nat" where
  "payload_index Monostate = 0"
| "payload_index (MoveJPayload _) = 1"
| "payload_index (MoveLPayload _) = 2"
| "payload_index (MoveCPayload _) = 3"
| "payload_index (StopPayload _) = 4"
| "payload_index (SpeedPayload _) = 5"
| "payload_index (JogPayload _) = 6"
| "payload_index (DigitalOutputPayload _) = 7"
| "payload_index (ProgramPayload _) = 8"

record command_request =
  rq_type :: command_type
  rq_payload :: command_payload
  rq_client_id :: string
  rq_lease_id :: string
  rq_idempotency_key :: string
  rq_timeout :: millis

record command_record =
  rc_id :: nat
  rc_request :: command_request
  rc_state :: command_state
  rc_result :: status
  rc_created_at :: "time"
  rc_updated_at :: "time"

definition default_request :: command_request where
  "default_request = \<lparr>rq_type = kStop, rq_payload = Monostate, rq_client_id = [],
     rq_lease_id = [], rq_idempotency_key = [], rq_timeout = 30000\<rparr>"

definition default_record :: command_record where
  "default_record = \<lparr>rc_id = 0, rc_request = default_request, rc_state = kQueued,
     rc_result = StatusOk, rc_created_at = 0, rc_updated_at = 0\<rparr>"

end
