(* ===== verification/ControlLease.thy ===== *)
theory ControlLease
  imports Types
begin

text \<open>
  \<open>src/control/control_lease.cc\<close>: the control lease and its manager. Each method runs under
  the manager's mutex, so it is one atomic operation on the state; the clock reading a method
  takes before the lock is its \<open>now\<close> argument. The lease life time is a count of
  milliseconds added to a nanosecond time point.
\<close>

section \<open>State and operations\<close>

record control_lease =
  cl_id :: string
  cl_client_id :: string
  cl_expires_at :: "time"

record lease_manager =
  lm_lease_ttl :: millis
  lm_active :: control_lease
  lm_has_active :: bool
  lm_next_id :: nat

definition empty_lease :: control_lease where
  "empty_lease = \<lparr>cl_id = [], cl_client_id = [], cl_expires_at = 0\<rparr>"

definition new_lease_manager :: "millis \<Rightarrow> lease_manager" where
  "new_lease_manager ttl =
    \<lparr>lm_lease_ttl = ttl, lm_active = empty_lease, lm_has_active = False, lm_next_id = 1\<rparr>"

definition is_active_locked :: "time \<Rightarrow> lease_manager \<Rightarrow> bool" where
  "is_active_locked now m = (lm_has_active m \<and> now < cl_expires_at (lm_active m))"

definition lease_id_string :: "time \<Rightarrow> nat \<Rightarrow> string" where
  "lease_id_string timestamp n = ''lease-'' @ show_int timestamp @ ''-'' @ show_nat n"

definition lease_acquire :: "time \<Rightarrow> string \<Rightarrow> lease_manager \<Rightarrow> control_lease status_or \<times> lease_manager" where
  "lease_acquire now client_id m =
    (if client_id = [] then (Inl (Status kInvalidArgument ''client_id is required''), m)
     else if is_active_locked now m then
       (Inl (Status kAlreadyExists ''another client holds the control lease''), m)
     else
       let lease = \<lparr>cl_id = lease_id_string now (lm_next_id m), cl_client_id = client_id,
                    cl_expires_at = now + ns_of_ms (lm_lease_ttl m)\<rparr>
       in (Inr lease, m\<lparr>lm_active := lease, lm_has_active := True,
                        lm_next_id := lm_next_id m + 1\<rparr>))"

definition lease_renew :: "time \<Rightarrow> string \<Rightarrow> string \<Rightarrow> lease_manager \<Rightarrow> control_lease status_or \<times> lease_manager" where
  "lease_renew now lease_id client_id m =
    (if \<not> is_active_locked now m \<or> cl_id (lm_active m) \<noteq> lease_id
        \<or> cl_client_id (lm_active m) \<noteq> client_id then
       (Inl (Status kPermissionDenied ''control lease is invalid or expired''), m)
     else
       let lease = (lm_active m)\<lparr>cl_expires_at := now + ns_of_ms (lm_lease_ttl m)\<rparr>
       in (Inr lease, m\<lparr>lm_active := lease\<rparr>))"

definition lease_release :: "string \<Rightarrow> string \<Rightarrow> lease_manager \<Rightarrow> status \<times> lease_manager" where
  "lease_release lease_id client_id m =
    (if \<not> lm_has_active m \<or> cl_id (lm_active m) \<noteq> lease_id
        \<or> cl_client_id (lm_active m) \<noteq> client_id then
       (Status kPermissionDenied ''control lease does not belong to this client'', m)
     else (StatusOk, m\<lparr>lm_has_active := False, lm_active := empty_lease\<rparr>))"

definition lease_is_valid :: "time \<Rightarrow> string \<Rightarrow> string \<Rightarrow> lease_manager \<Rightarrow> bool" where
  "lease_is_valid now lease_id client_id m =
    (is_active_locked now m \<and> cl_id (lm_active m) = lease_id
     \<and> cl_client_id (lm_active m) = client_id)"

lemmas lease_defs = lease_acquire_def lease_renew_def lease_release_def lease_is_valid_def
  is_active_locked_def Let_def

section \<open>Traces of lease operations\<close>

text \<open>
  A trace is a list of calls with the time each is made (\<open>Release\<close> does not read the
  clock; its time only orders it). \<open>lease_step\<close> is the effect, \<open>lease_granted\<close> the
  lease the call hands out.
\<close>

datatype lease_op =
    LAcquire "time" string
  | LRenew "time" string string
  | LRelease "time" string string

primrec op_time :: "lease_op \<Rightarrow> time" where
  "op_time (LAcquire t _) = t"
| "op_time (LRenew t _ _) = t"
| "op_time (LRelease t _ _) = t"

primrec lease_step :: "lease_op \<Rightarrow> lease_manager \<Rightarrow> lease_manager" where
  "lease_step (LAcquire t c) m = snd (lease_acquire t c m)"
| "lease_step (LRenew t l c) m = snd (lease_renew t l c m)"
| "lease_step (LRelease t l c) m = snd (lease_release l c m)"

primrec lease_granted :: "lease_op \<Rightarrow> lease_manager \<Rightarrow> control_lease option" where
  "lease_granted (LAcquire t c) m = (case fst (lease_acquire t c m) of Inr l \<Rightarrow> Some l | Inl _ \<Rightarrow> None)"
| "lease_granted (LRenew t l c) m = (case fst (lease_renew t l c m) of Inr l \<Rightarrow> Some l | Inl _ \<Rightarrow> None)"
| "lease_granted (LRelease t l c) m = None"

text \<open>The trace's times never go back, the first being no earlier than \<open>t\<close>.\<close>

fun timed :: "time \<Rightarrow> lease_op list \<Rightarrow> bool" where
  "timed t [] = True"
| "timed t (x # xs) = (t \<le> op_time x \<and> timed (op_time x) xs)"

section \<open>The contract of a lease authority\<close>

text \<open>
  What the executor and the clients rely on. \<open>wf t m\<close>: no lease of \<open>m\<close> outlives a full
  life time counted from \<open>t\<close>, which holds when \<open>t\<close> is not before the last grant.
\<close>

locale lease_authority =
  fixes valid :: "time \<Rightarrow> string \<Rightarrow> string \<Rightarrow> 'm \<Rightarrow> bool"
    and step :: "lease_op \<Rightarrow> 'm \<Rightarrow> 'm"
    and granted :: "lease_op \<Rightarrow> 'm \<Rightarrow> control_lease option"
    and wf :: "time \<Rightarrow> 'm \<Rightarrow> bool"
  assumes single: "valid t l c m \<Longrightarrow> valid t l' c' m \<Longrightarrow> l' = l \<and> c' = c"
    and wf_step: "wf t m \<Longrightarrow> t \<le> op_time x \<Longrightarrow> wf (op_time x) (step x m)"
    and keeps: "wf t m \<Longrightarrow> valid T l c m \<Longrightarrow> t \<le> op_time x \<Longrightarrow> op_time x \<le> T
      \<Longrightarrow> (\<forall>u. x \<noteq> LRelease u l c) \<Longrightarrow> valid T l c (step x m)"
    and denies: "valid T l c m \<Longrightarrow> op_time x \<le> T \<Longrightarrow> granted x m = Some g
      \<Longrightarrow> cl_id g = l \<and> cl_client_id g = c"
begin

lemma hold_keeps:
  assumes "wf t m" "valid T l c m" "timed t xs" "\<forall>x\<in>set xs. op_time x \<le> T"
    and "\<forall>u. LRelease u l c \<notin> set xs"
  shows "valid T l c (fold step xs m)"
  using assms
proof (induction xs arbitrary: t m)
  case (Cons x xs)
  then have "\<forall>u. x \<noteq> LRelease u l c" by auto
  with Cons.prems have "valid T l c (step x m)" and "wf (op_time x) (step x m)"
    by (auto intro: keeps wf_step)
  with Cons show ?case by auto
qed simp

lemma hold_exclusive:
  assumes "wf t m" "valid T l c m" "timed t (pre @ x # post)"
    and "\<forall>y\<in>set (pre @ x # post). op_time y \<le> T"
    and "\<forall>u. LRelease u l c \<notin> set pre"
    and "granted x (fold step pre m) = Some g"
  shows "cl_id g = l \<and> cl_client_id g = c"
proof -
  have "timed t pre" using assms(3) by (induction pre arbitrary: t) auto
  then have "valid T l c (fold step pre m)"
    using assms by (intro hold_keeps) auto
  then show ?thesis using assms(4,6) by (intro denies) auto
qed

end

text \<open>The extension for fresh identifiers: a lease id, once out of force, stays out of force.\<close>

locale fresh_lease_authority = lease_authority +
  fixes issued :: "'a \<Rightarrow> string set"
    and current :: "'a \<Rightarrow> string option"
  assumes valid_current: "valid t l c m \<Longrightarrow> current m = Some l"
    and issued_step: "issued m \<subseteq> issued (step x m)"
    and current_step: "current (step x m) = Some l
      \<Longrightarrow> current m = Some l \<or> l \<notin> issued m"
begin

lemma stale_forever:
  assumes "l \<in> issued m" and "current m \<noteq> Some l"
  shows "\<not> valid t l c (fold step xs m)"
  using assms
proof (induction xs arbitrary: m)
  case Nil
  then show ?case using valid_current by auto
next
  case (Cons x xs)
  then have "l \<in> issued (step x m)" and "current (step x m) \<noteq> Some l"
    using issued_step current_step by blast+
  then show ?case using Cons.IH by simp
qed

end

section \<open>The manager honours the contract\<close>

definition lease_wf :: "time \<Rightarrow> lease_manager \<Rightarrow> bool" where
  "lease_wf t m \<longleftrightarrow> (lm_has_active m \<longrightarrow> cl_expires_at (lm_active m) \<le> t + ns_of_ms (lm_lease_ttl m))"

definition issued_ids :: "lease_manager \<Rightarrow> string set" where
  "issued_ids m = {lease_id_string t n | t n. n < lm_next_id m}"

definition current_id :: "lease_manager \<Rightarrow> string option" where
  "current_id m = (if lm_has_active m then Some (cl_id (lm_active m)) else None)"

lemma lease_id_string_number:
  "lease_id_string t n = lease_id_string t' n' \<Longrightarrow> n = n'"
proof -
  assume "lease_id_string t n = lease_id_string t' n'"
  then have "show_int t @ CHR ''-'' # show_nat n = show_int t' @ CHR ''-'' # show_nat n'"
    by (simp add: lease_id_string_def)
  then have "show_nat n = show_nat n'"
    by (rule split_at_last [THEN conjunct2]) (simp_all add: show_nat_chars)
  then show ?thesis by (rule show_nat_inj)
qed

lemma lease_step_ttl [simp]: "lm_lease_ttl (lease_step x m) = lm_lease_ttl m"
  by (cases x) (simp_all add: lease_defs)

lemma lease_step_next_id: "lm_next_id m \<le> lm_next_id (lease_step x m)"
  by (cases x) (simp_all add: lease_defs)

interpretation lm: lease_authority lease_is_valid lease_step lease_granted lease_wf
proof unfold_locales
  fix t m x
  assume "lease_wf t m" "t \<le> op_time x"
  then show "lease_wf (op_time x) (lease_step x m)"
    by (cases x) (auto simp: lease_wf_def lease_defs)
next
  fix t m T l c x
  assume "lease_wf t m" "lease_is_valid T l c m" "t \<le> op_time x" "op_time x \<le> T"
    and "\<forall>u. x \<noteq> LRelease u l c"
  then show "lease_is_valid T l c (lease_step x m)"
    by (cases x) (auto simp: lease_wf_def lease_defs)
next
  fix T l c m x g
  assume "lease_is_valid T l c m" "op_time x \<le> T" "lease_granted x m = Some g"
  then show "cl_id g = l \<and> cl_client_id g = c"
    by (cases x) (auto simp: lease_defs split: if_splits)
qed (auto simp: lease_defs)

interpretation lm: fresh_lease_authority lease_is_valid lease_step lease_granted lease_wf
  issued_ids current_id
proof unfold_locales
  fix m x
  show "issued_ids m \<subseteq> issued_ids (lease_step x m)"
    using lease_step_next_id [of m x] by (force simp: issued_ids_def)
next
  fix m x l
  assume "current_id (lease_step x m) = Some l"
  then show "current_id m = Some l \<or> l \<notin> issued_ids m"
    by (cases x)
      (auto simp: current_id_def issued_ids_def lease_defs split: if_splits
        dest: lease_id_string_number)
qed (auto simp: lease_defs current_id_def)

lemma new_lease_manager_wf [simp]: "lease_wf t (new_lease_manager ttl)"
  by (simp add: lease_wf_def new_lease_manager_def)

lemma acquire_then_valid:
  assumes "lease_acquire t c m = (Inr g, m')" and "0 < ns_of_ms (lm_lease_ttl m)"
  shows "lease_is_valid t (cl_id g) c m'" and "lease_wf t m'"
    and "cl_expires_at g = t + ns_of_ms (lm_lease_ttl m)" and "cl_client_id g = c"
  using assms by (auto simp: lease_defs lease_wf_def split: if_splits)

lemma acquire_issued: "lease_acquire t c m = (Inr g, m') \<Longrightarrow> cl_id g \<in> issued_ids m'"
  by (auto simp: lease_defs issued_ids_def split: if_splits intro!: exI lessI)

lemma release_clears: "lease_release l c m = (s, m') \<Longrightarrow> status_ok s \<Longrightarrow> current_id m' = None"
  by (auto simp: lease_defs current_id_def split: if_splits)

lemma release_issued: "issued_ids (snd (lease_release l c m)) = issued_ids m"
  by (auto simp: lease_defs issued_ids_def)

section \<open>Properties\<close>

text \<open>
  Claim C9. Exclusive control: once a client has acquired the lease, then through any later
  sequence of acquire, renew and release calls made (by anybody, at non-decreasing times)
  before the lease's expiry, and as long as the holder does not release it, the lease stays
  valid and no call hands out a lease to anybody else.
\<close>

theorem lease_exclusive:
  assumes "lease_acquire t0 c m = (Inr g, m0)" and "0 < ns_of_ms (lm_lease_ttl m)"
    and "timed t0 (pre @ x # post)"
    and "\<forall>y\<in>set (pre @ x # post). op_time y < cl_expires_at g"
    and "\<forall>u. LRelease u (cl_id g) c \<notin> set pre"
  shows "lease_is_valid (op_time x) (cl_id g) c (fold lease_step pre m0) \<and>
    (\<forall>g'. lease_granted x (fold lease_step pre m0) = Some g' \<longrightarrow>
      cl_id g' = cl_id g \<and> cl_client_id g' = c)"
proof -
  let ?T = "cl_expires_at g - 1"
  have T: "lease_is_valid ?T (cl_id g) c m0"
    using assms(1,2) by (auto simp: lease_defs split: if_splits)
  note wf = acquire_then_valid(2) [OF assms(1,2)]
  have pre: "timed t0 pre" using assms(3) by (induction pre arbitrary: t0) auto
  have "lease_is_valid ?T (cl_id g) c (fold lease_step pre m0)"
    using assms(4,5) by (intro lm.hold_keeps [OF wf T pre]) auto
  then have "lease_is_valid (op_time x) (cl_id g) c (fold lease_step pre m0)"
    using assms(4) by (auto simp: lease_defs)
  moreover have "cl_id g' = cl_id g \<and> cl_client_id g' = c"
    if "lease_granted x (fold lease_step pre m0) = Some g'" for g'
    using lm.hold_exclusive [OF wf T assms(3) _ assms(5) that] assms(4) by auto
  ultimately show ?thesis by blast
qed

theorem lease_exclusive_witness:
  "lease_is_valid 3 ''lease-1-1'' ''cell''
     (fold lease_step [LRenew 2 ''lease-1-1'' ''cell'']
       (snd (lease_acquire 1 ''cell'' (new_lease_manager 3))))"
proof -
  let ?m0 = "snd (lease_acquire 1 ''cell'' (new_lease_manager 3))"
  let ?g = "\<lparr>cl_id = ''lease-1-1'', cl_client_id = ''cell'', cl_expires_at = 3000001\<rparr>"
  have acq: "lease_acquire 1 ''cell'' (new_lease_manager 3) = (Inr ?g, ?m0)"
    by code_simp
  have ttl: "0 < ns_of_ms (lm_lease_ttl (new_lease_manager 3))"
    by code_simp
  show ?thesis
    using lease_exclusive [OF acq ttl, of "[LRenew 2 ''lease-1-1'' ''cell'']" "LAcquire 3 ''hmi''" "[]"]
    by simp
qed

text \<open>
  No lease id is ever handed out twice or comes back: once the lease with id
  \<open>l\<close> has been issued and is no longer the active one (released, or replaced after its
  expiry), no later sequence of calls makes \<open>l\<close> valid again at any time for any client.
\<close>

theorem lease_id_never_revives:
  assumes "l \<in> issued_ids m" and "current_id m \<noteq> Some l"
  shows "\<not> lease_is_valid t l c (fold lease_step xs m)"
  using assms by (rule lm.stale_forever)

end
