(* ===== verification/CommandStore.thy ===== *)
theory CommandStore
  imports Types
begin

text \<open>
  The two hash tables of the executor (\<open>commands_\<close> and \<open>idempotency_\<close>, both
  \<open>std::unordered_map\<close>) and the contract of the map interface the executor uses: \<open>find\<close>,
  \<open>emplace\<close>, assignment through an iterator or \<open>operator[]\<close>, \<open>erase\<close>, \<open>size\<close>. A table
  is the list of its entries in iteration order; the order is left to the library by the
  language, and the model puts a new entry first.
\<close>

type_synonym ('k, 'v) store = "('k \<times> 'v) list"

definition store_find :: "('k, 'v) store \<Rightarrow> 'k \<Rightarrow> 'v option" where
  "store_find s k = map_of s k"

definition store_emplace :: "'k \<Rightarrow> 'v \<Rightarrow> ('k, 'v) store \<Rightarrow> ('k, 'v) store" where
  "store_emplace k v s = (if store_find s k = None then (k, v) # s else s)"

definition store_put :: "'k \<Rightarrow> 'v \<Rightarrow> ('k, 'v) store \<Rightarrow> ('k, 'v) store" where
  "store_put k v s = AList.update k v s"

definition store_erase :: "'k \<Rightarrow> ('k, 'v) store \<Rightarrow> ('k, 'v) store" where
  "store_erase k s = AList.delete k s"

definition store_size :: "('k, 'v) store \<Rightarrow> nat" where
  "store_size s = length s"

definition store_wf :: "('k, 'v) store \<Rightarrow> bool" where
  "store_wf s \<longleftrightarrow> distinct (map fst s)"

lemmas store_defs = store_find_def store_emplace_def store_put_def store_erase_def
  store_size_def store_wf_def

section \<open>The contract\<close>

locale keyed_store =
  fixes look :: "'s \<Rightarrow> 'k \<Rightarrow> 'v option"
    and emplace :: "'k \<Rightarrow> 'v \<Rightarrow> 's \<Rightarrow> 's"
    and put :: "'k \<Rightarrow> 'v \<Rightarrow> 's \<Rightarrow> 's"
    and erase :: "'k \<Rightarrow> 's \<Rightarrow> 's"
    and count :: "'s \<Rightarrow> nat"
    and wf :: "'s \<Rightarrow> bool"
    and entries :: "'s \<Rightarrow> ('k \<times> 'v) set"
  assumes look_emplace: "look (emplace k v s) =
      (if look s k = None then (look s)(k \<mapsto> v) else look s)"
    and look_put: "look (put k v s) = (look s)(k \<mapsto> v)"
    and look_erase: "look (erase k s) = (look s)(k := None)"
    and wf_emplace: "wf s \<Longrightarrow> wf (emplace k v s)"
    and wf_put: "wf s \<Longrightarrow> wf (put k v s)"
    and wf_erase: "wf s \<Longrightarrow> wf (erase k s)"
    and count_emplace: "count (emplace k v s) = (if look s k = None then Suc (count s) else count s)"
    and count_put: "wf s \<Longrightarrow> look s k \<noteq> None \<Longrightarrow> count (put k v s) = count s"
    and count_erase: "wf s \<Longrightarrow> look s k \<noteq> None \<Longrightarrow> Suc (count (erase k s)) = count s"
    and entries_look: "wf s \<Longrightarrow> (k, v) \<in> entries s \<longleftrightarrow> look s k = Some v"
begin

text \<open>What the executor's proofs use: updating a present entry in place.\<close>

lemma put_other: "k' \<noteq> k \<Longrightarrow> look (put k v s) k' = look s k'"
  by (simp add: look_put)

lemma put_domain: "look s k \<noteq> None \<Longrightarrow> look (put k v s) k' = None \<longleftrightarrow> look s k' = None"
  by (auto simp: look_put)

lemma ex_entry: "wf s \<Longrightarrow> (\<exists>e\<in>entries s. P (fst e) (snd e)) \<longleftrightarrow> (\<exists>k v. look s k = Some v \<and> P k v)"
  using entries_look by (force split: prod.splits)

lemma erase_smaller: "wf s \<Longrightarrow> look s k \<noteq> None \<Longrightarrow> count (erase k s) < count s"
  using count_erase by fastforce

end

section \<open>The model honours it\<close>

lemma distinct_keys_look: "distinct (map fst s) \<Longrightarrow> (k, v) \<in> set s \<longleftrightarrow> map_of s k = Some v"
  by simp

lemma length_delete_key:
  "distinct (map fst s) \<Longrightarrow> map_of s k \<noteq> None \<Longrightarrow> Suc (length (AList.delete k s)) = length s"
  by (induction s) (auto simp: AList.delete_id, blast)

lemma length_update_key: "map_of s k \<noteq> None \<Longrightarrow> length (AList.update k v s) = length s"
  by (induction s) (auto split: if_splits)

interpretation cs: keyed_store store_find store_emplace store_put store_erase store_size
  store_wf set
  by unfold_locales
    (auto simp: store_defs update_conv' delete_conv' distinct_update distinct_delete
      length_delete_key length_update_key map_of_eq_None_iff image_iff)

lemmas store_simps [simp] = cs.look_put cs.look_erase
lemmas store_intros [intro] = cs.wf_emplace cs.wf_put cs.wf_erase

lemma store_emplace_new [simp]:
  "store_find s k = None \<Longrightarrow> store_find (store_emplace k v s) = (store_find s)(k \<mapsto> v)"
  by (simp add: cs.look_emplace)

lemma store_wf_Nil [simp]: "store_wf []" "store_find [] k = None" "store_size [] = 0"
  by (simp_all add: store_defs)

end
