(* ===== verification/StateMachine.thy ===== *)
theory StateMachine
  imports Types
begin

text \<open>
  \<open>src/control/state_machine.cc\<close>: the lifecycle state exposed to clients, derived from a
  controller snapshot. The specification is an order of danger on lifecycle states
  (\<open>linorder\<close> instance): the derived state is the most dangerous one the snapshot
  justifies.
\<close>

definition derive_lifecycle_state :: "robot_snapshot \<Rightarrow> robot_lifecycle_state" where
  "derive_lifecycle_state snapshot =
    (if sn_emergency_stop snapshot then kEmergencyStop
     else if \<not> sn_connected snapshot then kDisconnected
     else if sn_alarm_active snapshot then kFault
     else if sn_paused snapshot then kPaused
     else if sn_moving snapshot \<or> sn_program_running snapshot then kExecuting
     else if sn_api_control snapshot \<and> sn_servo_on snapshot
       \<and> sn_controller_mode snapshot = kAutomatic then kReady
     else kStandby)"

fun lifecycle_state_name :: "robot_lifecycle_state \<Rightarrow> string" where
  "lifecycle_state_name kDisconnected = ''DISCONNECTED''"
| "lifecycle_state_name kConnecting = ''CONNECTING''"
| "lifecycle_state_name kStandby = ''STANDBY''"
| "lifecycle_state_name kReady = ''READY''"
| "lifecycle_state_name kExecuting = ''EXECUTING''"
| "lifecycle_state_name kPaused = ''PAUSED''"
| "lifecycle_state_name kFault = ''FAULT''"
| "lifecycle_state_name kEmergencyStop = ''ESTOP''"
| "lifecycle_state_name kLifecycleUnknown = ''UNKNOWN''"

section \<open>The order of danger\<close>

primrec danger :: "robot_lifecycle_state \<Rightarrow> nat" where
  "danger kLifecycleUnknown = 0"
| "danger kConnecting = 1"
| "danger kStandby = 2"
| "danger kReady = 3"
| "danger kExecuting = 4"
| "danger kPaused = 5"
| "danger kFault = 6"
| "danger kDisconnected = 7"
| "danger kEmergencyStop = 8"

lemma danger_inj: "danger a = danger b \<longleftrightarrow> a = b"
  by (cases a; cases b) simp_all

instantiation robot_lifecycle_state :: linorder
begin

definition less_eq_robot_lifecycle_state :: "robot_lifecycle_state \<Rightarrow> robot_lifecycle_state \<Rightarrow> bool" where
  "less_eq_robot_lifecycle_state a b \<longleftrightarrow> danger a \<le> danger b"

definition less_robot_lifecycle_state :: "robot_lifecycle_state \<Rightarrow> robot_lifecycle_state \<Rightarrow> bool" where
  "less_robot_lifecycle_state a b \<longleftrightarrow> danger a < danger b"

instance
  by standard (auto simp: less_eq_robot_lifecycle_state_def less_robot_lifecycle_state_def danger_inj)

end

text \<open>The states a snapshot justifies, each with its own condition and no priority.\<close>

definition justified :: "robot_snapshot \<Rightarrow> robot_lifecycle_state set" where
  "justified sn = {kStandby}
     \<union> (if sn_emergency_stop sn then {kEmergencyStop} else {})
     \<union> (if \<not> sn_connected sn then {kDisconnected} else {})
     \<union> (if sn_alarm_active sn then {kFault} else {})
     \<union> (if sn_paused sn then {kPaused} else {})
     \<union> (if sn_moving sn \<or> sn_program_running sn then {kExecuting} else {})
     \<union> (if sn_api_control sn \<and> sn_servo_on sn \<and> sn_controller_mode sn = kAutomatic
        then {kReady} else {})"

lemma finite_justified [simp]: "finite (justified sn)"
  by (simp add: justified_def)

lemma mem_if_singleton: "y \<in> (if P then {a} else {}) \<longleftrightarrow> P \<and> y = a"
  by simp

lemma mem_justified:
  "y \<in> justified sn \<longleftrightarrow> y = kStandby
     \<or> (sn_emergency_stop sn \<and> y = kEmergencyStop)
     \<or> (\<not> sn_connected sn \<and> y = kDisconnected)
     \<or> (sn_alarm_active sn \<and> y = kFault)
     \<or> (sn_paused sn \<and> y = kPaused)
     \<or> ((sn_moving sn \<or> sn_program_running sn) \<and> y = kExecuting)
     \<or> (sn_api_control sn \<and> sn_servo_on sn \<and> sn_controller_mode sn = kAutomatic \<and> y = kReady)"
  unfolding justified_def Un_iff mem_if_singleton singleton_iff by blast

lemmas danger_order = less_eq_robot_lifecycle_state_def

text \<open>
  The derived lifecycle is the most dangerous state the snapshot justifies: an
  emergency stop, a lost connection or an alarm is never hidden by \<open>moving\<close>,
  \<open>paused\<close> or readiness.
\<close>

theorem derive_lifecycle_is_most_dangerous:
  "derive_lifecycle_state sn = Max (justified sn)"
proof (rule Max_eqI [symmetric])
  show "derive_lifecycle_state sn \<in> justified sn"
    by (simp add: derive_lifecycle_state_def mem_justified)
  show "y \<le> derive_lifecycle_state sn" if "y \<in> justified sn" for y
    using that unfolding mem_justified
    by (elim disjE) (simp_all add: derive_lifecycle_state_def danger_order)
qed simp

lemma derive_ready_iff:
  "derive_lifecycle_state sn = kReady \<longleftrightarrow>
     sn_connected sn \<and> sn_api_control sn \<and> sn_servo_on sn \<and> sn_controller_mode sn = kAutomatic
     \<and> \<not> sn_emergency_stop sn \<and> \<not> sn_alarm_active sn \<and> \<not> sn_paused sn \<and> \<not> sn_moving sn
     \<and> \<not> sn_program_running sn"
  by (auto simp: derive_lifecycle_state_def)

lemma derive_not_unknown [simp]:
  "derive_lifecycle_state sn \<noteq> kLifecycleUnknown" "derive_lifecycle_state sn \<noteq> kConnecting"
  by (auto simp: derive_lifecycle_state_def)

lemma derive_ignores_bookkeeping [simp]:
  "derive_lifecycle_state (sn\<lparr>sn_lifecycle := l\<rparr>) = derive_lifecycle_state sn"
  "derive_lifecycle_state (sn\<lparr>sn_sequence := n\<rparr>) = derive_lifecycle_state sn"
  "derive_lifecycle_state (sn\<lparr>sn_observed_at := t\<rparr>) = derive_lifecycle_state sn"
  by (auto simp: derive_lifecycle_state_def)

lemma lifecycle_state_name_inj: "lifecycle_state_name a = lifecycle_state_name b \<longleftrightarrow> a = b"
  by (cases a; cases b) simp_all

lemma derive_ignores_lifecycle [simp]:
  "derive_lifecycle_state (sn\<lparr>sn_lifecycle := l\<rparr>) = derive_lifecycle_state sn"
  by (simp add: derive_lifecycle_state_def)

end
