(* ===== verification/CommandGuard.thy ===== *)
theory CommandGuard
  imports StateMachine
begin

text \<open>
  \<open>src/control/command_guard.cc\<close>: the software safety gate every command passes twice, at
  submission and again before it reaches the driver. \<open>validate\<close> is the code's decision
  with its early returns in order; \<open>permitted\<close> is the site's safety matrix (which
  condition applies to which command types), and the main theorem says they agree.
\<close>

section \<open>The checks, in the code's order\<close>

definition is_finite_pose :: "cartesian_pose \<Rightarrow> bool" where
  "is_finite_pose pose =
    (isfinite (x_mm pose) \<and> isfinite (y_mm pose) \<and> isfinite (z_mm pose)
     \<and> isfinite (a_deg pose) \<and> isfinite (b_deg pose) \<and> isfinite (c_deg pose)
     \<and> configuration pose \<ge> 0)"

definition is_inside_workspace :: "cartesian_pose \<Rightarrow> cartesian_workspace \<Rightarrow> bool" where
  "is_inside_workspace pose ws =
    (dbl_le (minimum_x_mm ws) (x_mm pose) \<and> dbl_le (x_mm pose) (maximum_x_mm ws)
     \<and> dbl_le (minimum_y_mm ws) (y_mm pose) \<and> dbl_le (y_mm pose) (maximum_y_mm ws)
     \<and> dbl_le (minimum_z_mm ws) (z_mm pose) \<and> dbl_le (z_mm pose) (maximum_z_mm ws))"

definition require_lease :: "bool \<Rightarrow> status" where
  "require_lease lease_valid =
    (if \<not> lease_valid then Status kPermissionDenied ''a valid control lease is required''
     else StatusOk)"

definition payload_type_valid :: "command_type \<Rightarrow> command_payload \<Rightarrow> bool" where
  "payload_type_valid type payload =
    (case type of
       kAcquireControl \<Rightarrow> payload = Monostate
     | kReleaseControl \<Rightarrow> payload = Monostate
     | kPowerOn \<Rightarrow> payload = Monostate
     | kPowerOff \<Rightarrow> payload = Monostate
     | kClearFault \<Rightarrow> payload = Monostate
     | kHold \<Rightarrow> payload = Monostate
     | kResume \<Rightarrow> payload = Monostate
     | kStartProgram \<Rightarrow> payload = Monostate
     | kStopProgram \<Rightarrow> payload = Monostate
     | kSetGlobalSpeed \<Rightarrow> payload_index payload = 5
     | kMoveJ \<Rightarrow> payload_index payload = 1
     | kMoveL \<Rightarrow> payload_index payload = 2
     | kMoveC \<Rightarrow> payload_index payload = 3
     | kStop \<Rightarrow> payload = Monostate \<or> payload_index payload = 4
     | kJog \<Rightarrow> payload_index payload = 6
     | kWriteDigitalOutput \<Rightarrow> payload_index payload = 7
     | kLoadProgram \<Rightarrow> payload_index payload = 8)"

definition validate_payload_type :: "command_request \<Rightarrow> status" where
  "validate_payload_type request =
    (if payload_type_valid (rq_type request) (rq_payload request) then StatusOk
     else Status kInvalidArgument ''command payload has the wrong type'')"

definition validate_common_motion :: "safety_policy \<Rightarrow> robot_snapshot \<Rightarrow> bool \<Rightarrow> status" where
  "validate_common_motion policy snapshot lease_valid =
    (if \<not> status_ok (require_lease lease_valid) then require_lease lease_valid
     else if \<not> sp_motion_enabled policy \<or> \<not> sp_joint_limits_verified policy then
       Status kFailedPrecondition ''motion or verified site joint limits are disabled''
     else if sn_lifecycle snapshot \<noteq> kReady \<or> sn_controller_mode snapshot \<noteq> kAutomatic
       \<or> \<not> sn_connected snapshot \<or> \<not> sn_api_control snapshot \<or> \<not> sn_servo_on snapshot
       \<or> sn_emergency_stop snapshot \<or> sn_alarm_active snapshot \<or> sn_moving snapshot
       \<or> sn_paused snapshot \<or> sn_program_running snapshot then
       Status kFailedPrecondition ''robot is not ready for a new motion command''
     else StatusOk)"

definition joint_outside :: "dbl \<Rightarrow> joint_limit \<Rightarrow> bool" where
  "joint_outside value limit =
    (\<not> isfinite value \<or> dbl_lt value (minimum_deg limit) \<or> dbl_lt (maximum_deg limit) value)"

definition validate_move_j :: "safety_policy \<Rightarrow> move_j_payload \<Rightarrow> status" where
  "validate_move_j policy payload =
    (let target = mj_target payload; profile = mj_profile payload in
     if \<not> sp_joint_limits_verified policy then
       Status kFailedPrecondition ''site joint limits have not been verified''
     else if jt_tool_name target = [] \<or> jt_work_object_name target = []
       \<or> jp_speed_percent profile < 1
       \<or> jp_speed_percent profile > sp_maximum_joint_speed_percent policy
       \<or> \<not> isfinite (jp_blend profile) \<or> dbl_lt (jp_blend profile) dbl_zero then
       Status kInvalidArgument ''joint speed or blend is outside the site policy''
     else if length (jt_position target) \<noteq> length (sp_joint_limits policy) then
       Status kInvalidArgument ''joint target axis count does not match site limits''
     else if list_ex (\<lambda>i. joint_outside (jt_position target ! i) (sp_joint_limits policy ! i))
         [0..<length (sp_joint_limits policy)] then
       Status kInvalidArgument ''joint target is outside the configured limits''
     else StatusOk)"

definition validate_move_l :: "safety_policy \<Rightarrow> move_l_payload \<Rightarrow> status" where
  "validate_move_l policy payload =
    (let target = ml_target payload; profile = ml_profile payload in
     if \<not> sp_cartesian_workspace_verified policy then
       Status kFailedPrecondition ''site Cartesian workspace has not been verified''
     else if ct_tool_name target = [] \<or> ct_work_object_name target = []
       \<or> ct_work_object_name target \<noteq> sp_cartesian_workspace_frame policy
       \<or> \<not> is_finite_pose (ct_pose target)
       \<or> \<not> is_inside_workspace (ct_pose target) (sp_cartesian_workspace policy)
       \<or> cp_speed_mm_per_second profile < 1
       \<or> cp_speed_mm_per_second profile > sp_maximum_linear_speed_mm_per_second policy
       \<or> \<not> isfinite (cp_blend_mm profile) \<or> dbl_lt (cp_blend_mm profile) dbl_zero then
       Status kInvalidArgument ''linear target or profile is invalid''
     else StatusOk)"

definition validate_move_c :: "safety_policy \<Rightarrow> move_c_payload \<Rightarrow> status" where
  "validate_move_c policy payload =
    (let target = mc_target payload; profile = mc_profile payload in
     if \<not> sp_cartesian_workspace_verified policy then
       Status kFailedPrecondition ''site Cartesian workspace has not been verified''
     else if cc_tool_name target = [] \<or> cc_work_object_name target = []
       \<or> cc_work_object_name target \<noteq> sp_cartesian_workspace_frame policy
       \<or> \<not> is_finite_pose (cc_via target) \<or> \<not> is_finite_pose (cc_target target)
       \<or> \<not> is_inside_workspace (cc_via target) (sp_cartesian_workspace policy)
       \<or> \<not> is_inside_workspace (cc_target target) (sp_cartesian_workspace policy)
       \<or> cp_speed_mm_per_second profile < 1
       \<or> cp_speed_mm_per_second profile > sp_maximum_linear_speed_mm_per_second policy
       \<or> \<not> isfinite (cp_blend_mm profile) \<or> dbl_lt (cp_blend_mm profile) dbl_zero then
       Status kInvalidArgument ''circular target or profile is invalid''
     else StatusOk)"

text \<open>\<open>static_cast<unsigned int>\<close> of the configured \<open>int\<close> limit.\<close>

definition max_speed_unsigned :: "safety_policy \<Rightarrow> u32" where
  "max_speed_unsigned policy = word_of_int (sp_maximum_joint_speed_percent policy)"

definition validate_jog :: "safety_policy \<Rightarrow> command_payload \<Rightarrow> robot_snapshot \<Rightarrow> bool \<Rightarrow> bool \<Rightarrow> status" where
  "validate_jog policy payload snapshot lease_valid jog_active =
    (case payload of
       JogPayload jog \<Rightarrow>
         (let configured_axes = length (sp_joint_limits policy) in
          if jc_axis jog < 1 \<or> (configured_axes \<noteq> 0 \<and> unat (jc_axis jog) > configured_axes) then
            Status kInvalidArgument ''jog payload or axis is invalid''
          else if \<not> status_ok (require_lease lease_valid) then require_lease lease_valid
          else if \<not> sn_connected snapshot \<or> \<not> sn_api_control snapshot
            \<or> sn_emergency_stop snapshot \<or> sn_alarm_active snapshot
            \<or> sn_lifecycle snapshot = kLifecycleUnknown \<or> sn_program_running snapshot
            \<or> sn_controller_mode snapshot \<noteq> kManual then
            Status kFailedPrecondition ''jog preconditions are not satisfied''
          else if \<not> jc_start jog then StatusOk
          else if sn_moving snapshot \<and> \<not> jog_active then
            Status kFailedPrecondition ''cannot start jog during another motion''
          else if \<not> sp_motion_enabled policy \<or> \<not> sp_joint_limits_verified policy
            \<or> \<not> sn_servo_on snapshot \<or> sn_paused snapshot then
            Status kFailedPrecondition ''jog motion is disabled or robot is not ready''
          else if sn_speed_ratio snapshot = 0 \<or> sp_maximum_joint_speed_percent policy < 1
            \<or> sn_speed_ratio snapshot > max_speed_unsigned policy then
            Status kFailedPrecondition ''global speed ratio is unsafe for jog''
          else StatusOk)
     | _ \<Rightarrow> Status kInvalidArgument ''jog payload or axis is invalid'')"

text \<open>The part of \<open>Validate\<close> after its \<open>switch\<close>: lease, then the three payload checks.\<close>

definition validate_tail :: "safety_policy \<Rightarrow> command_request \<Rightarrow> bool \<Rightarrow> status" where
  "validate_tail policy request lease_valid =
    (if \<not> status_ok (require_lease lease_valid) then require_lease lease_valid
     else if rq_type request = kSetGlobalSpeed then
       (case rq_payload request of
          SpeedPayload ratio \<Rightarrow>
            (if ratio = 0 \<or> sp_maximum_joint_speed_percent policy < 1
               \<or> ratio > max_speed_unsigned policy then
               Status kInvalidArgument ''global speed ratio exceeds the site policy''
             else StatusOk)
        | _ \<Rightarrow> Status kInvalidArgument ''global speed ratio exceeds the site policy'')
     else if rq_type request = kWriteDigitalOutput then
       (case rq_payload request of
          DigitalOutputPayload p \<Rightarrow>
            (if do_index p \<notin> set (sp_writable_digital_outputs policy) then
               Status kPermissionDenied ''digital output is not in the write allowlist''
             else StatusOk)
        | _ \<Rightarrow> Status kInvalidArgument ''digital output payload is missing'')
     else if rq_type request = kLoadProgram then
       (case rq_payload request of
          ProgramPayload name \<Rightarrow>
            (if name = [] then Status kInvalidArgument ''controller program name is required''
             else if \<not> sp_program_execution_enabled policy
               \<or> name \<notin> set (sp_approved_programs policy) then
               Status kPermissionDenied ''controller program is not approved for execution''
             else StatusOk)
        | _ \<Rightarrow> Status kInvalidArgument ''controller program name is required'')
     else StatusOk)"

definition validate :: "safety_policy \<Rightarrow> command_request \<Rightarrow> robot_snapshot \<Rightarrow> bool \<Rightarrow> bool \<Rightarrow> status" where
  "validate policy request snapshot lease_valid jog_active =
    (if \<not> status_ok (validate_payload_type request) then validate_payload_type request
     else case rq_type request of
       kStop \<Rightarrow>
         (if sn_connected snapshot then StatusOk
          else Status kFailedPrecondition ''robot is not connected'')
     | kAcquireControl \<Rightarrow>
         (if \<not> sn_connected snapshot then Status kFailedPrecondition ''robot is not connected''
          else require_lease lease_valid)
     | kReleaseControl \<Rightarrow> require_lease lease_valid
     | kClearFault \<Rightarrow>
         (if \<not> sn_connected snapshot \<or> sn_emergency_stop snapshot
            \<or> sn_lifecycle snapshot = kLifecycleUnknown then
            Status kFailedPrecondition
              ''cannot clear faults while disconnected or in emergency stop''
          else require_lease lease_valid)
     | kPowerOn \<Rightarrow>
         (if \<not> sn_connected snapshot \<or> \<not> sn_api_control snapshot
            \<or> sn_emergency_stop snapshot \<or> sn_alarm_active snapshot
            \<or> sn_lifecycle snapshot = kLifecycleUnknown then
            Status kFailedPrecondition ''power-on preconditions are not satisfied''
          else require_lease lease_valid)
     | kPowerOff \<Rightarrow>
         (if \<not> sn_connected snapshot \<or> \<not> sn_api_control snapshot then
            Status kFailedPrecondition ''robot is not under API control''
          else validate_tail policy request lease_valid)
     | kStopProgram \<Rightarrow>
         (if \<not> sn_connected snapshot \<or> \<not> sn_api_control snapshot then
            Status kFailedPrecondition ''robot is not under API control''
          else validate_tail policy request lease_valid)
     | kSetGlobalSpeed \<Rightarrow>
         (if \<not> sn_connected snapshot \<or> \<not> sn_api_control snapshot
            \<or> sn_lifecycle snapshot = kLifecycleUnknown then
            Status kFailedPrecondition ''robot is not under API control''
          else validate_tail policy request lease_valid)
     | kWriteDigitalOutput \<Rightarrow>
         (if \<not> sn_connected snapshot \<or> \<not> sn_api_control snapshot
            \<or> sn_lifecycle snapshot = kLifecycleUnknown then
            Status kFailedPrecondition ''robot is not under API control''
          else validate_tail policy request lease_valid)
     | kLoadProgram \<Rightarrow>
         (if \<not> sn_connected snapshot \<or> \<not> sn_api_control snapshot
            \<or> sn_lifecycle snapshot = kLifecycleUnknown then
            Status kFailedPrecondition ''robot is not under API control''
          else validate_tail policy request lease_valid)
     | kStartProgram \<Rightarrow>
         (let common = validate_common_motion policy snapshot lease_valid in
          if \<not> status_ok common then common
          else if \<not> sp_program_execution_enabled policy then
            Status kFailedPrecondition ''controller program execution is disabled by policy''
          else StatusOk)
     | kMoveJ \<Rightarrow>
         (let common = validate_common_motion policy snapshot lease_valid in
          if \<not> status_ok common then common
          else case rq_payload request of
            MoveJPayload payload \<Rightarrow> validate_move_j policy payload
          | _ \<Rightarrow> Status kInvalidArgument ''MoveJ payload is missing'')
     | kMoveL \<Rightarrow>
         (let common = validate_common_motion policy snapshot lease_valid in
          if \<not> status_ok common then common
          else case rq_payload request of
            MoveLPayload payload \<Rightarrow> validate_move_l policy payload
          | _ \<Rightarrow> Status kInvalidArgument ''MoveL payload is missing'')
     | kMoveC \<Rightarrow>
         (let common = validate_common_motion policy snapshot lease_valid in
          if \<not> status_ok common then common
          else case rq_payload request of
            MoveCPayload payload \<Rightarrow> validate_move_c policy payload
          | _ \<Rightarrow> Status kInvalidArgument ''MoveC payload is missing'')
     | kHold \<Rightarrow>
         (if \<not> sn_moving snapshot \<and> \<not> sn_program_running snapshot then
            Status kFailedPrecondition ''robot motion or program is not running''
          else require_lease lease_valid)
     | kResume \<Rightarrow>
         (if \<not> sn_paused snapshot then
            Status kFailedPrecondition ''robot motion is not paused''
          else require_lease lease_valid)
     | kJog \<Rightarrow> validate_jog policy (rq_payload request) snapshot lease_valid jog_active)"

section \<open>The safety matrix\<close>

text \<open>
  The specification is written by condition, not by command: for each condition, the
  command types it binds. \<open>motion_types\<close> are the commands that start a program or a
  trajectory.
\<close>

definition motion_types :: "command_type set" where
  "motion_types = {kMoveJ, kMoveL, kMoveC, kStartProgram}"

definition needs_connection :: "command_type set" where
  "needs_connection = - {kReleaseControl, kHold, kResume}"

definition needs_api_control :: "command_type set" where
  "needs_api_control = motion_types \<union> {kPowerOn, kPowerOff, kStopProgram, kSetGlobalSpeed,
     kWriteDigitalOutput, kLoadProgram, kJog}"

definition needs_known_state :: "command_type set" where
  "needs_known_state = needs_api_control - {kPowerOff, kStopProgram} \<union> {kClearFault}"

definition needs_no_estop :: "command_type set" where
  "needs_no_estop = motion_types \<union> {kClearFault, kPowerOn, kJog}"

definition needs_no_alarm :: "command_type set" where
  "needs_no_alarm = motion_types \<union> {kPowerOn, kJog}"

definition snapshot_permits :: "command_type \<Rightarrow> robot_snapshot \<Rightarrow> bool" where
  "snapshot_permits t sn \<longleftrightarrow>
     (t \<in> needs_connection \<longrightarrow> sn_connected sn)
     \<and> (t \<in> needs_api_control \<longrightarrow> sn_api_control sn)
     \<and> (t \<in> needs_known_state \<longrightarrow> sn_lifecycle sn \<noteq> kLifecycleUnknown)
     \<and> (t \<in> needs_no_estop \<longrightarrow> \<not> sn_emergency_stop sn)
     \<and> (t \<in> needs_no_alarm \<longrightarrow> \<not> sn_alarm_active sn)
     \<and> (t \<in> motion_types \<longrightarrow> sn_lifecycle sn = kReady \<and> sn_controller_mode sn = kAutomatic
          \<and> sn_servo_on sn \<and> \<not> sn_moving sn \<and> \<not> sn_paused sn \<and> \<not> sn_program_running sn)
     \<and> (t = kHold \<longrightarrow> sn_moving sn \<or> sn_program_running sn)
     \<and> (t = kResume \<longrightarrow> sn_paused sn)
     \<and> (t = kJog \<longrightarrow> sn_controller_mode sn = kManual \<and> \<not> sn_program_running sn)"

definition joints_within :: "joint_limit list \<Rightarrow> dbl list \<Rightarrow> bool" where
  "joints_within limits values \<longleftrightarrow> list_all2 (\<lambda>v l. isfinite v
     \<and> \<not> dbl_lt v (minimum_deg l) \<and> \<not> dbl_lt (maximum_deg l) v) values limits"

definition cartesian_permits :: "safety_policy \<Rightarrow> string \<Rightarrow> string \<Rightarrow> cartesian_pose list \<Rightarrow> cartesian_motion_profile \<Rightarrow> bool" where
  "cartesian_permits pol tool wobj poses profile \<longleftrightarrow>
     sp_cartesian_workspace_verified pol \<and> tool \<noteq> [] \<and> wobj \<noteq> []
     \<and> wobj = sp_cartesian_workspace_frame pol
     \<and> (\<forall>p\<in>set poses. is_finite_pose p \<and> is_inside_workspace p (sp_cartesian_workspace pol))
     \<and> 1 \<le> cp_speed_mm_per_second profile
     \<and> cp_speed_mm_per_second profile \<le> sp_maximum_linear_speed_mm_per_second pol
     \<and> isfinite (cp_blend_mm profile) \<and> \<not> dbl_lt (cp_blend_mm profile) dbl_zero"

definition speed_permits :: "safety_policy \<Rightarrow> u32 \<Rightarrow> bool" where
  "speed_permits pol ratio \<longleftrightarrow> ratio \<noteq> 0 \<and> 1 \<le> sp_maximum_joint_speed_percent pol
     \<and> ratio \<le> max_speed_unsigned pol"

definition move_j_permits :: "safety_policy \<Rightarrow> move_j_payload \<Rightarrow> bool" where
  "move_j_permits pol p \<longleftrightarrow>
     jt_tool_name (mj_target p) \<noteq> [] \<and> jt_work_object_name (mj_target p) \<noteq> []
     \<and> 1 \<le> jp_speed_percent (mj_profile p)
     \<and> jp_speed_percent (mj_profile p) \<le> sp_maximum_joint_speed_percent pol
     \<and> isfinite (jp_blend (mj_profile p)) \<and> \<not> dbl_lt (jp_blend (mj_profile p)) dbl_zero
     \<and> joints_within (sp_joint_limits pol) (jt_position (mj_target p))"

definition jog_permits :: "safety_policy \<Rightarrow> robot_snapshot \<Rightarrow> bool \<Rightarrow> jog_command \<Rightarrow> bool" where
  "jog_permits pol sn ja j \<longleftrightarrow>
     jc_axis j \<noteq> 0
     \<and> (sp_joint_limits pol \<noteq> [] \<longrightarrow> unat (jc_axis j) \<le> length (sp_joint_limits pol))
     \<and> (jc_start j \<longrightarrow> sp_motion_enabled pol \<and> sp_joint_limits_verified pol \<and> sn_servo_on sn
          \<and> \<not> sn_paused sn \<and> (sn_moving sn \<longrightarrow> ja) \<and> speed_permits pol (sn_speed_ratio sn))"

definition payload_permits :: "safety_policy \<Rightarrow> robot_snapshot \<Rightarrow> bool \<Rightarrow> command_type \<Rightarrow> command_payload \<Rightarrow> bool" where
  "payload_permits pol sn ja t payload = (case payload of
       MoveJPayload p \<Rightarrow> t = kMoveJ \<and> move_j_permits pol p
     | MoveLPayload p \<Rightarrow> t = kMoveL
         \<and> cartesian_permits pol (ct_tool_name (ml_target p)) (ct_work_object_name (ml_target p))
             [ct_pose (ml_target p)] (ml_profile p)
     | MoveCPayload p \<Rightarrow> t = kMoveC
         \<and> cartesian_permits pol (cc_tool_name (mc_target p)) (cc_work_object_name (mc_target p))
             [cc_via (mc_target p), cc_target (mc_target p)] (mc_profile p)
     | JogPayload j \<Rightarrow> t = kJog \<and> jog_permits pol sn ja j
     | SpeedPayload r \<Rightarrow> t = kSetGlobalSpeed \<and> speed_permits pol r
     | DigitalOutputPayload p \<Rightarrow> t = kWriteDigitalOutput
         \<and> do_index p \<in> set (sp_writable_digital_outputs pol)
     | ProgramPayload n \<Rightarrow> t = kLoadProgram \<and> n \<noteq> [] \<and> sp_program_execution_enabled pol
         \<and> n \<in> set (sp_approved_programs pol)
     | StopPayload _ \<Rightarrow> t = kStop
     | Monostate \<Rightarrow> t \<notin> {kMoveJ, kMoveL, kMoveC, kJog, kSetGlobalSpeed, kWriteDigitalOutput,
         kLoadProgram})"

definition policy_permits :: "safety_policy \<Rightarrow> command_type \<Rightarrow> bool" where
  "policy_permits pol t \<longleftrightarrow>
     (t \<in> motion_types \<longrightarrow> sp_motion_enabled pol \<and> sp_joint_limits_verified pol)
     \<and> (t = kStartProgram \<longrightarrow> sp_program_execution_enabled pol)"

definition permitted :: "safety_policy \<Rightarrow> command_request \<Rightarrow> robot_snapshot \<Rightarrow> bool \<Rightarrow> bool \<Rightarrow> bool" where
  "permitted pol rq sn lease ja \<longleftrightarrow>
     (rq_type rq \<noteq> kStop \<longrightarrow> lease)
     \<and> snapshot_permits (rq_type rq) sn
     \<and> policy_permits pol (rq_type rq)
     \<and> payload_permits pol sn ja (rq_type rq) (rq_payload rq)"

section \<open>The code implements the matrix\<close>

lemma require_lease_ok [simp]: "status_ok (require_lease lease) = lease"
  by (simp add: require_lease_def)

lemma validate_payload_type_ok [simp]:
  "status_ok (validate_payload_type rq) = payload_type_valid (rq_type rq) (rq_payload rq)"
  by (simp add: validate_payload_type_def)

lemma validate_common_motion_ok [simp]:
  "status_ok (validate_common_motion pol sn lease) \<longleftrightarrow>
     lease \<and> sp_motion_enabled pol \<and> sp_joint_limits_verified pol
     \<and> sn_lifecycle sn = kReady \<and> sn_controller_mode sn = kAutomatic \<and> sn_connected sn
     \<and> sn_api_control sn \<and> sn_servo_on sn \<and> \<not> sn_emergency_stop sn \<and> \<not> sn_alarm_active sn
     \<and> \<not> sn_moving sn \<and> \<not> sn_paused sn \<and> \<not> sn_program_running sn"
  by (auto simp: validate_common_motion_def)

lemma joints_within_iff:
  "joints_within limits values \<longleftrightarrow> length values = length limits
     \<and> \<not> list_ex (\<lambda>i. joint_outside (values ! i) (limits ! i)) [0..<length limits]"
  by (auto simp: joints_within_def list_all2_conv_all_nth list_ex_iff joint_outside_def)

lemma validate_move_j_ok [simp]:
  "status_ok (validate_move_j pol p) \<longleftrightarrow> sp_joint_limits_verified pol \<and> move_j_permits pol p"
  by (auto simp: validate_move_j_def move_j_permits_def joints_within_iff Let_def)

lemma validate_move_l_ok [simp]:
  "status_ok (validate_move_l pol p) \<longleftrightarrow>
     cartesian_permits pol (ct_tool_name (ml_target p)) (ct_work_object_name (ml_target p))
       [ct_pose (ml_target p)] (ml_profile p)"
  by (auto simp: validate_move_l_def cartesian_permits_def Let_def)

lemma validate_move_c_ok [simp]:
  "status_ok (validate_move_c pol p) \<longleftrightarrow>
     cartesian_permits pol (cc_tool_name (mc_target p)) (cc_work_object_name (mc_target p))
       [cc_via (mc_target p), cc_target (mc_target p)] (mc_profile p)"
  by (auto simp: validate_move_c_def cartesian_permits_def Let_def)

lemma validate_jog_ok [simp]:
  "status_ok (validate_jog pol (JogPayload j) sn lease ja) \<longleftrightarrow>
     lease \<and> snapshot_permits kJog sn \<and> jog_permits pol sn ja j"
  by (auto simp: validate_jog_def jog_permits_def speed_permits_def snapshot_permits_def
      needs_connection_def needs_api_control_def needs_known_state_def needs_no_estop_def
      needs_no_alarm_def motion_types_def Let_def not_less)

lemmas matrix_defs = permitted_def snapshot_permits_def policy_permits_def payload_permits_def
  needs_connection_def needs_api_control_def needs_known_state_def needs_no_estop_def
  needs_no_alarm_def motion_types_def

lemma validate_tail_ok:
  "t = rq_type rq \<Longrightarrow> t \<in> {kPowerOff, kStopProgram, kSetGlobalSpeed, kWriteDigitalOutput, kLoadProgram}
     \<Longrightarrow> payload_type_valid t (rq_payload rq)
     \<Longrightarrow> status_ok (validate_tail pol rq lease) \<longleftrightarrow> lease \<and> payload_permits pol sn ja t (rq_payload rq)"
  by (cases "rq_payload rq")
    (auto simp: validate_tail_def payload_permits_def payload_type_valid_def speed_permits_def not_less)

lemma payload_permits_type: "payload_permits pol sn ja t p \<Longrightarrow> payload_type_valid t p"
  by (cases p; cases t) (simp_all add: payload_permits_def payload_type_valid_def)

lemma validate_ok_iff:
  "status_ok (validate pol rq sn lease ja) \<longleftrightarrow> permitted pol rq sn lease ja"
proof (cases "payload_type_valid (rq_type rq) (rq_payload rq)")
  case True
  then show ?thesis
    using validate_tail_ok [of "rq_type rq" rq pol lease sn ja]
    by (cases "rq_type rq"; cases "rq_payload rq")
      (auto simp: validate_def matrix_defs payload_type_valid_def Let_def)
next
  case False
  then show ?thesis
    using payload_permits_type by (auto simp: validate_def permitted_def)
qed

text \<open>
  Claim C3. The command guard accepts exactly the commands the safety matrix permits: for
  every request, snapshot, lease verdict and jog flag, \<open>Validate\<close> returns \<open>kOk\<close> if and
  only if the lease, connection, control, fault, readiness, policy and payload conditions of
  the matrix hold for the command's type.
\<close>

theorem validate_implements_matrix:
  "status_ok (validate pol rq sn lease ja) \<longleftrightarrow> permitted pol rq sn lease ja"
  by (rule validate_ok_iff)

section \<open>Consequences for safety\<close>

lemma validate_ok_needs_lease:
  "status_ok (validate pol rq sn lease ja) \<Longrightarrow> rq_type rq \<noteq> kStop \<Longrightarrow> lease"
  by (simp add: validate_ok_iff permitted_def)

lemma validate_stop:
  "rq_type rq = kStop \<Longrightarrow> payload_type_valid kStop (rq_payload rq)
     \<Longrightarrow> status_ok (validate pol rq sn lease ja) \<longleftrightarrow> sn_connected sn"
  by (simp add: validate_def)

lemma validate_ok_payload_type:
  "status_ok (validate pol rq sn lease ja) \<Longrightarrow> payload_type_valid (rq_type rq) (rq_payload rq)"
  by (auto simp: validate_def split: if_splits)

text \<open>A joint target inside its limits, spelled out on the rational values.\<close>

definition joint_inside :: "joint_limit \<Rightarrow> dbl \<Rightarrow> bool" where
  "joint_inside l v \<longleftrightarrow> isfinite v
     \<and> (isfinite (minimum_deg l) \<longrightarrow> dbl_le (minimum_deg l) v)
     \<and> (isfinite (maximum_deg l) \<longrightarrow> dbl_le v (maximum_deg l))"

text \<open>
  Claim C18. Every joint motion the guard accepts is inside the site limits: the policy
  enables motion on verified limits, the robot is ready in automatic mode with the caller's
  lease valid, the target has one value per configured axis, each finite and between its
  axis' limits, and the speed is between 1 and the policy's maximum.
\<close>

theorem accepted_move_j_inside_limits:
  assumes "status_ok (validate pol rq sn lease ja)" and "rq_type rq = kMoveJ"
  shows "\<exists>p. rq_payload rq = MoveJPayload p \<and> lease
    \<and> sp_motion_enabled pol \<and> sp_joint_limits_verified pol
    \<and> sn_lifecycle sn = kReady \<and> sn_controller_mode sn = kAutomatic \<and> \<not> sn_moving sn
    \<and> length (jt_position (mj_target p)) = length (sp_joint_limits pol)
    \<and> (\<forall>i<length (sp_joint_limits pol).
         joint_inside (sp_joint_limits pol ! i) (jt_position (mj_target p) ! i))
    \<and> 1 \<le> jp_speed_percent (mj_profile p)
    \<and> jp_speed_percent (mj_profile p) \<le> sp_maximum_joint_speed_percent pol"
proof -
  have perm: "permitted pol rq sn lease ja"
    using assms(1) by (simp add: validate_ok_iff)
  then obtain p where p: "rq_payload rq = MoveJPayload p" "move_j_permits pol p"
    using assms(2) by (cases "rq_payload rq") (auto simp: permitted_def payload_permits_def)
  then have "\<forall>i<length (sp_joint_limits pol).
      joint_inside (sp_joint_limits pol ! i) (jt_position (mj_target p) ! i)"
    by (auto simp: move_j_permits_def joints_within_def list_all2_conv_all_nth joint_inside_def
        not_dbl_lt_finite)
  with perm p assms(2) show ?thesis
    by (auto simp: permitted_def snapshot_permits_def policy_permits_def motion_types_def
        move_j_permits_def joints_within_def list_all2_conv_all_nth)
qed

text \<open>Concrete inputs for the witnesses: a two-axis site policy, a ready robot, a joint move.\<close>

definition demo_policy :: safety_policy where
  "demo_policy = default_policy\<lparr>sp_motion_enabled := True, sp_joint_limits_verified := True,
     sp_joint_limits := replicate 2 \<lparr>minimum_deg = Fin (-90), maximum_deg = Fin 90\<rparr>\<rparr>"

definition demo_ready :: robot_snapshot where
  "demo_ready = default_snapshot\<lparr>sn_lifecycle := kReady, sn_controller_mode := kAutomatic,
     sn_connected := True, sn_api_control := True, sn_servo_on := True, sn_speed_ratio := 10\<rparr>"

definition demo_move :: command_request where
  "demo_move = default_request\<lparr>rq_type := kMoveJ, rq_payload := MoveJPayload
     \<lparr>mj_target = \<lparr>jt_position = [Fin 10, Fin (-20)], jt_tool_name = ''tool0'',
        jt_work_object_name = ''wobj0''\<rparr>,
      mj_profile = \<lparr>jp_speed_percent = 10, jp_blend = Fin 0\<rparr>\<rparr>,
     rq_client_id := ''cell'', rq_lease_id := ''lease-1-1'', rq_idempotency_key := ''m1''\<rparr>"

lemmas demo_defs = demo_policy_def demo_ready_def demo_move_def default_policy_def
  default_snapshot_def default_request_def

lemma demo_move_accepted: "status_ok (validate demo_policy demo_move demo_ready True False)"
  by (simp add: demo_defs validate_def validate_payload_type_def payload_type_valid_def
      validate_common_motion_def validate_move_j_def joint_outside_def require_lease_def Let_def
      upt_conv_Cons)

theorem accepted_move_j_inside_limits_witness:
  "\<exists>p. rq_payload demo_move = MoveJPayload p
     \<and> (\<forall>i<2. joint_inside (sp_joint_limits demo_policy ! i) (jt_position (mj_target p) ! i))"
  using accepted_move_j_inside_limits [OF demo_move_accepted]
  by (auto simp: demo_defs)

text \<open>
  Motion is off unless the site turned it on: under a policy that does not both
  enable motion and carry verified joint limits (the default policy in particular), the
  guard accepts no joint, linear or circular move, no program start and no jog start,
  whatever the robot's state and the lease.
\<close>

theorem motion_off_blocks_motion:
  assumes "\<not> (sp_motion_enabled pol \<and> sp_joint_limits_verified pol)"
    and "status_ok (validate pol rq sn lease ja)"
  shows "rq_type rq \<notin> motion_types \<and> (\<forall>j. rq_payload rq = JogPayload j \<longrightarrow> \<not> jc_start j)"
  using assms
  by (auto simp: validate_ok_iff permitted_def policy_permits_def payload_permits_def
      jog_permits_def)

text \<open>
  The speed limits survive the conversion to unsigned: with a configured maximum
  that is a C++ \<open>int\<close>, an accepted global speed ratio is at least 1 and at most the
  configured maximum, also when the maximum is zero or negative (then nothing is accepted).
\<close>

theorem accepted_speed_within_policy:
  assumes "sp_maximum_joint_speed_percent pol < 2 ^ 31"
    and "rq_payload rq = SpeedPayload r"
    and "status_ok (validate pol rq sn lease ja)"
  shows "1 \<le> uint r \<and> uint r \<le> sp_maximum_joint_speed_percent pol"
proof -
  let ?m = "sp_maximum_joint_speed_percent pol"
  have "speed_permits pol r"
    using assms(2,3) by (simp add: validate_ok_iff permitted_def payload_permits_def)
  then have r: "r \<noteq> 0" "1 \<le> ?m" "r \<le> word_of_int ?m"
    by (simp_all add: speed_permits_def max_speed_unsigned_def)
  have "uint (word_of_int ?m :: u32) = ?m"
    using r(2) assms(1) by (simp add: uint_word_of_int)
  then have "uint r \<le> ?m"
    using r(3) by (simp add: word_le_def)
  moreover have "uint r \<noteq> 0"
    using r(1) by (simp add: uint_0_iff)
  then have "1 \<le> uint r"
    using uint_ge_0 [of r] by linarith
  ultimately show ?thesis by simp
qed

text \<open>Resume looks at the pause and the lease only, in whatever danger the robot is.\<close>

lemma resume_ignores_danger:
  "status_ok (validate default_policy (default_request\<lparr>rq_type := kResume, rq_client_id := ''c'', rq_idempotency_key := ''k''\<rparr>)
     (default_snapshot\<lparr>sn_paused := True, sn_alarm_active := True, sn_emergency_stop := True\<rparr>) True False)"
  by code_simp

end
