(* ===== verification/RobotDriver.thy ===== *)
theory RobotDriver
  imports CommandGuard
begin

text \<open>
  \<open>include/robot/control/robot_driver.h\<close>: the driver interface. The executor holds some
  \<open>IRobotDriver\<close>; here it is a record of functions over the driver's own state \<open>'d\<close>, and
  the executor's definitions take that record. The calls made through \<open>Execute\<close> may throw
  (the worker catches), so they return an \<open>outcome\<close>.

  The locale states what every adapter in the repository promises about rejected calls and
  about the lifecycle of the snapshot it reads; the mock driver and the EFORT driver
  interpret it in their own theories.
\<close>

record 'd robot_driver =
  rd_connect :: "connection_options \<Rightarrow> 'd \<Rightarrow> status \<times> 'd"
  rd_disconnect :: "'d \<Rightarrow> status \<times> 'd"
  rd_acquire_control :: "'d \<Rightarrow> status outcome \<times> 'd"
  rd_release_control :: "'d \<Rightarrow> status outcome \<times> 'd"
  rd_power_on :: "'d \<Rightarrow> status outcome \<times> 'd"
  rd_power_off :: "'d \<Rightarrow> status outcome \<times> 'd"
  rd_clear_fault :: "'d \<Rightarrow> status outcome \<times> 'd"
  rd_set_global_speed :: "u32 \<Rightarrow> 'd \<Rightarrow> status outcome \<times> 'd"
  rd_move_j :: "joint_target \<Rightarrow> joint_motion_profile \<Rightarrow> 'd \<Rightarrow> status outcome \<times> 'd"
  rd_move_l :: "cartesian_target \<Rightarrow> cartesian_motion_profile \<Rightarrow> 'd \<Rightarrow> status outcome \<times> 'd"
  rd_move_c :: "circular_target \<Rightarrow> cartesian_motion_profile \<Rightarrow> 'd \<Rightarrow> status outcome \<times> 'd"
  rd_hold :: "'d \<Rightarrow> status outcome \<times> 'd"
  rd_resume :: "'d \<Rightarrow> status outcome \<times> 'd"
  rd_stop :: "stop_mode \<Rightarrow> 'd \<Rightarrow> status outcome \<times> 'd"
  rd_jog :: "jog_command \<Rightarrow> 'd \<Rightarrow> status outcome \<times> 'd"
  rd_load_program :: "string \<Rightarrow> 'd \<Rightarrow> status outcome \<times> 'd"
  rd_start_program :: "'d \<Rightarrow> status outcome \<times> 'd"
  rd_stop_program :: "'d \<Rightarrow> status outcome \<times> 'd"
  rd_read_state :: "'d \<Rightarrow> robot_snapshot status_or \<times> 'd"
  rd_read_alarms :: "'d \<Rightarrow> alarm list status_or \<times> 'd"
  rd_read_digital_input :: "u32 \<Rightarrow> 'd \<Rightarrow> bool status_or \<times> 'd"
  rd_read_digital_output :: "u32 \<Rightarrow> 'd \<Rightarrow> bool status_or \<times> 'd"
  rd_write_digital_output :: "u32 \<Rightarrow> bool \<Rightarrow> 'd \<Rightarrow> status outcome \<times> 'd"

section \<open>Dispatch\<close>

text \<open>
  \<open>Execute\<close> and its helpers (\<open>command_executor.cc\<close>): which driver call a command becomes.
  A missing payload is a rejected command, except for \<open>Stop\<close>, whose default is a
  controlled stop.
\<close>

definition execute :: "'d robot_driver \<Rightarrow> command_request \<Rightarrow> 'd \<Rightarrow> status outcome \<times> 'd" where
  "execute drv request d =
    (case rq_type request of
       kAcquireControl \<Rightarrow> rd_acquire_control drv d
     | kReleaseControl \<Rightarrow> rd_release_control drv d
     | kPowerOn \<Rightarrow> rd_power_on drv d
     | kPowerOff \<Rightarrow> rd_power_off drv d
     | kClearFault \<Rightarrow> rd_clear_fault drv d
     | kSetGlobalSpeed \<Rightarrow>
         (case rq_payload request of
            SpeedPayload ratio \<Rightarrow> rd_set_global_speed drv ratio d
          | _ \<Rightarrow> (Returned (Status kInvalidArgument ''speed payload is missing''), d))
     | kMoveJ \<Rightarrow>
         (case rq_payload request of
            MoveJPayload m \<Rightarrow> rd_move_j drv (mj_target m) (mj_profile m) d
          | _ \<Rightarrow> (Returned (Status kInvalidArgument ''MoveJ payload is missing''), d))
     | kMoveL \<Rightarrow>
         (case rq_payload request of
            MoveLPayload m \<Rightarrow> rd_move_l drv (ml_target m) (ml_profile m) d
          | _ \<Rightarrow> (Returned (Status kInvalidArgument ''MoveL payload is missing''), d))
     | kMoveC \<Rightarrow>
         (case rq_payload request of
            MoveCPayload m \<Rightarrow> rd_move_c drv (mc_target m) (mc_profile m) d
          | _ \<Rightarrow> (Returned (Status kInvalidArgument ''MoveC payload is missing''), d))
     | kHold \<Rightarrow> rd_hold drv d
     | kResume \<Rightarrow> rd_resume drv d
     | kStop \<Rightarrow>
         (case rq_payload request of
            StopPayload mode \<Rightarrow> rd_stop drv mode d
          | _ \<Rightarrow> rd_stop drv kControlled d)
     | kJog \<Rightarrow>
         (case rq_payload request of
            JogPayload jog \<Rightarrow> rd_jog drv jog d
          | _ \<Rightarrow> (Returned (Status kInvalidArgument ''jog payload is missing''), d))
     | kWriteDigitalOutput \<Rightarrow>
         (case rq_payload request of
            DigitalOutputPayload p \<Rightarrow> rd_write_digital_output drv (do_index p) (do_value p) d
          | _ \<Rightarrow> (Returned (Status kInvalidArgument ''digital output payload is missing''), d))
     | kLoadProgram \<Rightarrow>
         (case rq_payload request of
            ProgramPayload name \<Rightarrow> rd_load_program drv name d
          | _ \<Rightarrow> (Returned (Status kInvalidArgument ''program payload is missing''), d))
     | kStartProgram \<Rightarrow> rd_start_program drv d
     | kStopProgram \<Rightarrow> rd_stop_program drv d)"

text \<open>The worker's \<open>try\<close>/\<open>catch\<close> around \<open>Execute\<close>.\<close>

definition execute_caught :: "'d robot_driver \<Rightarrow> command_request \<Rightarrow> 'd \<Rightarrow> status \<times> 'd" where
  "execute_caught drv request d =
    (case execute drv request d of
       (Returned st, d') \<Rightarrow> (st, d')
     | (Threw (Some what), d') \<Rightarrow> (Status kInternal (''driver threw an exception: '' @ what), d')
     | (Threw None, d') \<Rightarrow> (Status kInternal ''driver threw an unknown exception'', d'))"

section \<open>The contract of an adapter\<close>

text \<open>A call that is refused with an error code and leaves the driver's state alone.\<close>

definition refuses :: "('d \<Rightarrow> status outcome \<times> 'd) \<Rightarrow> 'd \<Rightarrow> bool" where
  "refuses call d \<longleftrightarrow> (\<exists>st. call d = (Returned st, d) \<and> \<not> status_ok st)"

locale driver_contract =
  fixes drv :: "'d robot_driver"
    and wf :: "'d \<Rightarrow> bool"
  assumes connect_empty: "co_address opts = [] \<Longrightarrow>
      \<exists>st. rd_connect drv opts d = (st, d) \<and> \<not> status_ok st"
    and speed_range: "r < 1 \<or> r > 100 \<Longrightarrow> refuses (rd_set_global_speed drv r) d"
    and quick_refused: "refuses (rd_stop drv kQuick) d"
    and output_range: "wf d \<Longrightarrow> unat i \<ge> 176 \<Longrightarrow> refuses (rd_write_digital_output drv i v) d"
    and jog_axis: "jc_axis j = 0 \<Longrightarrow> refuses (rd_jog drv j) d"
    and load_unnamed: "refuses (rd_load_program drv []) d"
    and read_lifecycle: "rd_read_state drv d = (Inr sn, d') \<Longrightarrow>
      sn_lifecycle sn = derive_lifecycle_state sn"
    and wf_connect: "wf d \<Longrightarrow> wf (snd (rd_connect drv opts d))"
    and wf_execute: "wf d \<Longrightarrow> wf (snd (execute drv rq d))"
    and wf_read: "wf d \<Longrightarrow> wf (snd (rd_read_state drv d))"
begin

text \<open>The commands no adapter carries out, as the executor sees them.\<close>

lemma execute_refuses:
  assumes "wf d" and "rq_type rq = kStop \<and> rq_payload rq = StopPayload kQuick
    \<or> rq_type rq = kSetGlobalSpeed \<and> (\<exists>r. rq_payload rq = SpeedPayload r \<and> (r < 1 \<or> r > 100))
    \<or> rq_type rq = kWriteDigitalOutput
        \<and> (\<exists>p. rq_payload rq = DigitalOutputPayload p \<and> unat (do_index p) \<ge> 176)
    \<or> rq_type rq = kJog \<and> (\<exists>j. rq_payload rq = JogPayload j \<and> jc_axis j = 0)
    \<or> rq_type rq = kLoadProgram \<and> rq_payload rq = ProgramPayload []"
  shows "refuses (execute drv rq) d"
  using assms speed_range quick_refused output_range jog_axis load_unnamed
  by (auto simp: execute_def refuses_def)

lemma wf_caught: "wf d \<Longrightarrow> wf (snd (execute_caught drv rq d))"
  using wf_execute [of d rq]
  by (auto simp: execute_caught_def split: prod.split outcome.split option.split)

lemma caught_refused:
  "refuses (execute drv rq) d \<Longrightarrow>
     \<exists>st. execute_caught drv rq d = (st, d) \<and> \<not> status_ok st"
  by (auto simp: refuses_def execute_caught_def)

end

text \<open>A command whose payload has the wrong type never reaches the driver.\<close>

lemma execute_wrong_payload:
  "\<not> payload_type_valid (rq_type rq) (rq_payload rq) \<Longrightarrow>
     rq_payload rq = Monostate \<Longrightarrow> refuses (execute drv rq) d"
  by (cases "rq_type rq") (auto simp: payload_type_valid_def execute_def refuses_def)

text \<open>An exception is always reported as an internal error, never as success.\<close>

lemma execute_caught_ok:
  "execute_caught drv rq d = (st, d') \<Longrightarrow> status_ok st \<Longrightarrow> execute drv rq d = (Returned st, d')"
  by (auto simp: execute_caught_def split: prod.splits outcome.splits option.splits)

end
