(* ===== verification/ExecutorState.thy ===== *)
theory ExecutorState
  imports ControlLease CommandStore RobotDriver
begin

text \<open>
  \<open>src/control/command_executor.cc\<close>, first half: the predicates of its anonymous namespace,
  the fields of \<open>CommandExecutor::Impl\<close> and the private helpers that run while its mutex is
  held (the \<open>...Locked\<close> methods). A helper that modifies a record found in \<open>commands_\<close> goes
  through \<open>modify_record\<close>, the assignment through the iterator that \<open>find\<close> returned.
\<close>

section \<open>The anonymous namespace\<close>

definition is_motion_command :: "command_type \<Rightarrow> bool" where
  "is_motion_command type = (type = kMoveJ \<or> type = kMoveL \<or> type = kMoveC \<or> type = kStartProgram)"

definition can_run_during_motion :: "command_type \<Rightarrow> bool" where
  "can_run_during_motion type = (type = kStop \<or> type = kHold \<or> type = kResume \<or> type = kPowerOff)"

definition is_terminal :: "command_state \<Rightarrow> bool" where
  "is_terminal state = (state = kSucceeded \<or> state = kFailed \<or> state = kCancelled
     \<or> state = kTimedOut \<or> state = kStopped)"

definition idempotency_map_key :: "command_request \<Rightarrow> string" where
  "idempotency_map_key request = rq_client_id request @ [CHR 0x0A] @ rq_idempotency_key request"

definition poses_equal :: "cartesian_pose \<Rightarrow> cartesian_pose \<Rightarrow> bool" where
  "poses_equal l r =
    (dbl_eq (x_mm l) (x_mm r) \<and> dbl_eq (y_mm l) (y_mm r) \<and> dbl_eq (z_mm l) (z_mm r)
     \<and> dbl_eq (a_deg l) (a_deg r) \<and> dbl_eq (b_deg l) (b_deg r) \<and> dbl_eq (c_deg l) (c_deg r)
     \<and> configuration l = configuration r \<and> joint_1_turn l = joint_1_turn r
     \<and> joint_4_turn l = joint_4_turn r \<and> joint_6_turn l = joint_6_turn r)"

text \<open>\<open>None\<close> is the \<open>std::bad_variant_access\<close> that \<open>std::get\<close> throws.\<close>

definition payloads_equal :: "command_request \<Rightarrow> command_request \<Rightarrow> bool option" where
  "payloads_equal left right =
    (if rq_type left \<noteq> rq_type right \<or> rq_lease_id left \<noteq> rq_lease_id right
       \<or> rq_timeout left \<noteq> rq_timeout right
       \<or> payload_index (rq_payload left) \<noteq> payload_index (rq_payload right) then Some False
     else if rq_payload left = Monostate then Some True
     else case rq_type left of
       kSetGlobalSpeed \<Rightarrow>
         (case (rq_payload left, rq_payload right) of
            (SpeedPayload a, SpeedPayload b) \<Rightarrow> Some (a = b) | _ \<Rightarrow> None)
     | kMoveJ \<Rightarrow>
         (case (rq_payload left, rq_payload right) of
            (MoveJPayload a, MoveJPayload b) \<Rightarrow>
              Some (list_all2 dbl_eq (jt_position (mj_target a)) (jt_position (mj_target b))
                \<and> jt_tool_name (mj_target a) = jt_tool_name (mj_target b)
                \<and> jt_work_object_name (mj_target a) = jt_work_object_name (mj_target b)
                \<and> jp_speed_percent (mj_profile a) = jp_speed_percent (mj_profile b)
                \<and> dbl_eq (jp_blend (mj_profile a)) (jp_blend (mj_profile b)))
          | _ \<Rightarrow> None)
     | kMoveL \<Rightarrow>
         (case (rq_payload left, rq_payload right) of
            (MoveLPayload a, MoveLPayload b) \<Rightarrow>
              Some (poses_equal (ct_pose (ml_target a)) (ct_pose (ml_target b))
                \<and> ct_tool_name (ml_target a) = ct_tool_name (ml_target b)
                \<and> ct_work_object_name (ml_target a) = ct_work_object_name (ml_target b)
                \<and> cp_speed_mm_per_second (ml_profile a) = cp_speed_mm_per_second (ml_profile b)
                \<and> dbl_eq (cp_blend_mm (ml_profile a)) (cp_blend_mm (ml_profile b)))
          | _ \<Rightarrow> None)
     | kMoveC \<Rightarrow>
         (case (rq_payload left, rq_payload right) of
            (MoveCPayload a, MoveCPayload b) \<Rightarrow>
              Some (poses_equal (cc_via (mc_target a)) (cc_via (mc_target b))
                \<and> poses_equal (cc_target (mc_target a)) (cc_target (mc_target b))
                \<and> cc_tool_name (mc_target a) = cc_tool_name (mc_target b)
                \<and> cc_work_object_name (mc_target a) = cc_work_object_name (mc_target b)
                \<and> cp_speed_mm_per_second (mc_profile a) = cp_speed_mm_per_second (mc_profile b)
                \<and> dbl_eq (cp_blend_mm (mc_profile a)) (cp_blend_mm (mc_profile b)))
          | _ \<Rightarrow> None)
     | kStop \<Rightarrow>
         (case (rq_payload left, rq_payload right) of
            (StopPayload a, StopPayload b) \<Rightarrow> Some (a = b) | _ \<Rightarrow> None)
     | kJog \<Rightarrow>
         (case (rq_payload left, rq_payload right) of
            (JogPayload a, JogPayload b) \<Rightarrow>
              Some (jc_frame a = jc_frame b \<and> jc_axis a = jc_axis b
                \<and> jc_direction a = jc_direction b \<and> jc_start a = jc_start b)
          | _ \<Rightarrow> None)
     | kWriteDigitalOutput \<Rightarrow>
         (case (rq_payload left, rq_payload right) of
            (DigitalOutputPayload a, DigitalOutputPayload b) \<Rightarrow>
              Some (do_index a = do_index b \<and> do_value a = do_value b)
          | _ \<Rightarrow> None)
     | kLoadProgram \<Rightarrow>
         (case (rq_payload left, rq_payload right) of
            (ProgramPayload a, ProgramPayload b) \<Rightarrow> Some (a = b) | _ \<Rightarrow> None)
     | _ \<Rightarrow> Some True)"

section \<open>State\<close>

text \<open>
  \<open>ex_threads_joinable\<close> stands for \<open>joinable()\<close> of the worker and of the polling thread:
  both are started by \<open>Start\<close> and joined by \<open>Shutdown\<close>.
\<close>

record executor_options =
  eo_state_poll_interval :: millis
  eo_state_stale_after :: millis
  eo_motion_start_grace :: millis
  eo_control_lease_ttl :: millis
  eo_jog_heartbeat_timeout :: millis
  eo_maximum_queue_size :: nat
  eo_maximum_command_history :: nat

definition default_options :: executor_options where
  "default_options = \<lparr>eo_state_poll_interval = 50, eo_state_stale_after = 500,
     eo_motion_start_grace = 500, eo_control_lease_ttl = 3000, eo_jog_heartbeat_timeout = 300,
     eo_maximum_queue_size = 16, eo_maximum_command_history = 4096\<rparr>"

record exec_state =
  ex_lease_manager :: lease_manager
  ex_running :: bool
  ex_started_once :: bool
  ex_shutting_down :: bool
  ex_threads_joinable :: bool
  ex_stop_requested :: bool
  ex_jog_active :: bool
  ex_active_jog_client_id :: string
  ex_active_jog_lease_id :: string
  ex_jog_deadline :: "time"
  ex_latest_state :: robot_snapshot
  ex_queue :: "nat list"
  ex_commands :: "(nat, command_record) store"
  ex_idempotency :: "(string, nat) store"
  ex_next_command_id :: nat
  ex_active_motion_id :: "nat option"
  ex_active_motion_started_at :: "time"
  ex_active_motion_seen :: bool
  ex_loaded_approved_program :: string

definition new_executor :: "executor_options \<Rightarrow> exec_state" where
  "new_executor opts = \<lparr>ex_lease_manager = new_lease_manager (eo_control_lease_ttl opts),
     ex_running = False, ex_started_once = False, ex_shutting_down = False,
     ex_threads_joinable = False, ex_stop_requested = False, ex_jog_active = False, ex_active_jog_client_id = [],
     ex_active_jog_lease_id = [], ex_jog_deadline = 0, ex_latest_state = default_snapshot,
     ex_queue = [], ex_commands = [], ex_idempotency = [], ex_next_command_id = 1,
     ex_active_motion_id = None, ex_active_motion_started_at = 0,
     ex_active_motion_seen = False, ex_loaded_approved_program = []\<rparr>"

definition find_command :: "exec_state \<Rightarrow> nat \<Rightarrow> command_record option" where
  "find_command s i = store_find (ex_commands s) i"

definition modify_record :: "nat \<Rightarrow> (command_record \<Rightarrow> command_record) \<Rightarrow> exec_state \<Rightarrow> exec_state" where
  "modify_record i f s =
    (case find_command s i of
       None \<Rightarrow> s
     | Some r \<Rightarrow> s\<lparr>ex_commands := store_put i (f r) (ex_commands s)\<rparr>)"

section \<open>Queue scans\<close>

definition is_executable :: "exec_state \<Rightarrow> nat \<Rightarrow> bool" where
  "is_executable s command_id =
    (case find_command s command_id of
       None \<Rightarrow> True
     | Some record \<Rightarrow>
         (case ex_active_motion_id s of
            None \<Rightarrow> True
          | Some active_id \<Rightarrow>
              if can_run_during_motion (rq_type (rc_request record)) then True
              else if rq_type (rc_request record) \<noteq> kStopProgram then False
              else (case find_command s active_id of
                      None \<Rightarrow> False
                    | Some active \<Rightarrow> rq_type (rc_request active) = kStartProgram)))"

definition find_executable_command :: "exec_state \<Rightarrow> nat option" where
  "find_executable_command s = find (is_executable s) (ex_queue s)"

text \<open>\<open>now - created_at >= timeout\<close>, the timeout converted to nanoseconds.\<close>

definition timed_out :: "time \<Rightarrow> command_record \<Rightarrow> bool" where
  "timed_out now r = (now - rc_created_at r \<ge> ns_of_ms (rq_timeout (rc_request r)))"

definition has_expired_queued_command :: "time \<Rightarrow> exec_state \<Rightarrow> bool" where
  "has_expired_queued_command now s =
    list_ex (\<lambda>i. case find_command s i of None \<Rightarrow> True | Some r \<Rightarrow> timed_out now r) (ex_queue s)"

section \<open>Internal stop, motion and jog bookkeeping\<close>

definition internal_stop_record :: "nat \<Rightarrow> string \<Rightarrow> time \<Rightarrow> command_record" where
  "internal_stop_record i reason now = \<lparr>rc_id = i,
     rc_request = default_request\<lparr>rq_type := kStop, rq_payload := StopPayload kControlled,
       rq_client_id := ''robot-manager'',
       rq_idempotency_key := ''internal-stop-'' @ show_nat i\<rparr>,
     rc_state = kQueued, rc_result = Status kFailedPrecondition reason,
     rc_created_at = now, rc_updated_at = now\<rparr>"

definition request_internal_stop :: "string \<Rightarrow> time \<Rightarrow> exec_state \<Rightarrow> exec_state" where
  "request_internal_stop reason now s =
    (if ex_stop_requested s then s
     else
       let stop_id = ex_next_command_id s in
       s\<lparr>ex_next_command_id := stop_id + 1,
         ex_commands := store_emplace stop_id (internal_stop_record stop_id reason now) (ex_commands s),
         ex_queue := stop_id # ex_queue s,
         ex_stop_requested := True\<rparr>)"

definition complete_active_motion :: "command_state \<Rightarrow> time \<Rightarrow> exec_state \<Rightarrow> exec_state" where
  "complete_active_motion state now s =
    (case ex_active_motion_id s of
       None \<Rightarrow> s
     | Some i \<Rightarrow>
         (modify_record i (\<lambda>r. if is_terminal (rc_state r) then r
            else r\<lparr>rc_state := state, rc_updated_at := now\<rparr>) s)
           \<lparr>ex_active_motion_id := None, ex_active_motion_seen := False\<rparr>)"

definition complete_active_program :: "time \<Rightarrow> exec_state \<Rightarrow> exec_state" where
  "complete_active_program now s =
    (case ex_active_motion_id s of
       None \<Rightarrow> s
     | Some i \<Rightarrow>
         (case find_command s i of
            None \<Rightarrow> s
          | Some active \<Rightarrow>
              if rq_type (rc_request active) \<noteq> kStartProgram then s
              else complete_active_motion kStopped now s))"

definition active_motion_lease_is_valid :: "time \<Rightarrow> exec_state \<Rightarrow> bool" where
  "active_motion_lease_is_valid now s =
    (case ex_active_motion_id s of
       None \<Rightarrow> True
     | Some i \<Rightarrow>
         (case find_command s i of
            None \<Rightarrow> False
          | Some active \<Rightarrow>
              lease_is_valid now (rq_lease_id (rc_request active)) (rq_client_id (rc_request active))
                (ex_lease_manager s)))"

definition clear_active_jog :: "exec_state \<Rightarrow> exec_state" where
  "clear_active_jog s =
    s\<lparr>ex_jog_active := False, ex_active_jog_client_id := [], ex_active_jog_lease_id := []\<rparr>"

text \<open>\<open>UpdateActiveMotionLocked\<close>: \<open>now\<close> is its reading, \<open>now'\<close> that of the internal stop.\<close>

definition finish_active_motion :: "nat \<Rightarrow> time \<Rightarrow> exec_state \<Rightarrow> exec_state" where
  "finish_active_motion i now s =
    (modify_record i (\<lambda>r. if is_terminal (rc_state r) then r
       else r\<lparr>rc_state := kSucceeded, rc_result := StatusOk, rc_updated_at := now\<rparr>) s)
      \<lparr>ex_active_motion_id := None, ex_active_motion_seen := False, ex_stop_requested := False\<rparr>"

definition update_active_motion :: "executor_options \<Rightarrow> time \<Rightarrow> time \<Rightarrow> exec_state \<Rightarrow> exec_state" where
  "update_active_motion opts now now' s =
    (case ex_active_motion_id s of
       None \<Rightarrow> s
     | Some i \<Rightarrow>
         (case find_command s i of
            None \<Rightarrow> s\<lparr>ex_active_motion_id := None\<rparr>
          | Some command \<Rightarrow>
              let startup_elapsed = now - ex_active_motion_started_at s;
                  latest = ex_latest_state s;
                  lc = sn_lifecycle latest;
                  completed = ex_active_motion_seen s
                    \<or> startup_elapsed \<ge> ns_of_ms (eo_motion_start_grace opts) in
              if timed_out now command then
                request_internal_stop ''motion command timed out'' now'
                  (modify_record i (\<lambda>r. if is_terminal (rc_state r) then r
                     else r\<lparr>rc_state := kTimedOut,
                        rc_result := Status kDeadlineExceeded ''motion command timed out'',
                        rc_updated_at := now\<rparr>) s)
              else if lc = kLifecycleUnknown \<or> lc = kDisconnected \<or> lc = kFault
                \<or> lc = kEmergencyStop then
                (request_internal_stop ''robot state became unsafe'' now'
                  (modify_record i (\<lambda>r. if is_terminal (rc_state r) then r
                     else r\<lparr>rc_state := kFailed,
                        rc_result := Status (if lc = kLifecycleUnknown \<or> lc = kDisconnected
                            then kUnavailable else kControllerFault)
                          ''robot state became unsafe while motion was active'',
                        rc_updated_at := now\<rparr>) s))
                  \<lparr>ex_active_motion_id := None, ex_active_motion_seen := False\<rparr>
              else if sn_paused latest then s
              else if rq_type (rc_request command) = kStartProgram then
                (if sn_program_running latest then s\<lparr>ex_active_motion_seen := True\<rparr>
                 else if completed then finish_active_motion i now s
                 else s)
              else if sn_moving latest then s\<lparr>ex_active_motion_seen := True\<rparr>
              else if completed then finish_active_motion i now s
              else s))"

section \<open>Cancelling and pruning\<close>

text \<open>
  The loop of \<open>CancelQueuedCommandsForLeaseLocked\<close> over the queue; \<open>clk i\<close> is the reading
  taken when the entry \<open>i\<close> is cancelled.
\<close>

fun cancel_queued :: "string \<Rightarrow> string \<Rightarrow> clock \<Rightarrow> nat list \<Rightarrow> (nat, command_record) store
    \<Rightarrow> nat list \<times> (nat, command_record) store" where
  "cancel_queued lease_id client_id clk [] cmds = ([], cmds)"
| "cancel_queued lease_id client_id clk (i # queue) cmds =
    (case store_find cmds i of
       None \<Rightarrow> cancel_queued lease_id client_id clk queue cmds
     | Some command \<Rightarrow>
         let request = rc_request command in
         if rq_type request = kStop \<or> rq_lease_id request \<noteq> lease_id
           \<or> rq_client_id request \<noteq> client_id then
           (let (kept, cmds') = cancel_queued lease_id client_id clk queue cmds
            in (i # kept, cmds'))
         else
           cancel_queued lease_id client_id clk queue
             (store_put i (command\<lparr>rc_state := kCancelled,
                rc_result := Status kPermissionDenied ''control lease released'',
                rc_updated_at := clk i\<rparr>) cmds))"

definition cancel_queued_commands_for_lease :: "string \<Rightarrow> string \<Rightarrow> clock \<Rightarrow> exec_state \<Rightarrow> exec_state" where
  "cancel_queued_commands_for_lease lease_id client_id clk s =
    (let (queue, cmds) = cancel_queued lease_id client_id clk (ex_queue s) (ex_commands s)
     in s\<lparr>ex_queue := queue, ex_commands := cmds\<rparr>)"

fun cancel_all :: "time \<Rightarrow> nat list \<Rightarrow> exec_state \<Rightarrow> exec_state" where
  "cancel_all now [] s = s"
| "cancel_all now (i # queue) s =
    cancel_all now queue
      (modify_record i (\<lambda>r. if is_terminal (rc_state r) then r
         else r\<lparr>rc_state := kCancelled,
            rc_result := Status kUnavailable ''command executor shut down'',
            rc_updated_at := now\<rparr>) s)"

definition cancel_commands_for_shutdown :: "time \<Rightarrow> exec_state \<Rightarrow> exec_state" where
  "cancel_commands_for_shutdown now s = (cancel_all now (ex_queue s) s)\<lparr>ex_queue := []\<rparr>"

text \<open>The inner loop of \<open>PruneCommandHistoryLocked\<close>: the terminal record updated first.\<close>

fun oldest_terminal :: "(nat, command_record) store \<Rightarrow> (nat \<times> command_record) option
    \<Rightarrow> (nat \<times> command_record) option" where
  "oldest_terminal [] oldest = oldest"
| "oldest_terminal ((i, r) # rest) oldest =
    oldest_terminal rest
      (if \<not> is_terminal (rc_state r)
         \<or> (case oldest of None \<Rightarrow> False | Some (_, o') \<Rightarrow> rc_updated_at r \<ge> rc_updated_at o')
       then oldest else Some (i, r))"

lemma oldest_terminal_in:
  "oldest_terminal cmds o0 = Some (i, r) \<Longrightarrow> o0 = Some (i, r) \<or> ((i, r) \<in> set cmds \<and> is_terminal (rc_state r))"
  by (induction cmds o0 rule: oldest_terminal.induct) (auto split: if_splits)

lemma oldest_terminal_None:
  "oldest_terminal cmds o0 = None \<longleftrightarrow> o0 = None \<and> (\<forall>(i, r)\<in>set cmds. \<not> is_terminal (rc_state r))"
  by (induction cmds o0 rule: oldest_terminal.induct) (auto split: option.splits)

lemma length_delete_less: "(k, v) \<in> set al \<Longrightarrow> length (AList.delete k al) < length al"
  unfolding AList.delete_eq by (rule length_filter_less) auto

function prune_history :: "nat \<Rightarrow> (nat, command_record) store \<Rightarrow> (string, nat) store
    \<Rightarrow> (nat, command_record) store \<times> (string, nat) store" where
  "prune_history limit cmds idem =
    (if store_size cmds \<ge> limit then
       (case oldest_terminal cmds None of
          None \<Rightarrow> (cmds, idem)
        | Some (i, r) \<Rightarrow>
            prune_history limit (store_erase i cmds)
              (store_erase (idempotency_map_key (rc_request r)) idem))
     else (cmds, idem))"
  by pat_completeness auto
termination
  by (relation "measure (\<lambda>(limit, cmds, idem). length cmds)")
    (auto simp: store_erase_def dest!: oldest_terminal_in intro: length_delete_less)

declare prune_history.simps [simp del]

definition prune_command_history :: "executor_options \<Rightarrow> exec_state \<Rightarrow> exec_state" where
  "prune_command_history opts s =
    (let (cmds, idem) = prune_history (eo_maximum_command_history opts) (ex_commands s)
       (ex_idempotency s)
     in s\<lparr>ex_commands := cmds, ex_idempotency := idem\<rparr>)"

end
