(* ===== verification/ExecutorOps.thy ===== *)
theory ExecutorOps
  imports ExecutorState
begin

text \<open>
  \<open>src/control/command_executor.cc\<close>, second half: the public operations of the executor, its
  worker thread and its polling thread. Each definition is one critical section of the code
  (what runs while \<open>mutex_\<close> is held, or one driver call under \<open>driver_mutex_\<close>); the
  interleaving of these sections is the step relation of \<open>ExecutorSystem\<close>. A section that
  reads the clock several times numbers the readings in program order.
\<close>

definition is_accepting :: "exec_state \<Rightarrow> bool" where
  "is_accepting s = (ex_running s \<and> \<not> ex_shutting_down s)"

abbreviation not_running_error :: status where
  "not_running_error \<equiv> Status kUnavailable ''command executor is not running''"

section \<open>Start\<close>

datatype thread_start = ThreadsStarted | ThreadFailed string

definition options_invalid :: "executor_options \<Rightarrow> bool" where
  "options_invalid o' =
    (eo_state_poll_interval o' \<le> 0 \<or> eo_state_stale_after o' \<le> 0
     \<or> eo_motion_start_grace o' < 0 \<or> eo_control_lease_ttl o' \<le> 0
     \<or> eo_jog_heartbeat_timeout o' \<le> 0
     \<or> eo_state_stale_after o' < eo_state_poll_interval o'
     \<or> eo_state_poll_interval o' > eo_jog_heartbeat_timeout o'
     \<or> eo_maximum_queue_size o' = 0
     \<or> eo_maximum_command_history o' \<le> eo_maximum_queue_size o')"

definition publish_state :: "robot_snapshot \<Rightarrow> time \<Rightarrow> nat \<Rightarrow> robot_snapshot" where
  "publish_state snapshot now sequence =
    (let stamped = snapshot\<lparr>sn_observed_at := now, sn_sequence := sequence\<rparr>
     in stamped\<lparr>sn_lifecycle := derive_lifecycle_state stamped\<rparr>)"

definition start :: "executor_options \<Rightarrow> 'd robot_driver option \<Rightarrow> connection_options \<Rightarrow> time
    \<Rightarrow> thread_start \<Rightarrow> exec_state \<Rightarrow> 'd \<Rightarrow> status \<times> exec_state \<times> 'd" where
  "start opts driver connection now threads s d =
    (case driver of
       None \<Rightarrow> (Status kInvalidArgument ''robot driver is required'', s, d)
     | Some drv \<Rightarrow>
         if options_invalid opts then
           (Status kInvalidArgument ''executor timing and queue options are invalid'', s, d)
         else if ex_running s \<or> ex_started_once s then
           (Status kAlreadyExists ''command executor cannot be started again'', s, d)
         else
           let (connect_status, d1) = rd_connect drv connection d in
           if \<not> status_ok connect_status then (connect_status, s, d1)
           else
             let (initial_state, d2) = rd_read_state drv d1 in
             (case initial_state of
                Inl st \<Rightarrow> (st, s, snd (rd_disconnect drv d2))
              | Inr snapshot \<Rightarrow>
                  let s1 = s\<lparr>ex_latest_state := publish_state snapshot now 1\<rparr> in
                  (case threads of
                     ThreadsStarted \<Rightarrow>
                       (StatusOk, s1\<lparr>ex_shutting_down := False, ex_running := True,
                          ex_started_once := True, ex_threads_joinable := True\<rparr>, d2)
                   | ThreadFailed what \<Rightarrow>
                       (Status kResourceExhausted (''failed to start executor threads: '' @ what),
                        s1\<lparr>ex_shutting_down := False, ex_running := False,
                           ex_started_once := False\<rparr>, snd (rd_disconnect drv d2)))))"

section \<open>Leases and queries\<close>

definition acquire_control_lease :: "time \<Rightarrow> string \<Rightarrow> exec_state \<Rightarrow> control_lease status_or \<times> exec_state" where
  "acquire_control_lease now client_id s =
    (if \<not> is_accepting s then (Inl not_running_error, s)
     else let (r, m) = lease_acquire now client_id (ex_lease_manager s)
          in (r, s\<lparr>ex_lease_manager := m\<rparr>))"

definition renew_control_lease :: "time \<Rightarrow> string \<Rightarrow> string \<Rightarrow> exec_state \<Rightarrow> control_lease status_or \<times> exec_state" where
  "renew_control_lease now lease_id client_id s =
    (if \<not> is_accepting s then (Inl not_running_error, s)
     else let (r, m) = lease_renew now lease_id client_id (ex_lease_manager s)
          in (r, s\<lparr>ex_lease_manager := m\<rparr>))"

text \<open>\<open>ReleaseControlLease\<close>: first the manager, then (its status being ok) the queue.\<close>

definition release_lease_begin :: "string \<Rightarrow> string \<Rightarrow> exec_state \<Rightarrow> status \<times> exec_state" where
  "release_lease_begin lease_id client_id s =
    (let (st, m) = lease_release lease_id client_id (ex_lease_manager s)
     in (st, s\<lparr>ex_lease_manager := m\<rparr>))"

definition release_lease_finish :: "string \<Rightarrow> string \<Rightarrow> clock \<Rightarrow> time \<Rightarrow> exec_state \<Rightarrow> exec_state" where
  "release_lease_finish lease_id client_id clk now s =
    (let s1 = cancel_queued_commands_for_lease lease_id client_id clk s in
     if ex_running s1 \<and> (ex_active_motion_id s1 \<noteq> None \<or> ex_jog_active s1)
     then request_internal_stop ''control lease released'' now s1 else s1)"

definition get_command :: "nat \<Rightarrow> exec_state \<Rightarrow> command_record status_or" where
  "get_command command_id s =
    (case find_command s command_id of
       None \<Rightarrow> Inl (Status kNotFound ''command was not found'')
     | Some r \<Rightarrow> Inr r)"

definition get_state :: "exec_state \<Rightarrow> robot_snapshot" where
  "get_state s = ex_latest_state s"

definition read_alarms :: "'d robot_driver \<Rightarrow> exec_state \<Rightarrow> 'd \<Rightarrow> alarm list status_or \<times> 'd" where
  "read_alarms drv s d =
    (if \<not> is_accepting s then (Inl not_running_error, d) else rd_read_alarms drv d)"

definition read_digital_input :: "'d robot_driver \<Rightarrow> u32 \<Rightarrow> exec_state \<Rightarrow> 'd \<Rightarrow> bool status_or \<times> 'd" where
  "read_digital_input drv index s d =
    (if \<not> is_accepting s then (Inl not_running_error, d) else rd_read_digital_input drv index d)"

definition read_digital_output :: "'d robot_driver \<Rightarrow> u32 \<Rightarrow> exec_state \<Rightarrow> 'd \<Rightarrow> bool status_or \<times> 'd" where
  "read_digital_output drv index s d =
    (if \<not> is_accepting s then (Inl not_running_error, d) else rd_read_digital_output drv index d)"

section \<open>Submit\<close>

text \<open>
  The lookup that both critical sections of \<open>Submit\<close> make. \<open>None\<close>: the key is new;
  \<open>Some r\<close>: \<open>Submit\<close> ends with \<open>r\<close>.
\<close>

definition idempotency_lookup :: "command_request \<Rightarrow> exec_state \<Rightarrow> nat status_or outcome option" where
  "idempotency_lookup request s =
    (case store_find (ex_idempotency s) (idempotency_map_key request) of
       None \<Rightarrow> None
     | Some existing \<Rightarrow>
         let different = Returned (Inl (Status kAlreadyExists
               ''idempotency key was used by a different command'')) in
         (case find_command s existing of
            None \<Rightarrow> Some different
          | Some record \<Rightarrow>
              (case payloads_equal (rc_request record) request of
                 None \<Rightarrow> Some (Threw (Some ''std::get: wrong index for variant''))
               | Some True \<Rightarrow> Some (Returned (Inr existing))
               | Some False \<Rightarrow> Some different)))"

text \<open>Up to the first unlock: either the answer, or the copied snapshot and jog flag.\<close>

definition submit_begin :: "command_request \<Rightarrow> exec_state \<Rightarrow> nat status_or outcome + robot_snapshot \<times> bool" where
  "submit_begin request s =
    (if rq_client_id request = [] then
       Inl (Returned (Inl (Status kInvalidArgument ''client_id is required'')))
     else if rq_idempotency_key request = [] then
       Inl (Returned (Inl (Status kInvalidArgument ''idempotency_key is required'')))
     else if rq_timeout request \<le> 0 then
       Inl (Returned (Inl (Status kInvalidArgument ''command timeout must be positive'')))
     else if \<not> is_accepting s then Inl (Returned (Inl not_running_error))
     else case idempotency_lookup request s of
       Some r \<Rightarrow> Inl r
     | None \<Rightarrow> Inr (ex_latest_state s, ex_jog_active s))"

definition motion_pending :: "exec_state \<Rightarrow> bool" where
  "motion_pending s =
    list_ex (\<lambda>(_, r). is_motion_command (rq_type (rc_request r)) \<and> \<not> is_terminal (rc_state r))
      (ex_commands s)"

text \<open>A safety stop displaces the newest queued command that is not a stop.\<close>

definition displace_for_stop :: "time \<Rightarrow> exec_state \<Rightarrow> exec_state option" where
  "displace_for_stop now s =
    (case find (\<lambda>i. case find_command s i of
                     None \<Rightarrow> False | Some r \<Rightarrow> rq_type (rc_request r) \<noteq> kStop) (rev (ex_queue s)) of
       None \<Rightarrow> None
     | Some i \<Rightarrow>
         Some ((modify_record i (\<lambda>r. r\<lparr>rc_state := kCancelled,
             rc_result := Status kResourceExhausted ''command was displaced by a safety stop'',
             rc_updated_at := now\<rparr>) s)\<lparr>ex_queue := remove_last i (ex_queue s)\<rparr>))"

definition submit_enqueue :: "executor_options \<Rightarrow> time \<Rightarrow> command_request \<Rightarrow> exec_state
    \<Rightarrow> nat status_or outcome \<times> exec_state" where
  "submit_enqueue opts now request s =
    (let s1 = prune_command_history opts s in
     if store_size (ex_commands s1) \<ge> eo_maximum_command_history opts then
       (Returned (Inl (Status kResourceExhausted ''command history is full of active records'')), s1)
     else
       let i = ex_next_command_id s1;
           record = \<lparr>rc_id = i, rc_request = request, rc_state = kQueued, rc_result = StatusOk,
             rc_created_at = now, rc_updated_at = now\<rparr>
       in (Returned (Inr i),
           s1\<lparr>ex_next_command_id := i + 1,
              ex_idempotency := store_put (idempotency_map_key request) i (ex_idempotency s1),
              ex_commands := store_emplace i record (ex_commands s1),
              ex_queue := (if rq_type request = kStop then i # ex_queue s1
                           else ex_queue s1 @ [i])\<rparr>))"

text \<open>The second critical section of \<open>Submit\<close>; \<open>clk 0\<close> is the displacement, \<open>clk 1\<close> the record.\<close>

definition submit_commit :: "executor_options \<Rightarrow> clock \<Rightarrow> command_request \<Rightarrow> exec_state
    \<Rightarrow> nat status_or outcome \<times> exec_state" where
  "submit_commit opts clk request s =
    (if \<not> is_accepting s then (Returned (Inl not_running_error), s)
     else case idempotency_lookup request s of
       Some r \<Rightarrow> (r, s)
     | None \<Rightarrow>
         if is_motion_command (rq_type request) \<and> motion_pending s then
           (Returned (Inl (Status kResourceExhausted
              ''another motion command is active or queued'')), s)
         else if rq_type request = kStartProgram \<and> ex_loaded_approved_program s = [] then
           (Returned (Inl (Status kFailedPrecondition
              ''no approved program was loaded by this service'')), s)
         else if length (ex_queue s) \<ge> eo_maximum_queue_size opts then
           (if rq_type request \<noteq> kStop then
              (Returned (Inl (Status kResourceExhausted ''command queue is full'')), s)
            else case displace_for_stop (clk 0) s of
              None \<Rightarrow> (Returned (Inl (Status kResourceExhausted
                ''command queue is full of stop requests'')), s)
            | Some s1 \<Rightarrow> submit_enqueue opts (clk 1) request s1)
         else submit_enqueue opts (clk 1) request s)"

text \<open>\<open>Submit\<close> with nothing in between; \<open>now\<close> is the reading of \<open>IsValid\<close>.\<close>

definition submit :: "safety_policy \<Rightarrow> executor_options \<Rightarrow> time \<Rightarrow> clock \<Rightarrow> command_request \<Rightarrow> exec_state
    \<Rightarrow> nat status_or outcome \<times> exec_state" where
  "submit policy opts now clk request s =
    (case submit_begin request s of
       Inl r \<Rightarrow> (r, s)
     | Inr (snapshot, jog_active) \<Rightarrow>
         let lease_valid = lease_is_valid now (rq_lease_id request) (rq_client_id request)
               (ex_lease_manager s);
             validation = validate policy request snapshot lease_valid jog_active
         in if \<not> status_ok validation then (Returned (Inl validation), s)
            else submit_commit opts clk request s)"

section \<open>Worker\<close>

text \<open>The predicate of the worker's \<open>condition_.wait\<close>.\<close>

definition worker_wakes :: "time \<Rightarrow> exec_state \<Rightarrow> bool" where
  "worker_wakes now s =
    (ex_shutting_down s \<or> has_expired_queued_command now s \<or> find_executable_command s \<noteq> None)"

datatype take_result = TakeExit | TakeContinue | TakeRun command_record

text \<open>From the wake-up to the unlock: leave the loop, start it over, or run a record.\<close>

definition worker_take :: "time \<Rightarrow> exec_state \<Rightarrow> take_result \<times> exec_state" where
  "worker_take now s =
    (if ex_shutting_down s then (TakeExit, s)
     else case find_executable_command s of
       None \<Rightarrow> (TakeContinue, s)
     | Some command_id \<Rightarrow>
         let s1 = s\<lparr>ex_queue := remove1 command_id (ex_queue s)\<rparr> in
         (case find_command s1 command_id of
            None \<Rightarrow> (TakeContinue, s1)
          | Some command \<Rightarrow>
              if timed_out now command then
                (TakeContinue, modify_record command_id (\<lambda>r. r\<lparr>rc_state := kTimedOut,
                   rc_result := Status kDeadlineExceeded ''command timed out before execution'',
                   rc_updated_at := now\<rparr>) s1)
              else
                (TakeRun (command\<lparr>rc_state := kRunning, rc_updated_at := now\<rparr>),
                 modify_record command_id (\<lambda>r. r\<lparr>rc_state := kRunning,
                   rc_updated_at := now\<rparr>) s1)))"

text \<open>The check under the lock between validation and execution.\<close>

definition worker_check_program :: "command_record \<Rightarrow> status \<Rightarrow> exec_state \<Rightarrow> status" where
  "worker_check_program record result s =
    (if status_ok result \<and> rq_type (rc_request record) = kStartProgram
       \<and> ex_loaded_approved_program s = [] then
       Status kFailedPrecondition ''no approved program was loaded by this service''
     else result)"

definition record_lease_valid :: "time \<Rightarrow> command_request \<Rightarrow> exec_state \<Rightarrow> bool" where
  "record_lease_valid now request s =
    lease_is_valid now (rq_lease_id request) (rq_client_id request) (ex_lease_manager s)"

definition finish_motion :: "clock \<Rightarrow> command_record \<Rightarrow> exec_state \<Rightarrow> exec_state" where
  "finish_motion clk record s =
    (if ex_active_motion_id s \<noteq> None \<and> ex_active_motion_id s \<noteq> Some (rc_id record) then
       request_internal_stop ''conflicting motion startup'' (clk 3)
         (modify_record (rc_id record) (\<lambda>r. r\<lparr>rc_result := Status kFailedPrecondition
            ''another motion became active during startup'', rc_state := kFailed\<rparr>) s)
     else
       let s1 = s\<lparr>ex_active_motion_id := Some (rc_id record),
                  ex_active_motion_started_at := clk 1,
                  ex_active_motion_seen := False, ex_stop_requested := False\<rparr>
       in if \<not> record_lease_valid (clk 2) (rc_request record) s1 then
            request_internal_stop ''control lease expired while motion was starting'' (clk 3) s1
          else s1)"

definition finish_jog :: "executor_options \<Rightarrow> clock \<Rightarrow> command_record \<Rightarrow> exec_state \<Rightarrow> exec_state" where
  "finish_jog opts clk record s =
    (case rq_payload (rc_request record) of
       JogPayload jog \<Rightarrow>
         if jc_start jog then
           let s1 = s\<lparr>ex_jog_active := True,
                      ex_active_jog_client_id := rq_client_id (rc_request record),
                      ex_active_jog_lease_id := rq_lease_id (rc_request record),
                      ex_jog_deadline := clk 1 + ns_of_ms (eo_jog_heartbeat_timeout opts)\<rparr>
           in if \<not> record_lease_valid (clk 2) (rc_request record) s1 then
                request_internal_stop ''control lease expired while jog was starting'' (clk 3) s1
              else s1
         else clear_active_jog s
     | _ \<Rightarrow> clear_active_jog s)"

definition finish_success :: "executor_options \<Rightarrow> clock \<Rightarrow> command_record \<Rightarrow> exec_state \<Rightarrow> exec_state" where
  "finish_success opts clk record s =
    (let type = rq_type (rc_request record);
         s1 = modify_record (rc_id record) (\<lambda>r. r\<lparr>rc_state := kSucceeded\<rparr>) s;
         s2 = (if type = kLoadProgram then
                 s1\<lparr>ex_loaded_approved_program :=
                   (case rq_payload (rc_request record) of ProgramPayload n \<Rightarrow> n | _ \<Rightarrow> [])\<rparr>
               else s1);
         s3 = (if type = kJog then finish_jog opts clk record s2 else s2);
         s4 = (if type = kStop \<or> type = kPowerOff then
                 (clear_active_jog (complete_active_motion kStopped (clk 1) s3))
                   \<lparr>ex_stop_requested := False\<rparr>
               else s3);
         s5 = (if type = kStopProgram then
                 (complete_active_program (clk 1) s4)\<lparr>ex_stop_requested := False\<rparr>
               else s4)
     in s5)"

text \<open>
  The critical section after the driver call. Readings: \<open>clk 0\<close> the update, \<open>clk 1\<close> the
  start of the motion or jog and the completion of the active motion, \<open>clk 2\<close> the lease
  check, \<open>clk 3\<close> the internal stop.
\<close>

definition worker_finish :: "executor_options \<Rightarrow> clock \<Rightarrow> command_record \<Rightarrow> status \<Rightarrow> exec_state \<Rightarrow> exec_state" where
  "worker_finish opts clk record result s =
    (case find_command s (rc_id record) of
       None \<Rightarrow> s
     | Some _ \<Rightarrow>
         let s1 = modify_record (rc_id record)
               (\<lambda>r. r\<lparr>rc_result := result, rc_updated_at := clk 0\<rparr>) s in
         if \<not> status_ok result then
           modify_record (rc_id record) (\<lambda>r. r\<lparr>rc_state := kFailed\<rparr>) s1
         else if is_motion_command (rq_type (rc_request record)) then finish_motion clk record s1
         else finish_success opts clk record s1)"

section \<open>Poller\<close>

text \<open>The new snapshot, and whether the active motion is re-examined.\<close>

definition poll_snapshot :: "executor_options \<Rightarrow> time \<Rightarrow> robot_snapshot status_or \<Rightarrow> robot_snapshot
    \<Rightarrow> robot_snapshot \<times> bool" where
  "poll_snapshot opts now state latest =
    (case state of
       Inr snapshot \<Rightarrow> (publish_state snapshot now (sn_sequence latest + 1), True)
     | Inl _ \<Rightarrow>
         if sn_observed_at latest = 0 \<or> sn_observed_at latest > now
           \<or> now - sn_observed_at latest \<ge> ns_of_ms (eo_state_stale_after opts) then
           (latest\<lparr>sn_sequence := (if sn_lifecycle latest \<noteq> kLifecycleUnknown
                then sn_sequence latest + 1 else sn_sequence latest),
              sn_lifecycle := kLifecycleUnknown\<rparr>, True)
         else (latest, False))"

text \<open>
  The critical section after the read. Readings: \<open>clk 0\<close> the poll, \<open>clk 1\<close> and \<open>clk 2\<close>
  \<open>UpdateActiveMotionLocked\<close>, \<open>clk 3\<close> and \<open>clk 4\<close> the lease of the active motion, \<open>clk 5\<close>,
  \<open>clk 6\<close> and \<open>clk 7\<close> the jog deadline, its lease and its stop.
\<close>

definition poll_apply :: "executor_options \<Rightarrow> clock \<Rightarrow> robot_snapshot status_or \<Rightarrow> exec_state \<Rightarrow> exec_state" where
  "poll_apply opts clk state s =
    (let (latest, update) = poll_snapshot opts (clk 0) state (ex_latest_state s);
         s1 = s\<lparr>ex_latest_state := latest\<rparr>;
         s2 = (if update then update_active_motion opts (clk 1) (clk 2) s1 else s1);
         s3 = (if ex_active_motion_id s2 \<noteq> None \<and> \<not> active_motion_lease_is_valid (clk 3) s2
               then request_internal_stop ''control lease expired'' (clk 4) s2 else s2)
     in if ex_jog_active s3 \<and> (clk 5 \<ge> ex_jog_deadline s3
          \<or> \<not> lease_is_valid (clk 6) (ex_active_jog_lease_id s3) (ex_active_jog_client_id s3)
               (ex_lease_manager s3))
        then request_internal_stop ''jog heartbeat or control lease expired'' (clk 7) s3
        else s3)"

section \<open>Shutdown\<close>

text \<open>
  \<open>Shutdown\<close> in its sections: mark (nothing when the executor never ran or was already shut
  down), stop the robot, join the threads, release and disconnect, settle the records.
\<close>

definition shutdown_begin :: "exec_state \<Rightarrow> exec_state option" where
  "shutdown_begin s =
    (if \<not> ex_running s \<and> \<not> ex_threads_joinable s then None
     else Some (s\<lparr>ex_shutting_down := True, ex_running := False\<rparr>))"

definition shutdown_join :: "exec_state \<Rightarrow> exec_state" where
  "shutdown_join s = s\<lparr>ex_threads_joinable := False\<rparr>"

definition shutdown_release :: "'d robot_driver \<Rightarrow> 'd \<Rightarrow> 'd" where
  "shutdown_release drv d = snd (rd_disconnect drv (snd (rd_release_control drv d)))"

definition shutdown_finish :: "status \<Rightarrow> clock \<Rightarrow> exec_state \<Rightarrow> exec_state" where
  "shutdown_finish stop_status clk s =
    (let s1 = cancel_commands_for_shutdown (clk 0) s;
         s2 = (case ex_active_motion_id s1 of
                 None \<Rightarrow> s1
               | Some i \<Rightarrow>
                   (modify_record i (\<lambda>r. if is_terminal (rc_state r) then r
                      else r\<lparr>rc_state := (if status_ok stop_status then kStopped else kFailed),
                             rc_result := stop_status, rc_updated_at := clk 1\<rparr>) s1)
                     \<lparr>ex_active_motion_id := None, ex_active_motion_seen := False\<rparr>)
     in (clear_active_jog s2)\<lparr>ex_stop_requested := False\<rparr>)"

end
