(* ===== verification/ExecutorInvariant.thy ===== *)
theory ExecutorInvariant
  imports ExecutorOps
begin

text \<open>
  The invariant of the executor's tables and its preservation by every critical section.
  The invariant speaks of five fields (records, idempotency index, queue, active motion, next
  id) and of the record the worker holds between its critical sections (\<open>infl\<close>); the
  updates of all other fields leave it alone by construction.
\<close>

section \<open>The invariant\<close>

definition stop_at :: "(nat, command_record) store \<Rightarrow> nat \<Rightarrow> bool" where
  "stop_at cmds i \<longleftrightarrow> (\<exists>r. store_find cmds i = Some r \<and> rq_type (rc_request r) = kStop)"

definition live_motion :: "(nat, command_record) store \<Rightarrow> nat \<Rightarrow> bool" where
  "live_motion cmds i \<longleftrightarrow> (\<exists>r. store_find cmds i = Some r
     \<and> is_motion_command (rq_type (rc_request r)) \<and> \<not> is_terminal (rc_state r))"

text \<open>A request whose payload fits its type and equals itself (no NaN inside).\<close>

definition sound_request :: "command_request \<Rightarrow> bool" where
  "sound_request rq \<longleftrightarrow> payload_type_valid (rq_type rq) (rq_payload rq)
     \<and> payloads_equal rq rq = Some True"

definition records_ok :: "(nat, command_record) store \<Rightarrow> nat \<Rightarrow> bool" where
  "records_ok cmds nxt \<longleftrightarrow> store_wf cmds
     \<and> (\<forall>i r. store_find cmds i = Some r \<longrightarrow> rc_id r = i \<and> i < nxt \<and> sound_request (rc_request r))"

definition queue_ok :: "(nat, command_record) store \<Rightarrow> nat list \<Rightarrow> bool" where
  "queue_ok cmds q \<longleftrightarrow> distinct q
     \<and> (\<forall>i. i \<in> set q \<longleftrightarrow> (\<exists>r. store_find cmds i = Some r \<and> rc_state r = kQueued))"

definition stops_first :: "(nat, command_record) store \<Rightarrow> nat list \<Rightarrow> bool" where
  "stops_first cmds q \<longleftrightarrow> sorted_wrt (\<lambda>i j. stop_at cmds j \<longrightarrow> stop_at cmds i) q"

definition running_ok :: "command_record option \<Rightarrow> (nat, command_record) store \<Rightarrow> nat option \<Rightarrow> bool" where
  "running_ok infl cmds act \<longleftrightarrow> (\<forall>i r. store_find cmds i = Some r \<and> rc_state r = kRunning
     \<longrightarrow> act = Some i \<or> map_option rc_id infl = Some i)"

definition infl_ok :: "command_record option \<Rightarrow> (nat, command_record) store \<Rightarrow> nat option \<Rightarrow> bool" where
  "infl_ok infl cmds act \<longleftrightarrow> (\<forall>rec. infl = Some rec \<longrightarrow>
     (\<exists>r. store_find cmds (rc_id rec) = Some r \<and> rc_state r = kRunning \<and> rc_request r = rc_request rec)
     \<and> act \<noteq> Some (rc_id rec)
     \<and> (is_motion_command (rq_type (rc_request rec)) \<longrightarrow> act = None))"

definition active_ok :: "(nat, command_record) store \<Rightarrow> nat option \<Rightarrow> nat \<Rightarrow> bool" where
  "active_ok cmds act nxt \<longleftrightarrow> (\<forall>i. act = Some i \<longrightarrow> i < nxt \<and> (\<forall>r. store_find cmds i = Some r \<longrightarrow>
     is_motion_command (rq_type (rc_request r)) \<and> rc_state r \<noteq> kQueued))"

definition one_motion :: "(nat, command_record) store \<Rightarrow> bool" where
  "one_motion cmds \<longleftrightarrow> (\<forall>i j. live_motion cmds i \<and> live_motion cmds j \<longrightarrow> i = j)"

definition index_ok :: "(nat, command_record) store \<Rightarrow> (string, nat) store \<Rightarrow> bool" where
  "index_ok cmds idem \<longleftrightarrow> store_wf idem
     \<and> (\<forall>k i. store_find idem k = Some i \<longrightarrow>
          (\<exists>r. store_find cmds i = Some r \<and> idempotency_map_key (rc_request r) = k))"

definition core_inv :: "command_record option \<Rightarrow> (nat, command_record) store \<Rightarrow> (string, nat) store
    \<Rightarrow> nat list \<Rightarrow> nat option \<Rightarrow> nat \<Rightarrow> bool" where
  "core_inv infl cmds idem q act nxt \<longleftrightarrow> records_ok cmds nxt \<and> queue_ok cmds q
     \<and> stops_first cmds q \<and> running_ok infl cmds act \<and> infl_ok infl cmds act
     \<and> active_ok cmds act nxt \<and> one_motion cmds \<and> index_ok cmds idem"

definition exec_inv :: "command_record option \<Rightarrow> exec_state \<Rightarrow> bool" where
  "exec_inv infl s \<longleftrightarrow> core_inv infl (ex_commands s) (ex_idempotency s) (ex_queue s)
     (ex_active_motion_id s) (ex_next_command_id s)"

lemmas inv_parts = records_ok_def queue_ok_def running_ok_def infl_ok_def active_ok_def

lemma core_invI [intro?]:
  assumes "records_ok cmds nxt" "queue_ok cmds q" "stops_first cmds q" "running_ok infl cmds act"
    "infl_ok infl cmds act" "active_ok cmds act nxt" "one_motion cmds" "index_ok cmds idem"
  shows "core_inv infl cmds idem q act nxt"
  using assms by (simp add: core_inv_def)

lemma core_invE:
  assumes "core_inv infl cmds idem q act nxt"
  obtains "records_ok cmds nxt" "queue_ok cmds q" "stops_first cmds q" "running_ok infl cmds act"
    "infl_ok infl cmds act" "active_ok cmds act nxt" "one_motion cmds" "index_ok cmds idem"
  using assms by (simp add: core_inv_def)

lemma is_terminal_simps [simp]:
  "is_terminal kSucceeded" "is_terminal kFailed" "is_terminal kCancelled" "is_terminal kTimedOut"
  "is_terminal kStopped" "\<not> is_terminal kQueued" "\<not> is_terminal kRunning"
  by (simp_all add: is_terminal_def)

lemma not_terminal: "\<not> is_terminal st \<longleftrightarrow> st = kQueued \<or> st = kRunning"
  by (cases st) simp_all

lemma is_motion_simps [simp]:
  "is_motion_command kMoveJ" "is_motion_command kMoveL" "is_motion_command kMoveC"
  "is_motion_command kStartProgram" "\<not> is_motion_command kStop"
  by (simp_all add: is_motion_command_def)

lemma motion_types_iff: "t \<in> motion_types \<longleftrightarrow> is_motion_command t"
  by (auto simp: motion_types_def is_motion_command_def)

section \<open>Replacing one record\<close>

text \<open>A record keeps its id and request; only its state, result and time change.\<close>

definition same_command :: "command_record \<Rightarrow> command_record \<Rightarrow> bool" where
  "same_command r r' \<longleftrightarrow> rc_id r' = rc_id r \<and> rc_request r' = rc_request r"

lemma stop_at_put [simp]:
  "store_find cmds i = Some r \<Longrightarrow> same_command r r' \<Longrightarrow> stop_at (store_put i r' cmds) = stop_at cmds"
  by (auto simp: stop_at_def same_command_def fun_eq_iff)

lemma records_ok_put:
  "records_ok cmds nxt \<Longrightarrow> store_find cmds i = Some r \<Longrightarrow> same_command r r'
     \<Longrightarrow> records_ok (store_put i r' cmds) nxt"
  by (auto simp: records_ok_def same_command_def)

lemma index_ok_put:
  "index_ok cmds idem \<Longrightarrow> store_find cmds i = Some r \<Longrightarrow> same_command r r'
     \<Longrightarrow> index_ok (store_put i r' cmds) idem"
  by (force simp: index_ok_def same_command_def)

lemma one_motion_put:
  "one_motion cmds \<Longrightarrow> store_find cmds i = Some r \<Longrightarrow> same_command r r'
     \<Longrightarrow> (is_terminal (rc_state r) \<longrightarrow> is_terminal (rc_state r'))
     \<Longrightarrow> one_motion (store_put i r' cmds)"
  by (auto simp: one_motion_def live_motion_def same_command_def split: if_splits)

lemma stops_first_remove: "stops_first cmds q \<Longrightarrow> stops_first cmds (remove1 i q)"
  by (simp add: stops_first_def sorted_wrt_remove1)

lemma stops_first_cong:
  "(\<And>i. i \<in> set q \<Longrightarrow> stop_at cmds' i = stop_at cmds i) \<Longrightarrow> stops_first cmds' q = stops_first cmds q"
  unfolding stops_first_def by (induction q) auto

lemmas put_intros = records_ok_put index_ok_put one_motion_put

text \<open>Settling a record that is neither queued nor in the worker's hands.\<close>

lemma core_settle:
  assumes inv: "core_inv infl cmds idem q act nxt" and r: "store_find cmds i = Some r"
    and "same_command r r'" and "rc_state r' = rc_state r \<or> is_terminal (rc_state r')"
    and "rc_state r \<noteq> kQueued" and "map_option rc_id infl \<noteq> Some i"
  shows "core_inv infl (store_put i r' cmds) idem q act nxt"
proof (rule core_invE [OF inv], rule core_invI)
  assume *: "queue_ok cmds q" "stops_first cmds q" "running_ok infl cmds act"
    "infl_ok infl cmds act" "active_ok cmds act nxt"
  show "queue_ok (store_put i r' cmds) q"
    using * assms(2-) by (auto simp: queue_ok_def)
  show "stops_first (store_put i r' cmds) q"
    using * assms(2-) by (simp add: stops_first_def)
  have "rc_state r = kRunning \<Longrightarrow> act = Some i"
    using *(3) r assms(6) unfolding running_ok_def by blast
  then show "running_ok infl (store_put i r' cmds) act"
    using * assms(2-) by (auto simp: running_ok_def)
  show "infl_ok infl (store_put i r' cmds) act"
    using * assms(2-) by (auto simp: infl_ok_def)
  show "active_ok (store_put i r' cmds) act nxt"
    using * assms(2-) by (auto simp: active_ok_def same_command_def)
qed (use assms(2-) in \<open>auto intro!: put_intros\<close>)

text \<open>Settling a queued record and taking it out of the queue.\<close>

lemma core_cancel:
  assumes inv: "core_inv infl cmds idem q act nxt" and r: "store_find cmds i = Some r"
    and "same_command r r'" and "is_terminal (rc_state r')" and "rc_state r = kQueued"
  shows "core_inv infl (store_put i r' cmds) idem (remove1 i q) act nxt"
proof (rule core_invE [OF inv], rule core_invI)
  assume *: "queue_ok cmds q" "stops_first cmds q" "running_ok infl cmds act"
    "infl_ok infl cmds act" "active_ok cmds act nxt"
  show "queue_ok (store_put i r' cmds) (remove1 i q)"
    using * assms(2-) by (auto simp: queue_ok_def)
  show "stops_first (store_put i r' cmds) (remove1 i q)"
    using * assms(2-) by (simp add: stops_first_def sorted_wrt_remove1)
  show "running_ok infl (store_put i r' cmds) act"
    using * assms(2-) by (auto simp: running_ok_def)
  show "infl_ok infl (store_put i r' cmds) act"
    using * assms(2-) by (auto simp: infl_ok_def)
  show "active_ok (store_put i r' cmds) act nxt"
    using * assms(2-) by (auto simp: active_ok_def same_command_def)
qed (use assms(2-) in \<open>auto intro!: put_intros\<close>)

text \<open>The worker takes a queued record into its hands.\<close>

lemma core_take:
  assumes inv: "core_inv None cmds idem q act nxt" and r: "store_find cmds i = Some r"
    and "same_command r r'" and "rc_state r' = kRunning" and "rc_state r = kQueued"
    and "is_motion_command (rq_type (rc_request r)) \<longrightarrow> act = None"
  shows "core_inv (Some r') (store_put i r' cmds) idem (remove1 i q) act nxt"
proof (rule core_invE [OF inv], rule core_invI)
  assume *: "records_ok cmds nxt" "queue_ok cmds q" "stops_first cmds q" "running_ok None cmds act"
    "infl_ok None cmds act" "active_ok cmds act nxt"
  have id: "rc_id r' = i" using * assms(2,3) by (auto simp: records_ok_def same_command_def)
  show "queue_ok (store_put i r' cmds) (remove1 i q)"
    using * assms(2-) by (auto simp: queue_ok_def)
  show "stops_first (store_put i r' cmds) (remove1 i q)"
    using * assms(2-) by (simp add: stops_first_def sorted_wrt_remove1)
  show "running_ok (Some r') (store_put i r' cmds) act"
    using * assms(2-) id by (auto simp: running_ok_def)
  show "infl_ok (Some r') (store_put i r' cmds) act"
    using * assms(2-) id by (auto simp: infl_ok_def active_ok_def same_command_def)
  show "active_ok (store_put i r' cmds) act nxt"
    using * assms(2-) by (auto simp: active_ok_def same_command_def)
qed (use assms(2-) in \<open>auto intro!: put_intros\<close>)

text \<open>The worker settles the record in its hands.\<close>

lemma core_finish:
  assumes inv: "core_inv (Some rec) cmds idem q act nxt" and r: "store_find cmds (rc_id rec) = Some r"
    and "same_command r r'" and "is_terminal (rc_state r')"
  shows "core_inv None (store_put (rc_id rec) r' cmds) idem q act nxt"
proof (rule core_invE [OF inv], rule core_invI)
  assume *: "queue_ok cmds q" "stops_first cmds q" "running_ok (Some rec) cmds act"
    "infl_ok (Some rec) cmds act" "active_ok cmds act nxt"
  have run: "rc_state r = kRunning" using * r by (auto simp: infl_ok_def)
  show "queue_ok (store_put (rc_id rec) r' cmds) q"
    using * run assms(2-) by (auto simp: queue_ok_def)
  show "stops_first (store_put (rc_id rec) r' cmds) q"
    using * assms(2-) by (simp add: stops_first_def)
  show "running_ok None (store_put (rc_id rec) r' cmds) act"
    using * assms(2-) by (auto simp: running_ok_def)
  show "infl_ok None (store_put (rc_id rec) r' cmds) act"
    by (simp add: infl_ok_def)
  show "active_ok (store_put (rc_id rec) r' cmds) act nxt"
    using * run assms(2-) by (auto simp: active_ok_def same_command_def)
qed (use assms(2-) in \<open>auto intro!: put_intros\<close>)

text \<open>The record in the worker's hands becomes the active motion.\<close>

lemma core_activate:
  assumes "core_inv (Some rec) cmds idem q act nxt" and "is_motion_command (rq_type (rc_request rec))"
  shows "act = None" and "core_inv None cmds idem q (Some (rc_id rec)) nxt"
  using assms by (auto simp: core_inv_def inv_parts)

text \<open>Rewriting a record without changing its state.\<close>

lemma core_touch:
  assumes "core_inv infl cmds idem q act nxt" and "store_find cmds i = Some r"
    and "same_command r r'" and "rc_state r' = rc_state r"
  shows "core_inv infl (store_put i r' cmds) idem q act nxt"
proof (rule core_invE [OF assms(1)], rule core_invI)
  assume *: "queue_ok cmds q" "stops_first cmds q" "running_ok infl cmds act"
    "infl_ok infl cmds act" "active_ok cmds act nxt"
  show "queue_ok (store_put i r' cmds) q" using * assms by (auto simp: queue_ok_def)
  show "stops_first (store_put i r' cmds) q" using * assms by (simp add: stops_first_def)
  show "running_ok infl (store_put i r' cmds) act" using * assms by (simp add: running_ok_def)
  show "infl_ok infl (store_put i r' cmds) act"
    using * assms by (auto simp: infl_ok_def same_command_def)
  show "active_ok (store_put i r' cmds) act nxt"
    using * assms by (auto simp: active_ok_def same_command_def)
qed (use assms in \<open>auto intro!: put_intros\<close>)

text \<open>Dropping the active motion once its record is settled.\<close>

lemma core_deactivate:
  assumes inv: "core_inv infl cmds idem q act nxt"
    and "\<And>i r. act = Some i \<Longrightarrow> store_find cmds i = Some r \<Longrightarrow> rc_state r \<noteq> kRunning"
  shows "core_inv infl cmds idem q None nxt"
  using assms by (auto simp: core_inv_def inv_parts)


section \<open>Adding and removing records\<close>

lemma core_new:
  assumes inv: "core_inv infl cmds idem q act nxt"
    and new: "rc_id r = nxt" "rc_state r = kQueued" "sound_request (rc_request r)"
    and one: "is_motion_command (rq_type (rc_request r)) \<Longrightarrow> \<nexists>i. live_motion cmds i"
    and q': "q' = (if rq_type (rc_request r) = kStop then nxt # q else q @ [nxt])"
    and idem': "idem' = idem \<or> idem' = store_put (idempotency_map_key (rc_request r)) nxt idem"
  shows "core_inv infl (store_emplace nxt r cmds) idem' q' act (nxt + 1)"
proof (rule core_invE [OF inv], rule core_invI)
  assume *: "records_ok cmds nxt" "queue_ok cmds q" "stops_first cmds q" "running_ok infl cmds act"
    "infl_ok infl cmds act" "active_ok cmds act nxt" "one_motion cmds" "index_ok cmds idem"
  have fresh: "store_find cmds nxt = None"
    using *(1) by (cases "store_find cmds nxt") (auto simp: records_ok_def)
  have nq: "nxt \<notin> set q" using *(2) fresh by (auto simp: queue_ok_def)
  show "records_ok (store_emplace nxt r cmds) (nxt + 1)"
    using * fresh new by (auto simp: records_ok_def less_Suc_eq)
  show "queue_ok (store_emplace nxt r cmds) q'"
    using * fresh new nq by (auto simp: queue_ok_def q')
  have stop: "stop_at (store_emplace nxt r cmds) i =
      (if i = nxt then rq_type (rc_request r) = kStop else stop_at cmds i)" for i
    using fresh by (simp add: stop_at_def)
  have "stops_first (store_emplace nxt r cmds) q = stops_first cmds q"
    using nq by (intro stops_first_cong) (auto simp: stop)
  then show "stops_first (store_emplace nxt r cmds) q'"
    using *(3) by (auto simp: stops_first_def q' sorted_wrt_append stop)
  show "running_ok infl (store_emplace nxt r cmds) act"
    using * fresh new by (auto simp: running_ok_def)
  show "infl_ok infl (store_emplace nxt r cmds) act"
    using * fresh new by (auto simp: infl_ok_def)
  show "active_ok (store_emplace nxt r cmds) act (nxt + 1)"
    using * fresh new by (auto simp: active_ok_def)
  have live: "live_motion (store_emplace nxt r cmds) i \<longleftrightarrow>
      (if i = nxt then is_motion_command (rq_type (rc_request r)) else live_motion cmds i)" for i
    using fresh new by (simp add: live_motion_def)
  show "one_motion (store_emplace nxt r cmds)"
    using *(7) one unfolding one_motion_def live by metis
  show "index_ok (store_emplace nxt r cmds) idem'"
    unfolding index_ok_def
  proof (intro conjI allI impI)
    have "store_wf idem" using *(8) by (simp add: index_ok_def)
    with idem' show "store_wf idem'" by (elim disjE) (simp_all add: cs.wf_put)
    fix k j assume "store_find idem' k = Some j"
    then have "store_find idem k = Some j \<or> j = nxt \<and> k = idempotency_map_key (rc_request r)"
      using idem' by (auto split: if_splits)
    moreover have "\<exists>r. store_find cmds j = Some r \<and> idempotency_map_key (rc_request r) = k"
      if "store_find idem k = Some j" using *(8) that by (simp add: index_ok_def)
    ultimately show "\<exists>r'. store_find (store_emplace nxt r cmds) j = Some r'
        \<and> idempotency_map_key (rc_request r') = k"
      using fresh by fastforce
  qed
qed

lemma core_erase:
  assumes inv: "core_inv infl cmds idem q act nxt" and r: "store_find cmds i = Some r"
    and t: "is_terminal (rc_state r)"
  shows "core_inv infl (store_erase i cmds)
    (store_erase (idempotency_map_key (rc_request r)) idem) q act nxt"
proof (rule core_invE [OF inv], rule core_invI)
  assume *: "records_ok cmds nxt" "queue_ok cmds q" "stops_first cmds q" "running_ok infl cmds act"
    "infl_ok infl cmds act" "active_ok cmds act nxt" "one_motion cmds" "index_ok cmds idem"
  have nq: "i \<notin> set q" using *(2) r t by (auto simp: queue_ok_def)
  show "records_ok (store_erase i cmds) nxt" using * by (auto simp: records_ok_def)
  show "queue_ok (store_erase i cmds) q" using * r t by (auto simp: queue_ok_def)
  have "stops_first (store_erase i cmds) q = stops_first cmds q"
    using nq by (intro stops_first_cong) (auto simp: stop_at_def)
  then show "stops_first (store_erase i cmds) q" using * by (simp add: stops_first_def)
  show "running_ok infl (store_erase i cmds) act" using * by (auto simp: running_ok_def)
  show "infl_ok infl (store_erase i cmds) act" using * r t by (auto simp: infl_ok_def)
  show "active_ok (store_erase i cmds) act nxt" using * by (auto simp: active_ok_def)
  show "one_motion (store_erase i cmds)" using * by (auto simp: one_motion_def live_motion_def split: if_splits)
  show "index_ok (store_erase i cmds) (store_erase (idempotency_map_key (rc_request r)) idem)"
  proof -
    have "k = idempotency_map_key (rc_request r)" if "store_find idem k = Some i" for k
      using *(8) r that by (force simp: index_ok_def)
    then show ?thesis using *(8) by (auto simp: index_ok_def)
  qed
qed

lemma core_prune:
  "core_inv infl cmds idem q act nxt \<Longrightarrow> prune_history limit cmds idem = (cmds', idem')
     \<Longrightarrow> core_inv infl cmds' idem' q act nxt"
proof (induction limit cmds idem rule: prune_history.induct)
  case (1 limit cmds idem)
  show ?case
  proof (cases "store_size cmds \<ge> limit \<and> oldest_terminal cmds None \<noteq> None")
    case False
    then show ?thesis using 1 by (auto simp: prune_history.simps split: if_splits option.splits)
  next
    case True
    then obtain i r where ir: "oldest_terminal cmds None = Some (i, r)" by auto
    then have "store_find cmds i = Some r" "is_terminal (rc_state r)"
      using oldest_terminal_in [OF ir] 1(2) cs.entries_look [of cmds i r]
      by (auto simp: core_inv_def records_ok_def)
    then show ?thesis using 1 True ir core_erase by (simp add: prune_history.simps [of limit cmds])
  qed
qed

end
