(* ===== verification/ExecutorPreserve.thy ===== *)
theory ExecutorPreserve
  imports ExecutorInvariant
begin

text \<open>
  Every critical section of the executor keeps the invariant and only lets records move
  forward: \<open>moves A infl s infl' s'\<close> says both, and composes. The lemmas are named after the
  operation of \<open>ExecutorState\<close> or \<open>ExecutorOps\<close> they treat.
\<close>

section \<open>Records only move forward\<close>

definition may_become :: "command_state \<Rightarrow> command_state \<Rightarrow> bool" where
  "may_become a b \<longleftrightarrow> a = b \<or> a = kQueued \<or> a = kRunning \<and> is_terminal b \<and> b \<noteq> kCancelled"

definition follows :: "command_record \<Rightarrow> command_record \<Rightarrow> bool" where
  "follows r r' \<longleftrightarrow> rc_id r' = rc_id r \<and> rc_request r' = rc_request r
     \<and> rc_created_at r' = rc_created_at r \<and> may_become (rc_state r) (rc_state r')
     \<and> (is_terminal (rc_state r) \<longrightarrow> r' = r)"

text \<open>
  A record still in the table has moved forward, a freed id is never used again, and a new
  record is a stop or carries one of the requests \<open>A\<close>.
\<close>

definition evolves :: "command_request set \<Rightarrow> exec_state \<Rightarrow> exec_state \<Rightarrow> bool" where
  "evolves A s s' \<longleftrightarrow> ex_next_command_id s \<le> ex_next_command_id s'
     \<and> (\<forall>i r. find_command s i = Some r \<longrightarrow>
          find_command s' i = None \<or> (\<exists>r'. find_command s' i = Some r' \<and> follows r r'))
     \<and> (\<forall>i. i < ex_next_command_id s \<longrightarrow> find_command s i = None \<longrightarrow> find_command s' i = None)
     \<and> (\<forall>i r. find_command s i = None \<longrightarrow> find_command s' i = Some r
          \<longrightarrow> rq_type (rc_request r) = kStop \<or> rc_request r \<in> A)"

definition moves :: "command_request set \<Rightarrow> command_record option \<Rightarrow> exec_state \<Rightarrow> command_record option \<Rightarrow> exec_state \<Rightarrow> bool" where
  "moves A infl s infl' s' \<longleftrightarrow> (exec_inv infl s \<longrightarrow> exec_inv infl' s' \<and> evolves A s s')"

lemma may_become_refl [simp]: "may_become a a"
  by (simp add: may_become_def)

lemma may_become_trans: "may_become a b \<Longrightarrow> may_become b c \<Longrightarrow> may_become a c"
  by (auto simp: may_become_def)

lemma follows_refl [simp]: "follows r r"
  by (simp add: follows_def)

lemma follows_trans: "follows a b \<Longrightarrow> follows b c \<Longrightarrow> follows a c"
  using may_become_trans by (auto simp: follows_def)

lemma follows_same: "follows r r' \<Longrightarrow> same_command r r'"
  by (simp add: follows_def same_command_def)

lemma follows_settle:
  "\<not> is_terminal (rc_state r) \<Longrightarrow> may_become (rc_state r) (rc_state r') \<Longrightarrow> rc_id r' = rc_id r
     \<Longrightarrow> rc_request r' = rc_request r \<Longrightarrow> rc_created_at r' = rc_created_at r \<Longrightarrow> follows r r'"
  by (simp add: follows_def)

lemma evolves_refl [simp]: "evolves A s s"
  by (simp add: evolves_def)

lemma evolves_trans:
  assumes "evolves A a b" "evolves A b c" and ids: "\<And>i r. find_command a i = Some r \<Longrightarrow> i < ex_next_command_id a"
  shows "evolves A a c"
  unfolding evolves_def
proof (intro conjI allI impI)
  show "ex_next_command_id a \<le> ex_next_command_id c" using assms by (auto simp: evolves_def)
  show "find_command c i = None"
    if "i < ex_next_command_id a" "find_command a i = None" for i
    using assms that by (simp add: evolves_def)
  show "rq_type (rc_request r) = kStop \<or> rc_request r \<in> A"
    if "find_command a i = None" "find_command c i = Some r" for i r
  proof (cases "find_command b i")
    case None
    then show ?thesis using assms(2) that by (simp add: evolves_def)
  next
    case (Some r')
    then have "follows r' r" using assms(2) that(2) unfolding evolves_def by (metis option.distinct(1) option.inject)
    then show ?thesis using assms(1) that(1) Some by (auto simp: evolves_def follows_def)
  qed
  fix i r assume a: "find_command a i = Some r"
  then have "i < ex_next_command_id b" using ids [OF a] assms(1) by (simp add: evolves_def)
  then have "find_command c i = None" if "find_command b i = None"
    using that assms(2) by (simp add: evolves_def)
  moreover have "find_command c i = None \<or> (\<exists>r'. find_command c i = Some r' \<and> follows r r')"
    if "find_command b i = Some r'" "follows r r'" for r'
    using that assms(2) follows_trans unfolding evolves_def by meson
  ultimately show "find_command c i = None \<or> (\<exists>r'. find_command c i = Some r' \<and> follows r r')"
    using assms(1) a unfolding evolves_def by meson
qed

lemma known_id: "exec_inv infl s \<Longrightarrow> find_command s i = Some r \<Longrightarrow> i < ex_next_command_id s"
  by (auto simp: exec_inv_def core_inv_def records_ok_def find_command_def)

lemma moves_refl [simp, intro]: "moves A infl s infl s"
  by (simp add: moves_def)

lemma moves_trans [trans]: "moves A i s j t \<Longrightarrow> moves A j t k u \<Longrightarrow> moves A i s k u"
  unfolding moves_def by (blast intro: evolves_trans dest: known_id)

lemma moves_if_inv: "(exec_inv infl s \<Longrightarrow> moves A infl s infl' s') \<Longrightarrow> moves A infl s infl' s'"
  by (auto simp: moves_def)

text \<open>Fields the invariant does not read.\<close>

lemma moves_frame:
  "ex_commands s' = ex_commands s \<Longrightarrow> ex_idempotency s' = ex_idempotency s \<Longrightarrow> ex_queue s' = ex_queue s
     \<Longrightarrow> ex_active_motion_id s' = ex_active_motion_id s
     \<Longrightarrow> ex_next_command_id s' = ex_next_command_id s \<Longrightarrow> moves A infl s infl s'"
  by (simp add: moves_def exec_inv_def evolves_def find_command_def)


section \<open>Single updates\<close>

lemma find_modify [simp]:
  "find_command (modify_record i f s) j =
    (if j = i then map_option f (find_command s i) else find_command s j)"
  by (simp add: modify_record_def find_command_def split: option.splits)

lemma modify_record_fields [simp]:
  "ex_next_command_id (modify_record i f s) = ex_next_command_id s"
  "ex_queue (modify_record i f s) = ex_queue s"
  "ex_active_motion_id (modify_record i f s) = ex_active_motion_id s"
  "ex_idempotency (modify_record i f s) = ex_idempotency s"
  by (simp_all add: modify_record_def split: option.splits)

lemma evolves_modify:
  "(\<And>r. find_command s i = Some r \<Longrightarrow> follows r (f r)) \<Longrightarrow> evolves A s (modify_record i f s)"
  by (auto simp: evolves_def)

text \<open>A record that is neither queued nor held by the worker settles, or nothing happens to it.\<close>

lemma moves_settle:
  assumes "\<And>r. exec_inv infl s \<Longrightarrow> find_command s i = Some r \<Longrightarrow> rc_state r \<noteq> kQueued \<and> follows r (f r)
      \<and> (rc_state (f r) = rc_state r \<or> is_terminal (rc_state (f r)))"
    and "exec_inv infl s \<Longrightarrow> map_option rc_id infl \<noteq> Some i"
  shows "moves A infl s infl (modify_record i f s)"
proof (cases "find_command s i")
  case None
  then show ?thesis by (simp add: modify_record_def)
next
  case (Some r)
  show ?thesis unfolding moves_def
  proof (intro impI conjI)
    assume inv: "exec_inv infl s"
    show "exec_inv infl (modify_record i f s)"
      using Some inv assms(1) [OF inv Some] assms(2) [OF inv] core_settle follows_same
      by (simp add: exec_inv_def modify_record_def find_command_def)
    show "evolves A s (modify_record i f s)"
      using assms(1) [OF inv] by (intro evolves_modify) blast
  qed
qed

text \<open>The active motion is never queued and never in the worker's hands.\<close>

lemma active_facts:
  assumes "exec_inv infl s" "ex_active_motion_id s = Some i"
  shows "map_option rc_id infl \<noteq> Some i" "find_command s i = Some r \<Longrightarrow> rc_state r \<noteq> kQueued"
  using assms by (auto simp: exec_inv_def core_inv_def active_ok_def infl_ok_def find_command_def)

lemma moves_settle_active:
  assumes act: "ex_active_motion_id s = Some i"
    and f: "\<And>r. rc_state r \<noteq> kQueued \<Longrightarrow> follows r (f r) \<and> (rc_state (f r) = rc_state r \<or> is_terminal (rc_state (f r)))"
  shows "moves A infl s infl (modify_record i f s)"
  using active_facts [OF _ act, of infl] f by (intro moves_settle) blast+

lemma moves_deactivate:
  assumes "\<And>i r. exec_inv infl s \<Longrightarrow> ex_active_motion_id s = Some i \<Longrightarrow> find_command s i = Some r \<Longrightarrow> rc_state r \<noteq> kRunning"
    and "ex_commands s' = ex_commands s" "ex_idempotency s' = ex_idempotency s"
      "ex_queue s' = ex_queue s" "ex_next_command_id s' = ex_next_command_id s"
      "ex_active_motion_id s' = None"
  shows "moves A infl s infl s'"
  unfolding moves_def
proof (intro impI conjI)
  assume inv: "exec_inv infl s"
  show "exec_inv infl s'"
    using inv assms(1) [OF inv] assms(2-) core_deactivate
    by (simp add: exec_inv_def find_command_def)
  show "evolves A s s'" using assms(2,5) by (simp add: evolves_def find_command_def)
qed

lemma moves_settle_deactivate:
  assumes act: "ex_active_motion_id s = Some i"
    and f: "\<And>r. rc_state r \<noteq> kQueued \<Longrightarrow> follows r (f r) \<and> is_terminal (rc_state (f r))"
    and "ex_commands s' = ex_commands (modify_record i f s)" "ex_idempotency s' = ex_idempotency s"
      "ex_queue s' = ex_queue s" "ex_next_command_id s' = ex_next_command_id s"
      "ex_active_motion_id s' = None"
  shows "moves A infl s infl s'"
proof (rule moves_if_inv)
  assume inv: "exec_inv infl s"
  have "moves A infl s infl (modify_record i f s)"
    using f by (intro moves_settle_active [OF act]) auto
  moreover have "rc_state r \<noteq> kRunning" if "find_command (modify_record i f s) i = Some r" for r
    using that f active_facts(2) [OF inv act] by fastforce
  then have "moves A infl (modify_record i f s) infl s'"
    using assms(3-) act by (intro moves_deactivate) auto
  ultimately show ?thesis by (rule moves_trans)
qed


section \<open>Operations under the lock\<close>

lemma sound_internal_stop: "sound_request (rc_request (internal_stop_record i reason now))"
  by (simp add: sound_request_def internal_stop_record_def payloads_equal_def payload_type_valid_def)

lemma moves_add:
  assumes new: "rc_id r = ex_next_command_id s" "rc_state r = kQueued" "sound_request (rc_request r)"
    and one: "is_motion_command (rq_type (rc_request r)) \<Longrightarrow> \<nexists>i. live_motion (ex_commands s) i"
    and s': "ex_commands s' = store_emplace (rc_id r) r (ex_commands s)"
      "ex_queue s' = (if rq_type (rc_request r) = kStop then rc_id r # ex_queue s else ex_queue s @ [rc_id r])"
      "ex_next_command_id s' = rc_id r + 1" "ex_active_motion_id s' = ex_active_motion_id s"
    and idem: "ex_idempotency s' = ex_idempotency s
      \<or> ex_idempotency s' = store_put (idempotency_map_key (rc_request r)) (rc_id r) (ex_idempotency s)"
    and A: "rq_type (rc_request r) = kStop \<or> rc_request r \<in> A"
  shows "moves A infl s infl s'"
  unfolding moves_def
proof (intro impI conjI)
  assume inv: "exec_inv infl s"
  then have fresh: "store_find (ex_commands s) (ex_next_command_id s) = None"
    using known_id [OF inv, of "ex_next_command_id s"]
    by (cases "store_find (ex_commands s) (ex_next_command_id s)") (auto simp: find_command_def)
  show "exec_inv infl s'"
    using core_new [OF inv [unfolded exec_inv_def] new one s'(2) [unfolded new(1)], of "ex_idempotency s'"]
      idem s' new(1) by (simp add: exec_inv_def)
  show "evolves A s s'" using s' fresh new(1) A by (simp add: evolves_def find_command_def)
qed

lemma moves_request_internal_stop [intro]: "moves A infl s infl (request_internal_stop reason now s)"
proof (cases "ex_stop_requested s")
  case True
  then show ?thesis by (simp add: request_internal_stop_def)
next
  case False
  let ?r = "internal_stop_record (ex_next_command_id s) reason now"
  show ?thesis
    using False sound_internal_stop [of "ex_next_command_id s" reason now]
    by (intro moves_add [where r = ?r])
      (simp_all add: request_internal_stop_def internal_stop_record_def Let_def)
qed

lemma follows_live [simp]:
  "\<not> is_terminal (rc_state r) \<Longrightarrow> rc_state r \<noteq> kQueued \<Longrightarrow> follows r r' \<longleftrightarrow>
     rc_id r' = rc_id r \<and> rc_request r' = rc_request r \<and> rc_created_at r' = rc_created_at r
     \<and> (rc_state r' = kRunning \<or> is_terminal (rc_state r') \<and> rc_state r' \<noteq> kCancelled)"
  using not_terminal [of "rc_state r"] by (auto simp: follows_def may_become_def)

lemma moves_complete_active_motion [intro]:
  "is_terminal st \<Longrightarrow> st \<noteq> kCancelled \<Longrightarrow> moves A infl s infl (complete_active_motion st now s)"
  unfolding complete_active_motion_def
  by (cases "ex_active_motion_id s")
    (auto intro!: moves_settle_deactivate)

lemma moves_complete_active_program [intro]: "moves A infl s infl (complete_active_program now s)"
  unfolding complete_active_program_def
  by (auto split: option.splits intro!: moves_complete_active_motion)

lemma moves_finish_active_motion:
  "ex_active_motion_id s = Some i \<Longrightarrow> moves A infl s infl (finish_active_motion i now s)"
  unfolding finish_active_motion_def
  by (rule moves_settle_deactivate) auto

lemma moves_clear_active_jog [intro]: "moves A infl s infl (clear_active_jog s)"
  by (rule moves_frame) (simp_all add: clear_active_jog_def)


lemma request_internal_stop_deactivate:
  "request_internal_stop reason now (s\<lparr>ex_active_motion_id := None, ex_active_motion_seen := False\<rparr>)
    = (request_internal_stop reason now s)\<lparr>ex_active_motion_id := None, ex_active_motion_seen := False\<rparr>"
  by (simp add: request_internal_stop_def Let_def)

lemma moves_update_active_motion [intro]: "moves A infl s infl (update_active_motion opts now now' s)"
proof (cases "ex_active_motion_id s")
  case None
  then show ?thesis by (simp add: update_active_motion_def)
next
  case act: (Some i)
  have seen: "moves A infl s infl (s\<lparr>ex_active_motion_seen := True\<rparr>)" by (rule moves_frame) simp_all
  have fin: "moves A infl s infl (finish_active_motion i now s)" by (rule moves_finish_active_motion [OF act])
  show ?thesis
  proof (cases "find_command s i")
    case None
    have "moves A infl s infl (s\<lparr>ex_active_motion_id := None\<rparr>)"
      using act None by (intro moves_deactivate) auto
    then show ?thesis using act None by (simp add: update_active_motion_def)
  next
    case (Some command)
    have out: "moves A infl s infl (request_internal_stop reason now'
        (modify_record i (\<lambda>r. if is_terminal (rc_state r) then r
           else r\<lparr>rc_state := kTimedOut, rc_result := st, rc_updated_at := now\<rparr>) s))" for reason st
      by (rule moves_trans [OF moves_settle_active [OF act] moves_request_internal_stop]) auto
    have unsafe: "moves A infl s infl ((request_internal_stop reason now'
        (modify_record i (\<lambda>r. if is_terminal (rc_state r) then r
           else r\<lparr>rc_state := kFailed, rc_result := st, rc_updated_at := now\<rparr>) s))
        \<lparr>ex_active_motion_id := None, ex_active_motion_seen := False\<rparr>)" for reason st
      unfolding request_internal_stop_deactivate [symmetric]
      by (rule moves_trans [OF moves_settle_deactivate [OF act] moves_request_internal_stop]) auto
    show ?thesis
      using out unsafe seen fin Some act
      by (simp add: update_active_motion_def Let_def)
  qed
qed


section \<open>Cancelling\<close>

lemma queue_facts:
  assumes "exec_inv infl s"
  shows "distinct (ex_queue s)"
    and "i \<in> set (ex_queue s) \<longleftrightarrow> (\<exists>r. find_command s i = Some r \<and> rc_state r = kQueued)"
  using assms by (auto simp: exec_inv_def core_inv_def queue_ok_def find_command_def)

lemma queued_command:
  assumes "exec_inv infl s" "i \<in> set (ex_queue s)"
  obtains r where "find_command s i = Some r" "rc_state r = kQueued"
  using queue_facts(2) [OF assms(1)] assms(2) by blast

lemma follows_queued [simp]:
  "rc_state r = kQueued \<Longrightarrow> follows r r' \<longleftrightarrow>
     rc_id r' = rc_id r \<and> rc_request r' = rc_request r \<and> rc_created_at r' = rc_created_at r"
  by (simp add: follows_def may_become_def)

lemma moves_cancel:
  assumes "i \<in> set (ex_queue s)" and f: "\<And>r. rc_state r = kQueued \<Longrightarrow> follows r (f r) \<and> is_terminal (rc_state (f r))"
    and s': "ex_commands s' = ex_commands (modify_record i f s)" "ex_queue s' = remove1 i (ex_queue s)"
      "ex_idempotency s' = ex_idempotency s" "ex_next_command_id s' = ex_next_command_id s"
      "ex_active_motion_id s' = ex_active_motion_id s"
  shows "moves A infl s infl s'"
  unfolding moves_def
proof (intro impI conjI)
  assume inv: "exec_inv infl s"
  then obtain r where r: "find_command s i = Some r" "rc_state r = kQueued"
    by (rule queued_command [OF _ assms(1)])
  show "exec_inv infl s'"
    using core_cancel [OF inv [unfolded exec_inv_def], of i r "f r"] r f [OF r(2)] s' follows_same
    by (simp add: exec_inv_def find_command_def modify_record_def)
  have "evolves A s (modify_record i f s)" using r f by (intro evolves_modify) auto
  then show "evolves A s s'" using s' by (simp add: evolves_def find_command_def)
qed

lemma moves_cancel_queued:
  "ex_queue s = pre @ queue \<Longrightarrow> cancel_queued lease_id client_id clk queue (ex_commands s) = (kept, cmds)
     \<Longrightarrow> moves A infl s infl (s\<lparr>ex_queue := pre @ kept, ex_commands := cmds\<rparr>)"
proof (induction queue arbitrary: s pre kept)
  case Nil
  then show ?case by (auto intro!: moves_frame)
next
  case (Cons i queue)
  show ?case
  proof (rule moves_if_inv)
    assume inv: "exec_inv infl s"
    from Cons.prems(1) obtain r where r: "find_command s i = Some r" "rc_state r = kQueued"
      using queued_command [OF inv, of i] by auto
    let ?rq = "rc_request r"
    show ?thesis
    proof (cases "rq_type ?rq = kStop \<or> rq_lease_id ?rq \<noteq> lease_id \<or> rq_client_id ?rq \<noteq> client_id")
      case True
      then obtain kept' where k: "cancel_queued lease_id client_id clk queue (ex_commands s) = (kept', cmds)"
        "kept = i # kept'"
        using Cons.prems(2) r by (auto simp: find_command_def Let_def split: prod.splits)
      show ?thesis using Cons.IH [of s "pre @ [i]" kept'] Cons.prems(1) k by simp
    next
      case False
      let ?f = "\<lambda>r. r\<lparr>rc_state := kCancelled,
        rc_result := Status kPermissionDenied ''control lease released'', rc_updated_at := clk i\<rparr>"
      let ?s = "s\<lparr>ex_queue := pre @ queue, ex_commands := store_put i (?f r) (ex_commands s)\<rparr>"
      have "i \<notin> set pre" using queue_facts(1) [OF inv] Cons.prems(1) by simp
      then have "moves A infl s infl ?s"
        using Cons.prems(1) r
        by (intro moves_cancel [where f = ?f and i = i])
          (simp_all add: modify_record_def find_command_def remove1_append)
      also have "moves A infl ?s infl (?s\<lparr>ex_queue := pre @ kept, ex_commands := cmds\<rparr>)"
        using Cons.prems(2) r False
        by (intro Cons.IH) (simp_all add: find_command_def Let_def)
      finally show ?thesis by simp
    qed
  qed
qed

lemma moves_cancel_for_lease [intro]:
  "moves A infl s infl (cancel_queued_commands_for_lease lease_id client_id clk s)"
  using moves_cancel_queued [of s "[]" "ex_queue s" lease_id client_id clk]
  by (simp add: cancel_queued_commands_for_lease_def split: prod.split)

lemma cancel_all_fields:
  "ex_idempotency (cancel_all now q s) = ex_idempotency s
   \<and> ex_next_command_id (cancel_all now q s) = ex_next_command_id s
   \<and> ex_active_motion_id (cancel_all now q s) = ex_active_motion_id s
   \<and> ex_queue (cancel_all now q s) = ex_queue s"
  by (induction now q s rule: cancel_all.induct) simp_all

lemma cancel_all_queue:
  "cancel_all now q (s\<lparr>ex_queue := x\<rparr>) = (cancel_all now q s)\<lparr>ex_queue := x\<rparr>"
proof (induction q arbitrary: s)
  case (Cons i q)
  have "modify_record i f (s\<lparr>ex_queue := x\<rparr>) = (modify_record i f s)\<lparr>ex_queue := x\<rparr>" for f
    by (simp add: modify_record_def find_command_def split: option.split)
  then show ?case using Cons by simp
qed simp

lemma moves_cancel_all: "ex_queue s = q \<Longrightarrow> moves A infl s infl ((cancel_all now q s)\<lparr>ex_queue := []\<rparr>)"
proof (induction q arbitrary: s)
  case Nil
  then show ?case by (auto intro!: moves_frame)
next
  case (Cons i q)
  let ?f = "\<lambda>r. if is_terminal (rc_state r) then r else r\<lparr>rc_state := kCancelled,
    rc_result := Status kUnavailable ''command executor shut down'', rc_updated_at := now\<rparr>"
  let ?s = "(modify_record i ?f s)\<lparr>ex_queue := q\<rparr>"
  have "moves A infl s infl ?s"
    by (rule moves_cancel [where f = ?f and i = i]) (use Cons.prems in auto)
  also have "moves A infl ?s infl ((cancel_all now q ?s)\<lparr>ex_queue := []\<rparr>)"
    by (rule Cons.IH) simp
  finally show ?case by (simp add: cancel_all_queue)
qed

lemma moves_cancel_for_shutdown [intro]: "moves A infl s infl (cancel_commands_for_shutdown now s)"
  by (simp add: cancel_commands_for_shutdown_def moves_cancel_all)

lemma moves_displace:
  assumes "displace_for_stop now s = Some s'"
  shows "moves A infl s infl s'"
proof (rule moves_if_inv)
  assume inv: "exec_inv infl s"
  obtain i where i: "i \<in> set (ex_queue s)"
    and s': "s' = (modify_record i (\<lambda>r. r\<lparr>rc_state := kCancelled,
             rc_result := Status kResourceExhausted ''command was displaced by a safety stop'',
             rc_updated_at := now\<rparr>) s)\<lparr>ex_queue := remove_last i (ex_queue s)\<rparr>"
    using assms by (auto simp: displace_for_stop_def find_Some_iff split: option.splits)
      (metis nth_mem set_rev length_rev)
  show ?thesis unfolding s'
    by (rule moves_cancel [OF i])
      (simp_all add: remove_last_distinct [OF queue_facts(1) [OF inv]])
qed


section \<open>Submitting\<close>

text \<open>Pruning only removes settled records; everything else stays as it is.\<close>

lemma prune_history_find:
  "store_wf cmds \<Longrightarrow> prune_history limit cmds idem = (cmds', idem') \<Longrightarrow>
     store_find cmds' i = store_find cmds i
     \<or> store_find cmds' i = None \<and> (\<exists>r. store_find cmds i = Some r \<and> is_terminal (rc_state r))"
proof (induction limit cmds idem rule: prune_history.induct)
  case (1 limit cmds idem)
  show ?case
  proof (cases "store_size cmds \<ge> limit \<and> oldest_terminal cmds None \<noteq> None")
    case False
    then show ?thesis using 1 by (auto simp: prune_history.simps split: if_splits option.splits)
  next
    case True
    then obtain j r where ir: "oldest_terminal cmds None = Some (j, r)" by auto
    then have j: "store_find cmds j = Some r" "is_terminal (rc_state r)"
      using oldest_terminal_in [OF ir] 1(2) cs.entries_look [of cmds j r] by auto
    have "store_find cmds' i = store_find (store_erase j cmds) i
     \<or> store_find cmds' i = None \<and> (\<exists>r. store_find (store_erase j cmds) i = Some r \<and> is_terminal (rc_state r))"
      using 1 True ir by (simp add: prune_history.simps [of limit cmds] cs.wf_erase)
    then show ?thesis using j by (auto split: if_splits)
  qed
qed

lemma prune_fields [simp]:
  "ex_queue (prune_command_history opts s) = ex_queue s"
  "ex_active_motion_id (prune_command_history opts s) = ex_active_motion_id s"
  "ex_next_command_id (prune_command_history opts s) = ex_next_command_id s"
  by (simp_all add: prune_command_history_def split: prod.split)

lemma prune_find:
  assumes "exec_inv infl s"
  shows "find_command (prune_command_history opts s) i = find_command s i
    \<or> find_command (prune_command_history opts s) i = None
       \<and> (\<exists>r. find_command s i = Some r \<and> is_terminal (rc_state r))"
  using assms prune_history_find [of "ex_commands s"]
  by (auto simp: find_command_def prune_command_history_def exec_inv_def core_inv_def records_ok_def
      split: prod.split)

lemma moves_prune [intro]: "moves A infl s infl (prune_command_history opts s)"
  unfolding moves_def
proof (intro impI conjI)
  assume inv: "exec_inv infl s"
  then show "exec_inv infl (prune_command_history opts s)"
    using core_prune by (auto simp: exec_inv_def prune_command_history_def split: prod.split)
  show "evolves A s (prune_command_history opts s)"
    unfolding evolves_def
    using prune_find [OF inv, of opts] follows_refl
    by (intro conjI allI impI) (metis order_refl prune_fields(3) option.distinct(1))+
qed

lemma motion_pending_iff:
  "store_wf (ex_commands s) \<Longrightarrow> motion_pending s \<longleftrightarrow> (\<exists>i. live_motion (ex_commands s) i)"
  using cs.ex_entry [of "ex_commands s"
    "\<lambda>i r. is_motion_command (rq_type (rc_request r)) \<and> \<not> is_terminal (rc_state r)"]
  by (auto simp: motion_pending_def live_motion_def list_ex_iff case_prod_beta)

lemma inv_wf: "exec_inv infl s \<Longrightarrow> store_wf (ex_commands s)"
  by (simp add: exec_inv_def core_inv_def records_ok_def)

lemma live_after_prune:
  assumes "exec_inv infl s" "live_motion (ex_commands (prune_command_history opts s)) i"
  shows "live_motion (ex_commands s) i"
  using assms(2) prune_find [OF assms(1), of opts i] by (auto simp: live_motion_def find_command_def)

lemma moves_submit_enqueue:
  assumes "sound_request request" and A: "request \<in> A"
    and one: "is_motion_command (rq_type request) \<Longrightarrow> \<not> motion_pending s"
  shows "moves A infl s infl (snd (submit_enqueue opts now request s))"
proof (rule moves_if_inv)
  assume inv: "exec_inv infl s"
  let ?s = "prune_command_history opts s"
  let ?r = "\<lparr>rc_id = ex_next_command_id ?s, rc_request = request, rc_state = kQueued,
    rc_result = StatusOk, rc_created_at = now, rc_updated_at = now\<rparr>"
  have none: "\<nexists>i. live_motion (ex_commands ?s) i" if "is_motion_command (rq_type request)"
    using one [OF that] motion_pending_iff [OF inv_wf [OF inv]] live_after_prune [OF inv] by blast
  have "moves A infl ?s infl (snd (submit_enqueue opts now request s))"
  proof (cases "store_size (ex_commands ?s) \<ge> eo_maximum_command_history opts")
    case True
    then show ?thesis by (simp add: submit_enqueue_def Let_def)
  next
    case False
    then show ?thesis
      using assms(1) A none
      by (intro moves_add [where r = ?r]) (simp_all add: submit_enqueue_def Let_def)
  qed
  with moves_prune show ?thesis by (rule moves_trans)
qed

lemma moves_submit_commit:
  assumes "sound_request request" and A: "request \<in> A"
  shows "moves A infl s infl (snd (submit_commit opts clk request s))"
proof -
  have enq: "moves A infl s infl (snd (submit_enqueue opts now request s))"
    if "\<not> (is_motion_command (rq_type request) \<and> motion_pending s)" for now
    using assms that by (intro moves_submit_enqueue) auto
  have dis: "moves A infl s infl (snd (submit_enqueue opts now request s1))"
    if "displace_for_stop t s = Some s1" "rq_type request = kStop" for now t s1
    using assms that by (intro moves_trans [OF moves_displace moves_submit_enqueue]) auto
  show ?thesis
    using enq dis by (auto simp: submit_commit_def Let_def split: option.split)
qed


section \<open>Worker and poller\<close>

definition taken :: "take_result \<Rightarrow> command_record option" where
  "taken t = (case t of TakeRun record \<Rightarrow> Some record | _ \<Rightarrow> None)"

lemma executable_in_queue:
  "find_executable_command s = Some i \<Longrightarrow> i \<in> set (ex_queue s) \<and> is_executable s i"
  by (auto simp: find_executable_command_def find_Some_iff)

lemma executable_motion:
  "is_executable s i \<Longrightarrow> find_command s i = Some r \<Longrightarrow> is_motion_command (rq_type (rc_request r))
     \<Longrightarrow> ex_active_motion_id s = None"
  by (auto simp: is_executable_def can_run_during_motion_def is_motion_command_def
      split: option.splits)

lemma find_command_queue [simp]: "find_command (s\<lparr>ex_queue := q\<rparr>) i = find_command s i"
  by (simp add: find_command_def)

lemma modify_record_queue:
  "modify_record i f (s\<lparr>ex_queue := q\<rparr>) = (modify_record i f s)\<lparr>ex_queue := q\<rparr>"
  by (simp add: modify_record_def split: option.split)

lemma moves_worker_take:
  assumes "worker_take now s = (t, s')"
  shows "moves A None s (taken t) s'"
proof (cases "ex_shutting_down s \<or> find_executable_command s = None")
  case True
  then show ?thesis using assms by (auto simp: worker_take_def taken_def split: if_splits)
next
  case False
  then obtain i where fe: "find_executable_command s = Some i" and up: "\<not> ex_shutting_down s" by auto
  show ?thesis
  proof (rule moves_if_inv)
    assume inv: "exec_inv None s"
    have iq: "i \<in> set (ex_queue s)" and ex: "is_executable s i" using executable_in_queue [OF fe] by auto
    obtain r where r: "find_command s i = Some r" "rc_state r = kQueued"
      using queued_command [OF inv iq] .
    let ?out = "\<lambda>r. r\<lparr>rc_state := kTimedOut,
      rc_result := Status kDeadlineExceeded ''command timed out before execution'', rc_updated_at := now\<rparr>"
    let ?run = "\<lambda>r. r\<lparr>rc_state := kRunning, rc_updated_at := now\<rparr>"
    show ?thesis
    proof (cases "timed_out now r")
      case True
      then have "t = TakeContinue" and s': "s' = (modify_record i ?out s)\<lparr>ex_queue := remove1 i (ex_queue s)\<rparr>"
        using assms up fe r by (auto simp: worker_take_def Let_def modify_record_queue)
      moreover have "moves A None s None s'"
        unfolding s' by (rule moves_cancel [where f = ?out, OF iq]) simp_all
      ultimately show ?thesis by (simp add: taken_def)
    next
      case False
      then have t: "t = TakeRun (?run r)"
        and s': "s' = (modify_record i ?run s)\<lparr>ex_queue := remove1 i (ex_queue s)\<rparr>"
        using assms up fe r by (auto simp: worker_take_def Let_def modify_record_queue)
      have "exec_inv (Some (?run r)) s'"
        using core_take [OF inv [unfolded exec_inv_def], of i r "?run r"] r executable_motion [OF ex r(1)]
        unfolding s' by (simp add: exec_inv_def find_command_def modify_record_def same_command_def)
      moreover have "evolves A s (modify_record i ?run s)"
        using r by (intro evolves_modify) auto
      then have "evolves A s s'" unfolding s' by (simp add: evolves_def)
      ultimately show ?thesis by (simp add: t taken_def moves_def)
    qed
  qed
qed

lemma running_facts:
  assumes "exec_inv (Some record) s"
  obtains r where "find_command s (rc_id record) = Some r" "rc_state r = kRunning"
    "rc_request r = rc_request record"
  using assms by (auto simp: exec_inv_def core_inv_def infl_ok_def find_command_def)

text \<open>The worker settles the record in its hands.\<close>

lemma moves_worker_settle:
  assumes f: "\<And>r. rc_state r = kRunning \<Longrightarrow> follows r (f r) \<and> is_terminal (rc_state (f r))"
  shows "moves A (Some record) s None (modify_record (rc_id record) f s)"
  unfolding moves_def
proof (intro impI conjI)
  assume inv: "exec_inv (Some record) s"
  obtain r where r: "find_command s (rc_id record) = Some r" "rc_state r = kRunning"
    using running_facts [OF inv] .
  show "exec_inv None (modify_record (rc_id record) f s)"
    using core_finish [OF inv [unfolded exec_inv_def], of r "f r"] r f [OF r(2)] follows_same
    by (simp add: exec_inv_def modify_record_def find_command_def)
  show "evolves A s (modify_record (rc_id record) f s)"
    using r f by (intro evolves_modify) auto
qed

lemma moves_worker_touch:
  assumes f: "\<And>r. rc_state r = kRunning \<Longrightarrow> follows r (f r) \<and> rc_state (f r) = kRunning"
  shows "moves A (Some record) s (Some record) (modify_record (rc_id record) f s)"
  unfolding moves_def
proof (intro impI conjI)
  assume inv: "exec_inv (Some record) s"
  obtain r where r: "find_command s (rc_id record) = Some r" "rc_state r = kRunning"
    using running_facts [OF inv] .
  show "exec_inv (Some record) (modify_record (rc_id record) f s)"
    using core_touch [OF inv [unfolded exec_inv_def], of "rc_id record" r "f r"] r f [OF r(2)] follows_same
    by (simp add: exec_inv_def modify_record_def find_command_def)
  show "evolves A s (modify_record (rc_id record) f s)"
    using r f by (intro evolves_modify) auto
qed

lemma follows_running [simp]:
  "rc_state r = kRunning \<Longrightarrow> follows r r' \<longleftrightarrow>
     rc_id r' = rc_id r \<and> rc_request r' = rc_request r \<and> rc_created_at r' = rc_created_at r
     \<and> (rc_state r' = kRunning \<or> is_terminal (rc_state r') \<and> rc_state r' \<noteq> kCancelled)"
  by (auto simp: follows_def may_become_def)

text \<open>A started motion never finds another motion active: the branch of the code is dead.\<close>

lemma never_superseded:
  assumes "exec_inv (Some record) s" "is_motion_command (rq_type (rc_request record))"
  shows "ex_active_motion_id s = None"
  using assms core_activate(1) by (auto simp: exec_inv_def)

lemma moves_finish_motion:
  assumes motion: "is_motion_command (rq_type (rc_request record))"
  shows "moves A (Some record) s None (finish_motion clk record s)"
proof (rule moves_if_inv)
  assume inv: "exec_inv (Some record) s"
  let ?s = "s\<lparr>ex_active_motion_id := Some (rc_id record), ex_active_motion_started_at := clk 1,
    ex_active_motion_seen := False, ex_stop_requested := False\<rparr>"
  have "exec_inv None ?s"
    using core_activate(2) [OF inv [unfolded exec_inv_def] motion] by (simp add: exec_inv_def)
  moreover have "evolves A s ?s" by (simp add: evolves_def find_command_def)
  ultimately have "moves A (Some record) s None ?s" by (simp add: moves_def)
  moreover have "moves A None ?s None (request_internal_stop reason now ?s)" for reason now by blast
  ultimately show ?thesis
    using never_superseded [OF inv motion] moves_trans by (auto simp: finish_motion_def Let_def)
qed


lemma moves_finish_jog [intro]: "moves A infl s infl (finish_jog opts clk record s)"
proof -
  have frame: "moves A infl s infl (s\<lparr>ex_jog_active := True, ex_active_jog_client_id := c,
      ex_active_jog_lease_id := l, ex_jog_deadline := d\<rparr>)" for c l d
    by (rule moves_frame) simp_all
  show ?thesis
    using frame moves_trans [OF frame moves_request_internal_stop]
    by (auto simp: finish_jog_def Let_def split: command_payload.split)
qed

lemma moves_finish_success:
  "moves A (Some record) s None (finish_success opts clk record s)"
proof -
  let ?type = "rq_type (rc_request record)"
  have 1: "moves A (Some record) s None (modify_record (rc_id record) (\<lambda>r. r\<lparr>rc_state := kSucceeded\<rparr>) s)"
    by (rule moves_worker_settle) simp
  have 2: "moves A None t None (if ?type = kLoadProgram then t\<lparr>ex_loaded_approved_program := p\<rparr> else t)" for t p
    by (auto intro: moves_frame)
  have 3: "moves A None t None (if ?type = kJog then finish_jog opts clk record t else t)" for t by auto
  have 4: "moves A None t None (if b then (clear_active_jog (complete_active_motion kStopped (clk 1) t))
      \<lparr>ex_stop_requested := False\<rparr> else t)" for t b
  proof -
    have "moves A None (clear_active_jog (complete_active_motion kStopped (clk 1) t)) None
      ((clear_active_jog (complete_active_motion kStopped (clk 1) t))\<lparr>ex_stop_requested := False\<rparr>)"
      by (rule moves_frame) simp_all
    from moves_trans [OF moves_trans [OF moves_complete_active_motion moves_clear_active_jog] this]
    show ?thesis by simp
  qed
  have 5: "moves A None t None (if b then (complete_active_program (clk 1) t)
      \<lparr>ex_stop_requested := False\<rparr> else t)" for t b
  proof -
    have "moves A None (complete_active_program (clk 1) t) None
      ((complete_active_program (clk 1) t)\<lparr>ex_stop_requested := False\<rparr>)"
      by (rule moves_frame) simp_all
    from moves_trans [OF moves_complete_active_program this] show ?thesis by simp
  qed
  show ?thesis
    unfolding finish_success_def Let_def
    by (rule moves_trans [OF moves_trans [OF moves_trans [OF moves_trans [OF 1 2] 3] 4] 5])
qed

lemma moves_worker_finish: "moves A (Some record) s None (worker_finish opts clk record result s)"
proof (rule moves_if_inv)
  assume inv: "exec_inv (Some record) s"
  obtain r where r: "find_command s (rc_id record) = Some r" using running_facts [OF inv] .
  let ?s = "modify_record (rc_id record) (\<lambda>r. r\<lparr>rc_result := result, rc_updated_at := clk 0\<rparr>) s"
  have 1: "moves A (Some record) s (Some record) ?s" by (rule moves_worker_touch) simp
  have 2: "moves A (Some record) ?s None (modify_record (rc_id record) (\<lambda>r. r\<lparr>rc_state := kFailed\<rparr>) ?s)"
    by (rule moves_worker_settle) simp
  have "moves A (Some record) ?s None (worker_finish opts clk record result s)"
    using 2 moves_finish_motion moves_finish_success r by (simp add: worker_finish_def Let_def)
  with 1 show ?thesis by (rule moves_trans)
qed

lemma moves_if: "moves A infl s infl t \<Longrightarrow> moves A infl s infl (if b then t else s)"
  by simp

lemma moves_poll_apply: "moves A infl s infl (poll_apply opts clk state s)"
proof -
  obtain l u where lu: "poll_snapshot opts (clk 0) state (ex_latest_state s) = (l, u)" by fastforce
  define s1 where "s1 = s\<lparr>ex_latest_state := l\<rparr>"
  define s2 where "s2 = (if u then update_active_motion opts (clk 1) (clk 2) s1 else s1)"
  define s3 where "s3 = (if ex_active_motion_id s2 \<noteq> None \<and> \<not> active_motion_lease_is_valid (clk 3) s2
    then request_internal_stop ''control lease expired'' (clk 4) s2 else s2)"
  have "moves A infl s infl s1" unfolding s1_def by (rule moves_frame) simp_all
  also have "moves A infl s1 infl s2" unfolding s2_def by (intro moves_if) blast
  also have "moves A infl s2 infl s3" unfolding s3_def by (intro moves_if) blast
  also have "moves A infl s3 infl (poll_apply opts clk state s)"
    unfolding poll_apply_def lu Let_def prod.case s1_def [symmetric] s2_def [symmetric] s3_def [symmetric]
    by (intro moves_if) blast
  finally show ?thesis .
qed

lemma moves_release_lease_finish: "moves A infl s infl (release_lease_finish lease_id client_id clk now s)"
  unfolding release_lease_finish_def Let_def
  by (rule moves_trans [OF moves_cancel_for_lease moves_if]) blast

lemma moves_shutdown_finish: "moves A infl s infl (shutdown_finish stop_status clk s)"
proof -
  let ?s1 = "cancel_commands_for_shutdown (clk 0) s"
  define s2 where "s2 = (case ex_active_motion_id ?s1 of
                 None \<Rightarrow> ?s1
               | Some i \<Rightarrow>
                   (modify_record i (\<lambda>r. if is_terminal (rc_state r) then r
                      else r\<lparr>rc_state := (if status_ok stop_status then kStopped else kFailed),
                             rc_result := stop_status, rc_updated_at := clk 1\<rparr>) ?s1)
                     \<lparr>ex_active_motion_id := None, ex_active_motion_seen := False\<rparr>)"
  have "moves A infl ?s1 infl s2"
    unfolding s2_def by (cases "ex_active_motion_id ?s1") (auto intro!: moves_settle_deactivate)
  then have "moves A infl s infl s2" by (rule moves_trans [OF moves_cancel_for_shutdown])
  also have "moves A infl s2 infl ((clear_active_jog s2)\<lparr>ex_stop_requested := False\<rparr>)"
    by (rule moves_frame) (simp_all add: clear_active_jog_def)
  finally show ?thesis by (simp add: shutdown_finish_def Let_def s2_def)
qed

lemma moves_start: "moves A infl s infl (fst (snd (start opts driver connection now threads s d)))"
  by (rule moves_frame)
    (simp_all add: start_def Let_def split: option.split prod.split sum.split thread_start.split)


section \<open>The guard admits sound requests only\<close>

lemma finite_pose_equal: "is_finite_pose p \<Longrightarrow> poses_equal p p"
  by (simp add: is_finite_pose_def poses_equal_def)

lemma list_all2_same: "list_all2 P xs ys \<Longrightarrow> (\<And>x y. P x y \<Longrightarrow> Q x x) \<Longrightarrow> list_all2 Q xs xs"
  by (induction rule: list_all2_induct) auto

lemma joints_equal: "joints_within limits vs \<Longrightarrow> list_all2 dbl_eq vs vs"
  unfolding joints_within_def by (erule list_all2_same) simp

lemma payload_permits_equal:
  assumes "payload_permits pol sn ja (rq_type rq) (rq_payload rq)"
  shows "payloads_equal rq rq = Some True"
  using assms
  by (cases "rq_payload rq"; cases "rq_type rq")
    (auto simp: payloads_equal_def payload_permits_def move_j_permits_def cartesian_permits_def
      joints_equal finite_pose_equal)

lemma validate_sound_request:
  "status_ok (validate pol rq sn lease ja) \<Longrightarrow> sound_request rq"
  using payload_permits_equal validate_ok_payload_type [of pol rq sn lease ja]
  by (auto simp: sound_request_def validate_ok_iff permitted_def)

end
