(* ===== verification/ExecutorSystem.thy ===== *)
theory ExecutorSystem
  imports ExecutorPreserve
begin

text \<open>
  The running executor: one worker thread, one polling thread, any number of client threads
  and one thread that shuts it down, interleaved at their critical sections. A step is one
  section under \<open>mutex_\<close> (an operation of \<open>ExecutorOps\<close>), one call of the lease manager
  under its own mutex, or one driver call under \<open>driver_mutex_\<close>; the program counters hold
  the local variables that live across sections. Clock readings are arbitrary, so the results
  hold for every timing.
\<close>

section \<open>Threads\<close>

text \<open>What the worker's second validation saw: the snapshot, the lease verdict, the jog flag.\<close>

record guard_view =
  gv_snapshot :: robot_snapshot
  gv_lease_valid :: bool
  gv_jog_active :: bool

datatype worker_pc =
    WIdle
  | WTaken command_record
  | WCopied command_record robot_snapshot bool
  | WJudged command_record guard_view status
  | WReady command_record guard_view status
  | WDone command_record status
  | WExited

datatype poller_pc = PIdle | PReading | PApplying "robot_snapshot status_or" | PSleeping | PExited

datatype client_pc =
    CIdle
  | CSubmitting command_request robot_snapshot bool
  | CApproved command_request
  | CReturned command_request "nat status_or outcome"
  | CAcquiring string
  | CRenewing string string
  | CReleased string string
  | CReadingAlarms
  | CReadingInput u32
  | CReadingOutput u32

datatype shutdown_pc = SIdle | SMarked | SStopped status | SJoined status | SDisconnected status | SDone

record driver_call =
  dc_request :: command_request
  dc_view :: guard_view

record 'd system =
  sy_exec :: exec_state
  sy_driver :: 'd
  sy_worker :: worker_pc
  sy_poller :: poller_pc
  sy_clients :: "nat \<Rightarrow> client_pc"
  sy_shutdown :: shutdown_pc
  sy_calls :: "driver_call list"

section \<open>Steps\<close>

text \<open>
  \<open>WorkerLoop\<close>. The wait predicate and the sections after it run under one lock; \<open>calls\<close> is
  the driver call the step makes, if any.
\<close>

inductive worker_step :: "'d robot_driver \<Rightarrow> safety_policy \<Rightarrow> executor_options
    \<Rightarrow> worker_pc \<times> exec_state \<times> 'd \<Rightarrow> driver_call list \<Rightarrow> worker_pc \<times> exec_state \<times> 'd \<Rightarrow> bool"
  for drv policy opts where
  exit: "worker_wakes t s \<Longrightarrow> worker_take now s = (TakeExit, s')
    \<Longrightarrow> worker_step drv policy opts (WIdle, s, d) [] (WExited, s', d)"
| again: "worker_wakes t s \<Longrightarrow> worker_take now s = (TakeContinue, s')
    \<Longrightarrow> worker_step drv policy opts (WIdle, s, d) [] (WIdle, s', d)"
| take_command: "worker_wakes t s \<Longrightarrow> worker_take now s = (TakeRun record, s')
    \<Longrightarrow> worker_step drv policy opts (WIdle, s, d) [] (WTaken record, s', d)"
| copy: "worker_step drv policy opts (WTaken record, s, d) []
      (WCopied record (ex_latest_state s) (ex_jog_active s), s, d)"
| judge: "valid = record_lease_valid now (rc_request record) s
    \<Longrightarrow> worker_step drv policy opts (WCopied record snapshot jog, s, d) []
      (WJudged record \<lparr>gv_snapshot = snapshot, gv_lease_valid = valid, gv_jog_active = jog\<rparr>
         (validate policy (rc_request record) snapshot valid jog), s, d)"
| check: "worker_step drv policy opts (WJudged record view result, s, d) []
      (WReady record view (worker_check_program record result s), s, d)"
| call: "status_ok result \<Longrightarrow> execute_caught drv (rc_request record) d = (result', d')
    \<Longrightarrow> worker_step drv policy opts (WReady record view result, s, d)
      [\<lparr>dc_request = rc_request record, dc_view = view\<rparr>] (WDone record result', s, d')"
| skip: "\<not> status_ok result
    \<Longrightarrow> worker_step drv policy opts (WReady record view result, s, d) [] (WDone record result, s, d)"
| finish: "worker_step drv policy opts (WDone record result, s, d) []
      (WIdle, worker_finish opts clk record result s, d)"

text \<open>\<open>PollLoop\<close>.\<close>

inductive poller_step :: "'d robot_driver \<Rightarrow> executor_options
    \<Rightarrow> poller_pc \<times> exec_state \<times> 'd \<Rightarrow> poller_pc \<times> exec_state \<times> 'd \<Rightarrow> bool"
  for drv opts where
  top: "poller_step drv opts (PIdle, s, d)
    (if ex_shutting_down s then PExited else PReading, s, d)"
| read: "rd_read_state drv d = (state, d') \<Longrightarrow> poller_step drv opts (PReading, s, d) (PApplying state, s, d')"
| digest: "poller_step drv opts (PApplying state, s, d) (PSleeping, poll_apply opts clk state s, d)"
| wake: "poller_step drv opts (PSleeping, s, d)
    (if ex_shutting_down s then PExited else PIdle, s, d)"

text \<open>A client thread in one of the public operations.\<close>

inductive client_step :: "'d robot_driver \<Rightarrow> safety_policy \<Rightarrow> executor_options
    \<Rightarrow> client_pc \<times> exec_state \<times> 'd \<Rightarrow> client_pc \<times> exec_state \<times> 'd \<Rightarrow> bool"
  for drv policy opts where
  submit_answered: "submit_begin request s = Inl r
    \<Longrightarrow> client_step drv policy opts (CIdle, s, d) (CReturned request r, s, d)"
| submit_begun: "submit_begin request s = Inr (snapshot, jog)
    \<Longrightarrow> client_step drv policy opts (CIdle, s, d) (CSubmitting request snapshot jog, s, d)"
| submit_rejected: "validation = validate policy request snapshot (record_lease_valid now request s) jog
    \<Longrightarrow> \<not> status_ok validation
    \<Longrightarrow> client_step drv policy opts (CSubmitting request snapshot jog, s, d)
      (CReturned request (Returned (Inl validation)), s, d)"
| submit_approved: "status_ok (validate policy request snapshot (record_lease_valid now request s) jog)
    \<Longrightarrow> client_step drv policy opts (CSubmitting request snapshot jog, s, d) (CApproved request, s, d)"
| submit_committed: "submit_commit opts clk request s = (r, s')
    \<Longrightarrow> client_step drv policy opts (CApproved request, s, d) (CReturned request r, s', d)"
| returned: "client_step drv policy opts (CReturned request r, s, d) (CIdle, s, d)"
| acquire_begin: "is_accepting s \<Longrightarrow> client_step drv policy opts (CIdle, s, d) (CAcquiring client, s, d)"
| acquire: "lease_acquire now client (ex_lease_manager s) = (r, m)
    \<Longrightarrow> client_step drv policy opts (CAcquiring client, s, d) (CIdle, s\<lparr>ex_lease_manager := m\<rparr>, d)"
| renew_begin: "is_accepting s
    \<Longrightarrow> client_step drv policy opts (CIdle, s, d) (CRenewing lease_id client, s, d)"
| renew: "lease_renew now lease_id client (ex_lease_manager s) = (r, m)
    \<Longrightarrow> client_step drv policy opts (CRenewing lease_id client, s, d)
      (CIdle, s\<lparr>ex_lease_manager := m\<rparr>, d)"
| release_refused: "release_lease_begin lease_id client s = (st, s') \<Longrightarrow> \<not> status_ok st
    \<Longrightarrow> client_step drv policy opts (CIdle, s, d) (CIdle, s', d)"
| release_begun: "release_lease_begin lease_id client s = (st, s') \<Longrightarrow> status_ok st
    \<Longrightarrow> client_step drv policy opts (CIdle, s, d) (CReleased lease_id client, s', d)"
| release: "client_step drv policy opts (CReleased lease_id client, s, d)
      (CIdle, release_lease_finish lease_id client clk now s, d)"
| alarms_begin: "is_accepting s \<Longrightarrow> client_step drv policy opts (CIdle, s, d) (CReadingAlarms, s, d)"
| alarms: "client_step drv policy opts (CReadingAlarms, s, d) (CIdle, s, snd (rd_read_alarms drv d))"
| din_begin: "is_accepting s \<Longrightarrow> client_step drv policy opts (CIdle, s, d) (CReadingInput index, s, d)"
| din: "client_step drv policy opts (CReadingInput index, s, d)
      (CIdle, s, snd (rd_read_digital_input drv index d))"
| dout_begin: "is_accepting s \<Longrightarrow> client_step drv policy opts (CIdle, s, d) (CReadingOutput index, s, d)"
| dout: "client_step drv policy opts (CReadingOutput index, s, d)
      (CIdle, s, snd (rd_read_digital_output drv index d))"

text \<open>\<open>Shutdown\<close>; \<open>exited\<close>: both threads have returned, so the joins return.\<close>

inductive shutdown_step :: "'d robot_driver \<Rightarrow> bool
    \<Rightarrow> shutdown_pc \<times> exec_state \<times> 'd \<Rightarrow> shutdown_pc \<times> exec_state \<times> 'd \<Rightarrow> bool"
  for drv exited where
  mark: "shutdown_begin s = Some s' \<Longrightarrow> shutdown_step drv exited (SIdle, s, d) (SMarked, s', d)"
| stop: "rd_stop drv kControlled d = (Returned st, d')
    \<Longrightarrow> shutdown_step drv exited (SMarked, s, d) (SStopped st, s, d')"
| join: "exited \<Longrightarrow> shutdown_step drv exited (SStopped st, s, d) (SJoined st, shutdown_join s, d)"
| disconnect: "shutdown_step drv exited (SJoined st, s, d) (SDisconnected st, s, shutdown_release drv d)"
| finish: "shutdown_step drv exited (SDisconnected st, s, d) (SDone, shutdown_finish st clk s, d)"

inductive sys_step :: "'d robot_driver \<Rightarrow> safety_policy \<Rightarrow> executor_options \<Rightarrow> 'd system \<Rightarrow> 'd system \<Rightarrow> bool"
  for drv policy opts where
  worker: "worker_step drv policy opts (sy_worker y, sy_exec y, sy_driver y) calls (pc, s, d)
    \<Longrightarrow> sys_step drv policy opts y (y\<lparr>sy_worker := pc, sy_exec := s, sy_driver := d,
          sy_calls := sy_calls y @ calls\<rparr>)"
| poller: "poller_step drv opts (sy_poller y, sy_exec y, sy_driver y) (pc, s, d)
    \<Longrightarrow> sys_step drv policy opts y (y\<lparr>sy_poller := pc, sy_exec := s, sy_driver := d\<rparr>)"
| client: "client_step drv policy opts (sy_clients y i, sy_exec y, sy_driver y) (pc, s, d)
    \<Longrightarrow> sys_step drv policy opts y (y\<lparr>sy_clients := (sy_clients y)(i := pc), sy_exec := s, sy_driver := d\<rparr>)"
| shutdown: "shutdown_step drv (sy_worker y = WExited \<and> sy_poller y = PExited)
      (sy_shutdown y, sy_exec y, sy_driver y) (pc, s, d)
    \<Longrightarrow> sys_step drv policy opts y (y\<lparr>sy_shutdown := pc, sy_exec := s, sy_driver := d\<rparr>)"

text \<open>The system after a \<open>Start\<close> that started the threads.\<close>

definition started :: "exec_state \<Rightarrow> 'd \<Rightarrow> 'd system" where
  "started s d = \<lparr>sy_exec = s, sy_driver = d, sy_worker = WIdle, sy_poller = PIdle,
     sy_clients = (\<lambda>_. CIdle), sy_shutdown = SIdle, sy_calls = []\<rparr>"

inductive reachable :: "'d robot_driver \<Rightarrow> safety_policy \<Rightarrow> executor_options \<Rightarrow> 'd system \<Rightarrow> bool"
  for drv policy opts where
  init: "start opts (Some drv) connection now ThreadsStarted (new_executor opts) d0 = (st, s, d)
    \<Longrightarrow> ex_running s \<Longrightarrow> reachable drv policy opts (started s d)"
| step: "reachable drv policy opts y \<Longrightarrow> sys_step drv policy opts y y' \<Longrightarrow> reachable drv policy opts y'"


section \<open>Fields no section but its owner changes\<close>

definition flags :: "exec_state \<Rightarrow> bool \<times> bool \<times> bool \<times> bool" where
  "flags s = (ex_running s, ex_started_once s, ex_shutting_down s, ex_threads_joinable s)"

text \<open>The flags of the threads and the loaded program.\<close>

definition steady :: "exec_state \<Rightarrow> (bool \<times> bool \<times> bool \<times> bool) \<times> string" where
  "steady s = (flags s, ex_loaded_approved_program s)"

lemma steady_modify [simp]: "steady (modify_record i f s) = steady s"
  by (simp add: steady_def flags_def modify_record_def split: option.split)

lemma steady_updates [simp]:
  "steady (s\<lparr>ex_queue := q\<rparr>) = steady s" "steady (s\<lparr>ex_active_motion_id := a\<rparr>) = steady s"
  "steady (s\<lparr>ex_active_motion_seen := b\<rparr>) = steady s" "steady (s\<lparr>ex_stop_requested := b\<rparr>) = steady s"
  "steady (s\<lparr>ex_active_motion_started_at := t\<rparr>) = steady s" "steady (s\<lparr>ex_latest_state := l\<rparr>) = steady s"
  "steady (s\<lparr>ex_jog_active := b\<rparr>) = steady s" "steady (s\<lparr>ex_active_jog_client_id := c\<rparr>) = steady s"
  "steady (s\<lparr>ex_active_jog_lease_id := c\<rparr>) = steady s" "steady (s\<lparr>ex_jog_deadline := t\<rparr>) = steady s"
  "steady (s\<lparr>ex_commands := c'\<rparr>) = steady s" "steady (s\<lparr>ex_idempotency := e\<rparr>) = steady s"
  "steady (s\<lparr>ex_next_command_id := n\<rparr>) = steady s" "steady (s\<lparr>ex_lease_manager := m\<rparr>) = steady s"
  by (simp_all add: steady_def flags_def)

lemma steady_internal_stop [simp]: "steady (request_internal_stop reason now s) = steady s"
  by (simp add: request_internal_stop_def Let_def)

lemma steady_complete [simp]: "steady (complete_active_motion st now s) = steady s"
  by (simp add: complete_active_motion_def split: option.split)

lemma steady_complete_program [simp]: "steady (complete_active_program now s) = steady s"
  by (simp add: complete_active_program_def split: option.split)

lemma steady_jog [simp]: "steady (clear_active_jog s) = steady s"
  "steady (finish_jog opts clk record s) = steady s"
  by (simp_all add: clear_active_jog_def finish_jog_def Let_def split: command_payload.split)

lemma steady_finish_active [simp]: "steady (finish_active_motion i now s) = steady s"
  by (simp add: finish_active_motion_def)

lemma steady_update_active [simp]: "steady (update_active_motion opts now now' s) = steady s"
  by (simp add: update_active_motion_def Let_def split: option.split)

lemma steady_cancel [simp]:
  "steady (cancel_queued_commands_for_lease lease_id client_id clk s) = steady s"
  by (simp add: cancel_queued_commands_for_lease_def split: prod.split)

lemma steady_cancel_all [simp]: "steady (cancel_all now q s) = steady s"
  by (induction now q s rule: cancel_all.induct) simp_all

lemma steady_prune [simp]: "steady (prune_command_history opts s) = steady s"
  by (simp add: prune_command_history_def split: prod.split)

lemma steady_submit [simp]: "steady (snd (submit_commit opts clk request s)) = steady s"
proof -
  have enq: "steady (snd (submit_enqueue opts now request s)) = steady s" for now s
    by (simp add: submit_enqueue_def Let_def)
  have "displace_for_stop t s = Some s1 \<Longrightarrow> steady s1 = steady s" for t s1
    by (auto simp: displace_for_stop_def split: option.splits)
  with enq show ?thesis by (simp add: submit_commit_def split: option.split)
qed

lemma steady_take: "worker_take now s = (t, s') \<Longrightarrow> steady s' = steady s"
  by (auto simp: worker_take_def Let_def split: if_splits option.splits)

lemma steady_poll [simp]: "steady (poll_apply opts clk state s) = steady s"
  by (simp add: poll_apply_def Let_def case_prod_beta)

lemma steady_release [simp]: "steady (release_lease_finish lease_id client_id clk now s) = steady s"
  by (simp add: release_lease_finish_def Let_def)

lemma steady_shutdown_finish [simp]: "steady (shutdown_finish st clk s) = steady s"
  by (simp add: shutdown_finish_def cancel_commands_for_shutdown_def Let_def split: option.split)

lemma steady_loaded [simp]: "steady (s\<lparr>ex_loaded_approved_program := p\<rparr>) = (fst (steady s), p)"
  by (simp add: steady_def flags_def)

lemma steady_finish_motion [simp]: "steady (finish_motion clk record s) = steady s"
  by (simp add: finish_motion_def Let_def)

text \<open>Only a successful \<open>kLoadProgram\<close> changes the loaded program, to its payload.\<close>

definition loaded_after :: "command_record \<Rightarrow> status \<Rightarrow> string \<Rightarrow> string" where
  "loaded_after record result old =
    (if status_ok result \<and> rq_type (rc_request record) = kLoadProgram then
       (case rq_payload (rc_request record) of ProgramPayload n \<Rightarrow> n | _ \<Rightarrow> []) else old)"

lemma steady_finish:
  assumes "find_command s (rc_id record) \<noteq> None"
  shows "steady (worker_finish opts clk record result s)
    = (fst (steady s), loaded_after record result (snd (steady s)))"
proof -
  have "\<not> is_motion_command kLoadProgram" by (simp add: is_motion_command_def)
  then show ?thesis
    using assms
    by (auto simp: worker_finish_def finish_success_def Let_def loaded_after_def)
qed

section \<open>The invariant of the system\<close>

fun held :: "worker_pc \<Rightarrow> command_record option" where
  "held (WTaken record) = Some record"
| "held (WCopied record snapshot jog) = Some record"
| "held (WJudged record view result) = Some record"
| "held (WReady record view result) = Some record"
| "held (WDone record result) = Some record"
| "held WIdle = None"
| "held WExited = None"

definition cleared :: "safety_policy \<Rightarrow> command_request \<Rightarrow> guard_view \<Rightarrow> bool" where
  "cleared policy request view \<longleftrightarrow>
    permitted policy request (gv_snapshot view) (gv_lease_valid view) (gv_jog_active view)"

fun worker_ok :: "safety_policy \<Rightarrow> worker_pc \<Rightarrow> bool" where
  "worker_ok policy (WJudged record view result) =
    (status_ok result \<longrightarrow> cleared policy (rc_request record) view)"
| "worker_ok policy (WReady record view result) =
    (status_ok result \<longrightarrow> cleared policy (rc_request record) view)"
| "worker_ok policy (WDone record result) =
    (status_ok result \<longrightarrow> (\<exists>view. cleared policy (rc_request record) view))"
| "worker_ok policy _ = True"

fun client_ok :: "client_pc \<Rightarrow> bool" where
  "client_ok (CApproved request) = sound_request request"
| "client_ok (CReturned request r) = (\<exists>a. r = Returned a)"
| "client_ok _ = True"

definition program_ok :: "safety_policy \<Rightarrow> string \<Rightarrow> bool" where
  "program_ok policy p \<longleftrightarrow> p = [] \<or> sp_program_execution_enabled policy \<and> p \<in> set (sp_approved_programs policy)"

definition settled :: "exec_state \<Rightarrow> bool" where
  "settled s \<longleftrightarrow> ex_queue s = [] \<and> ex_active_motion_id s = None
     \<and> (\<forall>i r. find_command s i = Some r \<longrightarrow> is_terminal (rc_state r))"

fun joined :: "shutdown_pc \<Rightarrow> bool" where
  "joined (SJoined st) = True"
| "joined (SDisconnected st) = True"
| "joined SDone = True"
| "joined _ = False"

definition phase_ok :: "'d system \<Rightarrow> bool" where
  "phase_ok y \<longleftrightarrow>
     ex_shutting_down (sy_exec y) = (sy_shutdown y \<noteq> SIdle)
     \<and> ex_running (sy_exec y) = (sy_shutdown y = SIdle)
     \<and> (joined (sy_shutdown y) \<longrightarrow> sy_worker y = WExited \<and> sy_poller y = PExited)
     \<and> (sy_shutdown y = SDone \<longrightarrow> settled (sy_exec y))"

definition sys_inv :: "safety_policy \<Rightarrow> 'd system \<Rightarrow> bool" where
  "sys_inv policy y \<longleftrightarrow> exec_inv (held (sy_worker y)) (sy_exec y)
     \<and> worker_ok policy (sy_worker y) \<and> (\<forall>i. client_ok (sy_clients y i))
     \<and> (\<forall>c\<in>set (sy_calls y). cleared policy (dc_request c) (dc_view c))
     \<and> program_ok policy (ex_loaded_approved_program (sy_exec y)) \<and> phase_ok y"


section \<open>Each thread keeps it\<close>

lemma payloads_equal_total:
  "payload_type_valid (rq_type l) (rq_payload l) \<Longrightarrow> \<exists>b. payloads_equal l r = Some b"
  by (cases "rq_type l"; cases "rq_payload l"; cases "rq_payload r")
    (auto simp: payloads_equal_def payload_type_valid_def)

lemma sound_records: "exec_inv infl s \<Longrightarrow> find_command s i = Some r \<Longrightarrow> sound_request (rc_request r)"
  by (auto simp: exec_inv_def core_inv_def records_ok_def find_command_def)

lemma lookup_returns:
  assumes "exec_inv infl s" "idempotency_lookup request s = Some r"
  shows "\<exists>a. r = Returned a"
proof -
  have "\<exists>b. payloads_equal (rc_request rec) request = Some b" if "find_command s i = Some rec" for i rec
    using sound_records [OF assms(1) that] by (simp add: payloads_equal_total sound_request_def)
  then show ?thesis using assms(2) by (force simp: idempotency_lookup_def Let_def split: option.splits bool.splits)
qed

lemma submit_begin_returns:
  "exec_inv infl s \<Longrightarrow> submit_begin request s = Inl r \<Longrightarrow> \<exists>a. r = Returned a"
  using lookup_returns by (auto simp: submit_begin_def split: if_splits option.splits)

lemma submit_commit_returns:
  "exec_inv infl s \<Longrightarrow> submit_commit opts clk request s = (r, s') \<Longrightarrow> \<exists>a. r = Returned a"
  using lookup_returns
  by (auto simp: submit_commit_def submit_enqueue_def Let_def split: if_splits option.splits)

lemma cleared_program: "cleared pol rq view \<Longrightarrow> rq_type rq = kLoadProgram \<Longrightarrow> rq_payload rq = ProgramPayload n
    \<Longrightarrow> program_ok pol n"
  by (simp add: cleared_def permitted_def payload_permits_def program_ok_def)

lemma loaded_after_ok:
  "worker_ok pol (WDone rec result) \<Longrightarrow> program_ok pol p \<Longrightarrow> program_ok pol (loaded_after rec result p)"
  using cleared_program by (auto simp: loaded_after_def program_ok_def split: command_payload.split)

lemma worker_step_keeps:
  assumes "worker_step drv pol opts (pc, s, d) calls (pc', s', d')"
    and "exec_inv (held pc) s" "worker_ok pol pc" "program_ok pol (ex_loaded_approved_program s)"
  shows "moves A (held pc) s (held pc') s'" and "worker_ok pol pc'"
    and "c \<in> set calls \<Longrightarrow> cleared pol (dc_request c) (dc_view c)"
    and "program_ok pol (ex_loaded_approved_program s')" and "flags s' = flags s" and "pc \<noteq> WExited"
proof -
  have "moves A (held pc) s (held pc') s' \<and> worker_ok pol pc'
    \<and> (c \<in> set calls \<longrightarrow> cleared pol (dc_request c) (dc_view c)) \<and> pc \<noteq> WExited
    \<and> program_ok pol (snd (steady s')) \<and> fst (steady s') = fst (steady s)"
    using assms
  proof cases
    case (finish rec result clk)
    obtain r where "find_command s (rc_id rec) = Some r"
      using running_facts [of rec s] assms(2) finish(1) by auto
    then show ?thesis
      using finish assms moves_worker_finish loaded_after_ok [of pol rec result]
        steady_finish [of s rec opts clk result] by (simp add: steady_def)
  qed (use assms steady_take moves_worker_take in
      \<open>force simp: taken_def steady_def cleared_def validate_ok_iff worker_check_program_def\<close>)+
  then show "moves A (held pc) s (held pc') s'" and "worker_ok pol pc'"
    and "c \<in> set calls \<Longrightarrow> cleared pol (dc_request c) (dc_view c)"
    and "program_ok pol (ex_loaded_approved_program s')" and "flags s' = flags s" and "pc \<noteq> WExited"
    by (simp_all add: steady_def)
qed


lemma poller_step_keeps:
  assumes "poller_step drv opts (pc, s, d) (pc', s', d')"
  shows "moves A infl s infl s'" and "steady s' = steady s" and "pc \<noteq> PExited"
proof -
  have "moves A infl s infl s' \<and> steady s' = steady s \<and> pc \<noteq> PExited"
    using assms moves_poll_apply by cases auto
  then show "moves A infl s infl s'" and "steady s' = steady s" and "pc \<noteq> PExited" by auto
qed

lemma moves_lease: "moves A infl s infl (s\<lparr>ex_lease_manager := m\<rparr>)"
  by (rule moves_frame) simp_all

lemma release_begin_moves:
  "release_lease_begin l c s = (st, s') \<Longrightarrow> \<exists>m. s' = s\<lparr>ex_lease_manager := m\<rparr>"
  by (auto simp: release_lease_begin_def split: prod.splits)

lemma commit_moves:
  "submit_commit opts clk request s = (r, s') \<Longrightarrow> sound_request request \<Longrightarrow> request \<in> A
     \<Longrightarrow> moves A infl s infl s' \<and> steady s' = steady s"
  using moves_submit_commit [of request A infl s opts clk] steady_submit [of opts clk request s] by simp

lemma client_step_keeps:
  assumes "client_step drv pol opts (pc, s, d) (pc', s', d')" and "exec_inv infl s" "client_ok pc"
    and A: "\<And>request. pc = CApproved request \<Longrightarrow> request \<in> A"
  shows "moves A infl s infl s'" and "client_ok pc'" and "steady s' = steady s"
proof -
  have "moves A infl s infl s' \<and> client_ok pc' \<and> steady s' = steady s"
    using assms(1)
  proof cases
    case (submit_committed clk request r)
    then show ?thesis
      using assms commit_moves [of opts clk request s r s' A infl] submit_commit_returns [of infl s] by auto
  qed (use assms moves_lease moves_release_lease_finish validate_sound_request submit_begin_returns
      in \<open>auto dest!: release_begin_moves\<close>)
  then show "moves A infl s infl s'" and "client_ok pc'" and "steady s' = steady s" by auto
qed

text \<open>After the last section of \<open>Shutdown\<close> clients change no record any more.\<close>

lemma settled_lease: "settled (s\<lparr>ex_lease_manager := m\<rparr>) = settled s"
  by (simp add: settled_def find_command_def)

lemma client_step_settled:
  assumes "client_step drv pol opts (pc, s, d) (pc', s', d')" and "settled s" "\<not> ex_running s"
  shows "settled s'"
  using assms(1)
proof cases
  case (release lease_id client clk now)
  have "cancel_queued_commands_for_lease lease_id client clk s = s"
    using assms(2) by (simp add: cancel_queued_commands_for_lease_def settled_def)
  then show ?thesis using release assms by (simp add: release_lease_finish_def)
next
  case (submit_committed clk request r)
  then show ?thesis using assms by (simp add: submit_commit_def is_accepting_def)
qed (use assms in \<open>auto simp: settled_lease dest!: release_begin_moves\<close>)

lemma shutdown_finish_settles:
  assumes "exec_inv None s"
  shows "settled (shutdown_finish st clk s)"
proof -
  let ?s = "shutdown_finish st clk s"
  have inv: "exec_inv None ?s" using moves_shutdown_finish assms by (auto simp: moves_def)
  have q: "ex_queue ?s = []" and a: "ex_active_motion_id ?s = None"
    by (simp_all add: shutdown_finish_def cancel_commands_for_shutdown_def clear_active_jog_def
        Let_def split: option.split)
  have "is_terminal (rc_state r)" if r: "find_command ?s i = Some r" for i r
  proof -
    have "rc_state r \<noteq> kQueued" using queue_facts(2) [OF inv, of i] q r by auto
    moreover have "rc_state r \<noteq> kRunning"
      using inv a r by (auto simp: exec_inv_def core_inv_def running_ok_def find_command_def)
    ultimately show ?thesis using not_terminal by blast
  qed
  with q a show ?thesis by (simp add: settled_def)
qed


lemma moves_inv: "moves A infl s infl' s' \<Longrightarrow> exec_inv infl s \<Longrightarrow> exec_inv infl' s'"
  by (simp add: moves_def)

lemma shutdown_step_keeps:
  assumes "shutdown_step drv exited (pc, s, d) (pc', s', d')"
  shows "moves A infl s infl s'" and "ex_loaded_approved_program s' = ex_loaded_approved_program s"
    and "pc \<noteq> SDone" and "pc' \<noteq> SIdle"
    and "ex_shutting_down s = (pc \<noteq> SIdle) \<Longrightarrow> ex_running s = (pc = SIdle)
      \<Longrightarrow> ex_shutting_down s' \<and> \<not> ex_running s'"
    and "joined pc' \<Longrightarrow> joined pc \<or> exited"
    and "pc' = SDone \<Longrightarrow> joined pc \<and> (exec_inv None s \<longrightarrow> settled s')"
proof -
  have "moves A infl s infl s' \<and> ex_loaded_approved_program s' = ex_loaded_approved_program s
    \<and> pc \<noteq> SDone \<and> pc' \<noteq> SIdle
    \<and> (ex_shutting_down s = (pc \<noteq> SIdle) \<longrightarrow> ex_running s = (pc = SIdle)
         \<longrightarrow> ex_shutting_down s' \<and> \<not> ex_running s')
    \<and> (joined pc' \<longrightarrow> joined pc \<or> exited) \<and> (pc' = SDone \<longrightarrow> joined pc \<and> (exec_inv None s \<longrightarrow> settled s'))"
    using assms
  proof cases
    case (finish st clk)
    then show ?thesis
      using moves_shutdown_finish [of A infl s st clk] shutdown_finish_settles [of s st clk]
        steady_shutdown_finish [of st clk s] by (simp add: steady_def flags_def)
  qed (auto simp: shutdown_begin_def shutdown_join_def intro!: moves_frame split: if_splits)
  then show "moves A infl s infl s'" and "ex_loaded_approved_program s' = ex_loaded_approved_program s"
    and "pc \<noteq> SDone" and "pc' \<noteq> SIdle"
    and "ex_shutting_down s = (pc \<noteq> SIdle) \<Longrightarrow> ex_running s = (pc = SIdle)
      \<Longrightarrow> ex_shutting_down s' \<and> \<not> ex_running s'"
    and "joined pc' \<Longrightarrow> joined pc \<or> exited"
    and "pc' = SDone \<Longrightarrow> joined pc \<and> (exec_inv None s \<longrightarrow> settled s')"
    by blast+
qed

inductive_cases sys_stepE: "sys_step drv policy opts y y'"

lemma sys_step_keeps:
  assumes "sys_step drv pol opts y y'" and inv: "sys_inv pol y"
  shows "sys_inv pol y' \<and> evolves UNIV (sy_exec y) (sy_exec y')"
  using assms(1)
proof cases
  case (worker calls pc s d)
  note k = worker_step_keeps [OF worker(2)]
  have "exec_inv (held (sy_worker y)) (sy_exec y)" "worker_ok pol (sy_worker y)"
    "program_ok pol (ex_loaded_approved_program (sy_exec y))" using inv by (simp_all add: sys_inv_def)
  note k = k [OF this]
  have "\<not> joined (sy_shutdown y)" using inv k(6) by (auto simp: sys_inv_def phase_ok_def)
  then show ?thesis
    using inv k(1) [of UNIV] k(2-) worker(1) by (auto simp: sys_inv_def phase_ok_def flags_def moves_def)
next
  case (poller pc s d)
  note k = poller_step_keeps [OF poller(2)]
  have "\<not> joined (sy_shutdown y)" using inv k(3) by (auto simp: sys_inv_def phase_ok_def)
  then show ?thesis
    using inv k(1) [of UNIV "held (sy_worker y)"] k(2) poller(1)
    by (auto simp: sys_inv_def phase_ok_def steady_def flags_def moves_def)
next
  case (client i pc s d)
  have "exec_inv (held (sy_worker y)) (sy_exec y)" "client_ok (sy_clients y i)"
    using inv by (simp_all add: sys_inv_def)
  note k = client_step_keeps [OF client(2) this, of UNIV, simplified]
  show ?thesis
    using inv k client(1) client_step_settled [OF client(2)]
    by (auto simp: sys_inv_def phase_ok_def steady_def flags_def moves_def)
next
  case (shutdown pc s d)
  note k = shutdown_step_keeps [OF shutdown(2)]
  have "held WExited = None" by simp
  then show ?thesis
    using inv k(1) [of UNIV] k(2-) shutdown(1) by (auto simp: sys_inv_def phase_ok_def moves_def)
qed

lemma start_ok_state:
  assumes "start opts (Some drv) connection now ThreadsStarted (new_executor opts) d0 = (st, s, d)" "ex_running s"
  shows "exec_inv None s" and "\<not> ex_shutting_down s"
    and "ex_loaded_approved_program s = []"
proof -
  have "exec_inv None (new_executor opts)"
    by (simp add: exec_inv_def new_executor_def core_inv_def inv_parts stops_first_def one_motion_def
        live_motion_def index_ok_def)
  then show "exec_inv None s"
    using moves_start [of "{}" None "new_executor opts" opts "Some drv" connection now ThreadsStarted d0] assms(1)
    by (auto simp: moves_def)
  show "\<not> ex_shutting_down s" "ex_loaded_approved_program s = []"
    using assms by (auto simp: start_def new_executor_def Let_def split: if_splits prod.splits sum.splits)
qed

lemma reachable_inv: "reachable drv pol opts y \<Longrightarrow> sys_inv pol y"
proof (induction rule: reachable.induct)
  case (init connection now d0 st s d)
  then show ?case
    using start_ok_state [OF init] by (simp add: sys_inv_def started_def phase_ok_def program_ok_def)
next
  case (step y y')
  then show ?case using sys_step_keeps by blast
qed

end
