(* ===== verification/MockDriver.thy ===== *)
theory MockDriver
  imports RobotDriver
begin

text \<open>
  \<open>src/adapters/mock/mock_driver.cc\<close>: the in-memory driver of the tests and of the local
  demonstration, one definition per method, and the proof that it honours
  \<open>driver_contract\<close>. The driver reads the clock itself; \<open>md_clock\<close> holds its readings to
  come, in order.
\<close>

record mock =
  md_motion_duration :: millis
  md_motion_ends_at :: "time"
  md_state :: robot_snapshot
  md_program_loaded :: bool
  md_program_running :: bool
  md_jog_active :: bool
  md_digital_inputs :: "bool list"
  md_digital_outputs :: "bool list"
  md_clock :: clock

definition mock_digital_io_count :: nat where
  "mock_digital_io_count = 176"

definition new_mock :: "millis \<Rightarrow> clock \<Rightarrow> mock" where
  "new_mock motion_duration clk = \<lparr>md_motion_duration = motion_duration, md_motion_ends_at = 0,
     md_state = default_snapshot, md_program_loaded = False, md_program_running = False,
     md_jog_active = False, md_digital_inputs = replicate mock_digital_io_count False,
     md_digital_outputs = replicate mock_digital_io_count False, md_clock = clk\<rparr>"

text \<open>\<open>steady_clock::now()\<close>: the next reading, and the driver that has taken it.\<close>

definition mock_now :: "mock \<Rightarrow> time \<times> mock" where
  "mock_now d = (md_clock d 0, d\<lparr>md_clock := (\<lambda>k. md_clock d (Suc k))\<rparr>)"

definition put_state :: "robot_snapshot \<Rightarrow> mock \<Rightarrow> mock" where
  "put_state sn d = d\<lparr>md_state := sn\<rparr>"

definition resize :: "nat \<Rightarrow> dbl list \<Rightarrow> dbl list" where
  "resize n xs = take n xs @ replicate (n - length xs) dbl_zero"

section \<open>Private helpers\<close>

definition mock_ready :: "mock \<Rightarrow> bool" where
  "mock_ready d = (let sn = md_state d in \<not> (\<not> sn_connected sn \<or> \<not> sn_api_control sn
     \<or> \<not> sn_servo_on sn \<or> sn_emergency_stop sn \<or> sn_alarm_active sn \<or> sn_moving sn
     \<or> sn_paused sn))"

definition check_ready_locked :: "mock \<Rightarrow> status" where
  "check_ready_locked d =
    (if mock_ready d then StatusOk
     else Status kFailedPrecondition ''mock robot is not ready for motion'')"

definition begin_motion_locked :: "mock \<Rightarrow> mock" where
  "begin_motion_locked d =
    (let (now, d1) = mock_now d in
     d1\<lparr>md_state := (md_state d1)\<lparr>sn_moving := True, sn_paused := False\<rparr>,
        md_jog_active := False, md_motion_ends_at := now + ns_of_ms (md_motion_duration d1)\<rparr>)"

definition refresh_motion_locked :: "mock \<Rightarrow> mock" where
  "refresh_motion_locked d =
    (if sn_moving (md_state d) \<and> \<not> md_jog_active d then
       let (now, d1) = mock_now d in
       if now \<ge> md_motion_ends_at d1 then
         let d2 = put_state ((md_state d1)\<lparr>sn_moving := False\<rparr>) d1 in
         if md_program_running d2 then
           (put_state ((md_state d2)\<lparr>sn_program_running := False\<rparr>) d2)\<lparr>md_program_running := False\<rparr>
         else d2
       else d1
     else d)"

section \<open>Connection, power, faults, speed\<close>

definition mock_connect :: "connection_options \<Rightarrow> mock \<Rightarrow> status \<times> mock" where
  "mock_connect options d =
    (if sn_connected (md_state d) then
       (Status kAlreadyExists ''mock robot is already connected'', d)
     else if co_address options = [] then
       (Status kInvalidArgument ''robot address is required'', d)
     else
       let axis_count = (if co_expected_axis_count options = 0 then 6
             else co_expected_axis_count options);
           (now, d1) = mock_now d;
           sn = (md_state d1)\<lparr>sn_connected := True,
             sn_controller_model := (if co_expected_model options = [] then ''mock''
               else co_expected_model options),
             sn_axis_count := axis_count,
             sn_joints := resize axis_count (sn_joints (md_state d1)),
             sn_controller_mode := kAutomatic, sn_speed_ratio := 10,
             sn_active_tool := ''tool0'', sn_active_work_object := ''wobj0'',
             sn_observed_at := now\<rparr>
       in (StatusOk, put_state (sn\<lparr>sn_lifecycle := derive_lifecycle_state sn\<rparr>) d1))"

definition mock_disconnect :: "mock \<Rightarrow> status \<times> mock" where
  "mock_disconnect d = (StatusOk, d\<lparr>md_state := default_snapshot, md_program_loaded := False,
     md_program_running := False, md_jog_active := False\<rparr>)"

definition mock_acquire_control :: "mock \<Rightarrow> status outcome \<times> mock" where
  "mock_acquire_control d =
    (if \<not> sn_connected (md_state d) then
       (Returned (Status kFailedPrecondition ''mock robot is not connected''), d)
     else (Returned StatusOk, put_state ((md_state d)\<lparr>sn_api_control := True\<rparr>) d))"

definition mock_release_control :: "mock \<Rightarrow> status outcome \<times> mock" where
  "mock_release_control d = (Returned StatusOk, put_state ((md_state d)\<lparr>sn_api_control := False\<rparr>) d)"

definition mock_power_on :: "mock \<Rightarrow> status outcome \<times> mock" where
  "mock_power_on d =
    (if \<not> sn_connected (md_state d) \<or> \<not> sn_api_control (md_state d)
       \<or> sn_emergency_stop (md_state d) \<or> sn_alarm_active (md_state d) then
       (Returned (Status kFailedPrecondition ''mock power-on preconditions are not satisfied''), d)
     else (Returned StatusOk, put_state ((md_state d)\<lparr>sn_servo_on := True\<rparr>) d))"

definition mock_power_off :: "mock \<Rightarrow> status outcome \<times> mock" where
  "mock_power_off d = (Returned StatusOk,
     d\<lparr>md_state := (md_state d)\<lparr>sn_moving := False, sn_paused := False, sn_servo_on := False,
         sn_program_running := False\<rparr>,
       md_program_running := False, md_jog_active := False\<rparr>)"

definition mock_clear_fault :: "mock \<Rightarrow> status outcome \<times> mock" where
  "mock_clear_fault d =
    (if sn_emergency_stop (md_state d) then
       (Returned (Status kFailedPrecondition ''emergency stop is still active''), d)
     else (Returned StatusOk, put_state ((md_state d)\<lparr>sn_alarm_active := False\<rparr>) d))"

definition mock_set_global_speed :: "u32 \<Rightarrow> mock \<Rightarrow> status outcome \<times> mock" where
  "mock_set_global_speed ratio d =
    (if ratio < 1 \<or> ratio > 100 then
       (Returned (Status kInvalidArgument ''speed ratio must be in [1, 100]''), d)
     else (Returned StatusOk, put_state ((md_state d)\<lparr>sn_speed_ratio := ratio\<rparr>) d))"

section \<open>Motion\<close>

definition mock_move_j :: "joint_target \<Rightarrow> joint_motion_profile \<Rightarrow> mock \<Rightarrow> status outcome \<times> mock" where
  "mock_move_j target profile d =
    (let ready = check_ready_locked d in
     if \<not> status_ok ready then (Returned ready, d)
     else if jp_speed_percent profile < 1 \<or> jp_speed_percent profile > 100 then
       (Returned (Status kInvalidArgument ''joint speed must be in [1, 100]''), d)
     else (Returned StatusOk, begin_motion_locked (put_state ((md_state d)
       \<lparr>sn_joints := jt_position target, sn_active_tool := jt_tool_name target,
        sn_active_work_object := jt_work_object_name target\<rparr>) d)))"

definition mock_move_l :: "cartesian_target \<Rightarrow> cartesian_motion_profile \<Rightarrow> mock \<Rightarrow> status outcome \<times> mock" where
  "mock_move_l target profile d =
    (let ready = check_ready_locked d in
     if \<not> status_ok ready then (Returned ready, d)
     else if cp_speed_mm_per_second profile < 1 then
       (Returned (Status kInvalidArgument ''linear speed must be positive''), d)
     else (Returned StatusOk, begin_motion_locked (put_state ((md_state d)
       \<lparr>sn_tcp_pose := ct_pose target, sn_active_tool := ct_tool_name target,
        sn_active_work_object := ct_work_object_name target\<rparr>) d)))"

definition mock_move_c :: "circular_target \<Rightarrow> cartesian_motion_profile \<Rightarrow> mock \<Rightarrow> status outcome \<times> mock" where
  "mock_move_c target profile d =
    (let ready = check_ready_locked d in
     if \<not> status_ok ready then (Returned ready, d)
     else if cp_speed_mm_per_second profile < 1 then
       (Returned (Status kInvalidArgument ''circular speed must be positive''), d)
     else (Returned StatusOk, begin_motion_locked (put_state ((md_state d)
       \<lparr>sn_tcp_pose := cc_target target, sn_active_tool := cc_tool_name target,
        sn_active_work_object := cc_work_object_name target\<rparr>) d)))"

definition mock_hold :: "mock \<Rightarrow> status outcome \<times> mock" where
  "mock_hold d =
    (let d1 = refresh_motion_locked d in
     if \<not> sn_moving (md_state d1) then
       (Returned (Status kFailedPrecondition ''mock robot is not moving''), d1)
     else (Returned StatusOk,
       put_state ((md_state d1)\<lparr>sn_moving := False, sn_paused := True\<rparr>) d1))"

definition mock_resume :: "mock \<Rightarrow> status outcome \<times> mock" where
  "mock_resume d =
    (if \<not> sn_paused (md_state d) then
       (Returned (Status kFailedPrecondition ''mock robot is not paused''), d)
     else (Returned StatusOk,
       begin_motion_locked (put_state ((md_state d)\<lparr>sn_paused := False\<rparr>) d)))"

definition mock_stop :: "stop_mode \<Rightarrow> mock \<Rightarrow> status outcome \<times> mock" where
  "mock_stop mode d =
    (if mode = kQuick then
       (Returned (Status kFailedPrecondition
          ''EFORT SDK V2.8 has no distinct quick-stop API''), d)
     else
       let d1 = d\<lparr>md_state := (md_state d)\<lparr>sn_moving := False, sn_paused := False,
                    sn_program_running := False\<rparr>,
                  md_program_running := False, md_jog_active := False\<rparr>
       in (Returned StatusOk,
           if mode = kPowerOffRequest
           then put_state ((md_state d1)\<lparr>sn_servo_on := False\<rparr>) d1 else d1))"

definition mock_jog :: "jog_command \<Rightarrow> mock \<Rightarrow> status outcome \<times> mock" where
  "mock_jog command d =
    (if jc_axis command < 1 \<or> unat (jc_axis command) > sn_axis_count (md_state d) then
       (Returned (Status kInvalidArgument ''jog axis exceeds the mock robot axis count''), d)
     else if \<not> jc_start command then
       (Returned StatusOk, d\<lparr>md_state := (md_state d)\<lparr>sn_moving := False, sn_paused := False\<rparr>,
          md_jog_active := False\<rparr>)
     else if md_jog_active d then (Returned StatusOk, d)
     else
       let ready = check_ready_locked d in
       if \<not> status_ok ready then (Returned ready, d)
       else (Returned StatusOk, d\<lparr>md_state := (md_state d)\<lparr>sn_moving := True, sn_paused := False\<rparr>,
          md_jog_active := True\<rparr>))"

section \<open>Programs\<close>

definition mock_load_program :: "string \<Rightarrow> mock \<Rightarrow> status outcome \<times> mock" where
  "mock_load_program name d =
    (if \<not> sn_connected (md_state d) \<or> \<not> sn_api_control (md_state d) then
       (Returned (Status kFailedPrecondition ''mock robot is not under API control''), d)
     else if name = [] then
       (Returned (Status kInvalidArgument ''program name is required''), d)
     else (Returned StatusOk, d\<lparr>md_program_loaded := True\<rparr>))"

definition mock_start_program :: "mock \<Rightarrow> status outcome \<times> mock" where
  "mock_start_program d =
    (let ready = check_ready_locked d in
     if \<not> status_ok ready then (Returned ready, d)
     else if \<not> md_program_loaded d then
       (Returned (Status kFailedPrecondition ''no program is loaded''), d)
     else (Returned StatusOk, begin_motion_locked
       (d\<lparr>md_program_running := True, md_state := (md_state d)\<lparr>sn_program_running := True\<rparr>\<rparr>)))"

definition mock_stop_program :: "mock \<Rightarrow> status outcome \<times> mock" where
  "mock_stop_program d = (Returned StatusOk,
     d\<lparr>md_program_running := False, md_state := (md_state d)\<lparr>sn_program_running := False,
         sn_moving := False, sn_paused := False\<rparr>, md_jog_active := False\<rparr>)"

section \<open>Reading and digital IO\<close>

definition mock_read_state :: "mock \<Rightarrow> robot_snapshot status_or \<times> mock" where
  "mock_read_state d =
    (let d1 = refresh_motion_locked d;
         (now, d2) = mock_now d1;
         sn = (md_state d2)\<lparr>sn_observed_at := now\<rparr>;
         sn' = sn\<lparr>sn_lifecycle := derive_lifecycle_state sn\<rparr>
     in (Inr sn', put_state sn' d2))"

definition mock_read_alarms :: "mock \<Rightarrow> alarm list status_or \<times> mock" where
  "mock_read_alarms d =
    (Inr (if sn_alarm_active (md_state d)
          then [\<lparr>al_code = 1, al_severity = 3, al_occurred_at = ''mock-time'',
                 al_message = ''mock controller alarm''\<rparr>] else []), d)"

definition mock_read_digital_input :: "u32 \<Rightarrow> mock \<Rightarrow> bool status_or \<times> mock" where
  "mock_read_digital_input index d =
    (if unat index \<ge> length (md_digital_inputs d) then
       (Inl (Status kInvalidArgument ''digital input index is out of range''), d)
     else (Inr (md_digital_inputs d ! unat index), d))"

definition mock_read_digital_output :: "u32 \<Rightarrow> mock \<Rightarrow> bool status_or \<times> mock" where
  "mock_read_digital_output index d =
    (if unat index \<ge> length (md_digital_outputs d) then
       (Inl (Status kInvalidArgument ''digital output index is out of range''), d)
     else (Inr (md_digital_outputs d ! unat index), d))"

definition mock_write_digital_output :: "u32 \<Rightarrow> bool \<Rightarrow> mock \<Rightarrow> status outcome \<times> mock" where
  "mock_write_digital_output index value' d =
    (if unat index \<ge> length (md_digital_outputs d) then
       (Returned (Status kInvalidArgument ''digital output index is out of range''), d)
     else (Returned StatusOk,
       d\<lparr>md_digital_outputs := (md_digital_outputs d)[unat index := value']\<rparr>))"

section \<open>Test controls\<close>

definition set_emergency_stop :: "bool \<Rightarrow> mock \<Rightarrow> mock" where
  "set_emergency_stop active d =
    (let sn = (md_state d)\<lparr>sn_emergency_stop := active\<rparr> in
     put_state (if active then sn\<lparr>sn_moving := False, sn_paused := False, sn_servo_on := False\<rparr>
                else sn) d)"

definition set_alarm :: "bool \<Rightarrow> mock \<Rightarrow> mock" where
  "set_alarm active d =
    (let sn = (md_state d)\<lparr>sn_alarm_active := active\<rparr> in
     put_state (if active then sn\<lparr>sn_moving := False\<rparr> else sn) d)"

definition set_controller_mode :: "controller_mode \<Rightarrow> mock \<Rightarrow> mock" where
  "set_controller_mode mode d = put_state ((md_state d)\<lparr>sn_controller_mode := mode\<rparr>) d"

section \<open>The driver and its contract\<close>

definition mock_driver :: "mock robot_driver" where
  "mock_driver = \<lparr>rd_connect = mock_connect, rd_disconnect = mock_disconnect,
     rd_acquire_control = mock_acquire_control, rd_release_control = mock_release_control,
     rd_power_on = mock_power_on, rd_power_off = mock_power_off,
     rd_clear_fault = mock_clear_fault, rd_set_global_speed = mock_set_global_speed,
     rd_move_j = mock_move_j, rd_move_l = mock_move_l, rd_move_c = mock_move_c,
     rd_hold = mock_hold, rd_resume = mock_resume, rd_stop = mock_stop, rd_jog = mock_jog,
     rd_load_program = mock_load_program, rd_start_program = mock_start_program,
     rd_stop_program = mock_stop_program, rd_read_state = mock_read_state,
     rd_read_alarms = mock_read_alarms, rd_read_digital_input = mock_read_digital_input,
     rd_read_digital_output = mock_read_digital_output,
     rd_write_digital_output = mock_write_digital_output\<rparr>"


lemmas mock_ops = mock_connect_def mock_disconnect_def mock_acquire_control_def
  mock_release_control_def mock_power_on_def mock_power_off_def mock_clear_fault_def
  mock_set_global_speed_def mock_move_j_def mock_move_l_def mock_move_c_def mock_resume_def
  mock_stop_def mock_jog_def mock_load_program_def mock_start_program_def mock_stop_program_def
  mock_read_alarms_def mock_read_digital_input_def mock_read_digital_output_def
  mock_write_digital_output_def
lemmas mock_private = mock_now_def put_state_def begin_motion_locked_def check_ready_locked_def
  mock_ready_def

text \<open>
  The invariant: the IO tables keep their size, the two program flags agree, and the robot
  moves or pauses only while connected, powered and out of emergency stop, never both.
\<close>

definition mock_ok :: "mock \<Rightarrow> bool" where
  "mock_ok d \<longleftrightarrow> length (md_digital_inputs d) = mock_digital_io_count
     \<and> length (md_digital_outputs d) = mock_digital_io_count
     \<and> md_program_running d = sn_program_running (md_state d)
     \<and> \<not> (sn_moving (md_state d) \<and> sn_paused (md_state d))
     \<and> (sn_moving (md_state d) \<or> sn_paused (md_state d) \<longrightarrow> sn_connected (md_state d)
          \<and> sn_servo_on (md_state d) \<and> \<not> sn_emergency_stop (md_state d))"

lemma mock_ok_refresh [simp]: "mock_ok d \<Longrightarrow> mock_ok (refresh_motion_locked d)"
  by (auto simp: mock_ok_def refresh_motion_locked_def mock_now_def put_state_def Let_def)

lemma mock_ok_now [simp]: "mock_now d = (t, d') \<Longrightarrow> mock_ok d' = mock_ok d"
  by (auto simp: mock_now_def mock_ok_def)

lemma mock_ok_read: "mock_ok d \<Longrightarrow> mock_ok (snd (mock_read_state d))"
  using mock_ok_refresh [of d]
  by (simp add: mock_read_state_def mock_ok_def put_state_def mock_now_def Let_def)

lemma mock_ok_connect: "mock_ok d \<Longrightarrow> mock_ok (snd (mock_connect options d))"
  by (auto simp: mock_connect_def mock_ok_def put_state_def mock_now_def Let_def)

lemma mock_ok_hold: "mock_ok d \<Longrightarrow> mock_ok (snd (mock_hold d))"
  using mock_ok_refresh [of d] by (auto simp: mock_hold_def mock_ok_def put_state_def Let_def)

lemma mock_ok_simple:
  assumes "mock_ok d"
  shows "mock_ok (snd (mock_acquire_control d))" "mock_ok (snd (mock_release_control d))"
    "mock_ok (snd (mock_power_on d))" "mock_ok (snd (mock_power_off d))"
    "mock_ok (snd (mock_clear_fault d))" "mock_ok (snd (mock_set_global_speed r d))"
    "mock_ok (snd (mock_stop m d))" "mock_ok (snd (mock_load_program n d))"
    "mock_ok (snd (mock_stop_program d))" "mock_ok (snd (mock_write_digital_output i v d))"
  using assms
  by (auto simp: mock_ok_def mock_ops put_state_def Let_def)

lemma mock_ok_motion:
  assumes "mock_ok d"
  shows "mock_ok (snd (mock_move_j jt jp d))" "mock_ok (snd (mock_move_l ct cp d))"
    "mock_ok (snd (mock_move_c cc cp d))" "mock_ok (snd (mock_resume d))"
    "mock_ok (snd (mock_jog j d))" "mock_ok (snd (mock_start_program d))"
  using assms
  by (auto simp: mock_ok_def mock_ops mock_private Let_def)

lemma mock_ok_execute: "mock_ok d \<Longrightarrow> mock_ok (snd (execute mock_driver rq d))"
  using mock_ok_simple mock_ok_motion mock_ok_hold
  by (cases "rq_type rq") (simp_all add: execute_def mock_driver_def split: command_payload.split)

lemma mock_laws:
  "co_address opts = [] \<Longrightarrow> \<exists>st. rd_connect mock_driver opts d = (st, d) \<and> \<not> status_ok st"
  "r < 1 \<or> r > 100 \<Longrightarrow> refuses (rd_set_global_speed mock_driver r) d"
  "refuses (rd_stop mock_driver kQuick) d"
  "mock_ok d \<Longrightarrow> unat i \<ge> 176 \<Longrightarrow> refuses (rd_write_digital_output mock_driver i v) d"
  "jc_axis j = 0 \<Longrightarrow> refuses (rd_jog mock_driver j) d"
  "refuses (rd_load_program mock_driver []) d"
  by (simp_all add: mock_driver_def refuses_def mock_ok_def mock_digital_io_count_def
      mock_connect_def mock_set_global_speed_def mock_stop_def mock_jog_def mock_load_program_def
      mock_write_digital_output_def)

lemma mock_read_lifecycle:
  "rd_read_state mock_driver d = (Inr sn, d') \<Longrightarrow> sn_lifecycle sn = derive_lifecycle_state sn"
  by (auto simp: mock_driver_def mock_read_state_def mock_now_def Let_def)

lemma mock_keeps:
  "mock_ok d \<Longrightarrow> mock_ok (snd (rd_connect mock_driver opts d))"
  "mock_ok d \<Longrightarrow> mock_ok (snd (rd_read_state mock_driver d))"
  by (simp_all add: mock_driver_def mock_ok_connect mock_ok_read)

interpretation mock: driver_contract mock_driver mock_ok
  by (rule driver_contract.intro) (fact mock_laws mock_read_lifecycle mock_keeps mock_ok_execute)+

text \<open>
  The mock robot is safe whatever is asked of it: every method and every test
  control keeps the invariant, so it never moves or pauses while disconnected, unpowered or
  in emergency stop, and its two program flags never disagree.
\<close>

theorem mock_stays_safe:
  assumes "mock_ok d"
  shows "mock_ok (snd (execute mock_driver rq d)) \<and> mock_ok (snd (mock_connect opts d))
    \<and> mock_ok (snd (mock_disconnect d)) \<and> mock_ok (snd (mock_read_state d))
    \<and> mock_ok (set_emergency_stop b d) \<and> mock_ok (set_alarm b d)
    \<and> mock_ok (set_controller_mode mode d)"
proof -
  have "mock_ok (snd (mock_disconnect d))" "mock_ok (set_emergency_stop b d)"
    "mock_ok (set_alarm b d)" "mock_ok (set_controller_mode mode d)"
    using assms
    by (auto simp: mock_ok_def mock_disconnect_def default_snapshot_def set_emergency_stop_def
        set_alarm_def set_controller_mode_def put_state_def Let_def)
  then show ?thesis
    using assms mock_ok_execute mock_ok_connect mock_ok_read by blast
qed

lemma new_mock_ok: "mock_ok (new_mock ms clk)"
  by (simp add: mock_ok_def new_mock_def default_snapshot_def mock_digital_io_count_def)

end
