(* ===== verification/ExecutorDemo.thy ===== *)
theory ExecutorDemo
  imports ExecutorSystem MockDriver
begin

text \<open>
  A concrete run of the system on the mock driver, for the witnesses of the claims: the robot
  is already powered and under API control when the service connects, a client takes the
  lease and submits one joint move, the worker runs it. Each state of the run is written out
  and each step checked by evaluation.
\<close>

section \<open>The states\<close>

definition demo_clk :: clock where
  "demo_clk = (\<lambda>_. 0)"

definition demo_options :: executor_options where
  "demo_options = default_options\<lparr>eo_maximum_queue_size := 3, eo_maximum_command_history := 8\<rparr>"

text \<open>A mock robot before \<open>Connect\<close>; its IO tables play no part in the run and are empty.\<close>

definition demo_robot :: mock where
  "demo_robot = (new_mock 150 demo_clk)\<lparr>md_digital_inputs := [], md_digital_outputs := [],
     md_state := default_snapshot\<lparr>sn_api_control := True, sn_servo_on := True\<rparr>\<rparr>"

definition demo_connection :: connection_options where
  "demo_connection = default_connection\<lparr>co_address := ''sim'', co_expected_axis_count := 2\<rparr>"

definition demo_d1 :: mock where
  "demo_d1 = snd (mock_read_state (snd (mock_connect demo_connection demo_robot)))"

definition demo_snapshot :: robot_snapshot where
  "demo_snapshot = default_snapshot\<lparr>sn_sequence := 1, sn_lifecycle := kReady,
     sn_controller_mode := kAutomatic, sn_connected := True, sn_api_control := True,
     sn_servo_on := True, sn_speed_ratio := 10, sn_controller_model := ''mock'',
     sn_axis_count := 2, sn_active_tool := ''tool0'', sn_active_work_object := ''wobj0'',
     sn_joints := [dbl_zero, dbl_zero]\<rparr>"

definition demo_s1 :: exec_state where
  "demo_s1 = (new_executor demo_options)\<lparr>ex_running := True, ex_started_once := True,
     ex_threads_joinable := True, ex_latest_state := demo_snapshot\<rparr>"

definition demo_s2 :: exec_state where
  "demo_s2 = demo_s1\<lparr>ex_lease_manager := \<lparr>lm_lease_ttl = 3000,
     lm_active = \<lparr>cl_id = ''lease-1-1'', cl_client_id = ''cell'', cl_expires_at = 3000000001\<rparr>,
     lm_has_active = True, lm_next_id = 2\<rparr>\<rparr>"

definition demo_record :: command_record where
  "demo_record = \<lparr>rc_id = 1, rc_request = demo_move, rc_state = kRunning, rc_result = StatusOk,
     rc_created_at = 0, rc_updated_at = 0\<rparr>"

definition demo_s3 :: exec_state where
  "demo_s3 = demo_s2\<lparr>ex_queue := [1], ex_commands := [(1, demo_record\<lparr>rc_state := kQueued\<rparr>)],
     ex_idempotency := [(idempotency_map_key demo_move, 1)], ex_next_command_id := 2\<rparr>"

definition demo_s4 :: exec_state where
  "demo_s4 = demo_s3\<lparr>ex_queue := [], ex_commands := [(1, demo_record)]\<rparr>"

definition demo_s5 :: exec_state where
  "demo_s5 = demo_s4\<lparr>ex_active_motion_id := Some 1\<rparr>"

definition demo_view :: guard_view where
  "demo_view = \<lparr>gv_snapshot = demo_snapshot, gv_lease_valid = True, gv_jog_active = False\<rparr>"

text \<open>The steps of the run.\<close>

lemma demo_start:
  "start demo_options (Some mock_driver) demo_connection 0 ThreadsStarted (new_executor demo_options)
     demo_robot = (StatusOk, demo_s1, demo_d1)"
proof -
  let ?r = "start demo_options (Some mock_driver) demo_connection 0 ThreadsStarted
    (new_executor demo_options) demo_robot"
  have "fst ?r = StatusOk" "fst (snd ?r) = demo_s1" by code_simp+
  moreover have "\<not> options_invalid demo_options" "\<not> ex_running (new_executor demo_options)"
    "\<not> ex_started_once (new_executor demo_options)"
    "status_ok (fst (mock_connect demo_connection demo_robot))" by code_simp+
  then have "snd (snd ?r) = demo_d1"
    by (auto simp: start_def Let_def mock_driver_def demo_d1_def mock_read_state_def split: prod.split)
  ultimately show ?thesis by (simp add: prod_eq_iff)
qed

lemma demo_acquire: "snd (lease_acquire 1 ''cell'' (ex_lease_manager demo_s1)) = ex_lease_manager demo_s2"
  by code_simp

lemma demo_begin: "submit_begin demo_move demo_s2 = Inr (demo_snapshot, False)"
  by code_simp

lemma demo_valid:
  "status_ok (validate demo_policy demo_move demo_snapshot (record_lease_valid 0 demo_move demo_s2) False)"
  by code_simp

lemma demo_commit: "submit_commit demo_options demo_clk demo_move demo_s2 = (Returned (Inr 1), demo_s3)"
  by code_simp

lemma demo_wakes: "worker_wakes 0 demo_s3"
  by code_simp

lemma demo_take: "worker_take 0 demo_s3 = (TakeRun demo_record, demo_s4)"
  by code_simp

lemma demo_finish: "worker_finish demo_options demo_clk demo_record StatusOk demo_s4 = demo_s5"
  by code_simp

lemma demo_call: "fst (execute_caught mock_driver demo_move demo_d1) = StatusOk"
  by code_simp

definition demo_sys :: "worker_pc \<Rightarrow> client_pc \<Rightarrow> exec_state \<Rightarrow> mock \<Rightarrow> driver_call list \<Rightarrow> mock system" where
  "demo_sys w c s d calls = \<lparr>sy_exec = s, sy_driver = d, sy_worker = w, sy_poller = PIdle,
     sy_clients = (\<lambda>_. CIdle)(0 := c), sy_shutdown = SIdle, sy_calls = calls\<rparr>"

abbreviation demo_reach :: "mock system \<Rightarrow> bool" where
  "demo_reach \<equiv> reachable mock_driver demo_policy demo_options"

lemma demo_client:
  assumes "demo_reach (demo_sys w c s d calls)"
    and "client_step mock_driver demo_policy demo_options (c, s, d) (c', s', d')"
  shows "demo_reach (demo_sys w c' s' d' calls)"
  using reachable.step [OF assms(1) sys_step.client [where i = 0 and pc = c' and s = s' and d = d']] assms(2)
  by (simp add: demo_sys_def)

lemma demo_worker:
  assumes "demo_reach (demo_sys w c s d calls)"
    and "worker_step mock_driver demo_policy demo_options (w, s, d) new (w', s', d')"
  shows "demo_reach (demo_sys w' c s' d' (calls @ new))"
  using reachable.step [OF assms(1) sys_step.worker [where calls = new and pc = w' and s = s' and d = d']] assms(2)
  by (simp add: demo_sys_def)

lemma submit_begin_snapshot:
  "submit_begin rq s = Inr (sn, jog) \<Longrightarrow> sn = ex_latest_state s \<and> jog = ex_jog_active s"
  by (auto simp: submit_begin_def split: if_splits option.splits)

lemma demo_started: "demo_reach (demo_sys WIdle CIdle demo_s1 demo_d1 [])"
proof -
  have "ex_running demo_s1" by (simp add: demo_s1_def)
  then have "demo_reach (started demo_s1 demo_d1)" by (rule reachable.init [OF demo_start])
  then show ?thesis by (simp add: started_def demo_sys_def fun_upd_idem)
qed

lemma demo_leased: "demo_reach (demo_sys WIdle CIdle demo_s2 demo_d1 [])"
proof -
  have "is_accepting demo_s1" by (simp add: is_accepting_def demo_s1_def new_executor_def)
  from demo_client [OF demo_started client_step.acquire_begin [OF this]]
  have 1: "demo_reach (demo_sys WIdle (CAcquiring ''cell'') demo_s1 demo_d1 [])" .
  have "lease_acquire 1 ''cell'' (ex_lease_manager demo_s1)
      = (fst (lease_acquire 1 ''cell'' (ex_lease_manager demo_s1)), ex_lease_manager demo_s2)"
    by (simp add: prod_eq_iff demo_acquire)
  from demo_client [OF 1 client_step.acquire [OF this]] show ?thesis by (simp add: demo_s2_def)
qed

lemma demo_queued:
  "demo_reach (demo_sys WIdle (CReturned demo_move (Returned (Inr 1))) demo_s3 demo_d1 [])"
  by (rule demo_client [OF demo_client [OF demo_client [OF demo_leased
        client_step.submit_begun [OF demo_begin]] client_step.submit_approved [OF demo_valid]]
        client_step.submit_committed [OF demo_commit]])

text \<open>The system after the worker has taken the move: one live motion, in the worker's hands.\<close>

definition demo_running :: "mock system" where
  "demo_running = demo_sys (WTaken demo_record) (CReturned demo_move (Returned (Inr 1))) demo_s4 demo_d1 []"

definition demo_done :: "mock system" where
  "demo_done = demo_sys WIdle (CReturned demo_move (Returned (Inr 1))) demo_s5
     (snd (execute_caught mock_driver demo_move demo_d1)) [\<lparr>dc_request = demo_move, dc_view = demo_view\<rparr>]"

lemma demo_taken: "demo_reach demo_running"
  using demo_worker [OF demo_queued worker_step.take_command [OF demo_wakes demo_take]]
  by (simp add: demo_running_def)

text \<open>The worker has validated the move again and is about to call the driver.\<close>

definition demo_verdict :: status where
  "demo_verdict = validate demo_policy demo_move demo_snapshot True False"

lemma demo_verdict_ok: "status_ok demo_verdict"
  by code_simp

lemma demo_ready_to_call:
  "demo_reach (demo_sys (WReady demo_record demo_view demo_verdict) (CReturned demo_move (Returned (Inr 1))) demo_s4 demo_d1 [])"
proof -
  have s4: "ex_latest_state demo_s4 = demo_snapshot" "\<not> ex_jog_active demo_s4"
    by (simp_all add: demo_s4_def demo_s3_def demo_s2_def demo_s1_def new_executor_def)
  have r: "rc_request demo_record = demo_move" by (simp add: demo_record_def)
  have l: "record_lease_valid 0 demo_move demo_s4" by code_simp
  have p: "worker_check_program demo_record demo_verdict demo_s4 = demo_verdict"
    by (simp add: worker_check_program_def demo_record_def demo_move_def)
  have jd: "worker_step mock_driver demo_policy demo_options
      (WCopied demo_record demo_snapshot False, demo_s4, demo_d1) []
      (WJudged demo_record demo_view demo_verdict, demo_s4, demo_d1)"
    using l worker_step.judge [of True 0 demo_record demo_s4 mock_driver demo_policy demo_options demo_snapshot False demo_d1]
    by (simp add: demo_view_def demo_verdict_def r)
  have "demo_reach (demo_sys (WCopied demo_record demo_snapshot False)
      (CReturned demo_move (Returned (Inr 1))) demo_s4 demo_d1 [])"
    using demo_worker [OF demo_taken [unfolded demo_running_def] worker_step.copy] s4 by simp
  from demo_worker [OF demo_worker [OF this jd] worker_step.check] p show ?thesis by simp
qed

lemma demo_finished: "demo_reach demo_done"
proof -
  have r: "rc_request demo_record = demo_move" by (simp add: demo_record_def)
  have e: "execute_caught mock_driver demo_move demo_d1
      = (StatusOk, snd (execute_caught mock_driver demo_move demo_d1))"
    by (simp add: prod_eq_iff demo_call)
  from demo_worker [OF demo_worker [OF demo_ready_to_call worker_step.call [OF demo_verdict_ok e [folded r]]]
      worker_step.finish [where clk = demo_clk]]
  show ?thesis by (simp add: demo_done_def demo_finish r)
qed

end
