(* ===== verification/ExecutorSafety.thy ===== *)
theory ExecutorSafety
  imports ExecutorDemo
begin

text \<open>
  What the executor guarantees in every reachable state of the interleaved system, whatever
  the driver, the policy, the options and the clock: the claims about concurrency, each with a
  witness on the concrete run of \<open>ExecutorSystem\<close>.
\<close>

section \<open>Facts of a reachable state\<close>

lemma reach_exec: "reachable drv pol opts y \<Longrightarrow> exec_inv (held (sy_worker y)) (sy_exec y)"
  using reachable_inv by (auto simp: sys_inv_def)

lemma reach_parts:
  assumes "reachable drv pol opts y"
  shows "worker_ok pol (sy_worker y)" "client_ok (sy_clients y k)"
    "c \<in> set (sy_calls y) \<Longrightarrow> cleared pol (dc_request c) (dc_view c)"
    "program_ok pol (ex_loaded_approved_program (sy_exec y))" "phase_ok y"
  using reachable_inv [OF assms] by (auto simp: sys_inv_def)

lemma core_parts:
  assumes "exec_inv infl s"
  shows "one_motion (ex_commands s)" "stops_first (ex_commands s) (ex_queue s)"
    "queue_ok (ex_commands s) (ex_queue s)" "running_ok infl (ex_commands s) (ex_active_motion_id s)"
    "index_ok (ex_commands s) (ex_idempotency s)"
  using assms by (auto simp: exec_inv_def core_inv_def)

lemma evolves_follows:
  "evolves A s s' \<Longrightarrow> find_command s i = Some r \<Longrightarrow> find_command s' i = Some r' \<Longrightarrow> follows r r'"
  unfolding evolves_def by (metis option.distinct(1) option.inject)

lemma steps_reach:
  "(sys_step drv pol opts)\<^sup>*\<^sup>* y y' \<Longrightarrow> reachable drv pol opts y
     \<Longrightarrow> reachable drv pol opts y' \<and> evolves UNIV (sy_exec y) (sy_exec y')"
proof (induction rule: rtranclp_induct)
  case (step y1 y2)
  then have r: "reachable drv pol opts y1" and e: "evolves UNIV (sy_exec y) (sy_exec y1)" by auto
  have "evolves UNIV (sy_exec y1) (sy_exec y2)" using sys_step_keeps [OF step(2) reachable_inv [OF r]] by simp
  have "i < ex_next_command_id (sy_exec y)" if "find_command (sy_exec y) i = Some rec" for i rec
    using known_id [OF reach_exec [OF step(4)] that] .
  then have "evolves UNIV (sy_exec y) (sy_exec y2)" using evolves_trans [OF e] \<open>evolves UNIV (sy_exec y1) _\<close> by blast
  then show ?case using reachable.step [OF r step(2)] by blast
qed simp

section \<open>The claims\<close>

text \<open>
  Claim C1. At most one motion is in flight: in every reachable state, two commands of the
  table that are joint, linear or circular moves or program starts and have not settled
  (queued or running) are the same command, however clients, worker, poller and shutdown
  interleave.
\<close>

theorem at_most_one_live_motion:
  assumes "reachable drv pol opts y"
    and "find_command (sy_exec y) i = Some r" "rq_type (rc_request r) \<in> motion_types" "\<not> is_terminal (rc_state r)"
    and "find_command (sy_exec y) j = Some r'" "rq_type (rc_request r') \<in> motion_types" "\<not> is_terminal (rc_state r')"
  shows "i = j"
proof -
  have "live_motion (ex_commands (sy_exec y)) i" "live_motion (ex_commands (sy_exec y)) j"
    using assms(2-) by (auto simp: live_motion_def find_command_def motion_types_iff)
  then show ?thesis using core_parts(1) [OF reach_exec [OF assms(1)]] by (auto simp: one_motion_def)
qed

lemma demo_found: "find_command demo_s4 1 = Some demo_record"
  by code_simp

lemma demo_fields:
  "sy_exec demo_running = demo_s4" "sy_worker demo_running = WTaken demo_record"
  "sy_calls demo_running = []" "sy_exec demo_done = demo_s5" "sy_worker demo_done = WIdle"
  "sy_calls demo_done = [\<lparr>dc_request = demo_move, dc_view = demo_view\<rparr>]"
  "sy_clients demo_done 0 = CReturned demo_move (Returned (Inr 1))"
  by (simp_all add: demo_running_def demo_done_def demo_sys_def)

theorem at_most_one_live_motion_witness:
  "\<not> (\<exists>i r. i \<noteq> 1 \<and> find_command (sy_exec demo_running) i = Some r
     \<and> rq_type (rc_request r) \<in> motion_types \<and> \<not> is_terminal (rc_state r))"
proof -
  have "rq_type (rc_request demo_record) \<in> motion_types" "\<not> is_terminal (rc_state demo_record)"
    by (simp_all add: demo_record_def demo_move_def motion_types_def)
  moreover have "find_command (sy_exec demo_running) 1 = Some demo_record"
    using demo_found by (simp only: demo_fields)
  ultimately show ?thesis using at_most_one_live_motion [OF demo_taken] by blast
qed

section \<open>What the worker's validation saw\<close>

text \<open>
  The history behind a driver call. \<open>copied_from\<close>: at some earlier moment the worker had just
  taken \<open>rec\<close> from the queue and this was the snapshot and the jog flag of the executor.
  \<open>judged_on\<close>: such a copy was followed, still for the same record, by a moment at which the
  lease verdict was the lease manager's answer.
\<close>

definition copied_from :: "'d robot_driver \<Rightarrow> safety_policy \<Rightarrow> executor_options \<Rightarrow> command_record
    \<Rightarrow> robot_snapshot \<Rightarrow> bool \<Rightarrow> 'd system \<Rightarrow> bool" where
  "copied_from drv pol opts rec snapshot jog y \<longleftrightarrow>
    (\<exists>y1. reachable drv pol opts y1 \<and> sy_worker y1 = WTaken rec \<and> snapshot = ex_latest_state (sy_exec y1)
       \<and> jog = ex_jog_active (sy_exec y1) \<and> (sys_step drv pol opts)\<^sup>*\<^sup>* y1 y)"

definition judged_on :: "'d robot_driver \<Rightarrow> safety_policy \<Rightarrow> executor_options \<Rightarrow> command_record
    \<Rightarrow> guard_view \<Rightarrow> 'd system \<Rightarrow> bool" where
  "judged_on drv pol opts rec view y \<longleftrightarrow>
    (\<exists>y2 now. copied_from drv pol opts rec (gv_snapshot view) (gv_jog_active view) y2
       \<and> sy_worker y2 = WCopied rec (gv_snapshot view) (gv_jog_active view)
       \<and> gv_lease_valid view = record_lease_valid now (rc_request rec) (sy_exec y2)
       \<and> (sys_step drv pol opts)\<^sup>*\<^sup>* y2 y)"

fun history_ok :: "'d robot_driver \<Rightarrow> safety_policy \<Rightarrow> executor_options \<Rightarrow> 'd system \<Rightarrow> worker_pc \<Rightarrow> bool" where
  "history_ok drv pol opts y (WCopied rec snapshot jog) = copied_from drv pol opts rec snapshot jog y"
| "history_ok drv pol opts y (WJudged rec view result) = judged_on drv pol opts rec view y"
| "history_ok drv pol opts y (WReady rec view result) = judged_on drv pol opts rec view y"
| "history_ok drv pol opts y _ = True"

definition called_on :: "'d robot_driver \<Rightarrow> safety_policy \<Rightarrow> executor_options \<Rightarrow> 'd system \<Rightarrow> driver_call \<Rightarrow> bool" where
  "called_on drv pol opts y c \<longleftrightarrow>
    (\<exists>rec. rc_request rec = dc_request c \<and> judged_on drv pol opts rec (dc_view c) y)"

lemma copied_later:
  "copied_from drv pol opts rec snapshot jog y \<Longrightarrow> sys_step drv pol opts y y'
     \<Longrightarrow> copied_from drv pol opts rec snapshot jog y'"
  unfolding copied_from_def
  by (elim exE conjE, intro exI conjI) (assumption+, erule rtranclp.rtrancl_into_rtrancl, assumption)

lemma judged_later:
  "judged_on drv pol opts rec view y \<Longrightarrow> sys_step drv pol opts y y' \<Longrightarrow> judged_on drv pol opts rec view y'"
  unfolding judged_on_def
  by (elim exE conjE, intro exI conjI) (assumption+, erule rtranclp.rtrancl_into_rtrancl, assumption)

lemma called_later:
  "called_on drv pol opts y c \<Longrightarrow> sys_step drv pol opts y y' \<Longrightarrow> called_on drv pol opts y' c"
  unfolding called_on_def using judged_later by blast

lemma history_later:
  "history_ok drv pol opts y pc \<Longrightarrow> sys_step drv pol opts y y' \<Longrightarrow> history_ok drv pol opts y' pc"
  by (cases pc) (auto simp: copied_later judged_later)

text \<open>A section of the worker records what it read; the sections of the others only go on.\<close>

lemma copying_is_copied:
  assumes "reachable drv pol opts y" "sy_worker y = WTaken rec" "sys_step drv pol opts y y'"
  shows "copied_from drv pol opts rec (ex_latest_state (sy_exec y)) (ex_jog_active (sy_exec y)) y'"
  unfolding copied_from_def using assms by blast

lemma judging_is_judged:
  assumes "sy_worker y = WCopied rec snapshot jog" "copied_from drv pol opts rec snapshot jog y"
    and "sys_step drv pol opts y y'"
  shows "judged_on drv pol opts rec \<lparr>gv_snapshot = snapshot,
    gv_lease_valid = record_lease_valid now (rc_request rec) (sy_exec y), gv_jog_active = jog\<rparr> y'"
  unfolding judged_on_def using assms by (intro exI [of _ y] exI [of _ now]) auto

lemma worker_history:
  assumes w: "worker_step drv pol opts (sy_worker y, sy_exec y, sy_driver y) calls (pc, s, d)"
    and st: "sys_step drv pol opts y y'"
    and "reachable drv pol opts y" and h: "history_ok drv pol opts y (sy_worker y)"
  shows "history_ok drv pol opts y' pc \<and> (\<forall>c\<in>set calls. called_on drv pol opts y' c)"
  using w
proof cases
  case (copy rec)
  then show ?thesis using copying_is_copied [OF assms(3) _ st] by simp
next
  case (judge valid now rec snapshot jog)
  then show ?thesis using judging_is_judged [OF _ _ st] h by simp
next
  case (check rec view result)
  then show ?thesis using h judged_later [OF _ st] by simp
next
  case (call result rec result' view)
  then show ?thesis using h judged_later [OF _ st] by (auto simp: called_on_def)
qed simp_all

lemma reachable_history:
  "reachable drv pol opts y
     \<Longrightarrow> history_ok drv pol opts y (sy_worker y) \<and> (\<forall>c\<in>set (sy_calls y). called_on drv pol opts y c)"
proof (induction rule: reachable.induct)
  case (init connection now d0 st s d)
  then show ?case by (simp add: started_def)
next
  case (step y y')
  note later = history_later [OF _ step(2)] called_later [OF _ step(2)]
  from step(2) show ?case
  proof cases
    case (worker calls pc s d)
    then show ?thesis using worker_history [OF worker(2) step(2) step(1)] step(3) later by auto
  qed (use step(3) later in auto)
qed

text \<open>
  Claim C2. Nothing reaches the robot unchecked: behind every driver call of the worker there
  are two earlier moments, in this order. At the first the worker had taken the command from
  the queue, and the snapshot and the jog flag of its verdict are the executor's at that
  moment; at the second it still held the command, and the lease verdict is what the lease
  manager answered then for the command's lease and client. On exactly these values the
  safety matrix permitted the command.
\<close>

theorem driver_calls_permitted:
  assumes "reachable drv pol opts y" and "c \<in> set (sy_calls y)"
  shows "\<exists>rec y1 y2 now. rc_request rec = dc_request c
    \<and> reachable drv pol opts y1 \<and> sy_worker y1 = WTaken rec
    \<and> gv_snapshot (dc_view c) = ex_latest_state (sy_exec y1)
    \<and> gv_jog_active (dc_view c) = ex_jog_active (sy_exec y1)
    \<and> (sys_step drv pol opts)\<^sup>*\<^sup>* y1 y2
    \<and> sy_worker y2 = WCopied rec (ex_latest_state (sy_exec y1)) (ex_jog_active (sy_exec y1))
    \<and> gv_lease_valid (dc_view c) = record_lease_valid now (dc_request c) (sy_exec y2)
    \<and> (sys_step drv pol opts)\<^sup>*\<^sup>* y2 y
    \<and> permitted pol (dc_request c) (ex_latest_state (sy_exec y1))
        (record_lease_valid now (dc_request c) (sy_exec y2)) (ex_jog_active (sy_exec y1))"
proof -
  obtain rec where r: "rc_request rec = dc_request c" and "judged_on drv pol opts rec (dc_view c) y"
    using reachable_history [OF assms(1)] assms(2) by (auto simp: called_on_def)
  then obtain y1 y2 now where
    "reachable drv pol opts y1" "sy_worker y1 = WTaken rec"
    "gv_snapshot (dc_view c) = ex_latest_state (sy_exec y1)"
    "gv_jog_active (dc_view c) = ex_jog_active (sy_exec y1)" "(sys_step drv pol opts)\<^sup>*\<^sup>* y1 y2"
    "sy_worker y2 = WCopied rec (gv_snapshot (dc_view c)) (gv_jog_active (dc_view c))"
    "gv_lease_valid (dc_view c) = record_lease_valid now (rc_request rec) (sy_exec y2)"
    "(sys_step drv pol opts)\<^sup>*\<^sup>* y2 y"
    unfolding judged_on_def copied_from_def by blast
  note h = this
  have "permitted pol (dc_request c) (ex_latest_state (sy_exec y1))
      (record_lease_valid now (dc_request c) (sy_exec y2)) (ex_jog_active (sy_exec y1))"
    using reach_parts(3) [OF assms] r h(3,4,7) by (simp add: cleared_def)
  then show ?thesis
    using r h by (intro exI [of _ rec] exI [of _ y1] exI [of _ y2] exI [of _ now] conjI) simp_all
qed

theorem driver_calls_permitted_witness:
  "\<exists>rec y1 y2 now. rc_request rec = demo_move \<and> demo_reach y1 \<and> sy_worker y1 = WTaken rec
     \<and> (sys_step mock_driver demo_policy demo_options)\<^sup>*\<^sup>* y1 y2
     \<and> record_lease_valid now demo_move (sy_exec y2)
     \<and> permitted demo_policy demo_move (ex_latest_state (sy_exec y1)) True (ex_jog_active (sy_exec y1))"
proof -
  let ?c = "\<lparr>dc_request = demo_move, dc_view = demo_view\<rparr>"
  have "?c \<in> set (sy_calls demo_done)" by (simp add: demo_fields)
  from driver_calls_permitted [OF demo_finished this] obtain rec y1 y2 now where h:
    "rc_request rec = demo_move" "demo_reach y1" "sy_worker y1 = WTaken rec"
    "(sys_step mock_driver demo_policy demo_options)\<^sup>*\<^sup>* y1 y2"
    "gv_lease_valid demo_view = record_lease_valid now demo_move (sy_exec y2)"
    "permitted demo_policy demo_move (ex_latest_state (sy_exec y1))
        (record_lease_valid now demo_move (sy_exec y2)) (ex_jog_active (sy_exec y1))"
    unfolding driver_call.simps by blast
  then show ?thesis
    by (intro exI [of _ rec] exI [of _ y1] exI [of _ y2] exI [of _ now] conjI) (simp_all add: demo_view_def)
qed

text \<open>
  A motion starts alone: while the worker holds a motion command (from the queue
  to the driver call and its bookkeeping), no other motion is active and no other motion is
  queued or running; the branch of the code for a motion superseded during startup is never
  taken.
\<close>

theorem motion_starts_alone:
  assumes "reachable drv pol opts y" and "held (sy_worker y) = Some rec"
    and "rq_type (rc_request rec) \<in> motion_types"
  shows "ex_active_motion_id (sy_exec y) = None
    \<and> (\<forall>i r. find_command (sy_exec y) i = Some r \<longrightarrow> rq_type (rc_request r) \<in> motion_types
         \<longrightarrow> \<not> is_terminal (rc_state r) \<longrightarrow> i = rc_id rec)"
proof -
  have inv: "exec_inv (Some rec) (sy_exec y)" using reach_exec [OF assms(1)] assms(2) by simp
  obtain r0 where "find_command (sy_exec y) (rc_id rec) = Some r0" "rc_state r0 = kRunning"
    "rc_request r0 = rc_request rec" using running_facts [OF inv] .
  then have "live_motion (ex_commands (sy_exec y)) (rc_id rec)"
    using assms(3) by (simp add: live_motion_def find_command_def motion_types_iff)
  then have "i = rc_id rec" if "live_motion (ex_commands (sy_exec y)) i" for i
    using core_parts(1) [OF inv] that by (auto simp: one_motion_def)
  then show ?thesis
    using never_superseded [OF inv] assms(3) by (auto simp: live_motion_def find_command_def motion_types_iff)
qed

text \<open>
  A running command always has an owner: a record in state \<open>kRunning\<close> is the
  active motion or the command the worker is executing, so no command is left running by
  itself.
\<close>

theorem running_commands_owned:
  assumes "reachable drv pol opts y" and "find_command (sy_exec y) i = Some r" and "rc_state r = kRunning"
  shows "ex_active_motion_id (sy_exec y) = Some i \<or> map_option rc_id (held (sy_worker y)) = Some i"
  using core_parts(4) [OF reach_exec [OF assms(1)]] assms(2,3)
  by (auto simp: running_ok_def find_command_def)

text \<open>
  Claim C15. Command records only move forward: along any run a record keeps its request
  and creation time, goes from queued to running or settled and from running to settled
  (never to cancelled), a settled record never changes again, and the id of a removed record
  is never given to another command.
\<close>

theorem records_move_forward:
  assumes "reachable drv pol opts y" and "(sys_step drv pol opts)\<^sup>*\<^sup>* y y'"
  shows "(\<forall>i r r'. find_command (sy_exec y) i = Some r \<longrightarrow> find_command (sy_exec y') i = Some r' \<longrightarrow>
       rc_request r' = rc_request r \<and> rc_created_at r' = rc_created_at r
       \<and> (rc_state r' = rc_state r \<or> rc_state r = kQueued
          \<or> rc_state r = kRunning \<and> is_terminal (rc_state r') \<and> rc_state r' \<noteq> kCancelled)
       \<and> (is_terminal (rc_state r) \<longrightarrow> r' = r))
    \<and> (\<forall>i. i < ex_next_command_id (sy_exec y) \<longrightarrow> find_command (sy_exec y) i = None
         \<longrightarrow> find_command (sy_exec y') i = None)"
proof -
  have "evolves UNIV (sy_exec y) (sy_exec y')" using steps_reach assms by blast
  then have "follows r r'" if "find_command (sy_exec y) i = Some r" "find_command (sy_exec y') i = Some r'" for i r r'
    using evolves_follows that by blast
  moreover have "find_command (sy_exec y') i = None"
    if "i < ex_next_command_id (sy_exec y)" "find_command (sy_exec y) i = None" for i
    using \<open>evolves UNIV _ _\<close> that by (simp add: evolves_def)
  ultimately show ?thesis unfolding follows_def may_become_def by (intro conjI allI impI; metis)
qed

lemma demo_step: "sys_step mock_driver demo_policy demo_options demo_running
    (demo_running\<lparr>sy_poller := PReading\<rparr>)"
proof -
  have "poller_step mock_driver demo_options (PIdle, demo_s4, demo_d1) (PReading, demo_s4, demo_d1)"
  proof -
    have "\<not> ex_shutting_down demo_s4" by code_simp
    then show ?thesis using poller_step.top [of mock_driver demo_options demo_s4 demo_d1] by simp
  qed
  then show ?thesis
    using sys_step.poller [of mock_driver demo_options demo_running PReading demo_s4 demo_d1]
    by (simp add: demo_running_def demo_sys_def)
qed

theorem records_move_forward_witness:
  "\<exists>r. find_command (sy_exec (demo_running\<lparr>sy_poller := PReading\<rparr>)) 1 = Some r
     \<and> rc_request r = rc_request demo_record"
proof -
  have *: "find_command (sy_exec demo_running) 1 = Some demo_record"
    "find_command (sy_exec (demo_running\<lparr>sy_poller := PReading\<rparr>)) 1 = Some demo_record"
    using demo_found by (simp_all add: demo_fields)
  show ?thesis
    using records_move_forward [OF demo_taken r_into_rtranclp
        [of "sys_step mock_driver demo_policy demo_options", OF demo_step]] * by blast
qed


text \<open>
  Claim C6. Shutdown leaves nothing behind: once the last section of \<open>Shutdown\<close> has run,
  both threads have returned, the queue is empty, no motion is active and every command in
  the table has settled; later client calls cannot change that.
\<close>

theorem shutdown_settles_everything:
  assumes "reachable drv pol opts y" and "sy_shutdown y = SDone"
  shows "sy_worker y = WExited \<and> sy_poller y = PExited \<and> ex_queue (sy_exec y) = []
    \<and> ex_active_motion_id (sy_exec y) = None \<and> \<not> is_accepting (sy_exec y)
    \<and> (\<forall>i r. find_command (sy_exec y) i = Some r \<longrightarrow> is_terminal (rc_state r))"
  using reach_parts(5) [OF assms(1)] assms(2)
  by (simp add: phase_ok_def settled_def is_accepting_def)

text \<open>The concrete run, shut down while its move is active.\<close>

definition demo_s6 :: exec_state where
  "demo_s6 = demo_s5\<lparr>ex_shutting_down := True, ex_running := False\<rparr>"

definition demo_down :: "worker_pc \<Rightarrow> poller_pc \<Rightarrow> shutdown_pc \<Rightarrow> driver_call list \<Rightarrow> exec_state \<Rightarrow> mock \<Rightarrow> mock system" where
  "demo_down w p h calls s d = \<lparr>sy_exec = s, sy_driver = d, sy_worker = w, sy_poller = p,
     sy_clients = sy_clients demo_done, sy_shutdown = h, sy_calls = calls\<rparr>"

lemma down_worker:
  "demo_reach (demo_down w p h calls s d) \<Longrightarrow> worker_step mock_driver demo_policy demo_options (w, s, d) new (w', s', d')
     \<Longrightarrow> demo_reach (demo_down w' p h (calls @ new) s' d')"
  using reachable.step [OF _ sys_step.worker [where y = "demo_down w p h calls s d" and calls = new]]
  by (simp add: demo_down_def)

lemma down_poller:
  "demo_reach (demo_down w p h calls s d) \<Longrightarrow> poller_step mock_driver demo_options (p, s, d) (p', s', d')
     \<Longrightarrow> demo_reach (demo_down w p' h calls s' d')"
  using reachable.step [OF _ sys_step.poller [where y = "demo_down w p h calls s d"]] by (simp add: demo_down_def)

lemma down_shutdown:
  "demo_reach (demo_down w p h calls s d)
     \<Longrightarrow> shutdown_step mock_driver (w = WExited \<and> p = PExited) (h, s, d) (h', s', d')
     \<Longrightarrow> demo_reach (demo_down w p h' calls s' d')"
  using reachable.step [OF _ sys_step.shutdown [where y = "demo_down w p h calls s d"]] by (simp add: demo_down_def)

lemma demo_shut_down:
  "\<exists>st d. demo_reach (demo_down WExited PExited SDone (sy_calls demo_done) (shutdown_finish st demo_clk (shutdown_join demo_s6)) d)"
proof -
  let ?d = "sy_driver demo_done" and ?c = "sy_calls demo_done"
  have "demo_done = demo_down WIdle PIdle SIdle ?c demo_s5 ?d"
    by (simp add: demo_down_def demo_done_def demo_sys_def)
  then have 0: "demo_reach (demo_down WIdle PIdle SIdle ?c demo_s5 ?d)" using demo_finished by simp
  have "ex_running demo_s5" by code_simp
  then have "shutdown_begin demo_s5 = Some demo_s6" by (simp add: shutdown_begin_def demo_s6_def)
  from down_shutdown [OF 0 shutdown_step.mark [OF this]]
  have 1: "demo_reach (demo_down WIdle PIdle SMarked ?c demo_s6 ?d)" .
  obtain st d where "rd_stop mock_driver kControlled ?d = (Returned st, d)"
    by (auto simp: mock_driver_def mock_stop_def Let_def)
  from down_shutdown [OF 1 shutdown_step.stop [OF this]]
  have 2: "demo_reach (demo_down WIdle PIdle (SStopped st) ?c demo_s6 d)" .
  have "worker_wakes 0 demo_s6" "worker_take 0 demo_s6 = (TakeExit, demo_s6)"
    by (simp_all add: worker_wakes_def worker_take_def demo_s6_def)
  from down_worker [OF 2 worker_step.exit [OF this]]
  have 3: "demo_reach (demo_down WExited PIdle (SStopped st) ?c demo_s6 d)" by simp
  have "ex_shutting_down demo_s6" by (simp add: demo_s6_def)
  then have 4: "demo_reach (demo_down WExited PExited (SStopped st) ?c demo_s6 d)"
    using down_poller [OF 3 poller_step.top] by simp
  show ?thesis
    using down_shutdown [OF down_shutdown [OF down_shutdown [OF 4 shutdown_step.join]
          shutdown_step.disconnect] shutdown_step.finish] by blast
qed

theorem shutdown_settles_everything_witness:
  "\<exists>y. demo_reach y \<and> sy_shutdown y = SDone \<and> ex_queue (sy_exec y) = []"
proof -
  obtain st d where y: "demo_reach (demo_down WExited PExited SDone (sy_calls demo_done)
      (shutdown_finish st demo_clk (shutdown_join demo_s6)) d)" using demo_shut_down by blast
  have "sy_shutdown (demo_down w p h c s d) = h" for w p h c s d by (simp add: demo_down_def)
  with y shutdown_settles_everything [OF y] show ?thesis by blast
qed

text \<open>
  \<open>Submit\<close> always answers: in every reachable state a client's call has ended
  with a command id or an error status, never with an exception; the \<open>std::get\<close> calls that
  compare a retried request with the stored one always find the alternative they ask for.
\<close>

theorem submit_never_throws:
  assumes "reachable drv pol opts y" and "sy_clients y k = CReturned request r"
  shows "\<exists>answer. r = Returned answer"
  using reach_parts(2) [OF assms(1), of k] assms(2) by simp

text \<open>
  Only approved programs count as loaded: the program that allows
  \<open>kStartProgram\<close> to run is, in every reachable state, one the site's policy enables and
  approves.
\<close>

theorem loaded_program_approved:
  assumes "reachable drv pol opts y" and "ex_loaded_approved_program (sy_exec y) = n" and "n \<noteq> []"
  shows "sp_program_execution_enabled pol \<and> n \<in> set (sp_approved_programs pol)"
  using reach_parts(4) [OF assms(1)] assms(2,3) by (simp add: program_ok_def)

text \<open>One command from submission to completion, with nothing else in between.\<close>

definition idle_sys :: "exec_state \<Rightarrow> 'd \<Rightarrow> client_pc \<Rightarrow> driver_call list \<Rightarrow> 'd system" where
  "idle_sys s d c calls = \<lparr>sy_exec = s, sy_driver = d, sy_worker = WIdle, sy_poller = PIdle,
     sy_clients = (\<lambda>_. CIdle)(0 := c), sy_shutdown = SIdle, sy_calls = calls\<rparr>"

lemma idle_client:
  "reachable drv pol opts (idle_sys s d c calls) \<Longrightarrow> client_step drv pol opts (c, s, d) (c', s', d')
     \<Longrightarrow> reachable drv pol opts (idle_sys s' d' c' calls)"
  using reachable.step [OF _ sys_step.client [where y = "idle_sys s d c calls" and i = 0]]
  by (simp add: idle_sys_def)

lemma busy_worker:
  "reachable drv pol opts ((idle_sys s d c calls)\<lparr>sy_worker := w\<rparr>)
     \<Longrightarrow> worker_step drv pol opts (w, s, d) new (w', s', d')
     \<Longrightarrow> reachable drv pol opts ((idle_sys s' d' c (calls @ new))\<lparr>sy_worker := w'\<rparr>)"
  using reachable.step [OF _ sys_step.worker [where y = "(idle_sys s d c calls)\<lparr>sy_worker := w\<rparr>"]]
  by (simp add: idle_sys_def)

lemma run_command:
  assumes y: "reachable drv pol opts (idle_sys s d CIdle calls)"
    and submit: "submit_begin rq s = Inr (snapshot, jog)"
      "status_ok (validate pol rq snapshot (record_lease_valid t rq s) jog)"
      "submit_commit opts clk rq s = (answer, s1)"
    and take: "worker_wakes t s1" "worker_take t s1 = (TakeRun rec, s2)"
    and valid: "status_ok (worker_check_program rec (validate pol (rc_request rec) (ex_latest_state s2)
        (record_lease_valid t (rc_request rec) s2) (ex_jog_active s2)) s2)"
    and call: "execute_caught drv (rc_request rec) d = (res, d')"
  shows "\<exists>c. reachable drv pol opts (idle_sys (worker_finish opts clk rec res s2) d' (CReturned rq answer) c)"
proof -
  have "reachable drv pol opts (idle_sys s1 d (CReturned rq answer) calls)"
    by (rule idle_client [OF idle_client [OF idle_client [OF y client_step.submit_begun [OF submit(1)]]
          client_step.submit_approved [OF submit(2)]] client_step.submit_committed [OF submit(3)]])
  moreover have "(idle_sys s1 d c cs)\<lparr>sy_worker := WIdle\<rparr> = idle_sys s1 d c cs" for c cs
    by (simp add: idle_sys_def)
  ultimately have "reachable drv pol opts ((idle_sys s1 d (CReturned rq answer) calls)\<lparr>sy_worker := WIdle\<rparr>)"
    by simp
  from busy_worker [OF busy_worker [OF busy_worker [OF busy_worker [OF busy_worker [OF busy_worker
    [OF this worker_step.take_command [OF take]] worker_step.copy] worker_step.judge [OF refl]]
    worker_step.check] worker_step.call [OF valid call]] worker_step.finish [where clk = clk]]
  show ?thesis by (auto simp: idle_sys_def)
qed

definition demo_site :: safety_policy where
  "demo_site = demo_policy\<lparr>sp_program_execution_enabled := True, sp_approved_programs := [''weld'']\<rparr>"

lemma demo_site_idle: "reachable mock_driver demo_site demo_options (idle_sys demo_s2 demo_d1 CIdle [])"
proof -
  have run: "ex_running demo_s1" by (simp add: demo_s1_def)
  have ac: "is_accepting demo_s1" by (simp add: is_accepting_def demo_s1_def new_executor_def)
  have "reachable mock_driver demo_site demo_options (started demo_s1 demo_d1)"
    by (rule reachable.init [OF demo_start run])
  then have "reachable mock_driver demo_site demo_options (idle_sys demo_s1 demo_d1 CIdle [])"
    by (simp add: started_def idle_sys_def fun_upd_idem)
  from idle_client [OF this client_step.acquire_begin [OF ac]]
  have 1: "reachable mock_driver demo_site demo_options (idle_sys demo_s1 demo_d1 (CAcquiring ''cell'') [])" .
  have "lease_acquire 1 ''cell'' (ex_lease_manager demo_s1)
      = (fst (lease_acquire 1 ''cell'' (ex_lease_manager demo_s1)), ex_lease_manager demo_s2)"
    by (simp add: prod_eq_iff demo_acquire)
  from idle_client [OF 1 client_step.acquire [OF this]] show ?thesis by (simp add: demo_s2_def)
qed

text \<open>
  Claim C25. The queue is exactly the queued commands: each appears once, every entry is a
  record in state \<open>kQueued\<close> and every such record is an entry, and every stop stands before
  every command that is not a stop.
\<close>

theorem queue_is_the_queued_commands:
  assumes "reachable drv pol opts y"
  shows "distinct (ex_queue (sy_exec y))
    \<and> (\<forall>i. i \<in> set (ex_queue (sy_exec y)) \<longleftrightarrow>
         (\<exists>r. find_command (sy_exec y) i = Some r \<and> rc_state r = kQueued))
    \<and> sorted_wrt (\<lambda>i j. stop_at (ex_commands (sy_exec y)) j \<longrightarrow> stop_at (ex_commands (sy_exec y)) i)
        (ex_queue (sy_exec y))"
  using core_parts(2) [OF reach_exec [OF assms]] queue_facts [OF reach_exec [OF assms]]
  by (simp add: stops_first_def)


theorem queue_is_the_queued_commands_witness: "distinct (ex_queue (sy_exec demo_running))"
  using queue_is_the_queued_commands [OF demo_taken] by blast

text \<open>
  Claim C16. A stop is never held back: whenever a stop is queued and the executor is not
  shutting down, the worker is awake and the command it takes next is a stop, whatever
  motion is active and whatever else is queued; it runs unless its own timeout has passed.
\<close>

theorem queued_stop_is_next:
  assumes "reachable drv pol opts y" and "i \<in> set (ex_queue (sy_exec y))"
    and "stop_at (ex_commands (sy_exec y)) i" and "\<not> ex_shutting_down (sy_exec y)"
  shows "worker_wakes t (sy_exec y)
    \<and> (\<exists>j r. find_command (sy_exec y) j = Some r \<and> rq_type (rc_request r) = kStop \<and> rc_state r = kQueued
         \<and> fst (worker_take now (sy_exec y)) =
             (if timed_out now r then TakeContinue
              else TakeRun (r\<lparr>rc_state := kRunning, rc_updated_at := now\<rparr>)))"
proof -
  let ?s = "sy_exec y"
  note inv = reach_exec [OF assms(1)]
  obtain j q where q: "ex_queue ?s = j # q" using assms(2) by (cases "ex_queue ?s") auto
  have stop: "stop_at (ex_commands ?s) j"
    using core_parts(2) [OF inv] assms(2,3) q by (auto simp: stops_first_def)
  then obtain r where r: "find_command ?s j = Some r" "rq_type (rc_request r) = kStop"
    by (auto simp: stop_at_def find_command_def)
  have queued: "rc_state r = kQueued" using queue_facts(2) [OF inv, of j] q r by auto
  have "is_executable ?s j" using r by (simp add: is_executable_def can_run_during_motion_def split: option.split)
  then have f: "find_executable_command ?s = Some j" by (simp add: find_executable_command_def q)
  then have "fst (worker_take now ?s) = (if timed_out now r then TakeContinue
      else TakeRun (r\<lparr>rc_state := kRunning, rc_updated_at := now\<rparr>))"
    using assms(4) r by (simp add: worker_take_def Let_def)
  then show ?thesis using f r queued by (auto simp: worker_wakes_def)
qed


definition demo_stop :: command_request where
  "demo_stop = default_request\<lparr>rq_client_id := ''hmi'', rq_idempotency_key := ''s1''\<rparr>"

definition demo_p3 :: exec_state where
  "demo_p3 = snd (submit_commit demo_options demo_clk demo_stop demo_s2)"

lemma demo_stop_queued: "\<exists>c. reachable mock_driver demo_site demo_options (idle_sys demo_p3 demo_d1 c [])"
proof -
  have b: "submit_begin demo_stop demo_s2 = Inr (ex_latest_state demo_s2, False)" by code_simp
  have v: "status_ok (validate demo_site demo_stop (ex_latest_state demo_s2)
      (record_lease_valid 0 demo_stop demo_s2) False)" by code_simp
  have c: "submit_commit demo_options demo_clk demo_stop demo_s2
      = (fst (submit_commit demo_options demo_clk demo_stop demo_s2), demo_p3)"
    by (simp add: demo_p3_def)
  show ?thesis
    using idle_client [OF idle_client [OF idle_client [OF demo_site_idle client_step.submit_begun [OF b]]
          client_step.submit_approved [OF v]] client_step.submit_committed [OF c]] by blast
qed

theorem queued_stop_is_next_witness: "worker_wakes 0 demo_p3"
proof -
  obtain c where c: "reachable mock_driver demo_site demo_options (idle_sys demo_p3 demo_d1 c [])"
    using demo_stop_queued by blast
  have "ex_queue demo_p3 = [1]" "\<not> ex_shutting_down demo_p3" by code_simp+
  moreover have "case store_find (ex_commands demo_p3) 1 of Some r \<Rightarrow> rq_type (rc_request r) = kStop | None \<Rightarrow> False"
    by code_simp
  then have "stop_at (ex_commands demo_p3) 1" by (auto simp: stop_at_def split: option.splits)
  ultimately show ?thesis
    using queued_stop_is_next [OF c, of 1 0 0] by (simp add: idle_sys_def)
qed


section \<open>The queue is bounded\<close>

definition ordinary :: "exec_state \<Rightarrow> nat set" where
  "ordinary s = {i \<in> set (ex_queue s). \<not> stop_at (ex_commands s) i}"

lemma ordinary_sub:
  assumes "exec_inv infl s" "exec_inv infl' s'" "evolves {} s s'"
  shows "ordinary s' \<subseteq> ordinary s"
proof
  fix i assume i: "i \<in> ordinary s'"
  then obtain r' where r': "find_command s' i = Some r'" "rc_state r' = kQueued" "rq_type (rc_request r') \<noteq> kStop"
    using queued_command [OF assms(2)] by (auto simp: ordinary_def stop_at_def find_command_def)
  then obtain r where r: "find_command s i = Some r" using assms(3) by (cases "find_command s i") (auto simp: evolves_def)
  then have "follows r r'" using evolves_follows [OF assms(3)] r' by blast
  then show "i \<in> ordinary s"
    using r r' queue_facts(2) [OF assms(1), of i]
    by (auto simp: ordinary_def stop_at_def find_command_def follows_def may_become_def)
qed

lemma step_adds:
  assumes "sys_step drv pol opts y y'" and inv: "sys_inv pol y"
  shows "evolves {} (sy_exec y) (sy_exec y')
    \<or> (\<exists>clk rq r. submit_commit opts clk rq (sy_exec y) = (r, sy_exec y') \<and> sound_request rq)"
  using assms(1)
proof cases
  case (worker calls pc s d)
  have "exec_inv (held (sy_worker y)) (sy_exec y)" "worker_ok pol (sy_worker y)"
    "program_ok pol (ex_loaded_approved_program (sy_exec y))" using inv by (simp_all add: sys_inv_def)
  from worker_step_keeps(1) [OF worker(2) this, of "{}"] this show ?thesis
    using worker(1) by (simp add: moves_def)
next
  case (poller pc s d)
  then show ?thesis
    using inv poller_step_keeps(1) [OF poller(2), of "{}" "held (sy_worker y)"] by (simp add: sys_inv_def moves_def)
next
  case (shutdown pc s d)
  then show ?thesis
    using inv shutdown_step_keeps(1) [OF shutdown(2), of "{}" "held (sy_worker y)"] by (simp add: sys_inv_def moves_def)
next
  case (client i pc s d)
  have k: "exec_inv (held (sy_worker y)) (sy_exec y)" "client_ok (sy_clients y i)"
    using inv by (simp_all add: sys_inv_def)
  show ?thesis
  proof (cases "\<exists>rq. sy_clients y i = CApproved rq")
    case False
    then show ?thesis
      using client_step_keeps(1) [OF client(2) k, of "{}"] k client(1) by (auto simp: moves_def)
  next
    case True
    then obtain rq where rq: "sy_clients y i = CApproved rq" by blast
    from client(2) [unfolded rq] have "\<exists>clk r. submit_commit opts clk rq (sy_exec y) = (r, s)"
      by cases auto
    then show ?thesis using client(1) k(2) rq by auto
  qed
qed

lemma commit_ordinary:
  assumes "exec_inv infl s" "submit_commit opts clk rq s = (r, s')" "sound_request rq"
  shows "card (ordinary s') \<le> max (card (ordinary s)) (eo_maximum_queue_size opts)"
proof (cases "rq_type rq = kStop \<or> ex_queue s' = ex_queue s")
  case True
  have m: "moves {rq} infl s infl s'" using moves_submit_commit [OF assms(3), of "{rq}" infl s opts clk] assms(2) by simp
  then have inv': "exec_inv infl s'" and e: "evolves {rq} s s'" using assms(1) by (auto simp: moves_def)
  have "ordinary s' \<subseteq> ordinary s"
  proof (cases "rq_type rq = kStop")
    case True
    then have "rq_type (rc_request r) = kStop" if "rc_request r \<in> {rq}" for r using that by simp
    then have "evolves {} s s'" using e unfolding evolves_def by blast
    then show ?thesis using ordinary_sub [OF assms(1) inv'] by blast
  next
    case False
    with \<open>_ \<or> _\<close> have q: "ex_queue s' = ex_queue s" by blast
    have "stop_at (ex_commands s') i = stop_at (ex_commands s) i" if iq: "i \<in> set (ex_queue s)" for i
    proof -
      obtain a where a: "find_command s i = Some a" using queue_facts(2) [OF assms(1), of i] iq by blast
      have "i \<in> set (ex_queue s')" using iq q by simp
      then obtain b where b: "find_command s' i = Some b" using queue_facts(2) [OF inv', of i] by blast
      from evolves_follows [OF e a b] show ?thesis
        using a b by (simp add: stop_at_def find_command_def follows_def)
    qed
    then show ?thesis by (auto simp: ordinary_def q)
  qed
  then have "card (ordinary s') \<le> card (ordinary s)" by (intro card_mono) (auto simp: ordinary_def)
  then show ?thesis by simp
next
  case False
  then have "\<exists>i. ex_queue s' = ex_queue s @ [i] \<and> length (ex_queue s) < eo_maximum_queue_size opts"
    using assms(2)
    by (auto simp: submit_commit_def submit_enqueue_def Let_def split: if_splits option.splits)
  then obtain i where i: "ex_queue s' = ex_queue s @ [i]" "length (ex_queue s) < eo_maximum_queue_size opts" by blast
  have "card (ordinary s') \<le> card (set (ex_queue s'))" by (rule card_mono) (auto simp: ordinary_def)
  also have "\<dots> \<le> length (ex_queue s')" by (rule card_length)
  finally show ?thesis using i by simp
qed

text \<open>
  The queue stays bounded: in every reachable state at most
  \<open>maximum_queue_size\<close> of the queued commands are not stops, so ordinary clients cannot make
  the queue grow without limit.
\<close>

theorem ordinary_queue_bounded:
  assumes "reachable drv pol opts y"
  shows "card {i \<in> set (ex_queue (sy_exec y)). \<not> stop_at (ex_commands (sy_exec y)) i} \<le> eo_maximum_queue_size opts"
proof -
  have "card (ordinary (sy_exec y)) \<le> eo_maximum_queue_size opts" using assms
  proof (induction rule: reachable.induct)
    case (init connection now d0 st s d)
    have "ex_queue s = []"
      using init(1) by (auto simp: start_def new_executor_def Let_def split: if_splits prod.splits sum.splits)
    then show ?case by (simp add: ordinary_def started_def)
  next
    case (step y y')
    note inv = reachable_inv [OF step(1)]
    have i: "exec_inv (held (sy_worker y)) (sy_exec y)" "exec_inv (held (sy_worker y')) (sy_exec y')"
      using reach_exec step(1) reachable.step [OF step(1,2)] by blast+
    from step_adds [OF step(2) inv] show ?case
    proof (elim disjE exE conjE)
      assume "evolves {} (sy_exec y) (sy_exec y')"
      then have "card (ordinary (sy_exec y')) \<le> card (ordinary (sy_exec y))"
        using ordinary_sub [OF i] by (intro card_mono) (auto simp: ordinary_def)
      then show ?thesis using step(3) by simp
    next
      fix clk rq r
      assume "submit_commit opts clk rq (sy_exec y) = (r, sy_exec y')" "sound_request rq"
      then show ?thesis using commit_ordinary [OF i(1)] step(3) by fastforce
    qed
  qed
  then show ?thesis by (simp add: ordinary_def)
qed

end
