(* ===== verification/ExecutorHistory.thy ===== *)
theory ExecutorHistory
  imports ExecutorDemo
begin

text \<open>
  What one call of \<open>Submit\<close> does to the tables: the bounds of the queue and of the history,
  pruning, idempotent retries, the admission of stops, and the limits of the design that the
  model brings to light.
\<close>

section \<open>Pruning\<close>

lemma oldest_terminal_least:
  "oldest_terminal cmds o0 = Some (i, r)
     \<Longrightarrow> (\<forall>j r'. (j, r') \<in> set cmds \<longrightarrow> is_terminal (rc_state r') \<longrightarrow> rc_updated_at r \<le> rc_updated_at r')
       \<and> (\<forall>j r'. o0 = Some (j, r') \<longrightarrow> rc_updated_at r \<le> rc_updated_at r')"
proof (induction cmds o0 rule: oldest_terminal.induct)
  case (2 j r' rest oldest)
  then show ?case by (fastforce split: if_splits option.splits)
qed simp

lemma prune_history_ends:
  "store_wf cmds \<Longrightarrow> prune_history limit cmds idem = (cmds', idem')
     \<Longrightarrow> store_wf cmds' \<and> (store_size cmds' < limit \<or> (\<forall>(i, r)\<in>set cmds'. \<not> is_terminal (rc_state r)))"
proof (induction limit cmds idem rule: prune_history.induct)
  case (1 limit cmds idem)
  show ?case
  proof (cases "store_size cmds \<ge> limit \<and> oldest_terminal cmds None \<noteq> None")
    case True
    then obtain i r where "oldest_terminal cmds None = Some (i, r)" by auto
    then show ?thesis using 1 True by (simp add: prune_history.simps [of limit cmds] cs.wf_erase)
  next
    case False
    then show ?thesis
      using 1(2,3) oldest_terminal_None [of cmds None]
      by (auto simp: prune_history.simps [of limit cmds] not_le split: if_splits option.splits)
  qed
qed

lemma prune_history_oldest:
  "store_wf cmds \<Longrightarrow> prune_history limit cmds idem = (cmds', idem')
     \<Longrightarrow> store_find cmds i = Some r \<Longrightarrow> store_find cmds' i = None
     \<Longrightarrow> store_find cmds' j = Some r' \<Longrightarrow> is_terminal (rc_state r')
     \<Longrightarrow> is_terminal (rc_state r) \<and> rc_updated_at r \<le> rc_updated_at r'"
proof (induction limit cmds idem rule: prune_history.induct)
  case (1 limit cmds idem)
  show ?case
  proof (cases "store_size cmds \<ge> limit \<and> oldest_terminal cmds None \<noteq> None")
    case False
    then show ?thesis using 1 by (auto simp: prune_history.simps [of limit cmds] split: if_splits option.splits)
  next
    case True
    then obtain k q where kq: "oldest_terminal cmds None = Some (k, q)" by auto
    have k: "store_find cmds k = Some q" "is_terminal (rc_state q)"
      using oldest_terminal_in [OF kq] 1(2) cs.entries_look [of cmds k q] by auto
    have rest: "prune_history limit (store_erase k cmds)
        (store_erase (idempotency_map_key (rc_request q)) idem) = (cmds', idem')"
      using 1(3) True kq by (simp add: prune_history.simps [of limit cmds])
    show ?thesis
    proof (cases "i = k")
      case True
      have "store_find cmds j = Some r'"
        using prune_history_find [OF cs.wf_erase [OF 1(2)] rest, of j] 1(6) by (auto split: if_splits)
      then have "(j, r') \<in> set cmds" using cs.entries_look [OF 1(2)] by blast
      then show ?thesis using oldest_terminal_least [OF kq] k 1(4,7) True by auto
    next
      case False
      then show ?thesis using 1(1) True kq rest 1(2,4-) by (simp add: cs.wf_erase)
    qed
  qed
qed

text \<open>
  Pruning the history is safe and ordered: it removes only settled records, a
  removed record was last updated no later than any settled record that stays, and it stops
  only when the table is below its maximum or holds nothing but queued and running commands.
\<close>

theorem prune_removes_oldest_settled:
  assumes "store_wf (ex_commands s)" and "s' = prune_command_history opts s"
  shows "(\<forall>i. find_command s' i = find_command s i
        \<or> find_command s' i = None \<and> (\<exists>r. find_command s i = Some r \<and> is_terminal (rc_state r)))
    \<and> (\<forall>i r j r'. find_command s i = Some r \<longrightarrow> find_command s' i = None
         \<longrightarrow> find_command s' j = Some r' \<longrightarrow> is_terminal (rc_state r') \<longrightarrow> rc_updated_at r \<le> rc_updated_at r')
    \<and> (store_size (ex_commands s') < eo_maximum_command_history opts
       \<or> (\<forall>i r. find_command s' i = Some r \<longrightarrow> \<not> is_terminal (rc_state r)))"
proof -
  obtain cmds' idem' where p: "prune_history (eo_maximum_command_history opts) (ex_commands s)
      (ex_idempotency s) = (cmds', idem')" by fastforce
  then have s': "ex_commands s' = cmds'" using assms(2) by (simp add: prune_command_history_def)
  note ends = prune_history_ends [OF assms(1) p]
  have "\<not> is_terminal (rc_state r)"
    if "\<forall>(i, r)\<in>set cmds'. \<not> is_terminal (rc_state r)" "store_find cmds' i = Some r" for i r
    using that ends cs.entries_look [of cmds' i r] by auto
  then show ?thesis
    using prune_history_find [OF assms(1) p] prune_history_oldest [OF assms(1) p] ends
    unfolding find_command_def s' by blast
qed


section \<open>Submitting\<close>

lemma enqueue_accepts:
  assumes "exec_inv infl s" "submit_enqueue opts now rq s = (Returned (Inr i), s')"
  shows "i = ex_next_command_id s" "ex_next_command_id s' = i + 1"
    "find_command s' i = Some \<lparr>rc_id = i, rc_request = rq, rc_state = kQueued, rc_result = StatusOk,
       rc_created_at = now, rc_updated_at = now\<rparr>"
    "store_size (ex_commands s') \<le> eo_maximum_command_history opts"
    "ex_queue s' = (if rq_type rq = kStop then i # ex_queue s else ex_queue s @ [i])"
    "store_find (ex_idempotency s') (idempotency_map_key rq) = Some i"
proof -
  let ?s = "prune_command_history opts s"
  have "exec_inv infl ?s" using moves_prune assms(1) by (auto simp: moves_def)
  then have "find_command ?s (ex_next_command_id s) = None"
    using known_id [of infl ?s "ex_next_command_id s"] by (cases "find_command ?s (ex_next_command_id s)") auto
  then have fresh: "store_find (ex_commands ?s) (ex_next_command_id s) = None" by (simp add: find_command_def)
  let ?r = "\<lparr>rc_id = i, rc_request = rq, rc_state = kQueued, rc_result = StatusOk,
       rc_created_at = now, rc_updated_at = now\<rparr>"
  have size: "store_size (ex_commands ?s) < eo_maximum_command_history opts"
    and i: "i = ex_next_command_id s"
    and s': "s' = ?s\<lparr>ex_next_command_id := i + 1,
              ex_idempotency := store_put (idempotency_map_key rq) i (ex_idempotency ?s),
              ex_commands := store_emplace i ?r (ex_commands ?s),
              ex_queue := (if rq_type rq = kStop then i # ex_queue s else ex_queue s @ [i])\<rparr>"
    using assms(2) by (auto simp: submit_enqueue_def Let_def not_le split: if_splits)
  show "i = ex_next_command_id s" "ex_next_command_id s' = i + 1"
    "find_command s' i = Some ?r"
    "store_size (ex_commands s') \<le> eo_maximum_command_history opts"
    "ex_queue s' = (if rq_type rq = kStop then i # ex_queue s else ex_queue s @ [i])"
    "store_find (ex_idempotency s') (idempotency_map_key rq) = Some i"
    using fresh size i by (simp_all add: s' find_command_def cs.count_emplace)
qed

lemma refuse_iff:
  "((if b then (Returned (Inl e), s) else x) = (Returned (Inr i), s')) \<longleftrightarrow> \<not> b \<and> x = (Returned (Inr i), s')"
  by auto

text \<open>An accepted command was not a retry: the second critical section ran to its end.\<close>

lemma commit_accepts:
  assumes "submit_commit opts clk rq s = (Returned (Inr i), s')" and "idempotency_lookup rq s = None"
  obtains s1 where "submit_enqueue opts (clk 1) rq s1 = (Returned (Inr i), s')"
    "s1 = s \<and> length (ex_queue s) < eo_maximum_queue_size opts
      \<or> rq_type rq = kStop \<and> displace_for_stop (clk 0) s = Some s1"
proof (cases "eo_maximum_queue_size opts \<le> length (ex_queue s)")
  case False
  then have "submit_enqueue opts (clk 1) rq s = (Returned (Inr i), s')"
    using assms by (simp add: submit_commit_def refuse_iff)
  with False show ?thesis by (intro that) auto
next
  case True
  then show ?thesis
    using assms that by (auto simp: submit_commit_def refuse_iff simp del: One_nat_def split: option.splits)
qed

lemma find_in_set: "find P xs = Some x \<Longrightarrow> P x \<and> x \<in> set xs"
  by (induction xs) (auto split: if_splits)

lemma displace_length: "displace_for_stop now s = Some s1 \<Longrightarrow> Suc (length (ex_queue s1)) = length (ex_queue s)"
proof -
  assume "displace_for_stop now s = Some s1"
  then obtain i where "i \<in> set (ex_queue s)" "ex_queue s1 = remove_last i (ex_queue s)"
    by (auto simp: displace_for_stop_def dest!: find_in_set split: option.splits)
  then show ?thesis using length_remove_last [of i "ex_queue s"] length_pos_if_in_set [of i "ex_queue s"] by simp
qed

text \<open>
  An accepted command is recorded and within bounds: when \<open>Submit\<close> accepts a new
  command it returns a fresh id under which the queued record with that request is found,
  the history holds at most its maximum, the queue grew only below its maximum or (for a
  stop) not at all, and the stop stands first while any other command stands last.
\<close>

theorem accepted_command_is_recorded:
  assumes "exec_inv infl s" and "idempotency_lookup rq s = None"
    and "submit_commit opts clk rq s = (Returned (Inr i), s')"
  shows "find_command s i = None \<and> get_command i s' = Inr \<lparr>rc_id = i, rc_request = rq,
         rc_state = kQueued, rc_result = StatusOk, rc_created_at = clk 1, rc_updated_at = clk 1\<rparr>
    \<and> store_size (ex_commands s') \<le> eo_maximum_command_history opts
    \<and> length (ex_queue s') \<le> max (length (ex_queue s)) (eo_maximum_queue_size opts)
    \<and> (if rq_type rq = kStop then hd (ex_queue s') = i else last (ex_queue s') = i)"
proof -
  obtain s1 where s1: "submit_enqueue opts (clk 1) rq s1 = (Returned (Inr i), s')"
    "s1 = s \<and> length (ex_queue s) < eo_maximum_queue_size opts
      \<or> rq_type rq = kStop \<and> displace_for_stop (clk 0) s = Some s1"
    using commit_accepts [OF assms(3,2)] by blast
  have "moves {} infl s infl s1" using s1(2) moves_displace by blast
  then have inv1: "exec_inv infl s1" and ev: "evolves {} s s1" using assms(1) by (auto simp: moves_def)
  note acc = enqueue_accepts [OF inv1 s1(1)]
  have len: "length (ex_queue s1) < max (length (ex_queue s)) (eo_maximum_queue_size opts)"
    using s1(2) displace_length [of "clk 0" s s1] by auto
  have "ex_next_command_id s \<le> ex_next_command_id s1" using ev by (simp add: evolves_def)
  then have "find_command s i = None"
    using known_id [OF assms(1), of i] acc(1) by (cases "find_command s i") auto
  then show ?thesis using acc len by (auto simp: get_command_def)
qed


lemma demo_inv_s2: "exec_inv None demo_s2"
  using reachable_inv [OF demo_leased] by (simp add: sys_inv_def demo_sys_def)

lemma demo_new: "idempotency_lookup demo_move demo_s2 = None"
proof -
  have "ex_idempotency demo_s2 = []" by code_simp
  then show ?thesis by (simp add: idempotency_lookup_def)
qed

section \<open>Retries\<close>

lemma accepting_after_commit: "submit_commit opts clk rq s = (r, s') \<Longrightarrow> is_accepting s' = is_accepting s"
  using steady_submit [of opts clk rq s] by (auto simp: steady_def flags_def is_accepting_def)

lemma submit_known:
  "is_accepting s \<Longrightarrow> rq_client_id rq \<noteq> [] \<Longrightarrow> rq_idempotency_key rq \<noteq> [] \<Longrightarrow> rq_timeout rq > 0
     \<Longrightarrow> idempotency_lookup rq s = Some r \<Longrightarrow> submit policy opts now clk rq s = (r, s)"
  by (simp add: submit_def submit_begin_def)

text \<open>
  Claim C26. Retrying is safe: right after \<open>Submit\<close> accepted a request that passed the
  guard, submitting the same request again returns the same id and changes nothing, and a
  different command under the same client and key is refused with \<open>kAlreadyExists\<close>.
\<close>

theorem retry_returns_same_id:
  assumes "exec_inv infl s" and "idempotency_lookup rq s = None" and "sound_request rq" and "is_accepting s"
    and "submit_commit opts clk rq s = (Returned (Inr i), s')"
    and "rq_client_id rq \<noteq> []" "rq_idempotency_key rq \<noteq> []" "rq_timeout rq > 0"
  shows "submit policy opts now clk' rq s' = (Returned (Inr i), s')
    \<and> (\<forall>rq'. rq_client_id rq' = rq_client_id rq \<longrightarrow> rq_idempotency_key rq' = rq_idempotency_key rq
         \<longrightarrow> rq_timeout rq' > 0 \<longrightarrow> payloads_equal rq rq' = Some False
         \<longrightarrow> submit policy opts now clk' rq' s' = (Returned (Inl (Status kAlreadyExists
               ''idempotency key was used by a different command'')), s'))"
proof -
  obtain s1 where s1: "submit_enqueue opts (clk 1) rq s1 = (Returned (Inr i), s')"
    "s1 = s \<and> length (ex_queue s) < eo_maximum_queue_size opts
      \<or> rq_type rq = kStop \<and> displace_for_stop (clk 0) s = Some s1"
    using commit_accepts [OF assms(5,2)] by blast
  have "moves {} infl s infl s1" using s1(2) moves_displace by blast
  then have inv1: "exec_inv infl s1" using assms(1) by (auto simp: moves_def)
  note acc = enqueue_accepts [OF inv1 s1(1)]
  have look: "idempotency_lookup rq' s' = Some (if payloads_equal rq rq' = Some True then Returned (Inr i)
      else Returned (Inl (Status kAlreadyExists ''idempotency key was used by a different command'')))"
    if "rq_client_id rq' = rq_client_id rq" "rq_idempotency_key rq' = rq_idempotency_key rq"
      "payloads_equal rq rq' \<noteq> None" for rq'
    using acc(3,6) that by (auto simp: idempotency_lookup_def idempotency_map_key_def Let_def split: option.split)
  have ac: "is_accepting s'" using accepting_after_commit [OF assms(5)] assms(4) by simp
  have "submit policy opts now clk' rq s' = (Returned (Inr i), s')"
    using assms(3,6-) by (intro submit_known [OF ac] trans [OF look]) (auto simp: sound_request_def)
  moreover have "submit policy opts now clk' rq' s' = (Returned (Inl (Status kAlreadyExists
      ''idempotency key was used by a different command'')), s')"
    if "rq_client_id rq' = rq_client_id rq" "rq_idempotency_key rq' = rq_idempotency_key rq"
      "rq_timeout rq' > 0" "payloads_equal rq rq' = Some False" for rq'
    using assms(6-) that by (intro submit_known [OF ac] trans [OF look]) auto
  ultimately show ?thesis by blast
qed

lemma demo_sound: "sound_request demo_move"
  using validate_sound_request demo_move_accepted by blast

theorem retry_returns_same_id_witness:
  "submit demo_policy demo_options 0 demo_clk demo_move demo_s3 = (Returned (Inr 1), demo_s3)"
proof -
  have "is_accepting demo_s2" by code_simp
  from retry_returns_same_id [OF demo_inv_s2 demo_new demo_sound this demo_commit]
  show ?thesis by (simp add: demo_move_def default_request_def)
qed


section \<open>Stops\<close>

lemma displace_some:
  assumes "exec_inv infl s" and "i \<in> set (ex_queue s)" "\<not> stop_at (ex_commands s) i"
  shows "displace_for_stop now s \<noteq> None"
proof -
  obtain r where "find_command s i = Some r" using queued_command [OF assms(1,2)] .
  then have i: "case find_command s i of None \<Rightarrow> False | Some r \<Rightarrow> rq_type (rc_request r) \<noteq> kStop"
    using assms(3) by (simp add: stop_at_def find_command_def)
  show ?thesis
  proof
    assume "displace_for_stop now s = None"
    then have "find (\<lambda>i. case find_command s i of None \<Rightarrow> False | Some r \<Rightarrow> rq_type (rc_request r) \<noteq> kStop)
        (rev (ex_queue s)) = None"
      by (simp add: displace_for_stop_def split: option.splits)
    then show False using i assms(2) by (simp add: find_None_iff)
  qed
qed

lemma displace_none:
  assumes "exec_inv infl s"
  shows "displace_for_stop now s = None \<longleftrightarrow> (\<forall>i\<in>set (ex_queue s). stop_at (ex_commands s) i)"
proof
  show "displace_for_stop now s = None \<Longrightarrow> \<forall>i\<in>set (ex_queue s). stop_at (ex_commands s) i"
    using displace_some [OF assms] by blast
  show "\<forall>i\<in>set (ex_queue s). stop_at (ex_commands s) i \<Longrightarrow> displace_for_stop now s = None"
    by (auto simp: displace_for_stop_def stop_at_def find_command_def find_None_iff split: option.split
        dest!: find_in_set)
qed

text \<open>The commands that have not settled; the history must have room for one more.\<close>

definition unsettled :: "exec_state \<Rightarrow> nat set" where
  "unsettled s = {i. \<exists>r. find_command s i = Some r \<and> \<not> is_terminal (rc_state r)}"

lemma store_size_card: "store_wf cmds \<Longrightarrow> store_size cmds = card {i. store_find cmds i \<noteq> None}"
proof -
  assume "store_wf cmds"
  then have "card (set (map fst cmds)) = store_size cmds"
    by (simp only: distinct_card store_wf_def store_size_def length_map)
  moreover have "set (map fst cmds) = {i. store_find cmds i \<noteq> None}"
    by (auto simp: store_find_def map_of_eq_None_iff)
  ultimately show ?thesis by simp
qed

lemma finite_commands [simp]: "finite {i. \<exists>r. find_command s i = Some r \<and> P i r}"
proof (rule finite_subset)
  show "{i. \<exists>r. find_command s i = Some r \<and> P i r} \<subseteq> fst ` set (ex_commands s)"
    by (force simp: find_command_def store_find_def dest: map_of_SomeD)
qed simp

lemma finite_unsettled [simp]: "finite (unsettled s)"
  by (simp add: unsettled_def)

lemma prune_unsettled:
  assumes "exec_inv infl s"
  shows "store_size (ex_commands (prune_command_history opts s)) \<ge> eo_maximum_command_history opts
    \<longleftrightarrow> card (unsettled s) \<ge> eo_maximum_command_history opts"
proof -
  let ?p = "prune_command_history opts s"
  note pruned = prune_removes_oldest_settled [OF inv_wf [OF assms] refl, of opts]
  have "exec_inv infl ?p" using moves_prune assms by (auto simp: moves_def)
  from store_size_card [OF inv_wf [OF this]]
  have size: "store_size (ex_commands ?p) = card {i. \<exists>r. find_command ?p i = Some r}"
    by (simp add: find_command_def)
  have same: "unsettled ?p = unsettled s"
    using pruned unfolding unsettled_def by (metis (mono_tags, opaque_lifting) option.distinct(1) option.inject)
  show ?thesis
  proof
    assume "store_size (ex_commands ?p) \<ge> eo_maximum_command_history opts"
    then have "{i. \<exists>r. find_command ?p i = Some r} = unsettled ?p"
      using pruned unfolding unsettled_def by fastforce
    then show "card (unsettled s) \<ge> eo_maximum_command_history opts"
      using same size \<open>store_size _ \<ge> _\<close> by simp
  next
    assume "card (unsettled s) \<ge> eo_maximum_command_history opts"
    moreover have "card (unsettled ?p) \<le> card {i. \<exists>r. find_command ?p i = Some r}"
      using finite_commands [of ?p "\<lambda>_ _. True"] by (intro card_mono) (auto simp: unsettled_def)
    ultimately show "store_size (ex_commands ?p) \<ge> eo_maximum_command_history opts"
      using same size by simp
  qed
qed

lemma enqueue_refused:
  assumes "exec_inv infl s"
  shows "(\<exists>e. fst (submit_enqueue opts now rq s) = Returned (Inl e))
    \<longleftrightarrow> card (unsettled s) \<ge> eo_maximum_command_history opts"
  using prune_unsettled [OF assms, of opts] by (simp add: submit_enqueue_def Let_def)

lemma displace_unsettled:
  assumes "exec_inv infl s" and "displace_for_stop now s = Some s1"
  shows "Suc (card (unsettled s1)) = card (unsettled s)"
proof -
  obtain i where i: "i \<in> set (ex_queue s)"
    and s1: "s1 = (modify_record i (\<lambda>r. r\<lparr>rc_state := kCancelled,
             rc_result := Status kResourceExhausted ''command was displaced by a safety stop'',
             rc_updated_at := now\<rparr>) s)\<lparr>ex_queue := remove_last i (ex_queue s)\<rparr>"
    using assms(2) by (auto simp: displace_for_stop_def dest!: find_in_set split: option.splits)
  obtain r where r: "find_command s i = Some r" "rc_state r = kQueued" by (rule queued_command [OF assms(1) i])
  have "find_command (t\<lparr>ex_queue := q\<rparr>) j = find_command t j" for t q j by (simp add: find_command_def)
  then have "unsettled s1 = unsettled s - {i}" using r by (auto simp: unsettled_def s1)
  moreover have "i \<in> unsettled s" using r by (simp add: unsettled_def)
  ultimately show ?thesis using card.remove [of "unsettled s" i] by simp
qed

text \<open>The second critical section, for a stop whose key is new.\<close>

lemma commit_refuses_stop:
  assumes "exec_inv infl s" and "is_accepting s" and "rq_type rq = kStop" and "idempotency_lookup rq s = None"
  shows "(\<exists>e. fst (submit_commit opts clk rq s) = Returned (Inl e)) \<longleftrightarrow>
    (if length (ex_queue s) \<ge> eo_maximum_queue_size opts
     then (\<forall>i\<in>set (ex_queue s). stop_at (ex_commands s) i)
       \<or> card (unsettled s) > eo_maximum_command_history opts
     else card (unsettled s) \<ge> eo_maximum_command_history opts)"
proof (cases "length (ex_queue s) \<ge> eo_maximum_queue_size opts")
  case False
  then show ?thesis
    using assms(2-4) enqueue_refused [OF assms(1), of opts "clk 1" rq] by (simp add: submit_commit_def)
next
  case full: True
  show ?thesis
  proof (cases "displace_for_stop (clk 0) s")
    case None
    then show ?thesis
      using full assms(2-4) displace_none [OF assms(1), of "clk 0"] by (simp add: submit_commit_def)
  next
    case (Some s1)
    have "exec_inv infl s1" using moves_displace [OF Some, of "{}" infl] assms(1) by (simp add: moves_def)
    from enqueue_refused [OF this, of opts "clk 1" rq] show ?thesis
      using full assms(2-4) Some displace_none [OF assms(1), of "clk 0"] displace_unsettled [OF assms(1) Some]
      by (auto simp: submit_commit_def)
  qed
qed

text \<open>
  Claim C34. When a stop is refused: \<open>Submit\<close> refuses a stop in exactly these cases. The
  request itself is malformed (no client id, no idempotency key, no positive timeout, or not
  the payload of a stop); the executor is not running; the key was
  used for a different command; the last snapshot says that the robot is not connected; the
  queue is full and holds nothing but stops; or the history is full of commands that have not
  settled, not counting the queued command a stop displaces from a full queue. In particular
  no lease, no active motion, no loss of readiness and no queue of other commands matters.
\<close>

theorem stop_admission:
  assumes "exec_inv infl s" and "rq_type rq = kStop"
  shows "(\<exists>e. fst (submit policy opts now clk rq s) = Returned (Inl e)) \<longleftrightarrow>
      rq_client_id rq = [] \<or> rq_idempotency_key rq = [] \<or> rq_timeout rq \<le> 0 \<or> \<not> is_accepting s
    \<or> (case store_find (ex_idempotency s) (idempotency_map_key rq) of
         Some i \<Rightarrow> \<not> (\<exists>r. find_command s i = Some r \<and> payloads_equal (rc_request r) rq = Some True)
       | None \<Rightarrow> \<not> payload_type_valid kStop (rq_payload rq) \<or> \<not> sn_connected (ex_latest_state s)
           \<or> (if length (ex_queue s) \<ge> eo_maximum_queue_size opts
              then (\<forall>i\<in>set (ex_queue s). stop_at (ex_commands s) i)
                \<or> card (unsettled s) > eo_maximum_command_history opts
              else card (unsettled s) \<ge> eo_maximum_command_history opts))"
proof (cases "rq_client_id rq = [] \<or> rq_idempotency_key rq = [] \<or> rq_timeout rq \<le> 0 \<or> \<not> is_accepting s")
  case True
  then show ?thesis by (auto simp: submit_def submit_begin_def)
next
  case False
  show ?thesis
  proof (cases "store_find (ex_idempotency s) (idempotency_map_key rq)")
    case (Some i)
    have "\<exists>b. payloads_equal (rc_request r) rq = Some b" if "find_command s i = Some r" for r
      using sound_records [OF assms(1) that] by (simp add: payloads_equal_total sound_request_def)
    then show ?thesis
      using False Some
      by (fastforce simp: submit_def submit_begin_def idempotency_lookup_def Let_def split: option.split bool.split)
  next
    case None
    then have new: "idempotency_lookup rq s = None" by (simp add: idempotency_lookup_def)
    have guard: "status_ok (validate policy rq (ex_latest_state s) lv (ex_jog_active s))
        \<longleftrightarrow> payload_type_valid kStop (rq_payload rq) \<and> sn_connected (ex_latest_state s)" for lv
      using validate_stop [OF assms(2), of policy] validate_ok_payload_type [of policy rq] assms(2) by metis
    show ?thesis
      using False None new guard commit_refuses_stop [OF assms(1) _ assms(2) new, of opts clk]
      by (auto simp: submit_def submit_begin_def Let_def)
  qed
qed


text \<open>An executor that runs a move and is just handing a hold command to the driver.\<close>

definition demo_hold :: command_request where
  "demo_hold = default_request\<lparr>rq_type := kHold, rq_client_id := ''cell'',
     rq_lease_id := ''lease-1-1'', rq_idempotency_key := ''h1''\<rparr>"

definition demo_hold_record :: command_record where
  "demo_hold_record = demo_record\<lparr>rc_id := 2, rc_request := demo_hold\<rparr>"

definition demo_busy :: exec_state where
  "demo_busy = demo_s2\<lparr>ex_commands := [(2, demo_hold_record), (1, demo_record)],
     ex_active_motion_id := Some 1, ex_next_command_id := 3\<rparr>"

definition demo_stop2 :: command_request where
  "demo_stop2 = default_request\<lparr>rq_client_id := ''hmi'', rq_idempotency_key := ''s1''\<rparr>"

definition tight_options :: executor_options where
  "tight_options = demo_options\<lparr>eo_maximum_queue_size := 1, eo_maximum_command_history := 2\<rparr>"

lemma demo_busy_inv: "exec_inv (Some demo_hold_record) demo_busy"
proof -
  have q: "ex_queue demo_s2 = []" "ex_idempotency demo_s2 = []" by code_simp+
  have s: "sound_request demo_hold" "sound_request demo_move" by (code_simp, rule demo_sound)
  have t: "\<not> is_motion_command kHold" by (simp add: is_motion_command_def)
  have f: "store_find (ex_commands demo_busy) i = (if i = 2 then Some demo_hold_record
      else if i = 1 then Some demo_record else None)" for i
    by (simp add: demo_busy_def store_find_def)
  have fields: "rc_id demo_hold_record = 2" "rc_request demo_hold_record = demo_hold"
    "rc_state demo_hold_record = kRunning" "rq_type demo_hold = kHold"
    "rc_id demo_record = 1" "rc_request demo_record = demo_move" "rc_state demo_record = kRunning"
    "rq_type demo_move = kMoveJ"
    by (simp_all add: demo_hold_record_def demo_hold_def demo_record_def demo_move_def)
  have b: "ex_queue demo_busy = []" "ex_idempotency demo_busy = []" "ex_next_command_id demo_busy = 3"
    "ex_active_motion_id demo_busy = Some 1"
    by (simp_all add: demo_busy_def q)
  have wf: "store_wf (ex_commands demo_busy)" by (simp add: demo_busy_def store_wf_def)
  show ?thesis
    unfolding exec_inv_def
  proof (rule core_invI)
    show "records_ok (ex_commands demo_busy) (ex_next_command_id demo_busy)"
      using wf s by (simp add: records_ok_def f b fields)
    show "queue_ok (ex_commands demo_busy) (ex_queue demo_busy)" by (simp add: queue_ok_def f b fields)
    show "stops_first (ex_commands demo_busy) (ex_queue demo_busy)" by (simp add: stops_first_def b)
    show "running_ok (Some demo_hold_record) (ex_commands demo_busy) (ex_active_motion_id demo_busy)"
      by (simp add: running_ok_def f b fields)
    show "infl_ok (Some demo_hold_record) (ex_commands demo_busy) (ex_active_motion_id demo_busy)"
      by (simp add: infl_ok_def f b fields t)
    show "active_ok (ex_commands demo_busy) (ex_active_motion_id demo_busy) (ex_next_command_id demo_busy)"
      by (simp add: active_ok_def f b fields)
    show "one_motion (ex_commands demo_busy)"
      by (simp add: one_motion_def live_motion_def f fields t)
    show "index_ok (ex_commands demo_busy) (ex_idempotency demo_busy)" by (simp add: index_ok_def b)
  qed
qed

text \<open>
  The smallest history the options allow is too small: with
  \<open>maximum_command_history = maximum_queue_size + 1\<close>, which \<open>Start\<close> accepts, a running
  motion and one command in the worker's hands fill the history, and a stop is refused
  although the queue is empty and no stop is pending.
\<close>

theorem tight_history_refuses_stop:
  "\<not> options_invalid tight_options \<and> ex_queue demo_busy = [] \<and> is_accepting demo_busy
    \<and> status_ok (validate demo_policy demo_stop2 (ex_latest_state demo_busy) False False)
    \<and> fst (submit_commit tight_options demo_clk demo_stop2 demo_busy)
        = Returned (Inl (Status kResourceExhausted ''command history is full of active records''))"
  by (intro conjI; code_simp)

theorem stop_admission_witness:
  "card (unsettled demo_busy) \<ge> 2"
proof -
  have k: "rq_type demo_stop2 = kStop" by code_simp
  have n: "store_find (ex_idempotency demo_busy) (idempotency_map_key demo_stop2) = None" by code_simp
  have q: "ex_queue demo_busy = []" by code_simp
  have "fst (submit demo_policy tight_options 0 demo_clk demo_stop2 demo_busy)
      = Returned (Inl (Status kResourceExhausted ''command history is full of active records''))" by code_simp
  moreover have "rq_client_id demo_stop2 \<noteq> []" "rq_idempotency_key demo_stop2 \<noteq> []"
    "rq_timeout demo_stop2 > 0" "is_accepting demo_busy" "sn_connected (ex_latest_state demo_busy)"
    "payload_type_valid kStop (rq_payload demo_stop2)" by code_simp+
  ultimately show ?thesis
    using stop_admission [OF demo_busy_inv k, of demo_policy tight_options 0 demo_clk]
    by (simp add: n q tight_options_def)
qed

end
