(* ===== verification/ExecutorMotion.thy ===== *)
theory ExecutorMotion
  imports ExecutorDemo
begin

text \<open>
  Supervision: what the polling thread and the release of a lease do to motions and jogs,
  when a motion counts as done, what a published snapshot's sequence number means, and how
  timeouts and idempotency keys behave, with their limits.
\<close>

section \<open>Internal stops\<close>

lemma internal_stop_requested [simp]: "ex_stop_requested (request_internal_stop reason now s)"
  by (simp add: request_internal_stop_def Let_def)

lemma internal_stop_once: "ex_stop_requested s \<Longrightarrow> request_internal_stop reason now s = s"
  by (simp add: request_internal_stop_def)

lemma internal_stop_latest [simp]: "ex_latest_state (request_internal_stop reason now s) = ex_latest_state s"
  by (simp add: request_internal_stop_def Let_def)

lemma latest_modify [simp]: "ex_latest_state (modify_record i f s) = ex_latest_state s"
  by (simp add: modify_record_def split: option.split)

lemma latest_finish [simp]: "ex_latest_state (finish_active_motion i now s) = ex_latest_state s"
  by (simp add: finish_active_motion_def)

lemma latest_update [simp]: "ex_latest_state (update_active_motion opts now now' s) = ex_latest_state s"
proof (cases "ex_active_motion_id s")
  case (Some i)
  have if_same: "ex_latest_state (if b then x else y) = l"
    if "ex_latest_state x = l" "ex_latest_state y = l" for b x y l using that by simp
  have fields: "ex_latest_state (t\<lparr>ex_active_motion_id := a\<rparr>) = ex_latest_state t"
    "ex_latest_state (t\<lparr>ex_active_motion_seen := b\<rparr>) = ex_latest_state t" for t a b by simp_all
  show ?thesis
  proof (cases "find_command s i")
    case None
    then show ?thesis using Some by (simp add: update_active_motion_def)
  next
    case (Some command)
    show ?thesis
      unfolding update_active_motion_def Let_def \<open>ex_active_motion_id s = Some i\<close> option.case Some
      by (intro if_same) (simp_all only: fields internal_stop_latest latest_modify latest_finish)
  qed
qed (simp add: update_active_motion_def)

text \<open>The three stages of \<open>poll_apply\<close>.\<close>

lemma poll_apply_stages:
  obtains l u s2 s3 where "poll_snapshot opts (clk 0) state (ex_latest_state s) = (l, u)"
    "s2 = (if u then update_active_motion opts (clk 1) (clk 2) (s\<lparr>ex_latest_state := l\<rparr>)
           else s\<lparr>ex_latest_state := l\<rparr>)"
    "s3 = (if ex_active_motion_id s2 \<noteq> None \<and> \<not> active_motion_lease_is_valid (clk 3) s2
           then request_internal_stop ''control lease expired'' (clk 4) s2 else s2)"
    "poll_apply opts clk state s =
       (if ex_jog_active s3 \<and> (clk 5 \<ge> ex_jog_deadline s3
          \<or> \<not> lease_is_valid (clk 6) (ex_active_jog_lease_id s3) (ex_active_jog_client_id s3)
               (ex_lease_manager s3))
        then request_internal_stop ''jog heartbeat or control lease expired'' (clk 7) s3 else s3)"
proof -
  obtain l u where lu: "poll_snapshot opts (clk 0) state (ex_latest_state s) = (l, u)" by fastforce
  show ?thesis by (rule that [OF lu refl refl]) (simp only: poll_apply_def lu Let_def prod.case)
qed

text \<open>
  What a section of the poller does to a state \<open>s\<close> without a pending stop: either the queue,
  the next id and the flag stay, or a new automatic stop stands at the head of the queue.
\<close>

definition stop_asked :: "exec_state \<Rightarrow> exec_state \<Rightarrow> bool" where
  "stop_asked s t \<longleftrightarrow>
    (if ex_stop_requested t then ex_queue t = ex_next_command_id s # ex_queue s
       \<and> (\<exists>reason now. find_command t (ex_next_command_id s)
            = Some (internal_stop_record (ex_next_command_id s) reason now))
     else ex_queue t = ex_queue s \<and> ex_next_command_id t = ex_next_command_id s
       \<and> find_command t (ex_next_command_id s) = None)"

lemma stop_asked_internal: "stop_asked s t \<Longrightarrow> stop_asked s (request_internal_stop reason now t)"
  by (auto simp: stop_asked_def request_internal_stop_def find_command_def Let_def cs.look_emplace
      split: if_splits)

lemma stop_asked_if: "stop_asked s x \<Longrightarrow> stop_asked s y \<Longrightarrow> stop_asked s (if b then x else y)"
  by simp

lemma stop_asked_intros:
  assumes "stop_asked s t" and "\<not> ex_stop_requested t"
  shows "stop_asked s (t\<lparr>ex_active_motion_id := a\<rparr>)" "stop_asked s (t\<lparr>ex_active_motion_seen := b\<rparr>)"
    "stop_asked s (modify_record i f t)" "stop_asked s (finish_active_motion i now t)"
proof -
  show m: "stop_asked s (modify_record i f t)" for f
    using assms
    by (auto simp: stop_asked_def modify_record_def find_command_def split: option.split)
  show "stop_asked s (t\<lparr>ex_active_motion_id := a\<rparr>)" "stop_asked s (t\<lparr>ex_active_motion_seen := b\<rparr>)"
    using assms by (simp_all add: stop_asked_def find_command_def)
  have "ex_stop_requested (modify_record i f t) = ex_stop_requested t" for f
    by (simp add: modify_record_def split: option.split)
  then show "stop_asked s (finish_active_motion i now t)"
    using m assms(2) by (simp add: finish_active_motion_def stop_asked_def find_command_def)
qed

lemma stop_asked_update:
  assumes "stop_asked s t" and "\<not> ex_stop_requested t"
  shows "stop_asked s (update_active_motion opts now now' t)"
proof (cases "ex_active_motion_id t")
  case None
  then show ?thesis using assms(1) by (simp add: update_active_motion_def)
next
  case (Some i)
  note asked = stop_asked_intros [OF assms]
  have stopped: "stop_asked s (request_internal_stop reason now' (modify_record i f t))" for reason f
    by (rule stop_asked_internal [OF asked(3)])
  have cleared: "stop_asked s (u\<lparr>ex_active_motion_id := None, ex_active_motion_seen := False\<rparr>)"
    if "stop_asked s u" for u using that by (auto simp: stop_asked_def find_command_def split: if_splits)
  show ?thesis
  proof (cases "find_command t i")
    case None
    then show ?thesis using Some asked(1) by (simp add: update_active_motion_def)
  next
    case (Some command)
    show ?thesis
      unfolding update_active_motion_def Let_def \<open>ex_active_motion_id t = Some i\<close> option.case Some
      by (intro stop_asked_if) (rule stopped cleared [OF stopped] assms(1) asked)+
  qed
qed

lemma stop_asked_poll:
  assumes "find_command s (ex_next_command_id s) = None" and "\<not> ex_stop_requested s"
  shows "stop_asked s (poll_apply opts clk state s)"
proof -
  obtain l u s2 s3 where st: "s2 = (if u then update_active_motion opts (clk 1) (clk 2) (s\<lparr>ex_latest_state := l\<rparr>)
           else s\<lparr>ex_latest_state := l\<rparr>)"
    "s3 = (if ex_active_motion_id s2 \<noteq> None \<and> \<not> active_motion_lease_is_valid (clk 3) s2
           then request_internal_stop ''control lease expired'' (clk 4) s2 else s2)"
    "poll_apply opts clk state s = (if ex_jog_active s3 \<and> (clk 5 \<ge> ex_jog_deadline s3
          \<or> \<not> lease_is_valid (clk 6) (ex_active_jog_lease_id s3) (ex_active_jog_client_id s3)
               (ex_lease_manager s3))
        then request_internal_stop ''jog heartbeat or control lease expired'' (clk 7) s3 else s3)"
    by (rule poll_apply_stages)
  have "stop_asked s (s\<lparr>ex_latest_state := l\<rparr>)" using assms by (simp add: stop_asked_def find_command_def)
  then have "stop_asked s s2" unfolding st(1)
    by (intro stop_asked_if stop_asked_update) (simp_all add: assms(2))
  then have "stop_asked s s3" unfolding st(2) by (intro stop_asked_if stop_asked_internal)
  then show ?thesis unfolding st(3) by (intro stop_asked_if stop_asked_internal)
qed

text \<open>After a poll, no motion without its lease and no jog past its deadline is left unmarked.\<close>

lemma poll_marks_stop:
  assumes "s' = poll_apply opts clk state s"
    and "ex_active_motion_id s' \<noteq> None \<and> \<not> active_motion_lease_is_valid (clk 3) s'
      \<or> ex_jog_active s' \<and> (clk 5 \<ge> ex_jog_deadline s'
          \<or> \<not> lease_is_valid (clk 6) (ex_active_jog_lease_id s') (ex_active_jog_client_id s') (ex_lease_manager s'))"
  shows "ex_stop_requested s'"
proof (rule ccontr)
  assume no: "\<not> ex_stop_requested s'"
  obtain l u s2 s3 where s3: "s3 = (if ex_active_motion_id s2 \<noteq> None \<and> \<not> active_motion_lease_is_valid (clk 3) s2
           then request_internal_stop ''control lease expired'' (clk 4) s2 else s2)"
    and s': "s' = (if ex_jog_active s3 \<and> (clk 5 \<ge> ex_jog_deadline s3
          \<or> \<not> lease_is_valid (clk 6) (ex_active_jog_lease_id s3) (ex_active_jog_client_id s3)
               (ex_lease_manager s3))
        then request_internal_stop ''jog heartbeat or control lease expired'' (clk 7) s3 else s3)"
    using poll_apply_stages [of opts clk state s] assms(1) by metis
  have "s' = s3" using s' no internal_stop_requested by (metis (full_types))
  moreover have "s3 = s2" using s3 no \<open>s' = s3\<close> internal_stop_requested by (metis (full_types))
  ultimately show False using assms(2) s' s3 no internal_stop_requested by (metis (full_types))
qed

text \<open>
  Claim C24. Every poll answers an expired lease or heartbeat with a stop: in every reachable
  state in which no automatic stop is pending, a poll after which a motion is still active
  without a valid lease, or a jog is active past its deadline or without a valid lease, has
  put a new controlled stop, queued under a fresh id, at the head of the otherwise unchanged
  queue, and it is the command the worker finds executable next. A stop that was pending
  before stays marked as pending (and is not repeated, see \<open>failed_stop_is_not_retried\<close> in
  \<open>ExecutorLimits\<close>).
\<close>

theorem poll_guards_motion_and_jog:
  assumes "reachable drv pol opts y" and "s' = poll_apply opts clk state (sy_exec y)"
    and "ex_active_motion_id s' \<noteq> None \<and> \<not> active_motion_lease_is_valid (clk 3) s'
      \<or> ex_jog_active s' \<and> (clk 5 \<ge> ex_jog_deadline s'
          \<or> \<not> lease_is_valid (clk 6) (ex_active_jog_lease_id s') (ex_active_jog_client_id s') (ex_lease_manager s'))"
  shows "ex_stop_requested s'
    \<and> (\<not> ex_stop_requested (sy_exec y) \<longrightarrow>
         ex_queue s' = ex_next_command_id (sy_exec y) # ex_queue (sy_exec y)
         \<and> find_executable_command s' = Some (ex_next_command_id (sy_exec y))
         \<and> find_command (sy_exec y) (ex_next_command_id (sy_exec y)) = None
         \<and> (\<exists>r. find_command s' (ex_next_command_id (sy_exec y)) = Some r
              \<and> rq_type (rc_request r) = kStop \<and> rq_payload (rc_request r) = StopPayload kControlled
              \<and> rc_state r = kQueued))"
proof -
  let ?s = "sy_exec y"
  have flag: "ex_stop_requested s'" by (rule poll_marks_stop [OF assms(2,3)])
  have "exec_inv (held (sy_worker y)) ?s" using reachable_inv [OF assms(1)] by (simp add: sys_inv_def)
  then have fresh: "find_command ?s (ex_next_command_id ?s) = None"
    using known_id by (cases "find_command ?s (ex_next_command_id ?s)") blast+
  have "ex_queue s' = ex_next_command_id ?s # ex_queue ?s \<and> (\<exists>reason now.
      find_command s' (ex_next_command_id ?s) = Some (internal_stop_record (ex_next_command_id ?s) reason now))"
    if "\<not> ex_stop_requested ?s"
    using stop_asked_poll [OF fresh that, of opts clk state] flag by (simp add: stop_asked_def assms(2))
  moreover have "find_executable_command s' = Some i"
    if "ex_queue s' = i # q" "find_command s' i = Some (internal_stop_record i reason now)" for i q reason now
    using that by (simp add: find_executable_command_def is_executable_def internal_stop_record_def
        can_run_during_motion_def split: option.split)
  ultimately show ?thesis
    using flag fresh by (auto simp: internal_stop_record_def)
qed

text \<open>The concrete run after its lease has expired, polled while the robot still moves.\<close>

definition late_poll :: exec_state where
  "late_poll = poll_apply demo_options (\<lambda>_. 4000000000) (Inr (demo_snapshot\<lparr>sn_moving := True\<rparr>)) demo_s5"

theorem poll_guards_motion_and_jog_witness:
  "ex_queue late_poll = [2] \<and> find_executable_command late_poll = Some 2"
proof -
  have y: "sy_exec demo_done = demo_s5" by (simp add: demo_done_def demo_sys_def)
  have p: "late_poll = poll_apply demo_options (\<lambda>_. 4000000000) (Inr (demo_snapshot\<lparr>sn_moving := True\<rparr>))
      (sy_exec demo_done)" by (simp add: late_poll_def y)
  have "ex_active_motion_id late_poll \<noteq> None \<and> \<not> active_motion_lease_is_valid 4000000000 late_poll"
    by code_simp
  moreover have "\<not> ex_stop_requested demo_s5" "ex_next_command_id demo_s5 = 2" "ex_queue demo_s5 = []"
    by code_simp+
  ultimately show ?thesis using poll_guards_motion_and_jog [OF demo_finished p] by (simp add: y)
qed

section \<open>When a motion is done\<close>

definition unsafe_lifecycle :: "robot_lifecycle_state \<Rightarrow> bool" where
  "unsafe_lifecycle lc \<longleftrightarrow> lc = kLifecycleUnknown \<or> lc = kDisconnected \<or> lc = kFault \<or> lc = kEmergencyStop"

lemma find_other_fields [simp]:
  "find_command (s\<lparr>ex_active_motion_id := a\<rparr>) i = find_command s i"
  "find_command (s\<lparr>ex_active_motion_seen := b\<rparr>) i = find_command s i"
  "find_command (s\<lparr>ex_stop_requested := b\<rparr>) i = find_command s i"
  "find_command (s\<lparr>ex_latest_state := l\<rparr>) i = find_command s i"
  by (simp_all add: find_command_def)

lemma find_after_stop:
  "find_command s i = Some r \<Longrightarrow> find_command (request_internal_stop reason now s) i = Some r"
  by (auto simp: request_internal_stop_def find_command_def Let_def cs.look_emplace)

text \<open>
  Claim C21. A motion succeeds only when the robot has stood still: \<open>UpdateActiveMotion\<close>
  turns the active command into a success only if its timeout has not passed, the robot's
  state is known and safe and not paused, the robot no longer moves (for a program: no
  longer runs), and it was seen moving before or the startup grace period is over.
\<close>

theorem motion_succeeds_only_at_rest:
  assumes "ex_active_motion_id s = Some i" and "find_command s i = Some r" and "\<not> is_terminal (rc_state r)"
    and "find_command (update_active_motion opts now now' s) i = Some r'" and "rc_state r' = kSucceeded"
  shows "\<not> timed_out now r \<and> \<not> unsafe_lifecycle (sn_lifecycle (ex_latest_state s))
    \<and> \<not> sn_paused (ex_latest_state s)
    \<and> (if rq_type (rc_request r) = kStartProgram then \<not> sn_program_running (ex_latest_state s)
       else \<not> sn_moving (ex_latest_state s))
    \<and> (ex_active_motion_seen s \<or> now - ex_active_motion_started_at s \<ge> ns_of_ms (eo_motion_start_grace opts))"
proof -
  let ?g = "\<lambda>r. if is_terminal (rc_state r) then r else r\<lparr>rc_state := kTimedOut,
    rc_result := Status kDeadlineExceeded ''motion command timed out'', rc_updated_at := now\<rparr>"
  have nt: "\<not> timed_out now r"
  proof
    assume t: "timed_out now r"
    have "find_command (request_internal_stop ''motion command timed out'' now' (modify_record i ?g s)) i = Some (?g r)"
      using assms(2) by (intro find_after_stop) simp
    then have "find_command (update_active_motion opts now now' s) i = Some (?g r)"
      using t assms(1,2) by (simp add: update_active_motion_def Let_def)
    then have "r' = ?g r" using assms(4) by simp
    then show False using assms(3,5) by simp
  qed
  have ns: "\<not> unsafe_lifecycle (sn_lifecycle (ex_latest_state s))"
  proof
    assume u: "unsafe_lifecycle (sn_lifecycle (ex_latest_state s))"
    let ?h = "\<lambda>r. if is_terminal (rc_state r) then r else r\<lparr>rc_state := kFailed,
      rc_result := Status (if sn_lifecycle (ex_latest_state s) = kLifecycleUnknown
          \<or> sn_lifecycle (ex_latest_state s) = kDisconnected then kUnavailable else kControllerFault)
        ''robot state became unsafe while motion was active'', rc_updated_at := now\<rparr>"
    have "find_command (request_internal_stop ''robot state became unsafe'' now' (modify_record i ?h s)) i = Some (?h r)"
      using assms(2) by (intro find_after_stop) simp
    then have "find_command (update_active_motion opts now now' s) i = Some (?h r)"
      using u nt assms(1,2) by (simp add: update_active_motion_def unsafe_lifecycle_def Let_def)
    then have "r' = ?h r" using assms(4) by simp
    then show False using assms(3,5) by simp
  qed
  have "rc_state r \<noteq> kSucceeded" using assms(3) by auto
  then have "\<not> sn_paused (ex_latest_state s)"
    and "if rq_type (rc_request r) = kStartProgram then \<not> sn_program_running (ex_latest_state s)
       else \<not> sn_moving (ex_latest_state s)"
    and "ex_active_motion_seen s \<or> now - ex_active_motion_started_at s \<ge> ns_of_ms (eo_motion_start_grace opts)"
    using nt ns assms
    by (auto simp: update_active_motion_def unsafe_lifecycle_def Let_def split: if_splits)
  with nt ns show ?thesis by blast
qed


theorem motion_succeeds_only_at_rest_witness:
  "\<not> sn_moving (ex_latest_state (demo_s5\<lparr>ex_active_motion_seen := True\<rparr>))"
proof -
  let ?s = "demo_s5\<lparr>ex_active_motion_seen := True\<rparr>" and ?r = "demo_record"
  have a: "ex_active_motion_id ?s = Some 1" by code_simp
  have f: "find_command ?s 1 = Some ?r" by code_simp
  have t: "\<not> is_terminal (rc_state ?r)" by (simp add: demo_record_def)
  have "case find_command (update_active_motion demo_options 0 0 ?s) 1 of
      Some r \<Rightarrow> rc_state r = kSucceeded | None \<Rightarrow> False" by code_simp
  then obtain r' where "find_command (update_active_motion demo_options 0 0 ?s) 1 = Some r'"
    "rc_state r' = kSucceeded" by (auto split: option.splits)
  from motion_succeeds_only_at_rest [OF a f t this] show ?thesis
    by (simp add: demo_record_def demo_move_def)
qed

section \<open>Publishing snapshots\<close>

lemma latest_after_poll:
  "ex_latest_state (poll_apply opts clk state s) = fst (poll_snapshot opts (clk 0) state (ex_latest_state s))"
proof -
  obtain l u s2 s3 where st: "poll_snapshot opts (clk 0) state (ex_latest_state s) = (l, u)"
    "s2 = (if u then update_active_motion opts (clk 1) (clk 2) (s\<lparr>ex_latest_state := l\<rparr>)
           else s\<lparr>ex_latest_state := l\<rparr>)"
    "s3 = (if ex_active_motion_id s2 \<noteq> None \<and> \<not> active_motion_lease_is_valid (clk 3) s2
           then request_internal_stop ''control lease expired'' (clk 4) s2 else s2)"
    "poll_apply opts clk state s =
       (if ex_jog_active s3 \<and> (clk 5 \<ge> ex_jog_deadline s3
          \<or> \<not> lease_is_valid (clk 6) (ex_active_jog_lease_id s3) (ex_active_jog_client_id s3)
               (ex_lease_manager s3))
        then request_internal_stop ''jog heartbeat or control lease expired'' (clk 7) s3 else s3)"
    using poll_apply_stages [of opts clk state s] .
  have "ex_latest_state s2 = l" unfolding st(2) by simp
  then have "ex_latest_state s3 = l" unfolding st(3) by simp
  then show ?thesis unfolding st(4) st(1) by simp
qed

text \<open>
  The sequence number identifies a snapshot: one poll either leaves the published
  snapshot exactly as it was or advances its sequence by one; a successful read is stamped
  with the poll's time and carries the lifecycle derived from it, and when reads fail long
  enough the published lifecycle is unknown, so a stale \<open>READY\<close> is never served.
\<close>

theorem sequence_identifies_snapshot:
  "let old = ex_latest_state s; new = ex_latest_state (poll_apply opts clk state s) in
    (new = old \<or> sn_sequence new = Suc (sn_sequence old))
    \<and> (case state of
         Inr snapshot \<Rightarrow> sn_sequence new = Suc (sn_sequence old) \<and> sn_observed_at new = clk 0
           \<and> sn_lifecycle new = derive_lifecycle_state new \<and> sn_moving new = sn_moving snapshot
           \<and> sn_joints new = sn_joints snapshot
       | Inl _ \<Rightarrow> sn_observed_at new = sn_observed_at old
           \<and> (sn_lifecycle new = kLifecycleUnknown
              \<or> new = old \<and> clk 0 - sn_observed_at new < ns_of_ms (eo_state_stale_after opts)))"
  unfolding latest_after_poll
  by (auto simp: poll_snapshot_def publish_state_def derive_lifecycle_state_def Let_def split: sum.split)

section \<open>An unsafe robot\<close>

text \<open>
  Claim C27. Losing the robot fails the motion and stops it: when the supervision of an
  active motion sees a fault, an emergency stop, a disconnection or an unknown state, the
  motion's command fails with the matching code, no motion is active any more, and a stop is
  requested (at the head of the queue if none was pending).
\<close>

theorem unsafe_state_fails_motion:
  assumes "ex_active_motion_id s = Some i" and "find_command s i = Some r" and "rc_state r = kRunning"
    and "\<not> timed_out now r" and "unsafe_lifecycle (sn_lifecycle (ex_latest_state s))"
    and "s' = update_active_motion opts now now' s"
  shows "ex_active_motion_id s' = None \<and> ex_stop_requested s'
    \<and> (\<exists>r'. find_command s' i = Some r' \<and> rc_state r' = kFailed
         \<and> st_code (rc_result r') = (if sn_lifecycle (ex_latest_state s) \<in> {kLifecycleUnknown, kDisconnected}
              then kUnavailable else kControllerFault))
    \<and> (\<not> ex_stop_requested s \<longrightarrow> hd (ex_queue s') = ex_next_command_id s)"
proof -
  define h :: "command_record \<Rightarrow> command_record" where "h = (\<lambda>r. if is_terminal (rc_state r) then r else r\<lparr>rc_state := kFailed,
      rc_result := Status (if sn_lifecycle (ex_latest_state s) = kLifecycleUnknown
          \<or> sn_lifecycle (ex_latest_state s) = kDisconnected then kUnavailable else kControllerFault)
        ''robot state became unsafe while motion was active'', rc_updated_at := now\<rparr>)"
  let ?t = "request_internal_stop ''robot state became unsafe'' now' (modify_record i h s)"
  have s': "s' = ?t\<lparr>ex_active_motion_id := None, ex_active_motion_seen := False\<rparr>"
    unfolding assms(6) update_active_motion_def Let_def assms(1) option.case assms(2) h_def
    using assms(4,5) by (simp only: unsafe_lifecycle_def if_True if_False simp_thms)
  have "find_command ?t i = Some (h r)" using assms(2) by (intro find_after_stop) simp
  then have f: "find_command s' i = Some (h r)" by (simp add: s')
  have q: "hd (ex_queue s') = ex_next_command_id s" if "\<not> ex_stop_requested s"
  proof -
    have "ex_stop_requested (modify_record i h s) = ex_stop_requested s"
      by (simp add: modify_record_def split: option.split)
    then show ?thesis using that by (simp add: s' request_internal_stop_def Let_def)
  qed
  show ?thesis using f q assms(3) by (simp add: s' h_def)
qed

theorem unsafe_state_fails_motion_witness:
  "ex_active_motion_id (update_active_motion demo_options 0 0
     (demo_s5\<lparr>ex_latest_state := (ex_latest_state demo_s5)\<lparr>sn_lifecycle := kEmergencyStop\<rparr>\<rparr>)) = None"
proof -
  let ?s = "demo_s5\<lparr>ex_latest_state := (ex_latest_state demo_s5)\<lparr>sn_lifecycle := kEmergencyStop\<rparr>\<rparr>"
  have a: "ex_active_motion_id ?s = Some 1" by code_simp
  have f: "find_command ?s 1 = Some demo_record" by code_simp
  have r: "rc_state demo_record = kRunning" by (simp add: demo_record_def)
  have t: "\<not> timed_out 0 demo_record" by code_simp
  have u: "unsafe_lifecycle (sn_lifecycle (ex_latest_state ?s))" by (simp add: unsafe_lifecycle_def)
  show ?thesis using unsafe_state_fails_motion [OF a f r t u refl] by blast
qed

end
