(* ===== verification/ExecutorLimits.thy ===== *)
theory ExecutorLimits
  imports ExecutorHistory ExecutorMotion
begin

text \<open>
  The release of a lease, and the limits of the executor's design that the model brings to
  light: how long a timeout can be, how far idempotency keys separate clients, what becomes
  of a queued command that expires while it cannot run, and of an automatic stop that fails.
\<close>

section \<open>Releasing a lease\<close>

definition releasable :: "string \<Rightarrow> string \<Rightarrow> (nat, command_record) store \<Rightarrow> nat \<Rightarrow> bool" where
  "releasable l c cmds i \<longleftrightarrow> (\<exists>r. store_find cmds i = Some r \<and> rq_type (rc_request r) \<noteq> kStop
     \<and> rq_lease_id (rc_request r) = l \<and> rq_client_id (rc_request r) = c)"

definition released :: "time \<Rightarrow> command_record \<Rightarrow> command_record" where
  "released now r = r\<lparr>rc_state := kCancelled,
     rc_result := Status kPermissionDenied ''control lease released'', rc_updated_at := now\<rparr>"

lemma cancel_queued_spec:
  "cancel_queued l c clk q cmds = (kept, cmds') \<Longrightarrow> distinct q \<Longrightarrow> \<forall>i\<in>set q. store_find cmds i \<noteq> None \<Longrightarrow>
     kept = filter (\<lambda>i. \<not> releasable l c cmds i) q
     \<and> (\<forall>i. store_find cmds' i = (if i \<in> set q \<and> releasable l c cmds i
          then map_option (released (clk i)) (store_find cmds i) else store_find cmds i))"
proof (induction l c clk q cmds arbitrary: kept cmds' rule: cancel_queued.induct)
  case (1 l c clk cmds)
  then show ?case by simp
next
  case (2 l c clk i queue cmds)
  obtain r where r: "store_find cmds i = Some r" using "2.prems"(3) by auto
  let ?cmds = "store_put i (released (clk i) r) cmds"
  show ?case
  proof (cases "releasable l c cmds i")
    case True
    then have free: "\<not> (rq_type (rc_request r) = kStop \<or> rq_lease_id (rc_request r) \<noteq> l
        \<or> rq_client_id (rc_request r) \<noteq> c)" using r by (auto simp: releasable_def)
    then have eq: "cancel_queued l c clk queue ?cmds = (kept, cmds')"
      using "2.prems"(1) r by (simp add: released_def)
    have same: "releasable l c ?cmds j = releasable l c cmds j" if "j \<noteq> i" for j
      using that by (simp add: releasable_def)
    have IH: "kept = filter (\<lambda>j. \<not> releasable l c ?cmds j) queue
       \<and> (\<forall>j. store_find cmds' j = (if j \<in> set queue \<and> releasable l c ?cmds j
            then map_option (released (clk j)) (store_find ?cmds j) else store_find ?cmds j))"
      using "2.IH"(3) [OF r refl free] eq "2.prems"(2,3) by (simp add: released_def)
    have "filter (\<lambda>j. \<not> releasable l c ?cmds j) queue = filter (\<lambda>j. \<not> releasable l c cmds j) queue"
    proof (rule filter_cong [OF refl])
      fix j assume "j \<in> set queue"
      then have "j \<noteq> i" using "2.prems"(2) by auto
      then show "(\<not> releasable l c ?cmds j) = (\<not> releasable l c cmds j)" using same by blast
    qed
    then show ?thesis using IH same True r "2.prems"(2) by auto
  next
    case False
    then have held: "rq_type (rc_request r) = kStop \<or> rq_lease_id (rc_request r) \<noteq> l
        \<or> rq_client_id (rc_request r) \<noteq> c" using r by (auto simp: releasable_def)
    obtain kept1 where eq: "cancel_queued l c clk queue cmds = (kept1, cmds')" "kept = i # kept1"
      using "2.prems"(1) r held by (auto simp: Let_def split: prod.splits)
    then show ?thesis using "2.IH"(2) [OF r refl held eq(1)] False "2.prems"(2,3) by auto
  qed
qed

text \<open>
  Claim C31. Releasing a lease withdraws exactly its holder's waiting commands: every queued
  command of that client and lease that is not a stop leaves the queue cancelled, every other
  record and the order of the rest of the queue stay as they are (an automatic stop may join
  at the head), and if a motion or jog is active a stop has been requested.
\<close>

theorem release_withdraws_own_commands:
  assumes "exec_inv infl s" and "s' = release_lease_finish l c clk now s"
  shows "(\<forall>i r. find_command s i = Some r \<longrightarrow> find_command s' i =
        Some (if i \<in> set (ex_queue s) \<and> releasable l c (ex_commands s) i then released (clk i) r else r))
    \<and> (\<exists>stops. ex_queue s' = stops @ filter (\<lambda>i. \<not> releasable l c (ex_commands s) i) (ex_queue s)
         \<and> set stops \<subseteq> {ex_next_command_id s})
    \<and> (ex_running s \<and> (ex_active_motion_id s \<noteq> None \<or> ex_jog_active s) \<longrightarrow> ex_stop_requested s')"
proof -
  obtain kept cmds' where cq: "cancel_queued l c clk (ex_queue s) (ex_commands s) = (kept, cmds')" by fastforce
  have q: "distinct (ex_queue s)" "\<forall>i\<in>set (ex_queue s). store_find (ex_commands s) i \<noteq> None"
    using assms(1) by (auto simp: exec_inv_def core_inv_def queue_ok_def)
  note spec = cancel_queued_spec [OF cq q]
  let ?s1 = "s\<lparr>ex_queue := kept, ex_commands := cmds'\<rparr>"
  have s': "s' = (if ex_running s \<and> (ex_active_motion_id s \<noteq> None \<or> ex_jog_active s)
      then request_internal_stop ''control lease released'' now ?s1 else ?s1)"
    by (simp add: assms(2) release_lease_finish_def cancel_queued_commands_for_lease_def cq Let_def)
  have f: "find_command ?s1 i =
        Some (if i \<in> set (ex_queue s) \<and> releasable l c (ex_commands s) i then released (clk i) r else r)"
    if "find_command s i = Some r" for i r
    using spec that by (simp add: find_command_def)
  then have "find_command s' i =
        Some (if i \<in> set (ex_queue s) \<and> releasable l c (ex_commands s) i then released (clk i) r else r)"
    if "find_command s i = Some r" for i r
    using f [OF that] find_after_stop [OF f [OF that]] unfolding s' by simp
  moreover have "\<exists>stops. ex_queue s' = stops @ filter (\<lambda>i. \<not> releasable l c (ex_commands s) i) (ex_queue s)
         \<and> set stops \<subseteq> {ex_next_command_id s}"
  proof (cases "s' = ?s1 \<or> ex_stop_requested s")
    case True
    then show ?thesis using spec unfolding s' by (intro exI [of _ "[]"]) (auto simp: request_internal_stop_def)
  next
    case False
    then show ?thesis using spec unfolding s'
      by (intro exI [of _ "[ex_next_command_id s]"]) (auto simp: request_internal_stop_def Let_def split: if_splits)
  qed
  moreover have "ex_running s \<and> (ex_active_motion_id s \<noteq> None \<or> ex_jog_active s) \<longrightarrow> ex_stop_requested s'"
    unfolding s' by simp
  ultimately show ?thesis by blast
qed

lemma demo_inv_s3: "exec_inv None demo_s3"
  using reachable_inv [OF demo_queued] by (simp add: sys_inv_def demo_sys_def)

theorem release_withdraws_own_commands_witness:
  "ex_queue (release_lease_finish ''lease-1-1'' ''cell'' demo_clk 0 demo_s3) = []"
proof -
  have "\<not> ex_jog_active demo_s3 \<and> ex_active_motion_id demo_s3 = None" by code_simp
  then have e: "ex_queue (release_lease_finish ''lease-1-1'' ''cell'' demo_clk 0 demo_s3)
      = ex_queue (cancel_queued_commands_for_lease ''lease-1-1'' ''cell'' demo_clk demo_s3)"
    by (simp add: release_lease_finish_def cancel_queued_commands_for_lease_def split: prod.split)
  obtain stops where st: "ex_queue (release_lease_finish ''lease-1-1'' ''cell'' demo_clk 0 demo_s3)
      = stops @ filter (\<lambda>i. \<not> releasable ''lease-1-1'' ''cell'' (ex_commands demo_s3) i) (ex_queue demo_s3)"
    "set stops \<subseteq> {ex_next_command_id demo_s3}"
    using release_withdraws_own_commands [OF demo_inv_s3 refl, of "''lease-1-1''" "''cell''" demo_clk 0] by blast
  have "ex_queue (cancel_queued_commands_for_lease ''lease-1-1'' ''cell'' demo_clk demo_s3) = []" by code_simp
  then show ?thesis using e by simp
qed

section \<open>Timeouts\<close>

text \<open>
  Timeouts work up to 9223372036854 milliseconds and fail beyond: up to that bound
  a command times out exactly when its age reaches its timeout; with one millisecond more the
  conversion to nanoseconds overflows and the command times out at once.
\<close>

theorem timeouts_exact_up_to_292_years:
  assumes "0 < rq_timeout (rc_request r)" and "rc_created_at r \<le> now"
  shows "(rq_timeout (rc_request r) \<le> 9223372036854 \<longrightarrow>
      timed_out now r = (now - rc_created_at r \<ge> rq_timeout (rc_request r) * 1000000))
    \<and> (rq_timeout (rc_request r) = 9223372036855 \<longrightarrow> timed_out now r)"
proof -
  have "timed_out now r = (now - rc_created_at r \<ge> rq_timeout (rc_request r) * 1000000)"
    if "rq_timeout (rc_request r) \<le> 9223372036854"
    using assms(1) that ns_of_ms_in_range [of "rq_timeout (rc_request r)"]
    by (simp add: timed_out_def ms_in_range_def)
  moreover have "timed_out now r" if "rq_timeout (rc_request r) = 9223372036855"
    using assms(2) by (simp add: timed_out_def that ns_of_ms_def wrap64_def)
  ultimately show ?thesis by blast
qed

section \<open>Idempotency keys\<close>

text \<open>
  Keys separate clients only without newlines: when neither client id contains a
  newline, two requests share a table key exactly when client and key agree; in general they
  do not, and two different clients can share one.
\<close>

theorem idempotency_keys_separate_clients:
  "(\<forall>a b. CHR 0x0A \<notin> set (rq_client_id a) \<longrightarrow> CHR 0x0A \<notin> set (rq_client_id b) \<longrightarrow>
      (idempotency_map_key a = idempotency_map_key b) =
        (rq_client_id a = rq_client_id b \<and> rq_idempotency_key a = rq_idempotency_key b))
    \<and> (\<exists>a b. rq_client_id a \<noteq> rq_client_id b \<and> rq_client_id a \<noteq> [] \<and> rq_client_id b \<noteq> []
         \<and> rq_idempotency_key a \<noteq> [] \<and> rq_idempotency_key b \<noteq> []
         \<and> idempotency_map_key a = idempotency_map_key b)"
proof -
  have "(idempotency_map_key a = idempotency_map_key b) =
        (rq_client_id a = rq_client_id b \<and> rq_idempotency_key a = rq_idempotency_key b)"
    if "CHR 0x0A \<notin> set (rq_client_id a)" "CHR 0x0A \<notin> set (rq_client_id b)" for a b
    using split_at_first [of "rq_client_id a" "CHR 0x0A" "rq_idempotency_key a" "rq_client_id b" "rq_idempotency_key b"] that
    by (auto simp: idempotency_map_key_def)
  moreover have "\<exists>a b. rq_client_id a \<noteq> rq_client_id b \<and> rq_client_id a \<noteq> [] \<and> rq_client_id b \<noteq> []
         \<and> rq_idempotency_key a \<noteq> [] \<and> rq_idempotency_key b \<noteq> []
         \<and> idempotency_map_key a = idempotency_map_key b"
    by (intro exI [of _ "default_request\<lparr>rq_client_id := ''a'', rq_idempotency_key := [CHR ''b'', CHR 0x0A, CHR ''c'']\<rparr>"]
        exI [of _ "default_request\<lparr>rq_client_id := [CHR ''a'', CHR 0x0A, CHR ''b''], rq_idempotency_key := ''c''\<rparr>"])
      (simp add: idempotency_map_key_def)
  ultimately show ?thesis by blast
qed

section \<open>Commands that expire while they cannot run\<close>

text \<open>
  Claim C37. An expired command that may not run makes the worker spin: while no queued
  command is executable, a queued command past its deadline satisfies the worker's wait
  condition, yet the section that follows leaves the state exactly as it was, the command
  still queued, so the worker takes and releases the lock until the motion ends.
\<close>

theorem expired_blocked_command_spins:
  assumes "\<not> ex_shutting_down s" and "find_executable_command s = None"
    and "i \<in> set (ex_queue s)" "find_command s i = Some r" "timed_out now r"
  shows "worker_wakes now s \<and> worker_take now' s = (TakeContinue, s)"
proof -
  have "has_expired_queued_command now s"
    using assms(3-) by (auto simp: has_expired_queued_command_def list_ex_iff intro!: bexI [of _ i])
  then show ?thesis using assms(1,2) by (simp add: worker_wakes_def worker_take_def)
qed

definition blocked_record :: command_record where
  "blocked_record = \<lparr>rc_id = 2, rc_request = default_request\<lparr>rq_type := kClearFault, rq_timeout := 1\<rparr>,
     rc_state = kQueued, rc_result = StatusOk, rc_created_at = 0, rc_updated_at = 0\<rparr>"

definition blocked_state :: exec_state where
  "blocked_state = demo_s5\<lparr>ex_queue := [2], ex_commands := [(2, blocked_record), (1, demo_record)]\<rparr>"

theorem expired_blocked_command_spins_witness:
  "worker_take 1000000 blocked_state = (TakeContinue, blocked_state)"
proof -
  have "\<not> ex_shutting_down blocked_state" "find_executable_command blocked_state = None"
    "2 \<in> set (ex_queue blocked_state)" "find_command blocked_state 2 = Some blocked_record"
    "timed_out 1000000 blocked_record" by code_simp+
  then show ?thesis using expired_blocked_command_spins by blast
qed

section \<open>Automatic stops that fail\<close>

lemma finish_failed:
  assumes "\<not> status_ok result"
  shows "ex_stop_requested (worker_finish opts clk rec result s) = ex_stop_requested s"
    and "ex_queue (worker_finish opts clk rec result s) = ex_queue s"
    and "ex_next_command_id (worker_finish opts clk rec result s) = ex_next_command_id s"
    and "ex_active_motion_id (worker_finish opts clk rec result s) = ex_active_motion_id s"
  using assms by (auto simp: worker_finish_def modify_record_def Let_def split: option.split)

lemma modify_keeps [simp]: "ex_queue (modify_record i f s) = ex_queue s"
  "ex_stop_requested (modify_record i f s) = ex_stop_requested s"
  "ex_next_command_id (modify_record i f s) = ex_next_command_id s"
  "ex_active_motion_id (modify_record i f s) = ex_active_motion_id s"
  by (simp_all add: modify_record_def split: option.split)

text \<open>
  From \<open>s\<close> to \<open>s'\<close> no record was added and the queue stayed; the active motion is the same,
  with its pending stop, or has ended.
\<close>

definition stop_kept :: "exec_state \<Rightarrow> exec_state \<Rightarrow> bool" where
  "stop_kept s s' \<longleftrightarrow> ex_active_motion_id s' = None
    \<or> ex_stop_requested s' \<and> ex_queue s' = ex_queue s \<and> ex_next_command_id s' = ex_next_command_id s
      \<and> ex_active_motion_id s' = ex_active_motion_id s"

lemma stop_kept_if: "stop_kept s x \<Longrightarrow> stop_kept s y \<Longrightarrow> stop_kept s (if b then x else y)"
  by simp

lemma stop_kept_intros:
  assumes "ex_stop_requested s"
  shows "stop_kept s s" "stop_kept s (request_internal_stop reason now (modify_record i f s))"
    "stop_kept s ((request_internal_stop reason now (modify_record i f s))
      \<lparr>ex_active_motion_id := None, ex_active_motion_seen := False\<rparr>)"
    "stop_kept s (s\<lparr>ex_active_motion_id := None\<rparr>)" "stop_kept s (s\<lparr>ex_active_motion_seen := True\<rparr>)"
    "stop_kept s (finish_active_motion i now s)"
  using assms by (simp_all add: stop_kept_def internal_stop_once finish_active_motion_def)

lemma stop_kept_internal: "stop_kept s t \<Longrightarrow> stop_kept s (request_internal_stop reason now t)"
proof -
  have "ex_active_motion_id (request_internal_stop reason now t) = ex_active_motion_id t"
    by (simp add: request_internal_stop_def Let_def)
  then show "stop_kept s t \<Longrightarrow> stop_kept s (request_internal_stop reason now t)"
    by (auto simp: stop_kept_def internal_stop_once)
qed

lemma update_active_motion_keeps:
  assumes "ex_stop_requested s"
  shows "stop_kept s (update_active_motion opts now now' s)"
proof (cases "ex_active_motion_id s")
  case None
  then show ?thesis using assms by (simp add: update_active_motion_def stop_kept_def)
next
  case (Some i)
  show ?thesis
  proof (cases "find_command s i")
    case None
    then show ?thesis using Some by (simp add: update_active_motion_def stop_kept_def)
  next
    case (Some command)
    show ?thesis
      unfolding update_active_motion_def Let_def \<open>ex_active_motion_id s = Some i\<close> option.case Some
      by (intro stop_kept_if) (rule stop_kept_intros [OF assms])+
  qed
qed

lemma poll_apply_keeps:
  assumes "ex_active_motion_id s = None \<or> ex_stop_requested s"
  shows "stop_kept s (poll_apply opts clk state s)"
proof -
  obtain l u s2 s3 where st: "s2 = (if u then update_active_motion opts (clk 1) (clk 2) (s\<lparr>ex_latest_state := l\<rparr>)
           else s\<lparr>ex_latest_state := l\<rparr>)"
    "s3 = (if ex_active_motion_id s2 \<noteq> None \<and> \<not> active_motion_lease_is_valid (clk 3) s2
           then request_internal_stop ''control lease expired'' (clk 4) s2 else s2)"
    "poll_apply opts clk state s = (if ex_jog_active s3 \<and> (clk 5 \<ge> ex_jog_deadline s3
          \<or> \<not> lease_is_valid (clk 6) (ex_active_jog_lease_id s3) (ex_active_jog_client_id s3)
               (ex_lease_manager s3))
        then request_internal_stop ''jog heartbeat or control lease expired'' (clk 7) s3 else s3)"
    by (rule poll_apply_stages)
  have "stop_kept s s2"
  proof (cases "ex_active_motion_id s")
    case None
    then show ?thesis unfolding st(1) by (simp add: update_active_motion_def stop_kept_def)
  next
    case (Some i)
    then have "ex_stop_requested (s\<lparr>ex_latest_state := l\<rparr>)" using assms by simp
    from update_active_motion_keeps [OF this, of opts "clk 1" "clk 2"] show ?thesis
      unfolding st(1) using Some assms by (simp add: stop_kept_def)
  qed
  then have "stop_kept s s3" unfolding st(2) by (intro stop_kept_if stop_kept_internal)
  then show ?thesis unfolding st(3) by (intro stop_kept_if stop_kept_internal)
qed

text \<open>Any number of polls, each with its clock readings and what it read from the driver.\<close>

definition poll_all :: "executor_options \<Rightarrow> (clock \<times> robot_snapshot status_or) list \<Rightarrow> exec_state \<Rightarrow> exec_state" where
  "poll_all opts polls s = fold (\<lambda>(clk, state) s. poll_apply opts clk state s) polls s"

lemma poll_all_keeps:
  "ex_active_motion_id s = None \<or> ex_stop_requested s \<Longrightarrow> stop_kept s (poll_all opts polls s)"
proof (induction polls arbitrary: s)
  case Nil
  then show ?case by (auto simp: poll_all_def stop_kept_def)
next
  case (Cons p polls)
  obtain clk state where p: "p = (clk, state)" by fastforce
  let ?t = "poll_apply opts clk state s"
  have one: "stop_kept s ?t" by (rule poll_apply_keeps [OF Cons.prems])
  then have "stop_kept ?t (poll_all opts polls ?t)" by (intro Cons.IH) (auto simp: stop_kept_def)
  moreover have "poll_all opts (p # polls) s = poll_all opts polls ?t" by (simp add: poll_all_def p)
  ultimately show ?case using one by (auto simp: stop_kept_def)
qed

text \<open>The supervision leaves a settled record as it is.\<close>

definition keeps_record :: "nat \<Rightarrow> command_record \<Rightarrow> exec_state \<Rightarrow> bool" where
  "keeps_record i r t \<longleftrightarrow> find_command t i = Some r"

lemma keeps_record_if: "keeps_record i r x \<Longrightarrow> keeps_record i r y \<Longrightarrow> keeps_record i r (if b then x else y)"
  by simp

lemma keeps_record_intros:
  assumes "keeps_record i r t"
  shows "keeps_record i r (t\<lparr>ex_active_motion_id := a\<rparr>)" "keeps_record i r (t\<lparr>ex_active_motion_seen := b\<rparr>)"
    "keeps_record i r (t\<lparr>ex_latest_state := l\<rparr>)" "keeps_record i r (t\<lparr>ex_stop_requested := b\<rparr>)"
    "keeps_record i r (request_internal_stop reason now t)"
    "is_terminal (rc_state r) \<Longrightarrow> keeps_record i r (modify_record k (\<lambda>r. if is_terminal (rc_state r) then r else f r) t)"
  using assms find_after_stop by (auto simp: keeps_record_def)

lemma update_keeps_record:
  assumes "keeps_record i r t" and "is_terminal (rc_state r)"
  shows "keeps_record i r (update_active_motion opts now now' t)"
proof (cases "ex_active_motion_id t")
  case None
  then show ?thesis using assms(1) by (simp add: update_active_motion_def)
next
  case (Some k)
  note keeps = keeps_record_intros
  have settled: "keeps_record i r (modify_record k (\<lambda>r. if is_terminal (rc_state r) then r else f r) t)" for f
    by (rule keeps(6) [OF assms])
  have "keeps_record i r (finish_active_motion k now t)"
    unfolding finish_active_motion_def by (intro keeps(1,2,4) settled)
  note each = this keeps(5) [OF settled] keeps(1,2) [OF assms(1)] keeps(2) [OF keeps(1) [OF keeps(5) [OF settled]]]
  show ?thesis
  proof (cases "find_command t k")
    case None
    then show ?thesis using Some keeps(1) [OF assms(1)] by (simp add: update_active_motion_def)
  next
    case (Some command)
    show ?thesis
      unfolding update_active_motion_def Let_def \<open>ex_active_motion_id t = Some k\<close> option.case Some
      by (intro keeps_record_if) (rule assms(1) each)+
  qed
qed

lemma poll_keeps_record:
  assumes "keeps_record i r s" and "is_terminal (rc_state r)"
  shows "keeps_record i r (poll_apply opts clk state s)"
proof -
  obtain l u s2 s3 where st: "s2 = (if u then update_active_motion opts (clk 1) (clk 2) (s\<lparr>ex_latest_state := l\<rparr>)
           else s\<lparr>ex_latest_state := l\<rparr>)"
    "s3 = (if ex_active_motion_id s2 \<noteq> None \<and> \<not> active_motion_lease_is_valid (clk 3) s2
           then request_internal_stop ''control lease expired'' (clk 4) s2 else s2)"
    "poll_apply opts clk state s = (if ex_jog_active s3 \<and> (clk 5 \<ge> ex_jog_deadline s3
          \<or> \<not> lease_is_valid (clk 6) (ex_active_jog_lease_id s3) (ex_active_jog_client_id s3)
               (ex_lease_manager s3))
        then request_internal_stop ''jog heartbeat or control lease expired'' (clk 7) s3 else s3)"
    by (rule poll_apply_stages)
  have "keeps_record i r s2" unfolding st(1)
    by (intro keeps_record_if update_keeps_record keeps_record_intros(3) assms)
  then show ?thesis unfolding st(2,3) by (intro keeps_record_if keeps_record_intros(5))
qed

lemma poll_all_keeps_record:
  "find_command s i = Some r \<Longrightarrow> is_terminal (rc_state r) \<Longrightarrow> find_command (poll_all opts polls s) i = Some r"
proof (induction polls arbitrary: s)
  case (Cons p polls)
  then show ?case
    using poll_keeps_record [of i r s opts "fst p" "snd p"]
    by (simp add: poll_all_def case_prod_beta keeps_record_def)
qed (simp add: poll_all_def)

text \<open>
  Claim C36. A failed automatic stop is never repeated: when the driver has refused a stop
  command while a stop was marked as requested, its record has failed, and after any number
  of later polls, whatever they read and whenever they run, as long as the motion is still
  active it is the same motion, the record is still the failed one, the stop is still marked
  as requested, the queue is what it was and no command was created: the supervision has not
  asked the robot to stop a second time.
\<close>

theorem failed_stop_is_not_retried:
  assumes "find_command s (rc_id rec) = Some r" and "rq_type (rc_request r) = kStop"
    and "ex_stop_requested s" and "\<not> status_ok result"
    and "s' = poll_all opts polls (worker_finish opts clk rec result s)"
    and "ex_active_motion_id s' \<noteq> None"
  shows "ex_active_motion_id s' = ex_active_motion_id s \<and> ex_stop_requested s'
    \<and> ex_queue s' = ex_queue s \<and> ex_next_command_id s' = ex_next_command_id s
    \<and> (\<exists>r'. find_command s' (rc_id rec) = Some r' \<and> rq_type (rc_request r') = kStop
         \<and> rc_state r' = kFailed \<and> rc_result r' = result)"
proof -
  let ?t = "worker_finish opts clk rec result s"
  let ?r = "r\<lparr>rc_result := result, rc_updated_at := clk 0, rc_state := kFailed\<rparr>"
  note failed = finish_failed [OF assms(4), of opts clk rec s]
  have "find_command ?t (rc_id rec) = Some ?r"
    using assms(1,4) by (simp add: worker_finish_def Let_def)
  then have "find_command s' (rc_id rec) = Some ?r"
    unfolding assms(5) by (rule poll_all_keeps_record) simp
  moreover have "stop_kept ?t (poll_all opts polls ?t)"
    using poll_all_keeps [of ?t opts polls] failed(1) assms(3) by simp
  ultimately show ?thesis using assms(2,5,6) failed by (auto simp: stop_kept_def)
qed

definition stopping_state :: exec_state where
  "stopping_state = demo_s5\<lparr>ex_stop_requested := True, ex_next_command_id := 3,
     ex_commands := [(2, (internal_stop_record 2 ''control lease expired'' 0)\<lparr>rc_state := kRunning\<rparr>), (1, demo_record)],
     ex_lease_manager := new_lease_manager 3000\<rparr>"

definition stopping_record :: command_record where
  "stopping_record = (internal_stop_record 2 ''control lease expired'' 0)\<lparr>rc_state := kRunning\<rparr>"

definition moving_polls :: "(clock \<times> robot_snapshot status_or) list" where
  "moving_polls = replicate 2 (demo_clk, Inr (demo_snapshot\<lparr>sn_moving := True\<rparr>))"

theorem failed_stop_is_not_retried_witness:
  "ex_queue (poll_all demo_options moving_polls (worker_finish demo_options demo_clk stopping_record
     (Status kUnavailable ''link lost'') stopping_state)) = []"
proof -
  let ?s = "poll_all demo_options moving_polls (worker_finish demo_options demo_clk stopping_record
     (Status kUnavailable ''link lost'') stopping_state)"
  have f: "find_command stopping_state (rc_id stopping_record) = Some stopping_record"
    and k: "rq_type (rc_request stopping_record) = kStop" by code_simp+
  have q: "ex_stop_requested stopping_state" "ex_queue stopping_state = []"
    "\<not> status_ok (Status kUnavailable ''link lost'')" by code_simp+
  have a: "ex_active_motion_id ?s \<noteq> None" by code_simp
  show ?thesis using failed_stop_is_not_retried [OF f k q(1,3) refl a] q(2) by simp
qed

end
