(* ===== verification/ExecutorLedger.thy ===== *)
theory ExecutorLedger
  imports ExecutorSafety ExecutorHistory
begin

text \<open>
  An abstract specification of the executor: a ledger that says, for every command id, what was
  requested and how far it has got, and the only four things that may happen to it. Every step
  of the interleaved executor is a sequence of ledger steps, so clients that reason about
  commands need to know nothing about queues, threads or polls.
\<close>

section \<open>The ledger\<close>

type_synonym ledger_entry = "command_request \<times> command_state"

record ledger =
  lg_entries :: "nat \<Rightarrow> ledger_entry option"
  lg_next :: nat

definition live_motion_entry :: "ledger_entry \<Rightarrow> bool" where
  "live_motion_entry e \<longleftrightarrow> is_motion_command (rq_type (fst e)) \<and> \<not> is_terminal (snd e)"

definition busy :: "(nat \<Rightarrow> ledger_entry option) \<Rightarrow> bool" where
  "busy L \<longleftrightarrow> (\<exists>i e. L i = Some e \<and> live_motion_entry e)"

text \<open>
  A command is accepted under the next id, queued, a motion only when none is live; a queued
  command starts; a queued or running command settles, a running one never as cancelled; a
  settled command is forgotten.
\<close>

inductive ledger_step :: "ledger \<Rightarrow> ledger \<Rightarrow> bool" where
  accept: "\<not> (is_motion_command (rq_type rq) \<and> busy L)
    \<Longrightarrow> ledger_step \<lparr>lg_entries = L, lg_next = n\<rparr> \<lparr>lg_entries = L(n \<mapsto> (rq, kQueued)), lg_next = Suc n\<rparr>"
| start: "L i = Some (rq, kQueued)
    \<Longrightarrow> ledger_step \<lparr>lg_entries = L, lg_next = n\<rparr> \<lparr>lg_entries = L(i \<mapsto> (rq, kRunning)), lg_next = n\<rparr>"
| settle: "L i = Some (rq, kRunning) \<Longrightarrow> is_terminal st' \<Longrightarrow> st' \<noteq> kCancelled
    \<Longrightarrow> ledger_step \<lparr>lg_entries = L, lg_next = n\<rparr> \<lparr>lg_entries = L(i \<mapsto> (rq, st')), lg_next = n\<rparr>"
| withdraw: "L i = Some (rq, kQueued) \<Longrightarrow> is_terminal st'
    \<Longrightarrow> ledger_step \<lparr>lg_entries = L, lg_next = n\<rparr> \<lparr>lg_entries = L(i \<mapsto> (rq, st')), lg_next = n\<rparr>"
| forget: "L i = Some (rq, st) \<Longrightarrow> is_terminal st
    \<Longrightarrow> ledger_step \<lparr>lg_entries = L, lg_next = n\<rparr> \<lparr>lg_entries = L(i := None), lg_next = n\<rparr>"

inductive_cases ledger_stepE: "ledger_step l l'"

text \<open>What the specification promises of itself.\<close>

definition ledger_ok :: "ledger \<Rightarrow> bool" where
  "ledger_ok l \<longleftrightarrow> (\<forall>i. lg_entries l i \<noteq> None \<longrightarrow> i < lg_next l)
     \<and> (\<forall>i j e f. lg_entries l i = Some e \<longrightarrow> lg_entries l j = Some f
          \<longrightarrow> live_motion_entry e \<longrightarrow> live_motion_entry f \<longrightarrow> i = j)"

lemma ledger_step_ok: "ledger_step l l' \<Longrightarrow> ledger_ok l \<Longrightarrow> ledger_ok l'"
proof (induction rule: ledger_step.induct)
  case (accept rq L n)
  then show ?case by (auto simp: ledger_ok_def busy_def live_motion_entry_def less_Suc_eq)
next
  case (start L i rq n)
  then have "live_motion_entry (rq, kRunning) = live_motion_entry (rq, kQueued)"
    by (simp add: live_motion_entry_def is_terminal_def)
  then show ?case using start by (auto simp: ledger_ok_def)
qed (auto simp: ledger_ok_def live_motion_entry_def)

section \<open>The ledger of an executor\<close>

definition record_entry :: "command_record \<Rightarrow> ledger_entry" where
  "record_entry r = (rc_request r, rc_state r)"

definition ledger_of :: "exec_state \<Rightarrow> ledger" where
  "ledger_of s = \<lparr>lg_entries = (\<lambda>i. map_option record_entry (find_command s i)), lg_next = ex_next_command_id s\<rparr>"

abbreviation ledger_steps :: "(nat \<Rightarrow> ledger_entry option) \<Rightarrow> nat \<Rightarrow> (nat \<Rightarrow> ledger_entry option) \<Rightarrow> nat \<Rightarrow> bool" where
  "ledger_steps L n L' n' \<equiv> ledger_step\<^sup>*\<^sup>* \<lparr>lg_entries = L, lg_next = n\<rparr> \<lparr>lg_entries = L', lg_next = n'\<rparr>"

lemma step_to: "ledger_step l l' \<Longrightarrow> ledger_step\<^sup>*\<^sup>* l' l'' \<Longrightarrow> ledger_step\<^sup>*\<^sup>* l l''"
  by (rule converse_rtranclp_into_rtranclp)

text \<open>An entry moves to a state its record may take.\<close>

lemma entry_moves:
  assumes "L i = Some (rq, st)" and "may_become st st'"
  shows "ledger_steps L n (L(i \<mapsto> (rq, st'))) n"
proof -
  consider "st' = st" | "st = kQueued" "st' = kRunning" | "st = kQueued" "is_terminal st'"
    | "st = kRunning" "is_terminal st'" "st' \<noteq> kCancelled"
    using assms(2) by (cases st') (auto simp: may_become_def is_terminal_def)
  then show ?thesis
  proof cases
    case 1
    then show ?thesis using assms(1) by (simp add: fun_upd_idem)
  next
    case 2
    then show ?thesis using assms(1) ledger_step.start by blast
  next
    case 3
    then show ?thesis using assms(1) ledger_step.withdraw by blast
  next
    case 4
    then show ?thesis using assms(1) ledger_step.settle by blast
  qed
qed

lemma entry_goes:
  assumes "L i = Some (rq, st)"
  shows "ledger_steps L n (L(i := None)) n"
proof -
  obtain st' where "is_terminal st'" "may_become st st'"
    using that [of st] that [of kStopped] by (cases st) (auto simp: may_become_def is_terminal_def)
  from entry_moves [of L i rq st st' n, OF assms this(2)] ledger_step.forget [of "L(i \<mapsto> (rq, st'))" i rq st' n, OF _ this(1)]
  show ?thesis by (simp add: rtranclp.rtrancl_into_rtrancl)
qed

text \<open>The executor's table with the ids below \<open>k\<close> already taken from the later state.\<close>

definition stage :: "exec_state \<Rightarrow> exec_state \<Rightarrow> nat \<Rightarrow> nat \<Rightarrow> ledger_entry option" where
  "stage s s' k i = map_option record_entry (find_command (if i < k then s' else s) i)"

lemma stage_Suc: "stage s s' (Suc k) = (stage s s' k)(k := map_option record_entry (find_command s' k))"
  by (auto simp: stage_def fun_eq_iff less_Suc_eq)

lemma old_entry_steps:
  assumes "evolves A s s'" and "k < ex_next_command_id s"
  shows "ledger_steps (stage s s' k) n (stage s s' (Suc k)) n"
proof (cases "find_command s k")
  case None
  then have "find_command s' k = None" using assms by (simp add: evolves_def)
  then show ?thesis using None by (simp add: stage_Suc stage_def fun_upd_idem)
next
  case (Some r)
  then have e: "stage s s' k k = Some (rc_request r, rc_state r)" by (simp add: stage_def record_entry_def)
  show ?thesis
  proof (cases "find_command s' k")
    case None
    then show ?thesis using entry_goes [of "stage s s' k" k] e by (simp add: stage_Suc)
  next
    case (Some r')
    then have "follows r r'" using assms(1) \<open>find_command s k = Some r\<close> unfolding evolves_def by fastforce
    then show ?thesis
      using entry_moves [of "stage s s' k" k "rc_request r" "rc_state r" "rc_state r'" n] e Some by (simp add: stage_Suc follows_def record_entry_def)
  qed
qed

lemma new_entry_steps:
  assumes "exec_inv infl s" "exec_inv infl' s'" "ex_next_command_id s \<le> k"
    and live: "\<And>r. find_command s' k = Some r \<Longrightarrow> is_motion_command (rq_type (rc_request r)) \<Longrightarrow> \<not> is_terminal (rc_state r)"
  shows "ledger_steps (stage s s' k) k (stage s s' (Suc k)) (Suc k)"
proof -
  let ?L = "stage s s' k"
  have none: "?L i = None" if "i \<ge> k" for i
    using known_id [OF assms(1), of i] assms(3) that by (cases "find_command s i") (auto simp: stage_def)
  show ?thesis
  proof (cases "find_command s' k")
    case None
    have "ledger_step \<lparr>lg_entries = ?L, lg_next = k\<rparr>
        \<lparr>lg_entries = ?L(k \<mapsto> (default_request, kQueued)), lg_next = Suc k\<rparr>"
      by (rule ledger_step.accept) (simp add: default_request_def is_motion_command_def)
    from step_to [OF this entry_goes [of _ k default_request kQueued]] show ?thesis
      using None none [of k] by (simp add: stage_Suc)
  next
    case (Some r)
    have "\<not> busy ?L" if m: "is_motion_command (rq_type (rc_request r))"
    proof
      assume "busy ?L"
      then obtain i e where i: "?L i = Some e" "live_motion_entry e" by (auto simp: busy_def)
      then have "i < k" using none [of i] by (cases "i < k") auto
      then obtain r0 where "find_command s' i = Some r0" "e = record_entry r0" using i(1) by (auto simp: stage_def)
      then have "live_motion (ex_commands s') i" "live_motion (ex_commands s') k"
        using i(2) Some m live [OF Some m]
        by (auto simp: live_motion_def live_motion_entry_def record_entry_def find_command_def)
      moreover have "one_motion (ex_commands s')" using assms(2) by (simp add: exec_inv_def core_inv_def)
      ultimately show False using \<open>i < k\<close> by (auto simp: one_motion_def)
    qed
    then have "ledger_step \<lparr>lg_entries = ?L, lg_next = k\<rparr>
        \<lparr>lg_entries = ?L(k \<mapsto> (rc_request r, kQueued)), lg_next = Suc k\<rparr>"
      by (intro ledger_step.accept) blast
    moreover have "ledger_steps (?L(k \<mapsto> (rc_request r, kQueued))) (Suc k)
        (?L(k \<mapsto> (rc_request r, rc_state r))) (Suc k)"
      using entry_moves [of "?L(k \<mapsto> (rc_request r, kQueued))" k "rc_request r" kQueued "rc_state r" "Suc k"]
      by (simp add: may_become_def)
    ultimately show ?thesis using step_to Some by (simp add: stage_Suc record_entry_def)
  qed
qed

lemma evolves_ledger:
  assumes "exec_inv infl s" "exec_inv infl' s'" "evolves A s s'"
    and live: "\<And>i r. find_command s i = None \<Longrightarrow> find_command s' i = Some r
      \<Longrightarrow> is_motion_command (rq_type (rc_request r)) \<Longrightarrow> \<not> is_terminal (rc_state r)"
  shows "ledger_step\<^sup>*\<^sup>* (ledger_of s) (ledger_of s')"
proof -
  let ?n = "ex_next_command_id s" and ?n' = "ex_next_command_id s'"
  have fresh: "find_command s i = None" if "i \<ge> ?n" for i
    using known_id [OF assms(1), of i] that by (cases "find_command s i") auto
  have old: "k \<le> ?n \<Longrightarrow> ledger_steps (stage s s' 0) ?n (stage s s' k) ?n" for k
    by (induction k) (use old_entry_steps [OF assms(3)] in \<open>auto intro: rtranclp_trans\<close>)
  have new: "ledger_steps (stage s s' ?n) ?n (stage s s' (?n + k)) (?n + k)" for k
  proof (induction k)
    case (Suc k)
    have "ledger_steps (stage s s' (?n + k)) (?n + k) (stage s s' (Suc (?n + k))) (Suc (?n + k))"
      using new_entry_steps [OF assms(1,2), of "?n + k"] live [OF fresh [of "?n + k"]] by simp
    with Suc show ?case by simp
  qed simp
  have "?n \<le> ?n'" using assms(3) by (simp add: evolves_def)
  then have "ledger_steps (stage s s' 0) ?n (stage s s' ?n') ?n'"
    using rtranclp_trans [OF old [of ?n] new [of "?n' - ?n"]] by simp
  moreover have "stage s s' ?n' = lg_entries (ledger_of s')"
    using fresh known_id [OF assms(2)] \<open>?n \<le> ?n'\<close>
    by (fastforce simp: stage_def ledger_of_def fun_eq_iff split: option.splits)
  moreover have "stage s s' 0 = lg_entries (ledger_of s)" by (simp add: stage_def ledger_of_def fun_eq_iff)
  ultimately show ?thesis by (simp add: ledger_of_def)
qed

section \<open>The executor refines it\<close>

lemma evolves_ledger_stops:
  assumes "exec_inv infl s" "moves {} infl s infl' s'"
  shows "ledger_step\<^sup>*\<^sup>* (ledger_of s) (ledger_of s')"
proof (rule evolves_ledger [where A = "{}"])
  show "exec_inv infl s" by (rule assms(1))
  show e: "exec_inv infl' s'" "evolves {} s s'" using assms by (simp_all add: moves_def)
  fix i r assume "find_command s i = None" "find_command s' i = Some r"
  then have "rq_type (rc_request r) = kStop" using e(2) by (simp add: evolves_def)
  then show "is_motion_command (rq_type (rc_request r)) \<Longrightarrow> \<not> is_terminal (rc_state r)"
    by (simp add: is_motion_command_def)
qed

lemma commit_adds_queued:
  assumes "exec_inv infl s" "submit_commit opts clk rq s = (result, s')" "is_motion_command (rq_type rq)"
    and "find_command s i = None" "find_command s' i = Some r"
  shows "rc_state r = kQueued"
proof -
  have "s' = s \<or> s' = snd (submit_enqueue opts (clk 1) rq s)"
    using assms(2,3) by (auto simp: submit_commit_def is_motion_command_def split: if_splits option.splits)
  moreover have "rc_state r = kQueued" if "s' = snd (submit_enqueue opts (clk 1) rq s)"
    using assms(5) prune_find [OF assms(1), of opts i] assms(4) unfolding that
    by (auto simp: submit_enqueue_def Let_def find_command_def cs.look_emplace split: if_splits)
  ultimately show ?thesis using assms(4,5) by auto
qed

text \<open>
  Claim C4. The executor refines the ledger: whatever step the worker, the poller, a client or
  \<open>Shutdown\<close> takes from a reachable state, with any driver, policy and clock, the ledger of the
  executor takes a sequence of steps of the specification, in which a motion is accepted only
  when none is live and a command settles at most once.
\<close>

theorem executor_refines_ledger:
  assumes "reachable drv pol opts y" and "sys_step drv pol opts y y'"
  shows "ledger_step\<^sup>*\<^sup>* (ledger_of (sy_exec y)) (ledger_of (sy_exec y')) \<and> ledger_ok (ledger_of (sy_exec y))"
proof -
  have inv: "sys_inv pol y" by (rule reachable_inv [OF assms(1)])
  have i: "exec_inv (held (sy_worker y)) (sy_exec y)" using inv by (simp add: sys_inv_def)
  have i': "exec_inv (held (sy_worker y')) (sy_exec y')"
    using sys_step_keeps [OF assms(2) inv] by (simp add: sys_inv_def)
  have "ledger_step\<^sup>*\<^sup>* (ledger_of (sy_exec y)) (ledger_of (sy_exec y'))"
    using assms(2)
  proof cases
    case (worker calls pc s d)
    have "worker_ok pol (sy_worker y)" "program_ok pol (ex_loaded_approved_program (sy_exec y))"
      using inv by (simp_all add: sys_inv_def)
    then show ?thesis
      using evolves_ledger_stops [OF i worker_step_keeps(1) [OF worker(2) i]] worker(1) by simp
  next
    case (poller pc s d)
    then show ?thesis using evolves_ledger_stops [OF i poller_step_keeps(1) [OF poller(2)]] by simp
  next
    case (client k pc s d)
    have ok: "client_ok (sy_clients y k)" using inv by (simp add: sys_inv_def)
    show ?thesis
    proof (cases "\<exists>rq. sy_clients y k = CApproved rq")
      case False
      then have "moves {} (held (sy_worker y)) (sy_exec y) (held (sy_worker y)) s"
        by (intro client_step_keeps(1) [OF client(2) i ok]) auto
      then show ?thesis using evolves_ledger_stops [OF i] client(1) by simp
    next
      case True
      then obtain rq where rq: "sy_clients y k = CApproved rq" by blast
      then have "client_step drv pol opts (CApproved rq, sy_exec y, sy_driver y) (pc, s, d)" using client(2) by simp
      then obtain clk r where c: "submit_commit opts clk rq (sy_exec y) = (r, s)" by cases auto
      have "moves {rq} (held (sy_worker y)) (sy_exec y) (held (sy_worker y)) s"
        by (rule client_step_keeps(1) [OF client(2) i ok]) (simp add: rq)
      then have m: "exec_inv (held (sy_worker y)) s" "evolves {rq} (sy_exec y) s" using i by (simp_all add: moves_def)
      have "\<not> is_terminal (rc_state rec)"
        if "find_command (sy_exec y) j = None" "find_command s j = Some rec" "is_motion_command (rq_type (rc_request rec))" for j rec
      proof -
        have "rq_type (rc_request rec) = kStop \<or> rc_request rec = rq" using m(2) that by (simp add: evolves_def)
        then have "is_motion_command (rq_type rq)" using that(3) by (auto simp: is_motion_command_def)
        then show ?thesis using commit_adds_queued [OF i c _ that(1,2)] by (simp add: is_terminal_def)
      qed
      from evolves_ledger [OF i m this] show ?thesis using client(1) by simp
    qed
  next
    case (shutdown pc s d)
    show ?thesis
      using evolves_ledger_stops [OF i shutdown_step_keeps(1) [OF shutdown(2)]] shutdown(1) by simp
  qed
  moreover have "ledger_ok (ledger_of (sy_exec y))"
    using known_id [OF i] core_parts(1) [OF i]
    by (fastforce simp: ledger_ok_def ledger_of_def one_motion_def live_motion_def live_motion_entry_def record_entry_def find_command_def)
  ultimately show ?thesis by blast
qed

text \<open>The step of the run on the mock robot in which the worker takes the queued move.\<close>

theorem executor_refines_ledger_witness:
  "ledger_step\<^sup>*\<^sup>* (ledger_of demo_s3) (ledger_of demo_s4) \<and> ledger_ok (ledger_of demo_s3)
     \<and> lg_entries (ledger_of demo_s3) 1 = Some (demo_move, kQueued)
     \<and> lg_entries (ledger_of demo_s4) 1 = Some (demo_move, kRunning)"
proof -
  let ?sys = "\<lambda>w s. demo_sys w (CReturned demo_move (Returned (Inr 1))) s demo_d1 []"
  have "sys_step mock_driver demo_policy demo_options (?sys WIdle demo_s3) (?sys (WTaken demo_record) demo_s4)"
    using sys_step.worker [of mock_driver demo_policy demo_options "?sys WIdle demo_s3" "[]" "WTaken demo_record" demo_s4 demo_d1]
      worker_step.take_command [OF demo_wakes demo_take, of mock_driver demo_policy demo_options demo_d1]
    by (simp add: demo_sys_def)
  from executor_refines_ledger [OF demo_queued this] show ?thesis
    by (simp add: demo_sys_def ledger_of_def record_entry_def demo_s3_def demo_s4_def demo_record_def find_command_def store_find_def)
qed

end
