(* ===== verification/ExecutorShutdown.thy ===== *)
theory ExecutorShutdown
  imports ExecutorSafety
begin

text \<open>
  How \<open>Shutdown\<close> runs beside the threads it waits for: it always comes to its end within a fixed
  number of steps, and what its order of stopping and joining leaves open.
\<close>

section \<open>Shutdown comes to its end\<close>

text \<open>The sections each thread has left once the executor is shutting down.\<close>

fun worker_left :: "worker_pc \<Rightarrow> nat" where
  "worker_left (WTaken record) = 6"
| "worker_left (WCopied record snapshot jog) = 5"
| "worker_left (WJudged record view result) = 4"
| "worker_left (WReady record view result) = 3"
| "worker_left (WDone record result) = 2"
| "worker_left WIdle = 1"
| "worker_left WExited = 0"

fun poller_left :: "poller_pc \<Rightarrow> nat" where
  "poller_left PReading = 3"
| "poller_left (PApplying state) = 2"
| "poller_left PSleeping = 1"
| "poller_left PIdle = 1"
| "poller_left PExited = 0"

fun shutdown_left :: "shutdown_pc \<Rightarrow> nat" where
  "shutdown_left SIdle = 5"
| "shutdown_left SMarked = 4"
| "shutdown_left (SStopped st) = 3"
| "shutdown_left (SJoined st) = 2"
| "shutdown_left (SDisconnected st) = 1"
| "shutdown_left SDone = 0"

definition sections_left :: "'d system \<Rightarrow> nat" where
  "sections_left y = worker_left (sy_worker y) + poller_left (sy_poller y) + shutdown_left (sy_shutdown y)"

text \<open>A step of a thread other than a client.\<close>

definition own_step :: "'d robot_driver \<Rightarrow> safety_policy \<Rightarrow> executor_options \<Rightarrow> 'd system \<Rightarrow> 'd system \<Rightarrow> bool" where
  "own_step drv pol opts y y' \<longleftrightarrow> sys_step drv pol opts y y'
     \<and> (sy_worker y', sy_poller y', sy_shutdown y') \<noteq> (sy_worker y, sy_poller y, sy_shutdown y)"

lemma worker_winds_down:
  assumes "worker_step drv pol opts (pc, s, d) calls (pc', s', d')" and "ex_shutting_down s"
  shows "worker_left pc' < worker_left pc"
  using assms by cases (auto simp: worker_take_def)

lemma poller_winds_down:
  assumes "poller_step drv opts (pc, s, d) (pc', s', d')" and "ex_shutting_down s"
  shows "poller_left pc' < poller_left pc"
  using assms by cases auto

lemma shutdown_winds_down:
  assumes "shutdown_step drv exited (pc, s, d) (pc', s', d')"
  shows "shutdown_left pc' < shutdown_left pc"
  using assms by cases auto

lemma winds_down:
  assumes "sys_step drv pol opts y y'" and "ex_shutting_down (sy_exec y)"
  shows "if own_step drv pol opts y y' then sections_left y' < sections_left y
    else sections_left y' = sections_left y"
  using assms(1)
proof cases
  case (worker calls pc s d)
  then show ?thesis using worker_winds_down [OF worker(2) assms(2)] assms(1)
    by (auto simp: own_step_def sections_left_def)
next
  case (poller pc s d)
  then show ?thesis using poller_winds_down [OF poller(2) assms(2)] assms(1)
    by (auto simp: own_step_def sections_left_def)
next
  case (client i pc s d)
  then show ?thesis by (simp add: own_step_def sections_left_def)
next
  case (shutdown pc s d)
  then show ?thesis using shutdown_winds_down [OF shutdown(2)] assms(1)
    by (auto simp: own_step_def sections_left_def)
qed

text \<open>No thread is ever stuck.\<close>

lemma worker_goes_on:
  assumes "pc \<noteq> WIdle" and "pc \<noteq> WExited"
  shows "\<exists>calls pc' s' d'. worker_step drv pol opts (pc, s, d) calls (pc', s', d')"
proof (cases pc)
  case (WReady rec view result)
  obtain r d' where "execute_caught drv (rc_request rec) d = (r, d')" by fastforce
  then show ?thesis
    unfolding WReady by (cases "status_ok result") (blast intro: worker_step.call worker_step.skip)+
qed (use assms in \<open>blast intro: worker_step.intros\<close>)+

lemma worker_moves_on:
  assumes "pc \<noteq> WExited" and "ex_shutting_down s"
  shows "\<exists>calls pc' s' d'. worker_step drv pol opts (pc, s, d) calls (pc', s', d')"
proof (cases "pc = WIdle")
  case True
  have "worker_wakes 0 s" "worker_take 0 s = (TakeExit, s)" using assms(2) by (simp_all add: worker_wakes_def worker_take_def)
  from worker_step.exit [OF this, of drv pol opts d] show ?thesis unfolding True by blast
next
  case False
  then show ?thesis using assms(1) by (rule worker_goes_on)
qed

lemma poller_moves_on:
  assumes "pc \<noteq> PExited"
  shows "\<exists>pc' s' d'. poller_step drv opts (pc, s, d) (pc', s', d')"
  using assms by (cases pc) (auto intro: poller_step.intros simp: prod_eq_iff, (metis poller_step.intros prod.collapse)+)

lemma shutdown_moves_on:
  assumes "pc \<noteq> SDone" "pc \<noteq> SIdle" and "\<And>st. pc = SStopped st \<Longrightarrow> exited"
    and "\<exists>st d'. rd_stop drv kControlled d = (Returned st, d')"
  shows "\<exists>pc' s' d'. shutdown_step drv exited (pc, s, d) (pc', s', d')"
proof (cases pc)
  case SMarked
  then show ?thesis using assms(4) by (auto intro: shutdown_step.stop)
next
  case (SStopped st)
  then show ?thesis using assms(3) by (auto intro: shutdown_step.join)
qed (use assms in \<open>blast intro: shutdown_step.intros\<close>)+

text \<open>Some thread moves on until \<open>Shutdown\<close> has returned.\<close>

lemma system_moves_on:
  assumes down: "ex_shutting_down (sy_exec y)" and sh: "sy_shutdown y \<noteq> SIdle" "sy_shutdown y \<noteq> SDone"
    and stops: "\<exists>st d'. rd_stop drv kControlled (sy_driver y) = (Returned st, d')"
  shows "\<exists>y'. sys_step drv pol opts y y' \<and> sections_left y' < sections_left y"
proof -
  consider "sy_worker y \<noteq> WExited" | "sy_poller y \<noteq> PExited" | "sy_worker y = WExited \<and> sy_poller y = PExited" by blast
  then show ?thesis
  proof cases
    case 1
    then obtain calls pc s d where w: "worker_step drv pol opts (sy_worker y, sy_exec y, sy_driver y) calls (pc, s, d)"
      using worker_moves_on [OF 1 down, of drv pol opts "sy_driver y"] by blast
    show ?thesis using sys_step.worker [OF w] worker_winds_down [OF w down] by (auto simp: sections_left_def)
  next
    case 2
    then obtain pc s d where p: "poller_step drv opts (sy_poller y, sy_exec y, sy_driver y) (pc, s, d)"
      using poller_moves_on [OF 2, of drv opts "sy_exec y" "sy_driver y"] by blast
    show ?thesis using sys_step.poller [OF p, of pol] poller_winds_down [OF p down] by (auto simp: sections_left_def)
  next
    case 3
    then have "\<exists>pc s d. shutdown_step drv (sy_worker y = WExited \<and> sy_poller y = PExited)
        (sy_shutdown y, sy_exec y, sy_driver y) (pc, s, d)"
      using shutdown_moves_on [OF sh(2) sh(1) _ stops] by simp
    then obtain pc s d where h: "shutdown_step drv (sy_worker y = WExited \<and> sy_poller y = PExited)
        (sy_shutdown y, sy_exec y, sy_driver y) (pc, s, d)" by blast
    show ?thesis using sys_step.shutdown [OF h, of pol opts] shutdown_winds_down [OF h] by (auto simp: sections_left_def)
  qed
qed

text \<open>
  Claim C7. Shutdown terminates: once \<open>Shutdown\<close> has marked the executor, worker, poller and the
  thread that shuts down take at most 13 more sections together, whatever the clients do in
  between, and as long as \<open>Shutdown\<close> has not returned one of the three can take its next
  section, provided the driver's \<open>Stop\<close> does not throw.
\<close>

theorem shutdown_terminates:
  assumes "reachable drv pol opts y" and "sy_shutdown y \<noteq> SIdle"
    and "\<exists>st d'. rd_stop drv kControlled (sy_driver y) = (Returned st, d')"
  shows "sections_left y \<le> 13
    \<and> (\<forall>y'. sys_step drv pol opts y y' \<longrightarrow> sy_shutdown y' \<noteq> SIdle
         \<and> (if own_step drv pol opts y y' then sections_left y' < sections_left y
            else sections_left y' = sections_left y))
    \<and> (sy_shutdown y = SDone \<longleftrightarrow> sections_left y = 0)
    \<and> (sy_shutdown y \<noteq> SDone \<longrightarrow> (\<exists>y'. own_step drv pol opts y y'))"
proof -
  have ph: "phase_ok y" by (rule reach_parts(5) [OF assms(1)])
  then have down: "ex_shutting_down (sy_exec y)" using assms(2) by (simp add: phase_ok_def)
  have bound: "worker_left w \<le> 6" "poller_left p \<le> 3" for w p by (cases w; simp) (cases p; simp)
  have "shutdown_left (sy_shutdown y) \<le> 4" using assms(2) by (cases "sy_shutdown y") auto
  then have 1: "sections_left y \<le> 13" using bound(1) [of "sy_worker y"] bound(2) [of "sy_poller y"] by (simp add: sections_left_def)
  have 2: "sy_shutdown y' \<noteq> SIdle" if "sys_step drv pol opts y y'" for y'
    using that by cases (use assms(2) in \<open>auto dest: shutdown_step_keeps(4)\<close>)
  have 3: "sections_left y = 0 \<longleftrightarrow> sy_shutdown y = SDone"
  proof
    assume "sections_left y = 0"
    then show "sy_shutdown y = SDone" by (cases "sy_shutdown y") (auto simp: sections_left_def)
  next
    assume "sy_shutdown y = SDone"
    then show "sections_left y = 0" using ph by (simp add: phase_ok_def sections_left_def)
  qed
  have 4: "\<exists>y'. own_step drv pol opts y y'" if nd: "sy_shutdown y \<noteq> SDone"
  proof -
    obtain y' where y': "sys_step drv pol opts y y'" "sections_left y' < sections_left y"
      using system_moves_on [OF down assms(2) nd assms(3)] by blast
    then have "own_step drv pol opts y y'" using winds_down [OF y'(1) down] by (auto split: if_splits)
    then show ?thesis by blast
  qed
  show ?thesis using 1 2 3 4 winds_down [OF _ down] by blast
qed

text \<open>The run of \<open>shutdown_settles_everything_witness\<close> after its stop.\<close>

lemma demo_marked:
  "demo_reach (demo_down (WReady demo_record demo_view demo_verdict) PIdle SMarked []
     (demo_s4\<lparr>ex_shutting_down := True, ex_running := False\<rparr>) demo_d1)"
proof -
  have "demo_down (WReady demo_record demo_view demo_verdict) PIdle SIdle [] demo_s4 demo_d1
      = demo_sys (WReady demo_record demo_view demo_verdict) (CReturned demo_move (Returned (Inr 1))) demo_s4 demo_d1 []"
    by (simp add: demo_down_def demo_sys_def demo_done_def)
  then have 0: "demo_reach (demo_down (WReady demo_record demo_view demo_verdict) PIdle SIdle [] demo_s4 demo_d1)"
    using demo_ready_to_call by simp
  have "ex_running demo_s4" by code_simp
  then have "shutdown_begin demo_s4 = Some (demo_s4\<lparr>ex_shutting_down := True, ex_running := False\<rparr>)"
    by (simp add: shutdown_begin_def)
  from down_shutdown [OF 0 shutdown_step.mark [OF this]] show ?thesis .
qed

theorem shutdown_terminates_witness:
  "\<exists>y y'. demo_reach y \<and> sy_shutdown y = SMarked \<and> own_step mock_driver demo_policy demo_options y y'
     \<and> sections_left y' < sections_left y"
proof -
  let ?y = "demo_down (WReady demo_record demo_view demo_verdict) PIdle SMarked []
     (demo_s4\<lparr>ex_shutting_down := True, ex_running := False\<rparr>) demo_d1"
  have "\<exists>st d'. rd_stop mock_driver kControlled d = (Returned st, d')" for d
    by (auto simp: mock_driver_def mock_stop_def Let_def)
  moreover have h: "sy_shutdown ?y = SMarked" by (simp add: demo_down_def)
  ultimately have t: "(\<forall>y'. sys_step mock_driver demo_policy demo_options ?y y' \<longrightarrow> sy_shutdown y' \<noteq> SIdle
         \<and> (if own_step mock_driver demo_policy demo_options ?y y' then sections_left y' < sections_left ?y
            else sections_left y' = sections_left ?y))
    \<and> (\<exists>y'. own_step mock_driver demo_policy demo_options ?y y')"
    using shutdown_terminates [OF demo_marked] by simp
  then obtain y' where "own_step mock_driver demo_policy demo_options ?y y'" by blast
  moreover from this have "sys_step mock_driver demo_policy demo_options ?y y'" by (simp add: own_step_def)
  ultimately have "sections_left y' < sections_left ?y" using t by presburger
  then show ?thesis using demo_marked h \<open>own_step _ _ _ ?y y'\<close> by blast
qed

section \<open>A command that overtakes the stop\<close>

text \<open>
  The worker looks at \<open>shutting_down_\<close> only when it waits for a command. A command it has
  already taken still reaches the driver when \<open>Shutdown\<close> has sent its stop.
\<close>

definition late_robot :: mock where
  "late_robot = snd (execute_caught mock_driver demo_move (snd (rd_stop mock_driver kControlled demo_d1)))"

definition late_state :: exec_state where
  "late_state = worker_finish demo_options demo_clk demo_record StatusOk
     (demo_s4\<lparr>ex_shutting_down := True, ex_running := False\<rparr>)"

lemma late_run:
  "demo_reach (demo_down WExited PExited (SJoined StatusOk) [\<lparr>dc_request = demo_move, dc_view = demo_view\<rparr>]
     (shutdown_join late_state) late_robot)"
proof -
  let ?s = "demo_s4\<lparr>ex_shutting_down := True, ex_running := False\<rparr>"
  let ?d = "snd (rd_stop mock_driver kControlled demo_d1)"
  have r: "rc_request demo_record = demo_move" by (simp add: demo_record_def)
  have "fst (rd_stop mock_driver kControlled demo_d1) = Returned StatusOk" by code_simp
  then have "rd_stop mock_driver kControlled demo_d1 = (Returned StatusOk, ?d)" by (simp add: prod_eq_iff)
  from down_shutdown [OF demo_marked shutdown_step.stop [OF this]]
  have 1: "demo_reach (demo_down (WReady demo_record demo_view demo_verdict) PIdle (SStopped StatusOk) [] ?s ?d)" .
  have "fst (execute_caught mock_driver demo_move ?d) = StatusOk" by code_simp
  then have e: "execute_caught mock_driver (rc_request demo_record) ?d = (StatusOk, late_robot)"
    by (simp add: prod_eq_iff late_robot_def r)
  have sd: "ex_shutting_down late_state" by code_simp
  then have "worker_wakes 0 late_state" "worker_take 0 late_state = (TakeExit, late_state)"
    by (simp_all add: worker_wakes_def worker_take_def)
  then have x: "worker_step mock_driver demo_policy demo_options (WIdle, late_state, late_robot) []
      (WExited, late_state, late_robot)" by (rule worker_step.exit)
  from down_worker [OF 1 worker_step.call [OF demo_verdict_ok e]]
  have "demo_reach (demo_down (WDone demo_record StatusOk) PIdle (SStopped StatusOk)
      [\<lparr>dc_request = demo_move, dc_view = demo_view\<rparr>] ?s late_robot)" by (simp add: r)
  from down_worker [OF this worker_step.finish [where clk = demo_clk]]
  have "demo_reach (demo_down WIdle PIdle (SStopped StatusOk) [\<lparr>dc_request = demo_move, dc_view = demo_view\<rparr>]
      late_state late_robot)" by (simp add: late_state_def)
  from down_worker [OF this x]
  have 2: "demo_reach (demo_down WExited PIdle (SStopped StatusOk) [\<lparr>dc_request = demo_move, dc_view = demo_view\<rparr>]
      late_state late_robot)" by simp
  have 3: "demo_reach (demo_down WExited PExited (SStopped StatusOk) [\<lparr>dc_request = demo_move, dc_view = demo_view\<rparr>]
      late_state late_robot)"
    using down_poller [OF 2 poller_step.top] sd by simp
  from down_shutdown [OF 3 shutdown_step.join] show ?thesis by simp
qed

text \<open>
  Claim C8. The stop of \<open>Shutdown\<close> can be overtaken: there is a run in which \<open>Shutdown\<close> has sent
  its stop and the driver has reported success, both threads have returned and nothing but
  the release of control and the disconnect is left to do, and the robot is moving; at the end
  the motion is recorded as stopped with status ok.
\<close>

theorem shutdown_stop_can_be_overtaken:
  "\<exists>y. reachable mock_driver demo_policy demo_options y \<and> sy_shutdown y = SJoined StatusOk
     \<and> sy_worker y = WExited \<and> sy_poller y = PExited \<and> sn_moving (md_state (sy_driver y))
     \<and> (\<exists>y' r. (sys_step mock_driver demo_policy demo_options)\<^sup>*\<^sup>* y y' \<and> sy_shutdown y' = SDone
          \<and> find_command (sy_exec y') 1 = Some r \<and> rc_state r = kStopped \<and> rc_result r = StatusOk)"
proof -
  let ?calls = "[\<lparr>dc_request = demo_move, dc_view = demo_view\<rparr>]"
  let ?y = "demo_down WExited PExited (SJoined StatusOk) ?calls (shutdown_join late_state) late_robot"
  let ?d = "shutdown_release mock_driver late_robot"
  let ?y1 = "demo_down WExited PExited (SDisconnected StatusOk) ?calls (shutdown_join late_state) ?d"
  let ?s = "shutdown_finish StatusOk demo_clk (shutdown_join late_state)"
  let ?y2 = "demo_down WExited PExited SDone ?calls ?s ?d"
  have "sys_step mock_driver demo_policy demo_options ?y ?y1"
    using sys_step.shutdown [of mock_driver ?y "SDisconnected StatusOk" "shutdown_join late_state" ?d demo_policy demo_options]
      shutdown_step.disconnect [of mock_driver True StatusOk "shutdown_join late_state" late_robot]
    by (simp add: demo_down_def)
  moreover have "sys_step mock_driver demo_policy demo_options ?y1 ?y2"
    using sys_step.shutdown [of mock_driver ?y1 SDone ?s ?d demo_policy demo_options]
      shutdown_step.finish [of mock_driver True StatusOk "shutdown_join late_state" ?d demo_clk]
    by (simp add: demo_down_def)
  ultimately have steps: "(sys_step mock_driver demo_policy demo_options)\<^sup>*\<^sup>* ?y ?y2" by simp
  have moving: "sn_moving (md_state late_robot)" by code_simp
  have "case find_command ?s 1 of Some r \<Rightarrow> rc_state r = kStopped \<and> rc_result r = StatusOk | None \<Rightarrow> False"
    by code_simp
  then obtain r where "find_command ?s 1 = Some r" "rc_state r = kStopped" "rc_result r = StatusOk"
    by (auto split: option.splits)
  then have "sy_shutdown ?y2 = SDone \<and> find_command (sy_exec ?y2) 1 = Some r \<and> rc_state r = kStopped \<and> rc_result r = StatusOk"
    by (simp add: demo_down_def)
  moreover have "sy_shutdown ?y = SJoined StatusOk \<and> sy_worker ?y = WExited \<and> sy_poller ?y = PExited
      \<and> sn_moving (md_state (sy_driver ?y))" using moving by (simp add: demo_down_def)
  ultimately show ?thesis using late_run steps by blast
qed

end
