(* ===== verification/ExecutorProgress.thy ===== *)
theory ExecutorProgress
  imports ExecutorShutdown
begin

text \<open>
  The worker's progress: it is never stuck with a command in its hands, what it has taken is
  finished, and no wake-up it waits for is lost.
\<close>

section \<open>Finishing keeps the record\<close>

definition recorded :: "nat \<Rightarrow> exec_state \<Rightarrow> bool" where
  "recorded i s \<longleftrightarrow> find_command s i \<noteq> None"

lemma recorded_updates [simp]:
  "recorded i (s\<lparr>ex_active_motion_id := a\<rparr>) = recorded i s" "recorded i (s\<lparr>ex_active_motion_seen := b\<rparr>) = recorded i s"
  "recorded i (s\<lparr>ex_active_motion_started_at := t\<rparr>) = recorded i s" "recorded i (s\<lparr>ex_stop_requested := b\<rparr>) = recorded i s"
  "recorded i (s\<lparr>ex_jog_active := b\<rparr>) = recorded i s" "recorded i (s\<lparr>ex_active_jog_client_id := c\<rparr>) = recorded i s"
  "recorded i (s\<lparr>ex_active_jog_lease_id := c\<rparr>) = recorded i s" "recorded i (s\<lparr>ex_jog_deadline := t\<rparr>) = recorded i s"
  "recorded i (s\<lparr>ex_loaded_approved_program := p\<rparr>) = recorded i s" "recorded i (clear_active_jog s) = recorded i s"
  "recorded i (modify_record j f s) = recorded i s"
  by (simp_all add: recorded_def find_command_def clear_active_jog_def find_modify [unfolded find_command_def])

lemma recorded_stop: "recorded i s \<Longrightarrow> recorded i (request_internal_stop reason now s)"
  by (auto simp: recorded_def find_command_def request_internal_stop_def Let_def cs.look_emplace)

lemma recorded_complete [simp]:
  "recorded i (complete_active_motion st now s) = recorded i s" "recorded i (complete_active_program now s) = recorded i s"
  by (auto simp: complete_active_motion_def complete_active_program_def split: option.split)

lemma recorded_jog: "recorded i s \<Longrightarrow> recorded i (finish_jog opts clk record s)"
  by (simp add: finish_jog_def recorded_stop Let_def split: command_payload.split)

lemma recorded_finish: "recorded i s \<Longrightarrow> recorded i (worker_finish opts clk record result s)"
  by (simp add: worker_finish_def finish_motion_def finish_success_def recorded_stop recorded_jog Let_def split: option.split)

section \<open>The claim\<close>

lemma worker_hands:
  assumes "worker_step drv pol opts (pc, s, d) calls (pc', s', d')" and "held pc = Some rec"
  shows "worker_left pc' < worker_left pc"
    and "held pc' = Some rec \<or> pc' = WIdle \<and> (\<exists>opts' clk result. s' = worker_finish opts' clk rec result s)"
  using assms by (cases; auto)+

lemma finished_is_settled:
  assumes "exec_inv None s" and "recorded (rc_id rec) s" and "find_command s0 (rc_id rec) = Some r0" "rc_state r0 = kRunning"
    and "evolves A s0 s"
  shows "\<exists>r. find_command s (rc_id rec) = Some r
    \<and> (is_terminal (rc_state r) \<or> rc_state r = kRunning \<and> ex_active_motion_id s = Some (rc_id rec))"
proof -
  obtain r where r: "find_command s (rc_id rec) = Some r" using assms(2) by (auto simp: recorded_def)
  have "follows r0 r" by (rule evolves_follows [OF assms(5,3) r])
  then have "rc_state r \<noteq> kQueued" using assms(4) by (auto simp: follows_def may_become_def)
  moreover have "rc_state r = kRunning \<Longrightarrow> ex_active_motion_id s = Some (rc_id rec)"
    using core_parts(4) [OF assms(1)] r by (auto simp: running_ok_def find_command_def)
  ultimately show ?thesis using r not_terminal by blast
qed

text \<open>
  Claim C22. A command that was taken is finished: while the worker holds a command it can always
  take its next section, at most five are left, no step of another thread sets it back, and
  when it lets go of the command the record is settled or is the active motion.
\<close>

theorem taken_command_is_finished:
  assumes "reachable drv pol opts y" and "held (sy_worker y) = Some rec"
  shows "(\<exists>calls pc s d. worker_step drv pol opts (sy_worker y, sy_exec y, sy_driver y) calls (pc, s, d))
    \<and> 2 \<le> worker_left (sy_worker y) \<and> worker_left (sy_worker y) \<le> 6
    \<and> (\<forall>y'. sys_step drv pol opts y y' \<longrightarrow>
         (sy_worker y' = sy_worker y \<or> worker_left (sy_worker y') < worker_left (sy_worker y))
         \<and> (held (sy_worker y') = Some rec
            \<or> sy_worker y' = WIdle \<and> (\<exists>r. find_command (sy_exec y') (rc_id rec) = Some r
                \<and> (is_terminal (rc_state r)
                   \<or> rc_state r = kRunning \<and> ex_active_motion_id (sy_exec y') = Some (rc_id rec)))))"
proof -
  have left: "2 \<le> worker_left (sy_worker y) \<and> worker_left (sy_worker y) \<le> 6"
    using assms(2) by (cases "sy_worker y") auto
  let ?P = "\<lambda>y'. (sy_worker y' = sy_worker y \<or> worker_left (sy_worker y') < worker_left (sy_worker y))
      \<and> (held (sy_worker y') = Some rec
         \<or> sy_worker y' = WIdle \<and> (\<exists>r. find_command (sy_exec y') (rc_id rec) = Some r
             \<and> (is_terminal (rc_state r) \<or> rc_state r = kRunning \<and> ex_active_motion_id (sy_exec y') = Some (rc_id rec))))"
  have step: "?P y'" if s: "sys_step drv pol opts y y'" for y'
    using s
  proof cases
    case (worker calls pc s d)
    note hands = worker_hands [OF worker(2) assms(2)]
    have inv: "exec_inv (Some rec) (sy_exec y)" using reach_exec [OF assms(1)] assms(2) by simp
    obtain r0 where r0: "find_command (sy_exec y) (rc_id rec) = Some r0" "rc_state r0 = kRunning"
      using running_facts [OF inv] by blast
    have "\<exists>r. find_command s (rc_id rec) = Some r
        \<and> (is_terminal (rc_state r) \<or> rc_state r = kRunning \<and> ex_active_motion_id s = Some (rc_id rec))"
      if "pc = WIdle" "\<exists>opts' clk result. s = worker_finish opts' clk rec result (sy_exec y)"
    proof (rule finished_is_settled [OF _ _ r0])
      show "exec_inv None s" using reach_exec [OF reachable.step [OF assms(1) s]] worker(1) that(1) by simp
      show "recorded (rc_id rec) s" using that(2) r0(1) recorded_finish by (auto simp: recorded_def)
      show "evolves UNIV (sy_exec y) s"
        using steps_reach [OF r_into_rtranclp [of "sys_step drv pol opts", OF s] assms(1)] worker(1) by simp
    qed
    then show ?thesis using hands worker(1) by auto
  qed (use assms(2) in simp_all)
  have "\<exists>calls pc s d. worker_step drv pol opts (sy_worker y, sy_exec y, sy_driver y) calls (pc, s, d)"
    by (rule worker_goes_on) (use assms(2) in auto)
  moreover have "\<forall>y'. sys_step drv pol opts y y' \<longrightarrow> ?P y'" by (intro allI impI step)
  ultimately show ?thesis using left by (intro conjI) (fast | assumption)+
qed

theorem taken_command_is_finished_witness:
  "\<exists>calls pc s d. worker_step mock_driver demo_policy demo_options
     (sy_worker demo_running, sy_exec demo_running, sy_driver demo_running) calls (pc, s, d)"
proof -
  have "held (sy_worker demo_running) = Some demo_record" by (simp add: demo_fields)
  from taken_command_is_finished [OF demo_taken this] show ?thesis by blast
qed

section \<open>Wake-ups\<close>

text \<open>
  The worker and the poller wait on \<open>condition_\<close>; the sections after which the code calls
  \<open>notify_all\<close>: a submission that queued a command, a release, a poll, the worker's own turn,
  and the start of \<open>Shutdown\<close>.
\<close>

definition submit_notifies :: "'d system \<Rightarrow> 'd system \<Rightarrow> bool" where
  "submit_notifies y y' \<longleftrightarrow> (\<exists>i request. sy_clients y i = CApproved request
     \<and> sy_clients y' i = CReturned request (Returned (Inr (ex_next_command_id (sy_exec y)))))"

definition release_notifies :: "'d system \<Rightarrow> 'd system \<Rightarrow> bool" where
  "release_notifies y y' \<longleftrightarrow>
    (\<exists>i lease_id client. sy_clients y i = CReleased lease_id client \<and> sy_clients y' i = CIdle)"

definition poll_notifies :: "'d system \<Rightarrow> 'd system \<Rightarrow> bool" where
  "poll_notifies y y' \<longleftrightarrow> (\<exists>state. sy_poller y = PApplying state \<and> sy_poller y' = PSleeping)"

definition shutdown_notifies :: "'d system \<Rightarrow> 'd system \<Rightarrow> bool" where
  "shutdown_notifies y y' \<longleftrightarrow> sy_shutdown y = SIdle \<and> sy_shutdown y' = SMarked"

text \<open>Nothing wakes the worker without more in the queue, another active motion, or the shutdown flag.\<close>

lemma wakes_need_more:
  assumes inv: "exec_inv infl s" "exec_inv infl' s'" and e: "evolves A s s'"
    and q: "set (ex_queue s') \<subseteq> set (ex_queue s)" and a: "ex_active_motion_id s' = ex_active_motion_id s"
    and sd: "ex_shutting_down s' = ex_shutting_down s" and w: "worker_wakes t s'"
  shows "worker_wakes t s"
proof -
  have same: "\<exists>r r'. find_command s i = Some r \<and> find_command s' i = Some r' \<and> rc_request r' = rc_request r
      \<and> rc_created_at r' = rc_created_at r" if i: "i \<in> set (ex_queue s')" for i
  proof -
    obtain r' where r': "find_command s' i = Some r'" using queued_command [OF inv(2) i] by blast
    obtain r where r: "find_command s i = Some r" using queued_command [OF inv(1)] q i by blast
    show ?thesis using evolves_follows [OF e r r'] r r' by (simp add: follows_def)
  qed
  have expired: "has_expired_queued_command t s" if x: "has_expired_queued_command t s'"
  proof -
    obtain i where i: "i \<in> set (ex_queue s')" "case find_command s' i of None \<Rightarrow> True | Some r \<Rightarrow> timed_out t r"
      using x unfolding has_expired_queued_command_def list_ex_iff by blast
    have "case find_command s i of None \<Rightarrow> True | Some r \<Rightarrow> timed_out t r"
      using same [OF i(1)] i(2) by (auto simp: timed_out_def)
    then show ?thesis using q i(1) unfolding has_expired_queued_command_def list_ex_iff by blast
  qed
  have kept: "find_command s' k = Some r' \<Longrightarrow> \<exists>r. find_command s k = Some r \<and> rc_request r' = rc_request r"
    if "ex_active_motion_id s = Some k" for k r'
  proof -
    assume r': "find_command s' k = Some r'"
    have "k < ex_next_command_id s" using inv(1) that by (auto simp: exec_inv_def core_inv_def active_ok_def)
    then obtain r where r: "find_command s k = Some r" using e r' by (auto simp: evolves_def)
    show ?thesis using evolves_follows [OF e r r'] r by (simp add: follows_def)
  qed
  have executable: "is_executable s i" if "i \<in> set (ex_queue s')" "is_executable s' i" for i
    using same [OF that(1)] that(2) kept a by (fastforce simp: is_executable_def split: option.splits if_splits)
  have "find_executable_command s \<noteq> None" if "find_executable_command s' \<noteq> None"
    using that executable q by (auto simp: find_executable_command_def find_None_iff subset_iff)
  then show ?thesis using w expired sd by (auto simp: worker_wakes_def)
qed

lemma prune_shutting [simp]: "ex_shutting_down (prune_command_history opts s) = ex_shutting_down s"
  by (simp add: prune_command_history_def split: prod.split)

lemma commit_queues:
  assumes "submit_commit opts clk request s = (r, s')" and "exec_inv infl s"
  shows "r = Returned (Inr (ex_next_command_id s))
    \<or> set (ex_queue s') \<subseteq> set (ex_queue s) \<and> ex_active_motion_id s' = ex_active_motion_id s"
proof -
  have enq: "r = Returned (Inr (ex_next_command_id s1)) \<or> ex_queue s' = ex_queue s1 \<and> ex_active_motion_id s' = ex_active_motion_id s1"
    if "submit_enqueue opts now request s1 = (r, s')" for now s1
    using that by (auto simp: submit_enqueue_def Let_def split: if_splits)
  have "ex_next_command_id s1 = ex_next_command_id s \<and> set (ex_queue s1) \<subseteq> set (ex_queue s)
      \<and> ex_active_motion_id s1 = ex_active_motion_id s" if "displace_for_stop t s = Some s1" for t s1
    using that
    by (auto simp: displace_for_stop_def remove_last_distinct [OF queue_facts(1) [OF assms(2)]]
        split: option.splits dest: set_remove1_subset [THEN subsetD])
  then show ?thesis
    using assms(1) enq by (fastforce simp: submit_commit_def split: if_splits option.splits)
qed

lemma executable_frame: "ex_commands s' = ex_commands s \<Longrightarrow> ex_active_motion_id s' = ex_active_motion_id s
    \<Longrightarrow> is_executable s' = is_executable s"
  by (simp add: is_executable_def find_command_def fun_eq_iff cong: option.case_cong)

lemma wakes_lease [simp]: "worker_wakes t (s\<lparr>ex_lease_manager := m\<rparr>) = worker_wakes t s"
  by (simp add: worker_wakes_def has_expired_queued_command_def find_executable_command_def find_command_def
      executable_frame [of "s\<lparr>ex_lease_manager := m\<rparr>" s])

lemma client_wakes:
  assumes "client_step drv pol opts (pc, s, d) (pc', s', d')" and "exec_inv infl s" and "client_ok pc"
    and "\<not> worker_wakes t s" and "worker_wakes t s'"
  shows "(\<exists>request. pc = CApproved request \<and> pc' = CReturned request (Returned (Inr (ex_next_command_id s))))
    \<or> (\<exists>lease_id client. pc = CReleased lease_id client \<and> pc' = CIdle)"
  using assms(1)
proof cases
  case (submit_committed clk request r)
  have m: "moves UNIV infl s infl s'" and st: "steady s' = steady s"
    using client_step_keeps [OF assms(1,2,3), of UNIV] by auto
  then have "r = Returned (Inr (ex_next_command_id s))"
    using commit_queues [OF submit_committed(4) assms(2)] wakes_need_more [OF assms(2), of infl s' UNIV t] assms(2,4,5)
    by (auto simp: moves_def steady_def flags_def)
  then show ?thesis using submit_committed by simp
qed (use assms in \<open>auto dest!: release_begin_moves\<close>)

lemma poller_wakes:
  assumes "poller_step drv opts (pc, s, d) (pc', s', d')" and "\<not> worker_wakes t s" and "worker_wakes t s'"
  shows "\<exists>state. pc = PApplying state \<and> pc' = PSleeping"
  using assms by cases auto

lemma shutdown_wakes:
  assumes "shutdown_step drv exited (pc, s, d) (pc', s', d')" and "\<not> worker_wakes t s" and "worker_wakes t s'"
  shows "pc = SIdle \<and> pc' = SMarked"
  using assms(1)
proof cases
  case (join st)
  have "worker_wakes t (shutdown_join s) = worker_wakes t s"
    by (simp add: worker_wakes_def has_expired_queued_command_def find_executable_command_def find_command_def
        executable_frame [of "s\<lparr>ex_threads_joinable := False\<rparr>" s] shutdown_join_def)
  then show ?thesis using assms join by simp
next
  case (finish st clk)
  have "ex_queue s' = []"
    by (simp add: finish shutdown_finish_def cancel_commands_for_shutdown_def clear_active_jog_def
        Let_def split: option.split)
  moreover have "ex_shutting_down s' = ex_shutting_down s"
    using steady_shutdown_finish [of st clk s] finish by (simp add: steady_def flags_def)
  ultimately show ?thesis
    using assms(2,3) by (simp add: worker_wakes_def has_expired_queued_command_def find_executable_command_def)
qed (use assms(2,3) in simp_all)

text \<open>
  Claim C23. No wake-up is lost: whenever a step of another thread makes the worker's wait
  condition true, the code notifies after that step (a command was queued, a lease released, a
  poll digested, or \<open>Shutdown\<close> begun), and only the beginning of \<open>Shutdown\<close> makes the poller's
  wait condition true.
\<close>

theorem no_wakeup_is_lost:
  assumes "reachable drv pol opts y" and "sys_step drv pol opts y y'"
  shows "(\<not> worker_wakes t (sy_exec y) \<and> worker_wakes t (sy_exec y') \<longrightarrow>
       submit_notifies y y' \<or> release_notifies y y' \<or> poll_notifies y y' \<or> shutdown_notifies y y'
       \<or> (\<exists>calls. worker_step drv pol opts (sy_worker y, sy_exec y, sy_driver y) calls
            (sy_worker y', sy_exec y', sy_driver y')))
    \<and> (\<not> ex_shutting_down (sy_exec y) \<and> ex_shutting_down (sy_exec y') \<longrightarrow> shutdown_notifies y y')"
  using assms(2)
proof cases
  case (worker calls pc s d)
  have "flags s = flags (sy_exec y)"
    using worker_step_keeps(5) [OF worker(2) reach_exec [OF assms(1)] reach_parts(1,4) [OF assms(1)]] .
  then show ?thesis using worker by (auto simp: flags_def)
next
  case (poller pc s d)
  have "steady s = steady (sy_exec y)" by (rule poller_step_keeps(2) [OF poller(2)])
  then show ?thesis using poller poller_wakes [OF poller(2)] by (auto simp: poll_notifies_def steady_def flags_def)
next
  case (client i pc s d)
  have ok: "client_ok (sy_clients y i)" by (rule reach_parts(2) [OF assms(1)])
  have "steady s = steady (sy_exec y)"
    using client_step_keeps(3) [OF client(2) reach_exec [OF assms(1)] ok, of UNIV] by simp
  moreover have "submit_notifies y y' \<or> release_notifies y y'"
    if "\<not> worker_wakes t (sy_exec y)" "worker_wakes t s"
    using client_wakes [OF client(2) reach_exec [OF assms(1)] ok that] client(1)
    by (fastforce simp: submit_notifies_def release_notifies_def)
  ultimately show ?thesis using client(1) by (auto simp: steady_def flags_def)
next
  case (shutdown pc s d)
  have "sy_shutdown y = SIdle \<and> pc = SMarked" if "\<not> ex_shutting_down (sy_exec y)" "ex_shutting_down s"
    using shutdown(2) that steady_shutdown_finish
    by cases (auto simp: steady_def flags_def shutdown_join_def)
  then show ?thesis using shutdown shutdown_wakes [OF shutdown(2)] by (auto simp: shutdown_notifies_def)
qed

theorem no_wakeup_is_lost_witness:
  "\<exists>y y'. demo_reach y \<and> sys_step mock_driver demo_policy demo_options y y'
     \<and> \<not> worker_wakes 0 (sy_exec y) \<and> worker_wakes 0 (sy_exec y') \<and> submit_notifies y y'"
proof -
  let ?y = "demo_sys WIdle (CApproved demo_move) demo_s2 demo_d1 []"
  let ?y' = "demo_sys WIdle (CReturned demo_move (Returned (Inr 1))) demo_s3 demo_d1 []"
  have r: "demo_reach ?y"
    by (rule demo_client [OF demo_client [OF demo_leased client_step.submit_begun [OF demo_begin]]
          client_step.submit_approved [OF demo_valid]])
  have s: "sys_step mock_driver demo_policy demo_options ?y ?y'"
    using sys_step.client [of mock_driver demo_policy demo_options ?y 0 "CReturned demo_move (Returned (Inr 1))" demo_s3 demo_d1]
      client_step.submit_committed [OF demo_commit, of mock_driver demo_policy demo_d1] by (simp add: demo_sys_def)
  have "\<not> worker_wakes 0 demo_s2" by code_simp
  then have w: "\<not> worker_wakes 0 (sy_exec ?y)" "worker_wakes 0 (sy_exec ?y')"
    using demo_wakes by (simp_all add: demo_sys_def)
  have "\<not> worker_step mock_driver demo_policy demo_options (sy_worker ?y, sy_exec ?y, sy_driver ?y) calls
      (sy_worker ?y', sy_exec ?y', sy_driver ?y')" for calls
  proof
    assume "worker_step mock_driver demo_policy demo_options (sy_worker ?y, sy_exec ?y, sy_driver ?y) calls
      (sy_worker ?y', sy_exec ?y', sy_driver ?y')"
    then have "worker_step mock_driver demo_policy demo_options (WIdle, demo_s2, demo_d1) calls (WIdle, demo_s3, demo_d1)"
      by (simp add: demo_sys_def)
    moreover have "ex_queue demo_s2 = []" "ex_queue demo_s3 \<noteq> []" by code_simp+
    ultimately show False by cases (auto simp: worker_take_def find_executable_command_def split: if_splits)
  qed
  moreover have "\<not> release_notifies ?y ?y'" "\<not> poll_notifies ?y ?y'" "\<not> shutdown_notifies ?y ?y'"
    by (auto simp: release_notifies_def poll_notifies_def shutdown_notifies_def demo_sys_def split: if_splits)
  ultimately have "submit_notifies ?y ?y'" using no_wakeup_is_lost [OF r s, of 0] w by blast
  then show ?thesis using r s w by blast
qed

end
