(* ===== verification/EfortErrors.thy ===== *)
theory EfortErrors
  imports Types
begin

text \<open>
  \<open>src/adapters/efort/efort_error_mapper.cc\<close>: vendor error codes become domain statuses.
  The numeric values of the SDK's named constants are in headers outside the repository; they
  are a parameter \<open>K\<close> of every definition that uses one, indexed by the constant's name.
\<close>

datatype sdk_name =
    ERROR_OK | ERROR_CONNECT_FAILED | ERROR_NO_CONNECTION | ERROR_CONNECTION_BROKEN
  | ERROR_ACCESS_REJECTED | ERROR_CUR_MODE_NOT_SUPPORT | ERROR_SERVO_ON_FAILED
  | ERROR_POWER_OFF_FAILED | ERROR_SET_MODE_FAILED | ERROR_SET_SPEED_RATIO_FAILED
  | ERROR_START_PROGRAM_FAILED | ERROR_RESET_PROGRAM_FAILED | ERROR_LOAD_PROGRAM_FAILED
  | ERROR_PARA_INVALID | ERROR_STILL_RUNNING | ERROR_SET_PARA_FAILED | ERROR_GET_PARA_FAILED
  | ERROR_MOVE_FAILED | ERROR_ENABLE_API_CONTROL_FAILED | ERROR_THIRD_OPERATION_TIME_OUT
  | ERROR_ROBOT_NOT_IN_POSITION | ERROR_TARGET_INVALID | ERROR_MEMORY_LACK
  | ERROR_VERSION_MISMATCH | ERROR_THIRD_RECEIVE_NO_DATA | ERROR_THIRD_RECEIVE_LOSS_DATA
  | ERROR_THIRD_PARTY
  | RPL_INIT | RPL_RUN | RPL_PAUSE | RPL_ERROR
  | ROBOX_MODE_MANUAL | ROBOX_MODE_MANUFAST | ROBOX_MODE_AUTO
  | ROBOX_MODE_JOG | ROBOX_MODE_ROBOT | ROBOX_MODE_TOOL | ROBOX_MODE_UFRAME | ROBOX_MODE_WORLD
  | ALA_CURRENT | PRINT_NONE

type_synonym sdk_constants = "sdk_name \<Rightarrow> int"

text \<open>A C++ \<open>switch\<close> over named constants, with its default.\<close>

definition switch :: "sdk_constants \<Rightarrow> (sdk_name \<times> 'a) list \<Rightarrow> 'a \<Rightarrow> int \<Rightarrow> 'a" where
  "switch K cases other v = (case find (\<lambda>(n, _). K n = v) cases of Some (_, x) \<Rightarrow> x | None \<Rightarrow> other)"

text \<open>The compiler accepts a \<open>switch\<close> only when its labels are pairwise different.\<close>

definition labels_distinct :: "sdk_constants \<Rightarrow> (sdk_name \<times> 'a) list \<Rightarrow> bool" where
  "labels_distinct K cases \<longleftrightarrow> distinct (map (K \<circ> fst) cases)"

lemma switch_case:
  "labels_distinct K cases \<Longrightarrow> (n, x) \<in> set cases \<Longrightarrow> switch K cases other (K n) = x"
proof (induction cases)
  case (Cons c cases)
  obtain m y where c: "c = (m, y)" by fastforce
  have "K m \<noteq> K n" if "(n, x) \<in> set cases"
    using Cons.prems(1) c imageI [OF that, of "\<lambda>c. K (fst c)"]
    by (simp add: labels_distinct_def) metis
  then show ?case using Cons c by (auto simp: switch_def labels_distinct_def)
qed simp

lemma switch_default: "v \<notin> K ` fst ` set cases \<Longrightarrow> switch K cases other v = other"
  by (induction cases) (auto simp: switch_def)

lemma switch_in: "switch K cases other v \<in> insert other (snd ` set cases)"
  by (induction cases) (auto simp: switch_def)

section \<open>The two tables\<close>

definition error_messages :: "(sdk_name \<times> string) list" where
  "error_messages =
   [(ERROR_OK, ''operation succeeded''),
    (ERROR_CONNECT_FAILED, ''connection failed''),
    (ERROR_NO_CONNECTION, ''robot is not connected''),
    (ERROR_CONNECTION_BROKEN, ''robot connection was lost''),
    (ERROR_ACCESS_REJECTED, ''controller rejected API access''),
    (ERROR_CUR_MODE_NOT_SUPPORT, ''controller mode does not support this operation''),
    (ERROR_SERVO_ON_FAILED, ''servo power-on failed''),
    (ERROR_POWER_OFF_FAILED, ''servo power-off failed''),
    (ERROR_SET_MODE_FAILED, ''setting controller mode failed''),
    (ERROR_SET_SPEED_RATIO_FAILED, ''setting speed ratio failed''),
    (ERROR_START_PROGRAM_FAILED, ''starting controller program failed''),
    (ERROR_RESET_PROGRAM_FAILED, ''resetting controller program failed''),
    (ERROR_LOAD_PROGRAM_FAILED, ''loading controller program failed''),
    (ERROR_PARA_INVALID, ''SDK parameter is invalid''),
    (ERROR_STILL_RUNNING, ''controller is still running''),
    (ERROR_SET_PARA_FAILED, ''setting controller parameter failed''),
    (ERROR_GET_PARA_FAILED, ''reading controller parameter failed''),
    (ERROR_MOVE_FAILED, ''controller rejected the motion command''),
    (ERROR_ENABLE_API_CONTROL_FAILED, ''changing API control state failed''),
    (ERROR_THIRD_OPERATION_TIME_OUT, ''SDK operation timed out''),
    (ERROR_ROBOT_NOT_IN_POSITION, ''robot is not in the requested position''),
    (ERROR_TARGET_INVALID, ''motion target is unreachable''),
    (ERROR_MEMORY_LACK, ''SDK reported insufficient memory''),
    (ERROR_VERSION_MISMATCH, ''SDK and controller versions do not match'')]"

definition error_message :: "sdk_constants \<Rightarrow> int \<Rightarrow> string" where
  "error_message K vendor_code = switch K error_messages ''EFORT SDK operation failed'' vendor_code"

definition error_classes :: "(sdk_name \<times> status_code) list" where
  "error_classes =
   [(ERROR_CONNECT_FAILED, kUnavailable),
    (ERROR_NO_CONNECTION, kUnavailable),
    (ERROR_CONNECTION_BROKEN, kUnavailable),
    (ERROR_THIRD_RECEIVE_NO_DATA, kUnavailable),
    (ERROR_THIRD_RECEIVE_LOSS_DATA, kUnavailable),
    (ERROR_ACCESS_REJECTED, kPermissionDenied),
    (ERROR_ENABLE_API_CONTROL_FAILED, kPermissionDenied),
    (ERROR_PARA_INVALID, kInvalidArgument),
    (ERROR_TARGET_INVALID, kInvalidArgument),
    (ERROR_THIRD_OPERATION_TIME_OUT, kDeadlineExceeded),
    (ERROR_CUR_MODE_NOT_SUPPORT, kFailedPrecondition),
    (ERROR_SERVO_ON_FAILED, kFailedPrecondition),
    (ERROR_POWER_OFF_FAILED, kFailedPrecondition),
    (ERROR_STILL_RUNNING, kFailedPrecondition),
    (ERROR_ROBOT_NOT_IN_POSITION, kFailedPrecondition),
    (ERROR_VERSION_MISMATCH, kFailedPrecondition),
    (ERROR_MOVE_FAILED, kControllerFault),
    (ERROR_START_PROGRAM_FAILED, kControllerFault),
    (ERROR_RESET_PROGRAM_FAILED, kControllerFault),
    (ERROR_LOAD_PROGRAM_FAILED, kControllerFault)]"

definition map_efort_error :: "sdk_constants \<Rightarrow> int \<Rightarrow> string \<Rightarrow> status" where
  "map_efort_error K vendor_code operation =
    (if vendor_code = K ERROR_OK then StatusOk
     else
       let code = switch K error_classes
             (if vendor_code \<ge> K ERROR_THIRD_PARTY then kInternal else kControllerFault) vendor_code
       in \<lparr>st_code = code, st_message = operation @ '': '' @ error_message K vendor_code,
           st_vendor_code = vendor_code\<rparr>)"

lemma error_class_not_ok: "other \<noteq> kOk \<Longrightarrow> switch K error_classes other v \<noteq> kOk"
proof -
  assume "other \<noteq> kOk"
  moreover have "kOk \<notin> snd ` set error_classes" by (simp add: error_classes_def)
  ultimately have "kOk \<notin> insert other (snd ` set error_classes)" by blast
  then show ?thesis using switch_in by metis
qed

lemma map_efort_ok [simp]: "status_ok (map_efort_error K v op) \<longleftrightarrow> v = K ERROR_OK"
proof (cases "v = K ERROR_OK")
  case False
  then have "\<not> status_ok (map_efort_error K v op)"
    using error_class_not_ok [of "if K ERROR_THIRD_PARTY \<le> v then kInternal else kControllerFault" K v]
    by (simp add: map_efort_error_def Let_def)
  with False show ?thesis by simp
qed (simp add: map_efort_error_def)

lemma map_efort_ok_eq: "status_ok (map_efort_error K v op) \<Longrightarrow> map_efort_error K v op = StatusOk"
  unfolding map_efort_ok by (simp add: map_efort_error_def)

section \<open>Property\<close>

text \<open>Values for the constants, for the witnesses; any others with distinct labels would do.\<close>

primrec name_index :: "sdk_name list \<Rightarrow> sdk_name \<Rightarrow> int" where
  "name_index [] n = 0"
| "name_index (m # ms) n = (if n = m then 0 else 1 + name_index ms n)"

definition demo_constants :: sdk_constants where
  "demo_constants = name_index
    ([ERROR_OK, ERROR_SET_MODE_FAILED, ERROR_SET_SPEED_RATIO_FAILED, ERROR_SET_PARA_FAILED,
      ERROR_GET_PARA_FAILED, ERROR_MEMORY_LACK] @ map fst error_classes @
     [ERROR_THIRD_PARTY, RPL_INIT, RPL_RUN, RPL_PAUSE, RPL_ERROR, ROBOX_MODE_MANUAL,
      ROBOX_MODE_MANUFAST, ROBOX_MODE_AUTO, ROBOX_MODE_JOG, ROBOX_MODE_ROBOT, ROBOX_MODE_TOOL,
      ROBOX_MODE_UFRAME, ROBOX_MODE_WORLD, ALA_CURRENT, PRINT_NONE])"

text \<open>
  No vendor error is lost or taken for success: the status is OK exactly for the
  SDK's success code; any other status carries the vendor's number and starts with the name
  of the call; a code the mapper names gets its class, and any other is internal from the
  third-party range upwards and a controller fault below it.
\<close>

theorem vendor_errors_reported:
  assumes "labels_distinct K error_classes" and "v \<noteq> K ERROR_OK"
  shows "\<not> status_ok (map_efort_error K v op)
    \<and> st_vendor_code (map_efort_error K v op) = v
    \<and> starts_with (op @ '': '') (st_message (map_efort_error K v op))
    \<and> (\<forall>n c. (n, c) \<in> set error_classes \<longrightarrow> v = K n \<longrightarrow> st_code (map_efort_error K v op) = c)
    \<and> (v \<notin> K ` fst ` set error_classes \<longrightarrow>
        st_code (map_efort_error K v op) = (if K ERROR_THIRD_PARTY \<le> v then kInternal else kControllerFault))"
proof (intro conjI allI impI)
  show "st_code (map_efort_error K v op) = c" if "(n, c) \<in> set error_classes" "v = K n" for n c
    using assms(2) switch_case [OF assms(1) that(1)] that(2) by (simp add: map_efort_error_def)
qed (use assms(2) switch_default [of v K error_classes] in \<open>simp_all add: map_efort_error_def starts_with_iff error_class_not_ok\<close>)

end
