(* ===== verification/EfortDriver.thy ===== *)
theory EfortDriver
  imports RobotDriver EfortErrors
begin

text \<open>
  \<open>src/adapters/efort/efort_driver.cc\<close>: the adapter over the vendor SDK, one definition per
  method of \<open>EfortDriver::Impl\<close> (the public class forwards to it). The SDK is not in the
  repository: its functions are the fields of the record \<open>sdk\<close>, named as in \<open>RobotAPI\<close>, over
  a state \<open>'w\<close> of the controller about which nothing is assumed. A function returns its
  result code, then the value left in its output argument, then the new controller state; an
  output argument that the code initialises is also an input.
\<close>

section \<open>The SDK\<close>

record robot_pos =
  rp_x :: dbl
  rp_y :: dbl
  rp_z :: dbl
  rp_a :: dbl
  rp_b :: dbl
  rp_c :: dbl
  rp_cfgx :: int
  rp_cfg1 :: int
  rp_cfg4 :: int
  rp_cfg6 :: int

record point_c =
  pc_x :: dbl
  pc_y :: dbl
  pc_z :: dbl
  pc_a :: dbl
  pc_b :: dbl
  pc_c :: dbl
  pc_cfgx :: u32
  pc_cfg1 :: int
  pc_cfg4 :: int
  pc_cfg6 :: int

text \<open>Character arrays are the lists of their characters, up to the array's size.\<close>

record run_info =
  ri_key_mode :: int
  ri_velocity :: u32
  ri_tcp_speed :: dbl
  ri_program_status :: int
  ri_tool_name :: string
  ri_wobj_name :: string

record alarm_data =
  ad_alarm_code :: int
  ad_alarm_type :: int
  ad_alarm_time :: string
  ad_alarm_info :: string

type_synonym 'w sdk_call = "u32 \<Rightarrow> 'w \<Rightarrow> int \<times> 'w"
type_synonym ('v, 'w) sdk_query = "u32 \<Rightarrow> 'w \<Rightarrow> (int \<times> 'v) \<times> 'w"

record 'w sdk =
  sdk_constant :: sdk_constants
  MAX_CHAR_LENGTH :: nat
  inet_pton_ipv4 :: "string \<Rightarrow> bool"
  ConnectRobot :: "string \<Rightarrow> u32 \<Rightarrow> bool \<Rightarrow> bool \<Rightarrow> int \<Rightarrow> bool \<Rightarrow> 'w \<Rightarrow> (int \<times> u32) \<times> 'w"
  DisconnectRobot :: "'w sdk_call"
  IsConnected :: "u32 \<Rightarrow> 'w \<Rightarrow> bool \<times> 'w"
  GetCurrentRobotType :: "string \<Rightarrow> (string, 'w) sdk_query"
  IsApiControl :: "u32 \<Rightarrow> 'w \<Rightarrow> bool \<times> 'w"
  EnableApiControl :: "bool \<Rightarrow> 'w sdk_call"
  PowerOn :: "'w sdk_call"
  PowerOff :: "'w sdk_call"
  ClearAlarm :: "'w sdk_call"
  GetCurrentEmgStatus :: "bool \<Rightarrow> (bool, 'w) sdk_query"
  GetCurrentServoStatus :: "bool \<Rightarrow> (bool, 'w) sdk_query"
  GetCurrentAlarmStatus :: "bool \<Rightarrow> (bool, 'w) sdk_query"
  GetMoveState :: "bool \<Rightarrow> (bool, 'w) sdk_query"
  GetCurrentProStatus :: "int \<Rightarrow> (int, 'w) sdk_query"
  SetGlobalSpeed :: "u32 \<Rightarrow> 'w sdk_call"
  CheckTargetJoint :: "dbl list \<Rightarrow> string \<Rightarrow> string \<Rightarrow> 'w sdk_call"
  CheckTargetPos :: "robot_pos \<Rightarrow> string \<Rightarrow> string \<Rightarrow> 'w sdk_call"
  SetCurrentToolByName :: "string \<Rightarrow> 'w sdk_call"
  SetCurrentUframeByName :: "string \<Rightarrow> 'w sdk_call"
  MJOINT :: "dbl list \<Rightarrow> int \<Rightarrow> dbl \<Rightarrow> u32 \<Rightarrow> int \<Rightarrow> int \<Rightarrow> 'w \<Rightarrow> int \<times> 'w"
  MLIN :: "dbl list \<Rightarrow> int \<Rightarrow> dbl \<Rightarrow> u32 \<Rightarrow> int \<Rightarrow> int \<Rightarrow> 'w \<Rightarrow> int \<times> 'w"
  MCIRC :: "point_c \<Rightarrow> point_c \<Rightarrow> dbl \<Rightarrow> dbl \<Rightarrow> string \<Rightarrow> string \<Rightarrow> 'w sdk_call"
  MOVEHOLD :: "'w sdk_call"
  MOVERESUME :: "'w sdk_call"
  MOVECLEAR :: "'w sdk_call"
  SetJogMode :: "int \<Rightarrow> 'w sdk_call"
  JogPlus :: "nat \<Rightarrow> bool \<Rightarrow> 'w sdk_call"
  JogMinus :: "nat \<Rightarrow> bool \<Rightarrow> 'w sdk_call"
  LoadProgram :: "string \<Rightarrow> u32 \<Rightarrow> bool \<Rightarrow> 'w \<Rightarrow> int \<times> 'w"
  StartProgram :: "'w sdk_call"
  StopProgram :: "'w sdk_call"
  GetRobotStatusData :: "run_info \<Rightarrow> (run_info, 'w) sdk_query"
  GetJointPos :: "(dbl list, 'w) sdk_query"
  GetBaseCoordinatePos2 :: "(robot_pos, 'w) sdk_query"
  GetAlarmData :: "int \<Rightarrow> alarm_data list \<Rightarrow> (alarm_data list, 'w) sdk_query"
  ReadDIn :: "u32 \<Rightarrow> bool \<Rightarrow> (bool, 'w) sdk_query"
  ReadDOut :: "u32 \<Rightarrow> bool \<Rightarrow> (bool, 'w) sdk_query"
  WriteDOut :: "u32 \<Rightarrow> bool \<Rightarrow> u32 \<Rightarrow> bool \<Rightarrow> 'w \<Rightarrow> int \<times> 'w"

text \<open>
  \<open>JogPlus k\<close> and \<open>JogMinus k\<close> are \<open>Jog1Plus\<close> to \<open>Jog6Plus\<close> and \<open>Jog1Minus\<close> to
  \<open>Jog6Minus\<close>; \<open>inet_pton_ipv4\<close> says whether \<open>inet_pton(AF_INET, ...)\<close> returns 1;
  \<open>GetJointPos\<close> gives the six elements of \<open>RobotJoint::j\<close>.
\<close>

section \<open>The anonymous namespace\<close>

definition efort_axis_count :: nat where
  "efort_axis_count = 6"

definition efort_digital_io_count :: nat where
  "efort_digital_io_count = 176"

definition is_alnum :: "char \<Rightarrow> bool" where
  "is_alnum c = (let n = of_char c :: nat in
     48 \<le> n \<and> n \<le> 57 \<or> 65 \<le> n \<and> n \<le> 90 \<or> 97 \<le> n \<and> n \<le> 122)"

definition to_upper :: "char \<Rightarrow> char" where
  "to_upper c = (let n = of_char c :: nat in if 97 \<le> n \<and> n \<le> 122 then char_of (n - 32) else c)"

definition normalize_model_name :: "string \<Rightarrow> string" where
  "normalize_model_name value = map to_upper (filter is_alnum value)"

definition efort_model_matches :: "string \<Rightarrow> string \<Rightarrow> bool" where
  "efort_model_matches expected actual =
    (let e = normalize_model_name expected; a = normalize_model_name actual
     in e = [] \<or> e = a \<or> starts_with ''EFORT'' a \<and> drop 5 a = e)"

definition to_efort_pose :: "cartesian_pose \<Rightarrow> dbl list" where
  "to_efort_pose pose = [x_mm pose, y_mm pose, z_mm pose, a_deg pose, b_deg pose, c_deg pose]"

definition to_robot_pos :: "cartesian_pose \<Rightarrow> robot_pos" where
  "to_robot_pos pose = \<lparr>rp_x = x_mm pose, rp_y = y_mm pose, rp_z = z_mm pose, rp_a = a_deg pose,
     rp_b = b_deg pose, rp_c = c_deg pose, rp_cfgx = configuration pose,
     rp_cfg1 = joint_1_turn pose, rp_cfg4 = joint_4_turn pose, rp_cfg6 = joint_6_turn pose\<rparr>"

definition to_point_c :: "cartesian_pose \<Rightarrow> point_c" where
  "to_point_c pose = \<lparr>pc_x = x_mm pose, pc_y = y_mm pose, pc_z = z_mm pose, pc_a = a_deg pose,
     pc_b = b_deg pose, pc_c = c_deg pose,
     pc_cfgx = word_of_int (max (configuration pose) 0),
     pc_cfg1 = joint_1_turn pose, pc_cfg4 = joint_4_turn pose, pc_cfg6 = joint_6_turn pose\<rparr>"

definition safe_string :: "string \<Rightarrow> nat \<Rightarrow> string" where
  "safe_string value maximum_length = takeWhile (\<lambda>c. c \<noteq> CHR 0x00) (take maximum_length value)"

definition to_controller_mode :: "sdk_constants \<Rightarrow> int \<Rightarrow> controller_mode" where
  "to_controller_mode K mode = switch K
     [(ROBOX_MODE_MANUAL, kManual), (ROBOX_MODE_MANUFAST, kManualFast), (ROBOX_MODE_AUTO, kAutomatic)]
     kModeUnknown mode"

primrec to_efort_jog_mode :: "jog_frame \<Rightarrow> sdk_name" where
  "to_efort_jog_mode kJoint = ROBOX_MODE_JOG"
| "to_efort_jog_mode kRobot = ROBOX_MODE_ROBOT"
| "to_efort_jog_mode kTool = ROBOX_MODE_TOOL"
| "to_efort_jog_mode kUser = ROBOX_MODE_UFRAME"
| "to_efort_jog_mode kWorld = ROBOX_MODE_WORLD"

section \<open>State and calls\<close>

text \<open>
  The members of \<open>Impl\<close>, the controller behind the SDK, and the clock's readings to come.
\<close>

record 'w efort =
  ef_device_id :: u32
  ef_connected :: bool
  ef_paused_by_service :: bool
  ef_has_active_jog :: bool
  ef_expected_model :: string
  ef_active_jog :: jog_command
  ef_controller_model :: string
  ef_controller :: 'w
  ef_clock :: clock

definition default_jog :: jog_command where
  "default_jog = \<lparr>jc_frame = kJoint, jc_axis = 1, jc_direction = kPositive, jc_start = True\<rparr>"

definition new_efort :: "'w \<Rightarrow> clock \<Rightarrow> 'w efort" where
  "new_efort w clk = \<lparr>ef_device_id = 0, ef_connected = False, ef_paused_by_service = False,
     ef_has_active_jog = False, ef_expected_model = [], ef_active_jog = default_jog,
     ef_controller_model = [], ef_controller = w, ef_clock = clk\<rparr>"

text \<open>
  \<open>MapEfortError(RobotAPI::f(..., device_id_), "...")\<close>: \<open>sdk_do\<close> for the calls without an
  output argument, \<open>sdk_get\<close> for the queries (status, value, driver), \<open>sdk_ask\<close> for the two
  that return a truth value.
\<close>

definition sdk_do :: "'w sdk \<Rightarrow> 'w sdk_call \<Rightarrow> string \<Rightarrow> 'w efort \<Rightarrow> status \<times> 'w efort" where
  "sdk_do R call operation d =
    (let (code, w) = call (ef_device_id d) (ef_controller d)
     in (map_efort_error (sdk_constant R) code operation, d\<lparr>ef_controller := w\<rparr>))"

definition sdk_get :: "'w sdk \<Rightarrow> ('v, 'w) sdk_query \<Rightarrow> string \<Rightarrow> 'w efort \<Rightarrow> status \<times> 'v \<times> 'w efort" where
  "sdk_get R query operation d =
    (let ((code, v), w) = query (ef_device_id d) (ef_controller d)
     in (map_efort_error (sdk_constant R) code operation, v, d\<lparr>ef_controller := w\<rparr>))"

definition sdk_ask :: "(u32 \<Rightarrow> 'w \<Rightarrow> bool \<times> 'w) \<Rightarrow> 'w efort \<Rightarrow> bool \<times> 'w efort" where
  "sdk_ask question d =
    (let (b, w) = question (ef_device_id d) (ef_controller d) in (b, d\<lparr>ef_controller := w\<rparr>))"

text \<open>\<open>if (!status.ok()) return status;\<close> between two steps.\<close>

definition and_then :: "status \<times> 'd \<Rightarrow> ('d \<Rightarrow> status \<times> 'd) \<Rightarrow> status \<times> 'd" where
  "and_then r k = (if status_ok (fst r) then k (snd r) else r)"

section \<open>Jogging\<close>

definition call_jog :: "'w sdk \<Rightarrow> jog_command \<Rightarrow> bool \<Rightarrow> 'w efort \<Rightarrow> status \<times> 'w efort" where
  "call_jog R command start d =
    (let axis = unat (jc_axis command);
         positive = (jc_direction command = kPositive);
         (result, w) =
           (if 1 \<le> axis \<and> axis \<le> 6 then
              (if positive then JogPlus R axis start (ef_device_id d) (ef_controller d)
               else JogMinus R axis start (ef_device_id d) (ef_controller d))
            else (sdk_constant R ERROR_PARA_INVALID, ef_controller d));
         d1 = d\<lparr>ef_controller := w\<rparr>;
         d2 = (if \<not> start \<and> ef_has_active_jog d1 \<and> jc_axis (ef_active_jog d1) = jc_axis command
                 \<and> jc_direction (ef_active_jog d1) = jc_direction command
               then d1\<lparr>ef_has_active_jog := False\<rparr> else d1)
     in (map_efort_error (sdk_constant R) result
           (if start then ''Jog(start)'' else ''Jog(stop)''), d2))"

definition stop_active_jog :: "'w sdk \<Rightarrow> 'w efort \<Rightarrow> status \<times> 'w efort" where
  "stop_active_jog R d =
    (if \<not> ef_has_active_jog d then (StatusOk, d)
     else
       let (status, d1) = call_jog R (ef_active_jog d) False d
       in (status, if status_ok status then d1\<lparr>ef_has_active_jog := False\<rparr> else d1))"

definition efort_jog :: "'w sdk \<Rightarrow> jog_command \<Rightarrow> 'w efort \<Rightarrow> status \<times> 'w efort" where
  "efort_jog R command d =
    (if jc_axis command < 1 \<or> unat (jc_axis command) > efort_axis_count then
       (Status kInvalidArgument ''jog axis must be in [1, 6]'', d)
     else if \<not> jc_start command then stop_active_jog R d
     else if ef_has_active_jog d \<and> jc_frame (ef_active_jog d) = jc_frame command
       \<and> jc_axis (ef_active_jog d) = jc_axis command
       \<and> jc_direction (ef_active_jog d) = jc_direction command then (StatusOk, d)
     else
       and_then (stop_active_jog R d) (\<lambda>d.
       and_then (sdk_do R (SetJogMode R (sdk_constant R (to_efort_jog_mode (jc_frame command))))
         ''SetJogMode'' d) (\<lambda>d.
       let (status, d1) = call_jog R command True d
       in (status, if status_ok status
             then d1\<lparr>ef_active_jog := command, ef_has_active_jog := True\<rparr> else d1))))"

section \<open>Connection and control\<close>

definition efort_disconnect :: "'w sdk \<Rightarrow> 'w efort \<Rightarrow> status \<times> 'w efort" where
  "efort_disconnect R d =
    (if \<not> ef_connected d then (StatusOk, d)
     else
       let d1 = snd (stop_active_jog R d);
           (api_control, d2) = sdk_ask (IsApiControl R) d1;
           d3 = (if api_control
                 then snd (sdk_do R (EnableApiControl R False) ''EnableApiControl(false)'' d2) else d2);
           d4 = snd (sdk_do R (DisconnectRobot R) ''DisconnectRobot'' d3)
       in (StatusOk, d4\<lparr>ef_device_id := 0, ef_connected := False, ef_paused_by_service := False,
             ef_has_active_jog := False, ef_controller_model := []\<rparr>))"

text \<open>\<open>c_str()\<close> ends at the first NUL character.\<close>

definition efort_connect :: "'w sdk \<Rightarrow> connection_options \<Rightarrow> 'w efort \<Rightarrow> status \<times> 'w efort" where
  "efort_connect R options d =
    (if ef_connected d then (Status kAlreadyExists ''EFORT driver is already connected'', d)
     else if co_address options = [] then
       (Status kInvalidArgument ''robot address is required'', d)
     else if co_expected_axis_count options \<noteq> 0
       \<and> co_expected_axis_count options \<noteq> efort_axis_count then
       (Status kInvalidArgument ''EFORT adapter requires an axis count of six'', d)
     else if \<not> inet_pton_ipv4 R (takeWhile (\<lambda>c. c \<noteq> CHR 0x00) (co_address options)) then
       (Status kInvalidArgument ''EFORT robot address must be an IPv4 address'', d)
     else
       let ((code, device_id), w) = ConnectRobot R (co_address options) 0 False
             (co_sdk_debug_logging options) 0 (co_verify_sdk_version options) (ef_controller d);
           status = map_efort_error (sdk_constant R) code ''ConnectRobot'';
           d1 = d\<lparr>ef_controller := w\<rparr> in
       if \<not> status_ok status then (status, d1)
       else
         let d2 = d1\<lparr>ef_device_id := device_id, ef_expected_model := co_expected_model options,
                     ef_connected := True\<rparr>;
             (model_status, controller_model, d3) =
               sdk_get R (GetCurrentRobotType R []) ''GetCurrentRobotType'' d2 in
         if \<not> status_ok model_status then (model_status, snd (efort_disconnect R d3))
         else if \<not> efort_model_matches (ef_expected_model d3) controller_model then
           (Status kFailedPrecondition (''configured model '' @ ef_expected_model d3
              @ '' does not match controller model '' @ controller_model),
            snd (efort_disconnect R d3))
         else (StatusOk, d3\<lparr>ef_controller_model := controller_model\<rparr>))"

definition efort_acquire_control :: "'w sdk \<Rightarrow> 'w efort \<Rightarrow> status \<times> 'w efort" where
  "efort_acquire_control R d = sdk_do R (EnableApiControl R True) ''EnableApiControl(true)'' d"

definition efort_release_control :: "'w sdk \<Rightarrow> 'w efort \<Rightarrow> status \<times> 'w efort" where
  "efort_release_control R d = sdk_do R (EnableApiControl R False) ''EnableApiControl(false)'' d"

definition efort_power_on :: "'w sdk \<Rightarrow> 'w efort \<Rightarrow> status \<times> 'w efort" where
  "efort_power_on R d = sdk_do R (PowerOn R) ''PowerOn'' d"

definition efort_power_off :: "'w sdk \<Rightarrow> 'w efort \<Rightarrow> status \<times> 'w efort" where
  "efort_power_off R d =
    and_then (stop_active_jog R d) (\<lambda>d.
    sdk_do R (PowerOff R) ''PowerOff'' (d\<lparr>ef_paused_by_service := False\<rparr>))"

definition efort_clear_fault :: "'w sdk \<Rightarrow> 'w efort \<Rightarrow> status \<times> 'w efort" where
  "efort_clear_fault R d =
    (let (emergency_status, emergency_stop, d1) =
           sdk_get R (GetCurrentEmgStatus R False) ''GetCurrentEmgStatus'' d in
     if \<not> status_ok emergency_status then (emergency_status, d1)
     else if emergency_stop then
       (Status kFailedPrecondition ''cannot clear alarms while emergency stop is active'', d1)
     else sdk_do R (ClearAlarm R) ''ClearAlarm'' d1)"

definition efort_set_global_speed :: "'w sdk \<Rightarrow> u32 \<Rightarrow> 'w efort \<Rightarrow> status \<times> 'w efort" where
  "efort_set_global_speed R ratio d =
    (if ratio < 1 \<or> ratio > 100 then
       (Status kInvalidArgument ''speed ratio must be in [1, 100]'', d)
     else sdk_do R (SetGlobalSpeed R ratio) ''SetGlobalSpeed'' d)"

section \<open>Motion\<close>

definition select_frames :: "'w sdk \<Rightarrow> string \<Rightarrow> string \<Rightarrow> 'w efort \<Rightarrow> status \<times> 'w efort" where
  "select_frames R tool_name work_object_name d =
    and_then (sdk_do R (SetCurrentToolByName R tool_name) ''SetCurrentToolByName'' d) (\<lambda>d.
    sdk_do R (SetCurrentUframeByName R work_object_name) ''SetCurrentUframeByName'' d)"

text \<open>\<open>paused_by_service_ = false\<close> just before the motion call.\<close>

definition unpaused :: "'w efort \<Rightarrow> 'w efort" where
  "unpaused d = d\<lparr>ef_paused_by_service := False\<rparr>"

definition efort_move_j :: "'w sdk \<Rightarrow> joint_target \<Rightarrow> joint_motion_profile \<Rightarrow> 'w efort \<Rightarrow> status \<times> 'w efort" where
  "efort_move_j R target profile d =
    (if length (jt_position target) \<noteq> efort_axis_count then
       (Status kInvalidArgument ''EFORT MoveJ requires six joint values'', d)
     else
       and_then (sdk_do R (CheckTargetJoint R (jt_position target) (jt_tool_name target)
         (jt_work_object_name target)) ''CheckTarget(MoveJ)'' d) (\<lambda>d.
       sdk_do R (\<lambda>dev. MJOINT R (jt_position target) (jp_speed_percent profile) (jp_blend profile)
         dev 10 (sdk_constant R PRINT_NONE)) ''MJOINT'' (unpaused d)))"

definition efort_move_l :: "'w sdk \<Rightarrow> cartesian_target \<Rightarrow> cartesian_motion_profile \<Rightarrow> 'w efort \<Rightarrow> status \<times> 'w efort" where
  "efort_move_l R target profile d =
    and_then (select_frames R (ct_tool_name target) (ct_work_object_name target) d) (\<lambda>d.
    and_then (sdk_do R (CheckTargetPos R (to_robot_pos (ct_pose target)) (ct_tool_name target)
      (ct_work_object_name target)) ''CheckTarget(MoveL)'' d) (\<lambda>d.
    sdk_do R (\<lambda>dev. MLIN R (to_efort_pose (ct_pose target)) (cp_speed_mm_per_second profile)
      (cp_blend_mm profile) dev 10 (sdk_constant R PRINT_NONE)) ''MLIN'' (unpaused d)))"

definition efort_move_c :: "'w sdk \<Rightarrow> circular_target \<Rightarrow> cartesian_motion_profile \<Rightarrow> 'w efort \<Rightarrow> status \<times> 'w efort" where
  "efort_move_c R target profile d =
    and_then (select_frames R (cc_tool_name target) (cc_work_object_name target) d) (\<lambda>d.
    and_then (sdk_do R (CheckTargetPos R (to_robot_pos (cc_via target)) (cc_tool_name target)
      (cc_work_object_name target)) ''CheckTarget(MoveC via)'' d) (\<lambda>d.
    and_then (sdk_do R (CheckTargetPos R (to_robot_pos (cc_target target)) (cc_tool_name target)
      (cc_work_object_name target)) ''CheckTarget(MoveC target)'' d) (\<lambda>d.
    sdk_do R (MCIRC R (to_point_c (cc_via target)) (to_point_c (cc_target target))
      (Fin (of_int (cp_speed_mm_per_second profile))) (cp_blend_mm profile)
      (cc_tool_name target) (cc_work_object_name target)) ''MCIRC'' (unpaused d))))"

definition efort_hold :: "'w sdk \<Rightarrow> 'w efort \<Rightarrow> status \<times> 'w efort" where
  "efort_hold R d =
    (let (status, d1) = sdk_do R (MOVEHOLD R) ''MOVEHOLD'' d
     in (status, if status_ok status then d1\<lparr>ef_paused_by_service := True\<rparr> else d1))"

definition efort_resume :: "'w sdk \<Rightarrow> 'w efort \<Rightarrow> status \<times> 'w efort" where
  "efort_resume R d =
    (let (status, d1) = sdk_do R (MOVERESUME R) ''MOVERESUME'' d
     in (status, if status_ok status then d1\<lparr>ef_paused_by_service := False\<rparr> else d1))"

text \<open>\<open>Stop\<close>: program first, then motion, then the remaining path.\<close>

definition stop_program_part :: "'w sdk \<Rightarrow> 'w efort \<Rightarrow> status \<times> 'w efort" where
  "stop_program_part R d =
    (let (status, program_state, d1) =
           sdk_get R (GetCurrentProStatus R (sdk_constant R RPL_INIT)) ''GetCurrentProStatus(stop)'' d in
     if \<not> status_ok status then (status, d1)
     else if program_state = sdk_constant R RPL_RUN \<or> program_state = sdk_constant R RPL_PAUSE then
       sdk_do R (StopProgram R) ''StopProgram'' d1
     else (StatusOk, d1))"

definition stop_motion_part :: "'w sdk \<Rightarrow> 'w efort \<Rightarrow> status \<times> 'w efort" where
  "stop_motion_part R d =
    (let (status, moving, d1) = sdk_get R (GetMoveState R False) ''GetMoveState(stop)'' d in
     if \<not> status_ok status then (status, d1)
     else if moving then sdk_do R (MOVEHOLD R) ''MOVEHOLD'' d1
     else (StatusOk, d1))"

definition efort_stop :: "'w sdk \<Rightarrow> stop_mode \<Rightarrow> 'w efort \<Rightarrow> status \<times> 'w efort" where
  "efort_stop R mode d =
    (if mode = kQuick then
       (Status kFailedPrecondition ''EFORT SDK V2.8 has no distinct quick-stop API'', d)
     else
       and_then (stop_active_jog R d) (\<lambda>d.
       if mode = kPowerOffRequest then efort_power_off R (unpaused d)
       else
         and_then (stop_program_part R (unpaused d)) (\<lambda>d.
         and_then (stop_motion_part R d) (\<lambda>d.
         sdk_do R (MOVECLEAR R) ''MOVECLEAR'' d))))"

section \<open>Programs\<close>

definition efort_load_program :: "'w sdk \<Rightarrow> string \<Rightarrow> 'w efort \<Rightarrow> status \<times> 'w efort" where
  "efort_load_program R name d =
    (if name = [] then (Status kInvalidArgument ''program name is required'', d)
     else sdk_do R (\<lambda>dev. LoadProgram R name dev False) ''LoadProgram'' d)"

definition efort_start_program :: "'w sdk \<Rightarrow> 'w efort \<Rightarrow> status \<times> 'w efort" where
  "efort_start_program R d = sdk_do R (StartProgram R) ''StartProgram'' (unpaused d)"

definition efort_stop_program :: "'w sdk \<Rightarrow> 'w efort \<Rightarrow> status \<times> 'w efort" where
  "efort_stop_program R d =
    (let (status, d1) = sdk_do R (StopProgram R) ''StopProgram'' d
     in (status, if status_ok status then d1\<lparr>ef_paused_by_service := False\<rparr> else d1))"

section \<open>Reading\<close>

definition empty_run_info :: run_info where
  "empty_run_info = \<lparr>ri_key_mode = 0, ri_velocity = 0, ri_tcp_speed = dbl_zero,
     ri_program_status = 0, ri_tool_name = [], ri_wobj_name = []\<rparr>"

definition from_robot_pos :: "robot_pos \<Rightarrow> cartesian_pose" where
  "from_robot_pos pose = \<lparr>x_mm = rp_x pose, y_mm = rp_y pose, z_mm = rp_z pose, a_deg = rp_a pose,
     b_deg = rp_b pose, c_deg = rp_c pose, configuration = rp_cfgx pose,
     joint_1_turn = rp_cfg1 pose, joint_4_turn = rp_cfg4 pose, joint_6_turn = rp_cfg6 pose\<rparr>"

definition efort_read_state :: "'w sdk \<Rightarrow> 'w efort \<Rightarrow> robot_snapshot status_or \<times> 'w efort" where
  "efort_read_state R d =
    (let K = sdk_constant R;
         sn = default_snapshot\<lparr>sn_observed_at := ef_clock d 0\<rparr>;
         d = d\<lparr>ef_clock := (\<lambda>k. ef_clock d (Suc k))\<rparr>;
         (link, d) = (if ef_connected d then sdk_ask (IsConnected R) d else (False, d));
         sn = sn\<lparr>sn_connected := link\<rparr> in
     if \<not> link then (Inr (sn\<lparr>sn_lifecycle := kDisconnected\<rparr>), d)
     else let (st, run_info, d) = sdk_get R (GetRobotStatusData R empty_run_info) ''GetRobotStatusData'' d in
     if \<not> status_ok st then (Inl st, d)
     else let (api, d) = sdk_ask (IsApiControl R) d;
         sn = sn\<lparr>sn_api_control := api,
           sn_controller_mode := to_controller_mode K (ri_key_mode run_info),
           sn_speed_ratio := ri_velocity run_info,
           sn_tcp_speed_mm_per_second := ri_tcp_speed run_info,
           sn_program_running := ri_program_status run_info = K RPL_RUN,
           sn_active_tool := safe_string (ri_tool_name run_info) (MAX_CHAR_LENGTH R),
           sn_active_work_object := safe_string (ri_wobj_name run_info) (MAX_CHAR_LENGTH R),
           sn_controller_model := ef_controller_model d\<rparr>;
         program_error = (ri_program_status run_info = K RPL_ERROR);
         (st, servo, d) = sdk_get R (GetCurrentServoStatus R False) ''GetCurrentServoStatus'' d in
     if \<not> status_ok st then (Inl st, d)
     else let (st, emg, d) = sdk_get R (GetCurrentEmgStatus R False) ''GetCurrentEmgStatus'' d in
     if \<not> status_ok st then (Inl st, d)
     else let (st, alarm, d) = sdk_get R (GetCurrentAlarmStatus R False) ''GetCurrentAlarmStatus'' d in
     if \<not> status_ok st then (Inl st, d)
     else let (st, moving, d) = sdk_get R (GetMoveState R False) ''GetMoveState'' d in
     if \<not> status_ok st then (Inl st, d)
     else let sn = sn\<lparr>sn_servo_on := servo, sn_emergency_stop := emg,
           sn_alarm_active := (alarm \<or> program_error), sn_moving := moving,
           sn_paused := (ef_paused_by_service d \<or> ri_program_status run_info = K RPL_PAUSE)\<rparr>;
         (st, joints, d) = sdk_get R (GetJointPos R) ''GetJointPos'' d in
     if \<not> status_ok st then (Inl st, d)
     else let sn = sn\<lparr>sn_axis_count := efort_axis_count,
           sn_joints := map (\<lambda>index. joints ! index) [0..<efort_axis_count]\<rparr>;
         (st, pose, d) = sdk_get R (GetBaseCoordinatePos2 R) ''GetBaseCoordinatePos2'' d in
     if \<not> status_ok st then (Inl st, d)
     else let sn = sn\<lparr>sn_tcp_pose := from_robot_pos pose\<rparr>
       in (Inr (sn\<lparr>sn_lifecycle := derive_lifecycle_state sn\<rparr>), d))"

definition efort_read_alarms :: "'w sdk \<Rightarrow> 'w efort \<Rightarrow> alarm list status_or \<times> 'w efort" where
  "efort_read_alarms R d =
    (let (st, vendor_alarms, d1) =
           sdk_get R (GetAlarmData R (sdk_constant R ALA_CURRENT) []) ''GetAlarmData'' d in
     if \<not> status_ok st then (Inl st, d1)
     else (Inr (map (\<lambda>a. \<lparr>al_code = ad_alarm_code a, al_severity = ad_alarm_type a,
             al_occurred_at = safe_string (ad_alarm_time a) (MAX_CHAR_LENGTH R),
             al_message = safe_string (ad_alarm_info a) (MAX_CHAR_LENGTH R)\<rparr>) vendor_alarms), d1))"

definition efort_read_digital_input :: "'w sdk \<Rightarrow> u32 \<Rightarrow> 'w efort \<Rightarrow> bool status_or \<times> 'w efort" where
  "efort_read_digital_input R index d =
    (if unat index \<ge> efort_digital_io_count then
       (Inl (Status kInvalidArgument ''digital input index must be in [0, 175]''), d)
     else
       let (st, v, d1) = sdk_get R (ReadDIn R index False) ''ReadDIn'' d
       in (if status_ok st then Inr v else Inl st, d1))"

definition efort_read_digital_output :: "'w sdk \<Rightarrow> u32 \<Rightarrow> 'w efort \<Rightarrow> bool status_or \<times> 'w efort" where
  "efort_read_digital_output R index d =
    (if unat index \<ge> efort_digital_io_count then
       (Inl (Status kInvalidArgument ''digital output index must be in [0, 175]''), d)
     else
       let (st, v, d1) = sdk_get R (ReadDOut R index False) ''ReadDOut'' d
       in (if status_ok st then Inr v else Inl st, d1))"

definition efort_write_digital_output :: "'w sdk \<Rightarrow> u32 \<Rightarrow> bool \<Rightarrow> 'w efort \<Rightarrow> status \<times> 'w efort" where
  "efort_write_digital_output R index v d =
    (if unat index \<ge> efort_digital_io_count then
       (Status kInvalidArgument ''digital output index must be in [0, 175]'', d)
     else sdk_do R (\<lambda>dev. WriteDOut R index v dev False) ''WriteDOut'' d)"

text \<open>
  The adapter as an \<open>IRobotDriver\<close>. The SDK reports failures by code; an exception it might
  throw is not modelled.
\<close>

definition no_throw :: "('d \<Rightarrow> status \<times> 'd) \<Rightarrow> 'd \<Rightarrow> status outcome \<times> 'd" where
  "no_throw f d = (Returned (fst (f d)), snd (f d))"

definition efort_driver :: "'w sdk \<Rightarrow> 'w efort robot_driver" where
  "efort_driver R = \<lparr>rd_connect = efort_connect R, rd_disconnect = efort_disconnect R,
     rd_acquire_control = no_throw (efort_acquire_control R),
     rd_release_control = no_throw (efort_release_control R),
     rd_power_on = no_throw (efort_power_on R), rd_power_off = no_throw (efort_power_off R),
     rd_clear_fault = no_throw (efort_clear_fault R),
     rd_set_global_speed = (\<lambda>r. no_throw (efort_set_global_speed R r)),
     rd_move_j = (\<lambda>t p. no_throw (efort_move_j R t p)),
     rd_move_l = (\<lambda>t p. no_throw (efort_move_l R t p)),
     rd_move_c = (\<lambda>t p. no_throw (efort_move_c R t p)),
     rd_hold = no_throw (efort_hold R), rd_resume = no_throw (efort_resume R),
     rd_stop = (\<lambda>m. no_throw (efort_stop R m)), rd_jog = (\<lambda>j. no_throw (efort_jog R j)),
     rd_load_program = (\<lambda>n. no_throw (efort_load_program R n)),
     rd_start_program = no_throw (efort_start_program R),
     rd_stop_program = no_throw (efort_stop_program R),
     rd_read_state = efort_read_state R, rd_read_alarms = efort_read_alarms R,
     rd_read_digital_input = efort_read_digital_input R,
     rd_read_digital_output = efort_read_digital_output R,
     rd_write_digital_output = (\<lambda>i v. no_throw (efort_write_digital_output R i v))\<rparr>"

section \<open>The adapter honours the driver contract\<close>

lemmas efort_ops = efort_acquire_control_def efort_release_control_def efort_power_on_def
  efort_power_off_def efort_clear_fault_def efort_set_global_speed_def select_frames_def
  efort_move_j_def efort_move_l_def efort_move_c_def efort_hold_def efort_resume_def
  stop_program_part_def stop_motion_part_def efort_stop_def efort_load_program_def
  efort_start_program_def efort_stop_program_def efort_write_digital_output_def

text \<open>What the driver remembers of its session; an SDK call changes none of it.\<close>

definition session :: "'w efort \<Rightarrow> u32 \<times> bool \<times> bool \<times> jog_command \<times> string" where
  "session d = (ef_device_id d, ef_connected d, ef_has_active_jog d, ef_active_jog d, ef_controller_model d)"

lemma session_updates [simp]:
  "session (d\<lparr>ef_controller := w\<rparr>) = session d" "session (d\<lparr>ef_paused_by_service := b\<rparr>) = session d"
  "session (d\<lparr>ef_clock := c\<rparr>) = session d" "session (unpaused d) = session d"
  by (simp_all add: session_def unpaused_def)

lemma session_sdk [simp]:
  "session (snd (sdk_do R c op d)) = session d" "session (snd (snd (sdk_get R q op d))) = session d"
  "session (snd (sdk_ask ask d)) = session d"
  by (simp_all add: sdk_do_def sdk_get_def sdk_ask_def split: prod.split)

definition efort_ok :: "'w efort \<Rightarrow> bool" where
  "efort_ok d \<longleftrightarrow> (ef_has_active_jog d \<longrightarrow> 1 \<le> unat (jc_axis (ef_active_jog d))
       \<and> unat (jc_axis (ef_active_jog d)) \<le> efort_axis_count \<and> jc_start (ef_active_jog d))
     \<and> (\<not> ef_connected d \<longrightarrow> ef_device_id d = 0 \<and> ef_controller_model d = [])"

lemma efort_ok_session: "session d' = session d \<Longrightarrow> efort_ok d' = efort_ok d"
  by (simp add: efort_ok_def session_def)

lemma efort_ok_frame [simp]:
  "efort_ok (snd (sdk_do R c op d)) = efort_ok d" "efort_ok (snd (snd (sdk_get R q op d))) = efort_ok d"
  "efort_ok (snd (sdk_ask ask d)) = efort_ok d" "efort_ok (unpaused d) = efort_ok d"
  "efort_ok (d\<lparr>ef_paused_by_service := b\<rparr>) = efort_ok d"
  by (rule efort_ok_session, simp)+

lemma efort_ok_and_then:
  "efort_ok (snd r) \<Longrightarrow> (\<And>d. efort_ok d \<Longrightarrow> efort_ok (snd (k d))) \<Longrightarrow> efort_ok (snd (and_then r k))"
  by (simp add: and_then_def)

lemma efort_ok_call_jog: "efort_ok d \<Longrightarrow> efort_ok (snd (call_jog R j start d))"
  by (auto simp: call_jog_def efort_ok_def Let_def case_prod_beta)

lemma efort_ok_stop_jog: "efort_ok d \<Longrightarrow> efort_ok (snd (stop_active_jog R d))"
  using efort_ok_call_jog [of d R "ef_active_jog d" False]
  by (simp add: stop_active_jog_def case_prod_beta efort_ok_def)

lemma efort_ok_jog: "efort_ok d \<Longrightarrow> efort_ok (snd (efort_jog R j d))"
proof -
  have "efort_ok (snd (let (status, d1) = call_jog R j True d in (status,
      if status_ok status then d1\<lparr>ef_active_jog := j, ef_has_active_jog := True\<rparr> else d1)))"
    if "efort_ok d" "\<not> (jc_axis j < 1 \<or> unat (jc_axis j) > efort_axis_count)" "jc_start j" for d :: "'a efort"
    using efort_ok_call_jog [OF that(1), of R j True] that(2,3)
    by (auto simp: efort_ok_def case_prod_beta Let_def word_le_nat_alt word_less_nat_alt not_less)
  then show "efort_ok (snd (efort_jog R j d))" if "efort_ok d"
    using that efort_ok_stop_jog [OF that]
    by (auto simp: efort_jog_def intro!: efort_ok_and_then)
qed

lemma disconnect_result:
  "ef_connected d \<Longrightarrow> session (snd (efort_disconnect R d))
     = (0, False, False, ef_active_jog (snd (efort_disconnect R d)), [])"
  by (simp add: efort_disconnect_def session_def Let_def case_prod_beta)

lemma efort_ok_disconnect: "efort_ok d \<Longrightarrow> efort_ok (snd (efort_disconnect R d))"
  using disconnect_result [of d R]
  by (cases "ef_connected d") (auto simp: efort_disconnect_def efort_ok_def session_def)

text \<open>
  The ways \<open>Connect\<close> can end: the driver is left as it was (but for the controller), the
  session it opened is closed again, or it is kept.
\<close>

lemma connect_cases:
  assumes "efort_connect R opts d = (st, d')"
  obtains (refused) w where "\<not> status_ok st" "d' = d\<lparr>ef_controller := w\<rparr>"
  | (closed) d3 where "\<not> ef_connected d" "\<not> status_ok st" "ef_connected d3"
      "d' = snd (efort_disconnect R d3)"
  | (opened) d3 device w model where "\<not> ef_connected d"
      "inet_pton_ipv4 R (takeWhile (\<lambda>c. c \<noteq> CHR 0x00) (co_address opts))" "co_expected_axis_count opts \<in> {0, efort_axis_count}"
      "ConnectRobot R (co_address opts) 0 False (co_sdk_debug_logging opts) 0
         (co_verify_sdk_version opts) (ef_controller d) = ((sdk_constant R ERROR_OK, device), w)"
      "efort_model_matches (co_expected_model opts) model" "st = StatusOk"
      "session d3 = (device, True, ef_has_active_jog d, ef_active_jog d, ef_controller_model d)"
      "d' = d3\<lparr>ef_controller_model := model\<rparr>"
proof (cases "ef_connected d \<or> co_address opts = [] \<or> co_expected_axis_count opts \<notin> {0, efort_axis_count}
    \<or> \<not> inet_pton_ipv4 R (takeWhile (\<lambda>c. c \<noteq> CHR 0x00) (co_address opts))")
  case True
  then have "\<not> status_ok st" "d' = d\<lparr>ef_controller := ef_controller d\<rparr>"
    using assms by (auto simp: efort_connect_def split: if_splits)
  then show ?thesis by (rule refused)
next
  case False
  obtain code device w where c: "ConnectRobot R (co_address opts) 0 False (co_sdk_debug_logging opts) 0
      (co_verify_sdk_version opts) (ef_controller d) = ((code, device), w)"
    by (metis prod.exhaust)
  let ?d2 = "d\<lparr>ef_controller := w, ef_device_id := device, ef_expected_model := co_expected_model opts,
      ef_connected := True\<rparr>"
  obtain ms model d3 where g: "sdk_get R (GetCurrentRobotType R []) ''GetCurrentRobotType'' ?d2 = (ms, model, d3)"
    by (metis prod.exhaust)
  have "session d3 = session ?d2" using session_sdk(2) g by (metis snd_conv)
  then have s3: "session d3 = (device, True, ef_has_active_jog d, ef_active_jog d, ef_controller_model d)"
    by (simp add: session_def)
  have m3: "ef_expected_model d3 = co_expected_model opts"
    using g by (auto simp: sdk_get_def split: prod.splits)
  have r: "efort_connect R opts d =
     (if code \<noteq> sdk_constant R ERROR_OK then (map_efort_error (sdk_constant R) code ''ConnectRobot'', d\<lparr>ef_controller := w\<rparr>)
      else if \<not> status_ok ms then (ms, snd (efort_disconnect R d3))
      else if \<not> efort_model_matches (co_expected_model opts) model then
        (Status kFailedPrecondition (''configured model '' @ co_expected_model opts
              @ '' does not match controller model '' @ model), snd (efort_disconnect R d3))
      else (StatusOk, d3\<lparr>ef_controller_model := model\<rparr>))"
    using False by (cases "co_expected_axis_count opts = 0") (simp_all add: efort_connect_def c g m3)
  show ?thesis
  proof (cases "code \<noteq> sdk_constant R ERROR_OK")
    case True
    then show ?thesis using assms r by (intro refused) auto
  next
    case ok: False
    show ?thesis
    proof (cases "status_ok ms \<and> efort_model_matches (co_expected_model opts) model")
      case True
      then show ?thesis using assms r ok c False s3 by (intro opened [of device w model d3]) auto
    next
      case bad: False
      then show ?thesis using assms r ok False s3
        by (intro closed [of d3]) (auto simp: session_def split: if_splits)
    qed
  qed
qed

lemma efort_ok_connect: "efort_ok d \<Longrightarrow> efort_ok (snd (efort_connect R opts d))"
proof -
  assume ok: "efort_ok d"
  obtain st d' where c: "efort_connect R opts d = (st, d')" by fastforce
  then show ?thesis
  proof (cases rule: connect_cases)
    case (closed d3)
    then show ?thesis using c disconnect_result [of d3 R] by (simp add: efort_ok_def session_def)
  qed (use ok c in \<open>auto simp: efort_ok_def session_def\<close>)
qed

lemma efort_ok_ops:
  assumes "efort_ok d"
  shows "efort_ok (snd (efort_acquire_control R d))" "efort_ok (snd (efort_release_control R d))"
    "efort_ok (snd (efort_power_on R d))" "efort_ok (snd (efort_power_off R d))"
    "efort_ok (snd (efort_clear_fault R d))" "efort_ok (snd (efort_set_global_speed R r d))"
    "efort_ok (snd (efort_move_j R jt jp d))" "efort_ok (snd (efort_move_l R ct cp d))"
    "efort_ok (snd (efort_move_c R cc cp d))" "efort_ok (snd (efort_hold R d))"
    "efort_ok (snd (efort_resume R d))" "efort_ok (snd (efort_stop R m d))"
    "efort_ok (snd (efort_load_program R n d))" "efort_ok (snd (efort_start_program R d))"
    "efort_ok (snd (efort_stop_program R d))" "efort_ok (snd (efort_write_digital_output R i v d))"
  using assms
  by (auto simp: efort_ops case_prod_beta Let_def intro!: efort_ok_and_then efort_ok_stop_jog)

lemma efort_ok_read: "efort_ok d \<Longrightarrow> efort_ok (snd (efort_read_state R d))"
  by (rule efort_ok_session [THEN iffD2]) (simp_all add: efort_read_state_def case_prod_beta Let_def)

lemma efort_laws:
  "co_address opts = [] \<Longrightarrow> \<exists>st. rd_connect (efort_driver R) opts d = (st, d) \<and> \<not> status_ok st"
  "r < 1 \<or> r > 100 \<Longrightarrow> refuses (rd_set_global_speed (efort_driver R) r) d"
  "refuses (rd_stop (efort_driver R) kQuick) d"
  "efort_ok d \<Longrightarrow> unat i \<ge> 176 \<Longrightarrow> refuses (rd_write_digital_output (efort_driver R) i v) d"
  "jc_axis j = 0 \<Longrightarrow> refuses (rd_jog (efort_driver R) j) d"
  "refuses (rd_load_program (efort_driver R) []) d"
  by (auto simp: efort_driver_def no_throw_def refuses_def efort_digital_io_count_def
      efort_connect_def efort_set_global_speed_def efort_stop_def efort_jog_def
      efort_load_program_def efort_write_digital_output_def)

text \<open>A snapshot that was read out, if any, satisfies \<open>P\<close>; early returns read none.\<close>

definition reads :: "(robot_snapshot \<Rightarrow> bool) \<Rightarrow> robot_snapshot status_or \<times> 'd \<Rightarrow> bool" where
  "reads P r \<longleftrightarrow> (\<forall>sn. fst r = Inr sn \<longrightarrow> P sn)"

lemma reads_simps [simp]: "reads P (Inr sn, d) \<longleftrightarrow> P sn" "reads P (Inl st, d)"
  by (simp_all add: reads_def)

lemma reads_early [simp]: "reads P (if \<not> status_ok st then (Inl st', d) else r) \<longleftrightarrow> (status_ok st \<longrightarrow> reads P r)"
  by simp

lemma efort_read_derived: "reads (\<lambda>sn. sn_lifecycle sn = derive_lifecycle_state sn) (efort_read_state R d)"
  unfolding efort_read_state_def Let_def
  by (simp add: default_snapshot_def derive_lifecycle_state_def split: prod.split)

lemma efort_read_lifecycle:
  "rd_read_state (efort_driver R) d = (Inr sn, d') \<Longrightarrow> sn_lifecycle sn = derive_lifecycle_state sn"
  using efort_read_derived [of R d] by (simp add: efort_driver_def reads_def)

lemma efort_ok_execute: "efort_ok d \<Longrightarrow> efort_ok (snd (execute (efort_driver R) rq d))"
  by (cases "rq_type rq")
    (simp_all add: execute_def efort_driver_def no_throw_def efort_ok_ops efort_ok_jog split: command_payload.split)

lemma efort_keeps:
  "efort_ok d \<Longrightarrow> efort_ok (snd (rd_connect (efort_driver R) opts d))"
  "efort_ok d \<Longrightarrow> efort_ok (snd (rd_read_state (efort_driver R) d))"
  by (simp_all add: efort_driver_def efort_ok_connect efort_ok_read)

interpretation efort: driver_contract "efort_driver R" efort_ok for R :: "'w sdk"
  by (rule driver_contract.intro) (fact efort_laws efort_read_lifecycle efort_keeps efort_ok_execute)+

end
