(* ===== verification/EfortSafety.thy ===== *)
theory EfortSafety
  imports EfortDriver
begin

text \<open>
  What the EFORT adapter guarantees on top of the driver contract: jogging, stopping, connecting
  and reading. Nothing is assumed of what an SDK call does to the controller: the properties
  name the calls the adapter makes, their order, and which results it requires. The small
  controller at the start serves the witnesses.
\<close>

section \<open>A controller for the witnesses\<close>

record controller =
  ct_moving :: bool
  ct_program :: bool
  ct_path :: bool
  ct_jog_fails :: bool
  ct_session :: bool

definition done_ok :: "controller \<Rightarrow> int \<times> controller" where
  "done_ok w = (0, w)"

text \<open>It reports and stops what it is doing; jogging fails with code 20 when told to.\<close>

definition demo_sdk :: "controller sdk" where
  "demo_sdk = \<lparr>sdk_constant = demo_constants, MAX_CHAR_LENGTH = 64, inet_pton_ipv4 = (\<lambda>a. a = ''10.0.0.2''),
     ConnectRobot = (\<lambda>a i b c n v w. ((0, 7), w\<lparr>ct_session := True\<rparr>)),
     DisconnectRobot = (\<lambda>dev w. (0, if dev = 7 then w\<lparr>ct_session := False\<rparr> else w)),
     IsConnected = (\<lambda>dev w. (ct_session w, w)), GetCurrentRobotType = (\<lambda>s dev w. ((0, ''EFORT ER7-900''), w)),
     IsApiControl = (\<lambda>dev w. (True, w)), EnableApiControl = (\<lambda>b dev. done_ok),
     PowerOn = (\<lambda>dev. done_ok), PowerOff = (\<lambda>dev. done_ok), ClearAlarm = (\<lambda>dev. done_ok),
     GetCurrentEmgStatus = (\<lambda>b dev w. ((0, False), w)), GetCurrentServoStatus = (\<lambda>b dev w. ((0, True), w)),
     GetCurrentAlarmStatus = (\<lambda>b dev w. ((0, False), w)), GetMoveState = (\<lambda>b dev w. ((0, ct_moving w), w)),
     GetCurrentProStatus = (\<lambda>s dev w. ((0, demo_constants (if ct_program w then RPL_RUN else RPL_INIT)), w)),
     SetGlobalSpeed = (\<lambda>r dev. done_ok), CheckTargetJoint = (\<lambda>j t o' dev. done_ok),
     CheckTargetPos = (\<lambda>p t o' dev. done_ok), SetCurrentToolByName = (\<lambda>t dev. done_ok),
     SetCurrentUframeByName = (\<lambda>t dev. done_ok), MJOINT = (\<lambda>p s b dev n q. done_ok),
     MLIN = (\<lambda>p s b dev n q. done_ok), MCIRC = (\<lambda>v t s b x y dev. done_ok),
     MOVEHOLD = (\<lambda>dev w. (0, w\<lparr>ct_moving := False\<rparr>)), MOVERESUME = (\<lambda>dev. done_ok),
     MOVECLEAR = (\<lambda>dev w. (0, w\<lparr>ct_path := False\<rparr>)), SetJogMode = (\<lambda>m dev. done_ok),
     JogPlus = (\<lambda>k start dev w. (if ct_jog_fails w then 20 else 0, w)),
     JogMinus = (\<lambda>k start dev w. (if ct_jog_fails w then 20 else 0, w)),
     LoadProgram = (\<lambda>n dev b. done_ok), StartProgram = (\<lambda>dev. done_ok),
     StopProgram = (\<lambda>dev w. (0, w\<lparr>ct_program := False\<rparr>)),
     GetRobotStatusData = (\<lambda>i dev w. ((0, i), w)), GetJointPos = (\<lambda>dev w. ((0, replicate 6 dbl_zero), w)),
     GetBaseCoordinatePos2 = (\<lambda>dev w. ((0, to_robot_pos default_pose), w)),
     GetAlarmData = (\<lambda>k a dev w. ((0, a), w)), ReadDIn = (\<lambda>i b dev w. ((0, b), w)),
     ReadDOut = (\<lambda>i b dev w. ((0, b), w)), WriteDOut = (\<lambda>i v dev b. done_ok)\<rparr>"

definition demo_efort :: "bool \<Rightarrow> controller efort" where
  "demo_efort fails = new_efort \<lparr>ct_moving = True, ct_program = True, ct_path = True,
     ct_jog_fails = fails, ct_session = False\<rparr> (\<lambda>_. 5)"

lemma demo_ok_code: "demo_constants ERROR_OK = 0" "demo_constants RPL_RUN \<noteq> demo_constants RPL_INIT"
  by code_simp+

section \<open>Jogging\<close>

lemma stop_active_jog_clears: "\<not> ef_has_active_jog (snd (stop_active_jog R d))"
  by (simp add: stop_active_jog_def call_jog_def Let_def case_prod_beta)

text \<open>
  Claim C35. A failed jog stop is forgotten: when the SDK refuses to stop the active jog, the
  client's stop command reports the error, but the adapter no longer knows that a jog is
  active, so a second stop command reports success without asking the SDK for anything.
\<close>

theorem failed_jog_stop_is_forgotten:
  assumes "ef_has_active_jog d" and "efort_ok d"
    and "1 \<le> jc_axis j" "unat (jc_axis j) \<le> efort_axis_count" "\<not> jc_start j"
    and "\<not> status_ok (fst (call_jog R (ef_active_jog d) False d))"
    and "d1 = snd (efort_jog R j d)"
  shows "\<not> status_ok (fst (efort_jog R j d)) \<and> efort_jog R j d1 = (StatusOk, d1)"
proof -
  have stop: "efort_jog R j d' = stop_active_jog R d'" for d'
    using leD [OF assms(3)] assms(4,5) by (simp add: efort_jog_def)
  have "\<not> status_ok (fst (efort_jog R j d))"
    using assms(1,6) by (simp add: stop stop_active_jog_def case_prod_beta)
  moreover have "efort_jog R j d1 = (StatusOk, d1)"
    using stop_active_jog_clears [of R d] by (simp add: stop assms(7) stop_active_jog_def [of R "snd _"])
  ultimately show ?thesis by blast
qed

theorem failed_jog_stop_is_forgotten_witness:
  "fst (efort_jog demo_sdk (default_jog\<lparr>jc_start := False\<rparr>)
     (snd (efort_jog demo_sdk (default_jog\<lparr>jc_start := False\<rparr>)
       ((demo_efort True)\<lparr>ef_has_active_jog := True\<rparr>)))) = StatusOk"
proof -
  let ?d = "(demo_efort True)\<lparr>ef_has_active_jog := True\<rparr>"
  let ?j = "default_jog\<lparr>jc_start := False\<rparr>"
  have "ef_has_active_jog ?d" "efort_ok ?d" "1 \<le> jc_axis ?j" "unat (jc_axis ?j) \<le> efort_axis_count"
    "\<not> jc_start ?j" "\<not> status_ok (fst (call_jog demo_sdk (ef_active_jog ?d) False ?d))"
    by code_simp+
  from failed_jog_stop_is_forgotten [OF this refl] show ?thesis by simp
qed

section \<open>Stopping\<close>

text \<open>
  The SDK call that stops the active jog, and the calls of \<open>Stop\<close> that are made only when
  they are needed; a call that is not needed counts as one that returned \<open>ERROR_OK\<close> and left
  the controller alone.
\<close>

definition jog_stop_call :: "'w sdk \<Rightarrow> 'w efort \<Rightarrow> int \<times> 'w" where
  "jog_stop_call R d =
    (let j = ef_active_jog d in
     if \<not> ef_has_active_jog d then (sdk_constant R ERROR_OK, ef_controller d)
     else if jc_direction j = kPositive
       then JogPlus R (unat (jc_axis j)) False (ef_device_id d) (ef_controller d)
     else JogMinus R (unat (jc_axis j)) False (ef_device_id d) (ef_controller d))"

definition if_needed :: "'w sdk \<Rightarrow> bool \<Rightarrow> 'w sdk_call \<Rightarrow> u32 \<Rightarrow> 'w \<Rightarrow> int \<times> 'w" where
  "if_needed R b call dev w = (if b then call dev w else (sdk_constant R ERROR_OK, w))"

lemma jog_part_calls:
  assumes "efort_ok d" and "jog_stop_call R d = (c, w)"
  shows "status_ok (fst (stop_active_jog R d)) \<longleftrightarrow> c = sdk_constant R ERROR_OK"
    and "ef_controller (snd (stop_active_jog R d)) = w"
    and "ef_device_id (snd (stop_active_jog R d)) = ef_device_id d"
proof -
  have "1 \<le> unat (jc_axis (ef_active_jog d)) \<and> unat (jc_axis (ef_active_jog d)) \<le> 6" if "ef_has_active_jog d"
    using assms(1) that by (simp add: efort_ok_def efort_axis_count_def)
  then show "status_ok (fst (stop_active_jog R d)) \<longleftrightarrow> c = sdk_constant R ERROR_OK"
    and "ef_controller (snd (stop_active_jog R d)) = w"
    and "ef_device_id (snd (stop_active_jog R d)) = ef_device_id d"
    using assms(2)
    by (auto simp: jog_stop_call_def stop_active_jog_def call_jog_def Let_def case_prod_beta split: if_splits)
qed

lemma program_part_calls:
  assumes "GetCurrentProStatus R (sdk_constant R RPL_INIT) (ef_device_id d) (ef_controller d) = ((c, p), w)"
    and "if_needed R (p = sdk_constant R RPL_RUN \<or> p = sdk_constant R RPL_PAUSE) (StopProgram R) (ef_device_id d) w = (c', w')"
  shows "status_ok (fst (stop_program_part R d)) \<longleftrightarrow> c = sdk_constant R ERROR_OK \<and> c' = sdk_constant R ERROR_OK"
    and "c = sdk_constant R ERROR_OK \<Longrightarrow> snd (stop_program_part R d) = d\<lparr>ef_controller := w'\<rparr>"
  using assms by (auto simp: stop_program_part_def sdk_get_def sdk_do_def if_needed_def split: if_splits)

lemma motion_part_calls:
  assumes "GetMoveState R False (ef_device_id d) (ef_controller d) = ((c, m), w)"
    and "if_needed R m (MOVEHOLD R) (ef_device_id d) w = (c', w')"
  shows "status_ok (fst (stop_motion_part R d)) \<longleftrightarrow> c = sdk_constant R ERROR_OK \<and> c' = sdk_constant R ERROR_OK"
    and "c = sdk_constant R ERROR_OK \<Longrightarrow> snd (stop_motion_part R d) = d\<lparr>ef_controller := w'\<rparr>"
  using assms by (auto simp: stop_motion_part_def sdk_get_def sdk_do_def if_needed_def split: if_splits)

lemma controlled_stop:
  "efort_stop R kControlled d = and_then (stop_active_jog R d) (\<lambda>d.
      and_then (stop_program_part R (unpaused d)) (\<lambda>d. and_then (stop_motion_part R d) (\<lambda>d.
      sdk_do R (MOVECLEAR R) ''MOVECLEAR'' d)))"
  by (simp add: efort_stop_def)

text \<open>
  Claim C12. A controlled stop succeeds exactly when the whole stop sequence did: \<open>Stop\<close>
  reports success if and only if, in this order and each on the controller state the previous
  call left, the stop of the active jog (if one is active), the query of the program status,
  \<open>StopProgram\<close> (if the program runs or is paused), the query of the move state, \<open>MOVEHOLD\<close>
  (if the robot moves) and \<open>MOVECLEAR\<close> all returned \<open>ERROR_OK\<close>; the controller is then as
  \<open>MOVECLEAR\<close> left it, no jog is active and the service's pause is forgotten. What the calls
  do to the robot is the vendor's (docs/sdk_integration.md leaves it to be verified).
\<close>

theorem stop_makes_every_call:
  assumes "efort_ok d" and "efort_stop R kControlled d = (st, d')"
  shows "(status_ok st \<longleftrightarrow> (\<exists>w0 p w1 w2 m w3 w4 w5.
        jog_stop_call R d = (sdk_constant R ERROR_OK, w0)
      \<and> GetCurrentProStatus R (sdk_constant R RPL_INIT) (ef_device_id d) w0 = ((sdk_constant R ERROR_OK, p), w1)
      \<and> if_needed R (p = sdk_constant R RPL_RUN \<or> p = sdk_constant R RPL_PAUSE) (StopProgram R) (ef_device_id d) w1
          = (sdk_constant R ERROR_OK, w2)
      \<and> GetMoveState R False (ef_device_id d) w2 = ((sdk_constant R ERROR_OK, m), w3)
      \<and> if_needed R m (MOVEHOLD R) (ef_device_id d) w3 = (sdk_constant R ERROR_OK, w4)
      \<and> MOVECLEAR R (ef_device_id d) w4 = (sdk_constant R ERROR_OK, w5) \<and> ef_controller d' = w5))
    \<and> (status_ok st \<longrightarrow> \<not> ef_has_active_jog d' \<and> \<not> ef_paused_by_service d')"
proof -
  let ?d1 = "unpaused (snd (stop_active_jog R d))"
  obtain c0 w0 where g0: "jog_stop_call R d = (c0, w0)" by fastforce
  obtain c1 p w1 where g1: "GetCurrentProStatus R (sdk_constant R RPL_INIT) (ef_device_id d) w0 = ((c1, p), w1)"
    by (metis prod.exhaust)
  obtain c2 w2 where g2: "if_needed R (p = sdk_constant R RPL_RUN \<or> p = sdk_constant R RPL_PAUSE) (StopProgram R)
      (ef_device_id d) w1 = (c2, w2)" by fastforce
  obtain c3 m w3 where g3: "GetMoveState R False (ef_device_id d) w2 = ((c3, m), w3)" by (metis prod.exhaust)
  obtain c4 w4 where g4: "if_needed R m (MOVEHOLD R) (ef_device_id d) w3 = (c4, w4)" by fastforce
  obtain c5 w5 where g5: "MOVECLEAR R (ef_device_id d) w4 = (c5, w5)" by fastforce
  note jog = jog_part_calls [OF assms(1) g0]
  have d1: "ef_device_id ?d1 = ef_device_id d" "ef_controller ?d1 = w0" "\<not> ef_has_active_jog ?d1"
    "\<not> ef_paused_by_service ?d1"
    using jog(2,3) stop_active_jog_clears [of R d] by (simp_all add: unpaused_def)
  note program = program_part_calls [of R ?d1, unfolded d1, OF g1 g2]
  let ?d2 = "?d1\<lparr>ef_controller := w2\<rparr>"
  have d2: "ef_device_id ?d2 = ef_device_id d" "ef_controller ?d2 = w2" using d1 by simp_all
  note motion = motion_part_calls [of R ?d2, unfolded d2, OF g3 g4]
  let ?d3 = "?d2\<lparr>ef_controller := w4\<rparr>"
  have clear: "sdk_do R (MOVECLEAR R) ''MOVECLEAR'' ?d3
      = (map_efort_error (sdk_constant R) c5 ''MOVECLEAR'', ?d3\<lparr>ef_controller := w5\<rparr>)"
    using d1(1) g5 by (simp add: sdk_do_def)
  have "status_ok st \<longleftrightarrow> c0 = sdk_constant R ERROR_OK \<and> c1 = sdk_constant R ERROR_OK \<and> c2 = sdk_constant R ERROR_OK
      \<and> c3 = sdk_constant R ERROR_OK \<and> c4 = sdk_constant R ERROR_OK \<and> c5 = sdk_constant R ERROR_OK"
    and d': "status_ok st \<longrightarrow> d' = ?d3\<lparr>ef_controller := w5\<rparr>"
    using assms(2) jog(1) program motion clear
    by (auto simp: controlled_stop and_then_def split: if_splits)
  then show ?thesis using d1 by (auto simp: g0 g1 g2 g3 g4 g5)
qed

lemma demo_calls:
  "sdk_constant demo_sdk = demo_constants" "StopProgram demo_sdk dev w = (0, w\<lparr>ct_program := False\<rparr>)"
  "GetCurrentProStatus demo_sdk i dev w = ((0, demo_constants (if ct_program w then RPL_RUN else RPL_INIT)), w)"
  "GetMoveState demo_sdk b dev w = ((0, ct_moving w), w)" "MOVEHOLD demo_sdk dev w = (0, w\<lparr>ct_moving := False\<rparr>)"
  "MOVECLEAR demo_sdk dev w = (0, w\<lparr>ct_path := False\<rparr>)"
  by (simp_all add: demo_sdk_def)

theorem stop_makes_every_call_witness:
  "ef_controller (snd (efort_stop demo_sdk kControlled (demo_efort False)))
     = \<lparr>ct_moving = False, ct_program = False, ct_path = False, ct_jog_fails = False, ct_session = False\<rparr>"
proof -
  obtain st d' where r: "efort_stop demo_sdk kControlled (demo_efort False) = (st, d')" by fastforce
  have ok: "efort_ok (demo_efort False)" by code_simp
  have "jog_stop_call demo_sdk (demo_efort False) = (0, \<lparr>ct_moving = True, ct_program = True, ct_path = True,
      ct_jog_fails = False, ct_session = False\<rparr>)" by (simp add: jog_stop_call_def demo_efort_def new_efort_def demo_calls demo_ok_code)
  moreover have "status_ok (fst (efort_stop demo_sdk kControlled (demo_efort False)))" by code_simp
  then have "status_ok st" by (simp only: r fst_conv)
  ultimately have "ef_controller d' = \<lparr>ct_moving = False, ct_program = False, ct_path = False, ct_jog_fails = False, ct_session = False\<rparr>"
    using stop_makes_every_call [OF ok r] by (auto simp: demo_calls demo_ok_code if_needed_def)
  then show ?thesis by (simp only: r snd_conv)
qed

section \<open>Connecting\<close>

text \<open>
  What closing a session does to the controller: API control is given back if the controller
  says it is held, then the SDK session ends with \<open>DisconnectRobot\<close>, whatever the calls
  answer.
\<close>

definition closed_session :: "'w sdk \<Rightarrow> u32 \<Rightarrow> 'w \<Rightarrow> 'w" where
  "closed_session R dev w =
    (let (api, w') = IsApiControl R dev w
     in snd (DisconnectRobot R dev (if api then snd (EnableApiControl R False dev w') else w')))"

lemma disconnect_closes:
  "ef_connected d \<Longrightarrow> \<not> ef_has_active_jog d \<Longrightarrow>
     ef_controller (snd (efort_disconnect R d)) = closed_session R (ef_device_id d) (ef_controller d)"
  by (simp add: efort_disconnect_def stop_active_jog_def closed_session_def sdk_ask_def sdk_do_def
      Let_def case_prod_beta)

text \<open>The options that \<open>Connect\<close> refuses before it calls the SDK.\<close>

definition connect_refuses :: "'w sdk \<Rightarrow> connection_options \<Rightarrow> bool" where
  "connect_refuses R opts \<longleftrightarrow> co_address opts = [] \<or> co_expected_axis_count opts \<notin> {0, efort_axis_count}
     \<or> \<not> inet_pton_ipv4 R (takeWhile (\<lambda>c. c \<noteq> CHR 0x00) (co_address opts))"

lemma connect_refused:
  "connect_refuses R opts \<Longrightarrow> \<not> status_ok (fst (efort_connect R opts d)) \<and> snd (efort_connect R opts d) = d"
  by (auto simp: connect_refuses_def efort_connect_def)

text \<open>The driver after the SDK has connected and answered with the controller's model.\<close>

definition opened :: "connection_options \<Rightarrow> u32 \<Rightarrow> 'w \<Rightarrow> 'w efort \<Rightarrow> 'w efort" where
  "opened opts dev w d = d\<lparr>ef_device_id := dev, ef_expected_model := co_expected_model opts,
     ef_connected := True, ef_controller := w\<rparr>"

lemma opened_fields [simp]:
  "ef_connected (opened opts dev w d)" "ef_has_active_jog (opened opts dev w d) = ef_has_active_jog d"
  "ef_device_id (opened opts dev w d) = dev" "ef_controller (opened opts dev w d) = w"
  by (simp_all add: opened_def)

lemma connect_opens:
  assumes "\<not> ef_connected d" and "\<not> connect_refuses R opts"
    and "ConnectRobot R (co_address opts) 0 False (co_sdk_debug_logging opts) 0
      (co_verify_sdk_version opts) (ef_controller d) = ((code, dev), w1)"
    and "GetCurrentRobotType R [] dev w1 = ((code', model), w2)"
  shows "efort_connect R opts d =
    (if code \<noteq> sdk_constant R ERROR_OK
     then (map_efort_error (sdk_constant R) code ''ConnectRobot'', d\<lparr>ef_controller := w1\<rparr>)
     else if code' \<noteq> sdk_constant R ERROR_OK
     then (map_efort_error (sdk_constant R) code' ''GetCurrentRobotType'',
       snd (efort_disconnect R (opened opts dev w2 d)))
     else if \<not> efort_model_matches (co_expected_model opts) model
     then (Status kFailedPrecondition (''configured model '' @ co_expected_model opts
              @ '' does not match controller model '' @ model),
       snd (efort_disconnect R (opened opts dev w2 d)))
     else (StatusOk, (opened opts dev w2 d)\<lparr>ef_controller_model := model\<rparr>))"
  using assms(1,2)
  by (cases "co_expected_axis_count opts = 0")
    (simp_all add: efort_connect_def connect_refuses_def assms(3,4) sdk_get_def opened_def)

text \<open>
  Claim C19. Connecting is all or nothing, for the driver and for the SDK session. A
  disconnected driver is connected afterwards exactly when \<open>Connect\<close> reports success, which
  it does exactly when the options are acceptable, the SDK opened a session and answered the
  model query, and the model matches the configured one. Options that are refused
  leave the controller untouched; the SDK refusing the connection, nothing else is called; and when
  the model query fails or the model does not match, the session that was opened is closed
  again: API control is given back if held, and \<open>DisconnectRobot\<close> is called for that device.
  After any failure the driver holds no device, no model and no jog.
\<close>

theorem connect_is_all_or_nothing:
  assumes "efort_ok d" and "\<not> ef_connected d" and "\<not> ef_has_active_jog d"
    and c: "ConnectRobot R (co_address opts) 0 False (co_sdk_debug_logging opts) 0
      (co_verify_sdk_version opts) (ef_controller d) = ((code, dev), w1)"
    and g: "GetCurrentRobotType R [] dev w1 = ((code', model), w2)"
    and "efort_connect R opts d = (st, d')"
  shows "(status_ok st \<longleftrightarrow> \<not> connect_refuses R opts \<and> code = sdk_constant R ERROR_OK
        \<and> code' = sdk_constant R ERROR_OK \<and> efort_model_matches (co_expected_model opts) model)
    \<and> ef_controller d' = (if connect_refuses R opts then ef_controller d
         else if code \<noteq> sdk_constant R ERROR_OK then w1
         else if status_ok st then w2 else closed_session R dev w2)
    \<and> (if status_ok st then ef_connected d' \<and> ef_device_id d' = dev \<and> ef_controller_model d' = model
       else \<not> ef_connected d' \<and> ef_device_id d' = 0 \<and> ef_controller_model d' = [])
    \<and> \<not> ef_has_active_jog d'"
proof (cases "connect_refuses R opts")
  case True
  then show ?thesis using connect_refused [OF True, of d] assms(1-3,6) by (simp add: efort_ok_def)
next
  case False
  have closed: "\<not> ef_connected e \<and> ef_device_id e = 0 \<and> ef_controller_model e = [] \<and> \<not> ef_has_active_jog e
      \<and> ef_controller e = closed_session R dev w2" if "e = snd (efort_disconnect R (opened opts dev w2 d))" for e
    using disconnect_result [of "opened opts dev w2 d" R] disconnect_closes [of "opened opts dev w2 d" R] assms(3)
    by (simp add: that session_def)
  have failed: "\<not> ef_connected e \<and> ef_device_id e = 0 \<and> ef_controller_model e = [] \<and> \<not> ef_has_active_jog e
      \<and> ef_controller e = w1" if "e = d\<lparr>ef_controller := w1\<rparr>" for e
    using assms(1-3) by (simp add: that efort_ok_def)
  show ?thesis
    using assms(3,6) False connect_opens [OF assms(2) False c g] closed [of d'] failed [of d']
    by (auto split: if_splits)
qed

theorem connect_is_all_or_nothing_witness:
  "let d' = snd (efort_connect demo_sdk
     (default_connection\<lparr>co_address := ''10.0.0.2'', co_expected_model := ''ER3''\<rparr>) (demo_efort False))
   in ef_controller_model d' = [] \<and> \<not> ct_session (ef_controller d')"
proof -
  let ?o = "default_connection\<lparr>co_address := ''10.0.0.2'', co_expected_model := ''ER3''\<rparr>"
  let ?w = "\<lparr>ct_moving = True, ct_program = True, ct_path = True, ct_jog_fails = False, ct_session = True\<rparr>"
  obtain st d' where r: "efort_connect demo_sdk ?o (demo_efort False) = (st, d')" by fastforce
  have p: "efort_ok (demo_efort False)" "\<not> ef_connected (demo_efort False)" "\<not> ef_has_active_jog (demo_efort False)"
    by code_simp+
  have c: "ConnectRobot demo_sdk (co_address ?o) 0 False (co_sdk_debug_logging ?o) 0
      (co_verify_sdk_version ?o) (ef_controller (demo_efort False)) = ((0, 7), ?w)"
    by (simp add: demo_sdk_def demo_efort_def new_efort_def)
  have g: "GetCurrentRobotType demo_sdk [] 7 ?w = ((0, ''EFORT ER7-900''), ?w)"
    by (simp add: demo_sdk_def demo_sdk_def)
  have "\<not> efort_model_matches (co_expected_model ?o) ''EFORT ER7-900''" "\<not> connect_refuses demo_sdk ?o"
    "sdk_constant demo_sdk ERROR_OK = 0" "\<not> ct_session (closed_session demo_sdk 7 ?w)" by code_simp+
  then have "ef_controller_model d' = []" "\<not> ct_session (ef_controller d')"
    using connect_is_all_or_nothing [OF p c g r] by simp_all
  then show ?thesis by (simp only: r snd_conv Let_def simp_thms)
qed

text \<open>The destructor; whatever the SDK answers, no session, device or jog is left behind.\<close>

definition efort_destroy :: "'w sdk \<Rightarrow> 'w efort \<Rightarrow> 'w efort" where
  "efort_destroy R d = snd (efort_disconnect R d)"

lemma destroyed_holds_nothing:
  assumes "efort_ok d" and "ef_has_active_jog d \<Longrightarrow> ef_connected d"
  shows "\<not> ef_connected (efort_destroy R d) \<and> ef_device_id (efort_destroy R d) = 0
    \<and> \<not> ef_has_active_jog (efort_destroy R d) \<and> ef_controller_model (efort_destroy R d) = []"
  using assms disconnect_result [of d R]
  by (cases "ef_connected d") (auto simp: efort_destroy_def efort_disconnect_def efort_ok_def session_def)

section \<open>Reading\<close>

text \<open>A read of a driver without a session, or whose controller does not answer.\<close>

lemma read_disconnected:
  assumes "\<not> (ef_connected d \<and> fst (IsConnected R (ef_device_id d) (ef_controller d)))"
  shows "fst (efort_read_state R d)
    = Inr (default_snapshot\<lparr>sn_observed_at := ef_clock d 0, sn_lifecycle := kDisconnected\<rparr>)"
  using assms by (auto simp: efort_read_state_def sdk_ask_def default_snapshot_def Let_def split: prod.split)

text \<open>
  The read of a connected robot, its SDK calls given by their results: the snapshot, before
  its lifecycle is derived, and what has to hold for it to be returned.
\<close>

definition efort_snapshot :: "'w sdk \<Rightarrow> 'w efort \<Rightarrow> run_info \<Rightarrow> bool \<Rightarrow> bool \<Rightarrow> bool \<Rightarrow> bool \<Rightarrow> bool
    \<Rightarrow> dbl list \<Rightarrow> robot_pos \<Rightarrow> robot_snapshot" where
  "efort_snapshot R d about api servo emg alarm moving joints pose =
    \<lparr>sn_sequence = 0, sn_observed_at = ef_clock d 0, sn_lifecycle = kLifecycleUnknown,
     sn_controller_mode = to_controller_mode (sdk_constant R) (ri_key_mode about), sn_connected = True,
     sn_api_control = api, sn_servo_on = servo, sn_emergency_stop = emg,
     sn_alarm_active = (alarm \<or> ri_program_status about = sdk_constant R RPL_ERROR), sn_moving = moving,
     sn_paused = (ef_paused_by_service d \<or> ri_program_status about = sdk_constant R RPL_PAUSE),
     sn_program_running = (ri_program_status about = sdk_constant R RPL_RUN),
     sn_speed_ratio = ri_velocity about, sn_tcp_speed_mm_per_second = ri_tcp_speed about,
     sn_controller_model = ef_controller_model d, sn_axis_count = efort_axis_count,
     sn_active_tool = safe_string (ri_tool_name about) (MAX_CHAR_LENGTH R),
     sn_active_work_object = safe_string (ri_wobj_name about) (MAX_CHAR_LENGTH R),
     sn_joints = map (\<lambda>k. joints ! k) [0..<efort_axis_count], sn_tcp_pose = from_robot_pos pose\<rparr>"

text \<open>As \<open>reads\<close>, for the snapshot and the driver it leaves.\<close>

definition reads_to :: "(robot_snapshot \<Rightarrow> 'd \<Rightarrow> bool) \<Rightarrow> robot_snapshot status_or \<times> 'd \<Rightarrow> bool" where
  "reads_to P r \<longleftrightarrow> (\<forall>sn. fst r = Inr sn \<longrightarrow> P sn (snd r))"

lemma reads_to_simps [simp]: "reads_to P (Inr sn, d) \<longleftrightarrow> P sn d" "reads_to P (Inl st, d)"
  by (simp_all add: reads_to_def)

lemma reads_to_early [simp]:
  "reads_to P (if \<not> status_ok st then (Inl st', d) else r) \<longleftrightarrow> (status_ok st \<longrightarrow> reads_to P r)"
  by simp

lemma read_connected:
  assumes "ef_connected d" and "IsConnected R (ef_device_id d) (ef_controller d) = (True, w1)"
    and "GetRobotStatusData R empty_run_info (ef_device_id d) w1 = ((c1, about), w2)"
    and "IsApiControl R (ef_device_id d) w2 = (api, w3)"
    and "GetCurrentServoStatus R False (ef_device_id d) w3 = ((c2, servo), w4)"
    and "GetCurrentEmgStatus R False (ef_device_id d) w4 = ((c3, emg), w5)"
    and "GetCurrentAlarmStatus R False (ef_device_id d) w5 = ((c4, alarm), w6)"
    and "GetMoveState R False (ef_device_id d) w6 = ((c5, moving), w7)"
    and "GetJointPos R (ef_device_id d) w7 = ((c6, joints), w8)"
    and "GetBaseCoordinatePos2 R (ef_device_id d) w8 = ((c7, pose), w9)"
  shows "reads_to (\<lambda>sn d'. c1 = sdk_constant R ERROR_OK \<and> c2 = sdk_constant R ERROR_OK
      \<and> c3 = sdk_constant R ERROR_OK \<and> c4 = sdk_constant R ERROR_OK \<and> c5 = sdk_constant R ERROR_OK
      \<and> c6 = sdk_constant R ERROR_OK \<and> c7 = sdk_constant R ERROR_OK \<and> ef_controller d' = w9
      \<and> sn = (efort_snapshot R d about api servo emg alarm moving joints pose)
          \<lparr>sn_lifecycle := derive_lifecycle_state sn\<rparr>) (efort_read_state R d)"
  unfolding efort_read_state_def Let_def sdk_get_def sdk_ask_def
  by (simp add: assms default_snapshot_def efort_snapshot_def derive_lifecycle_state_def)

lemma derive_lifecycle_frame:
  "derive_lifecycle_state (sn\<lparr>sn_lifecycle := l\<rparr>) = derive_lifecycle_state sn"
  by (simp add: derive_lifecycle_state_def)

lemma snapshot_ready:
  "derive_lifecycle_state (efort_snapshot R d about api servo emg alarm moving joints pose) = kReady
     \<Longrightarrow> servo \<and> api \<and> \<not> emg \<and> \<not> alarm \<and> \<not> moving \<and> \<not> ef_paused_by_service d
      \<and> ri_program_status about
          \<notin> {sdk_constant R RPL_RUN, sdk_constant R RPL_ERROR, sdk_constant R RPL_PAUSE}"
  by (auto simp: derive_lifecycle_state_def efort_snapshot_def split: if_splits)

text \<open>
  Claim C40. A snapshot is whole or absent, and every value is the controller's: a read that
  returns a snapshot returns the empty disconnected one if the driver has no session or the
  link is down; otherwise the queries of the status block, API control, servo, emergency stop,
  alarm, move state, joints and pose were made in this order, each on the controller state the
  one before left, all with \<open>ERROR_OK\<close>, and every field of the snapshot is the value that was
  answered (an alarm also when the program is in error, a pause also when the service asked
  for it). Its lifecycle is derived from these values; in particular \<open>READY\<close> is reported only
  of a robot whose controller denied emergency stop, alarm and motion and affirmed servo and
  API control, with no program running, paused or in error.
\<close>

theorem snapshot_is_whole:
  assumes "efort_read_state R d = (Inr sn, d')"
  shows "if sn_connected sn
    then ef_connected d \<and> (\<exists>w1 about w2 api w3 servo w4 emg w5 alarm w6 moving w7 joints w8 pose.
        IsConnected R (ef_device_id d) (ef_controller d) = (True, w1)
      \<and> GetRobotStatusData R empty_run_info (ef_device_id d) w1 = ((sdk_constant R ERROR_OK, about), w2)
      \<and> IsApiControl R (ef_device_id d) w2 = (api, w3)
      \<and> GetCurrentServoStatus R False (ef_device_id d) w3 = ((sdk_constant R ERROR_OK, servo), w4)
      \<and> GetCurrentEmgStatus R False (ef_device_id d) w4 = ((sdk_constant R ERROR_OK, emg), w5)
      \<and> GetCurrentAlarmStatus R False (ef_device_id d) w5 = ((sdk_constant R ERROR_OK, alarm), w6)
      \<and> GetMoveState R False (ef_device_id d) w6 = ((sdk_constant R ERROR_OK, moving), w7)
      \<and> GetJointPos R (ef_device_id d) w7 = ((sdk_constant R ERROR_OK, joints), w8)
      \<and> GetBaseCoordinatePos2 R (ef_device_id d) w8 = ((sdk_constant R ERROR_OK, pose), ef_controller d')
      \<and> sn = (efort_snapshot R d about api servo emg alarm moving joints pose)
          \<lparr>sn_lifecycle := derive_lifecycle_state sn\<rparr>
      \<and> (sn_lifecycle sn = kReady \<longrightarrow> servo \<and> api \<and> \<not> emg \<and> \<not> alarm \<and> \<not> moving
           \<and> \<not> ef_paused_by_service d \<and> ri_program_status about
               \<notin> {sdk_constant R RPL_RUN, sdk_constant R RPL_ERROR, sdk_constant R RPL_PAUSE}))
    else sn = default_snapshot\<lparr>sn_observed_at := ef_clock d 0, sn_lifecycle := kDisconnected\<rparr>
      \<and> \<not> (ef_connected d \<and> fst (IsConnected R (ef_device_id d) (ef_controller d)))"
proof (cases "ef_connected d \<and> fst (IsConnected R (ef_device_id d) (ef_controller d))")
  case False
  from read_disconnected [OF this] show ?thesis using False assms by (simp add: default_snapshot_def)
next
  case True
  let ?dev = "ef_device_id d"
  obtain w1 where w1: "IsConnected R ?dev (ef_controller d) = (True, w1)" using True by (metis prod.collapse)
  obtain c1 about w2 where w2: "GetRobotStatusData R empty_run_info ?dev w1 = ((c1, about), w2)" by (metis prod.exhaust)
  obtain api w3 where w3: "IsApiControl R ?dev w2 = (api, w3)" by fastforce
  obtain c2 servo w4 where w4: "GetCurrentServoStatus R False ?dev w3 = ((c2, servo), w4)" by (metis prod.exhaust)
  obtain c3 emg w5 where w5: "GetCurrentEmgStatus R False ?dev w4 = ((c3, emg), w5)" by (metis prod.exhaust)
  obtain c4 alarm w6 where w6: "GetCurrentAlarmStatus R False ?dev w5 = ((c4, alarm), w6)" by (metis prod.exhaust)
  obtain c5 moving w7 where w7: "GetMoveState R False ?dev w6 = ((c5, moving), w7)" by (metis prod.exhaust)
  obtain c6 joints w8 where w8: "GetJointPos R ?dev w7 = ((c6, joints), w8)" by (metis prod.exhaust)
  obtain c7 pose w9 where w9: "GetBaseCoordinatePos2 R ?dev w8 = ((c7, pose), w9)" by (metis prod.exhaust)
  note queries = w1 w2 w3 w4 w5 w6 w7 w8 w9
  have ok: "c1 = sdk_constant R ERROR_OK" "c2 = sdk_constant R ERROR_OK" "c3 = sdk_constant R ERROR_OK"
    "c4 = sdk_constant R ERROR_OK" "c5 = sdk_constant R ERROR_OK" "c6 = sdk_constant R ERROR_OK"
    "c7 = sdk_constant R ERROR_OK" and w: "ef_controller d' = w9"
    and sn: "sn = (efort_snapshot R d about api servo emg alarm moving joints pose)
        \<lparr>sn_lifecycle := derive_lifecycle_state sn\<rparr>"
    using read_connected [OF conjunct1 [OF True] queries] assms by (simp_all add: reads_to_def)
  let ?s = "efort_snapshot R d about api servo emg alarm moving joints pose"
  have life: "sn_lifecycle sn = derive_lifecycle_state sn" by (subst sn) simp
  have conn: "sn_connected sn" by (subst sn) (simp add: efort_snapshot_def)
  have "derive_lifecycle_state ?s = kReady" if "sn_lifecycle sn = kReady"
    using that unfolding life by (subst (asm) sn) (simp only: derive_lifecycle_frame)
  note ready = snapshot_ready [OF this]
  show ?thesis
    unfolding if_P [OF conn]
    by (rule conjI [OF conjunct1 [OF True]], rule exI [of _ w1], rule exI [of _ about], rule exI [of _ w2], rule exI [of _ api], rule exI
        [of _ w3], rule exI [of _ servo], rule exI [of _ w4], rule exI [of _ emg], rule exI [of _ w5],
        rule exI [of _ alarm], rule exI [of _ w6], rule exI [of _ moving], rule exI [of _ w7], rule exI
        [of _ joints], rule exI [of _ w8], rule exI [of _ pose], intro conjI)
      ((fact queries [unfolded ok] w9 [unfolded ok, folded w] sn)+, rule impI, rule ready)
qed

theorem snapshot_is_whole_witness:
  "\<exists>sn d'. efort_read_state demo_sdk ((demo_efort False)\<lparr>ef_connected := True,
       ef_controller := (ef_controller (demo_efort False))\<lparr>ct_session := True\<rparr>\<rparr>) = (Inr sn, d')
     \<and> sn_servo_on sn \<and> \<not> sn_emergency_stop sn"
proof -
  let ?d = "(demo_efort False)\<lparr>ef_connected := True,
       ef_controller := (ef_controller (demo_efort False))\<lparr>ct_session := True\<rparr>\<rparr>"
  have "case fst (efort_read_state demo_sdk ?d) of Inr sn \<Rightarrow> sn_connected sn | Inl e \<Rightarrow> False" by code_simp
  then obtain sn where "fst (efort_read_state demo_sdk ?d) = Inr sn" and conn: "sn_connected sn"
    by (auto split: sum.splits)
  then obtain d' where r: "efort_read_state demo_sdk ?d = (Inr sn, d')" by (metis prod.collapse)
  from snapshot_is_whole [OF r, unfolded if_P [OF conn]]
  obtain about api w3 servo w4 emg w5 alarm moving joints pose where
    q: "GetCurrentServoStatus demo_sdk False (ef_device_id ?d) w3 = ((sdk_constant demo_sdk ERROR_OK, servo), w4)"
      "GetCurrentEmgStatus demo_sdk False (ef_device_id ?d) w4 = ((sdk_constant demo_sdk ERROR_OK, emg), w5)"
    and sn: "sn = (efort_snapshot demo_sdk ?d about api servo emg alarm moving joints pose)
          \<lparr>sn_lifecycle := derive_lifecycle_state sn\<rparr>" by blast
  have "servo" "\<not> emg" using q by (simp_all add: demo_sdk_def)
  moreover have "sn_servo_on sn = servo" "sn_emergency_stop sn = emg"
    by (subst sn, simp add: efort_snapshot_def)+
  ultimately show ?thesis using r by blast
qed

end
