(* ===== verification/ConfigDocument.thy ===== *)
theory ConfigDocument
  imports CommandStore "HOL-Library.List_Lexorder" "HOL-Library.Char_ord"
begin

text \<open>
  \<open>src/config/config_loader.cc\<close>, first part, and \<open>config_document.h\<close>: a YAML file becomes a
  flat document whose keys are dotted paths. The YAML parser (rapidyaml) and the file system
  are parameters: a parsed tree is the tree of answers its nodes give to the queries the code
  makes. The main theorem says that the flat document holds the tree, no more and no less.
\<close>

named_theorems config_ok \<open>when a chain of configuration checks succeeds\<close>

section \<open>Ordered maps and sets of strings\<close>

text \<open>\<open>std::map\<close> and \<open>std::set\<close> over strings: lists in key order, which is the order of their loops.\<close>

type_synonym 'v smap = "(string \<times> 'v) list"

fun smap_emplace :: "string \<Rightarrow> 'v \<Rightarrow> 'v smap \<Rightarrow> 'v smap" where
  "smap_emplace k v [] = [(k, v)]"
| "smap_emplace k v ((k', v') # m) =
    (if k < k' then (k, v) # (k', v') # m
     else if k = k' then (k', v') # m
     else (k', v') # smap_emplace k v m)"

definition smap_find :: "'v smap \<Rightarrow> string \<Rightarrow> 'v option" where
  "smap_find m k = map_of m k"

lemma smap_find_emplace [simp]:
  "smap_find m k = None \<Longrightarrow> smap_find (smap_emplace k v m) = (smap_find m)(k \<mapsto> v)"
  unfolding smap_find_def by (induction k v m rule: smap_emplace.induct) (auto split: if_splits)

lemma smap_find_Nil [simp]: "smap_find [] k = None"
  by (simp add: smap_find_def)

section \<open>Trees and documents\<close>

text \<open>What \<open>ryml::ConstNodeRef\<close> answers about a node, and the node's children in order.\<close>

record node_info =
  ni_is_map :: bool
  ni_is_seq :: bool
  ni_is_val :: bool
  ni_has_val :: bool
  ni_val_is_null :: bool
  ni_has_anchor :: bool
  ni_is_ref :: bool
  ni_has_key_tag :: bool
  ni_has_val_tag :: bool
  ni_key :: string
  ni_val :: string

datatype yaml_node = Node (info: node_info) (children: "yaml_node list")

record config_document =
  cd_scalars :: "string smap"
  cd_lists :: "string list smap"
  cd_mappings :: "string list"

definition empty_document :: config_document where
  "empty_document = \<lparr>cd_scalars = [], cd_lists = [], cd_mappings = []\<rparr>"

definition config_error :: "string \<Rightarrow> status" where
  "config_error message = Status kInvalidArgument (''configuration: '' @ message)"

definition quoted :: "string \<Rightarrow> string" where
  "quoted s = CHR 0x27 # s @ [CHR 0x27]"

section \<open>ReadMapping\<close>

definition bad_key :: "node_info \<Rightarrow> bool" where
  "bad_key child \<longleftrightarrow> ni_key child = [] \<or> CHR ''.'' \<in> set (ni_key child) \<or> ni_has_anchor child
     \<or> ni_is_ref child \<or> ni_has_key_tag child \<or> ni_has_val_tag child"

definition child_path :: "string \<Rightarrow> string \<Rightarrow> string" where
  "child_path prefix key = (if prefix = [] then key else prefix @ ''.'' @ key)"

definition known_path :: "config_document \<Rightarrow> string \<Rightarrow> bool" where
  "known_path document path \<longleftrightarrow> smap_find (cd_scalars document) path \<noteq> None
     \<or> smap_find (cd_lists document) path \<noteq> None \<or> path \<in> set (cd_mappings document)"

definition bad_item :: "node_info \<Rightarrow> bool" where
  "bad_item item \<longleftrightarrow> \<not> ni_is_val item \<or> ni_val_is_null item \<or> ni_has_anchor item
     \<or> ni_is_ref item \<or> ni_has_val_tag item"

text \<open>
  The function and its loop over the children. On an error the partly filled document is
  thrown away by the caller.
\<close>

fun read_mapping :: "yaml_node \<Rightarrow> string \<Rightarrow> config_document \<Rightarrow> config_document status_or"
  and read_children :: "yaml_node list \<Rightarrow> string \<Rightarrow> config_document \<Rightarrow> config_document status_or" where
  "read_mapping (Node i cs) prefix document =
    (if \<not> ni_is_map i then Inl (config_error (''expected a mapping at '' @ quoted prefix))
     else read_children cs prefix document)"
| "read_children [] prefix document = Inr document"
| "read_children (Node i cs # rest) prefix document =
    (let path = child_path prefix (ni_key i) in
     if bad_key i then
       Inl (config_error (''unsupported key or YAML reference at '' @ quoted prefix))
     else if known_path document path then
       Inl (config_error (''duplicate key '' @ quoted path))
     else if ni_is_map i then
       (case read_mapping (Node i cs) path
               (document\<lparr>cd_mappings := insort_insert path (cd_mappings document)\<rparr>) of
          Inl status \<Rightarrow> Inl status
        | Inr document' \<Rightarrow> read_children rest prefix document')
     else if ni_is_seq i then
       (if list_ex (\<lambda>item. bad_item (info item)) cs then
          Inl (config_error (''setting '' @ quoted path @ '' must be a scalar list''))
        else read_children rest prefix
          (document\<lparr>cd_lists := smap_emplace path (map (\<lambda>item. ni_val (info item)) cs)
             (cd_lists document)\<rparr>))
     else if ni_has_val i \<and> \<not> ni_val_is_null i then
       read_children rest prefix
         (document\<lparr>cd_scalars := smap_emplace path (ni_val i) (cd_scalars document)\<rparr>)
     else Inl (config_error (''setting '' @ quoted path @ '' must not be null'')))"

section \<open>ParseYaml\<close>

text \<open>
  Opening the file may fail, reading it may fail, and parsing it may throw a
  \<open>runtime_error\<close> (the callbacks the code installs), whose message becomes the error.
\<close>

datatype file_content = Unopenable | Unreadable | Content string

definition parse_yaml :: "(string \<Rightarrow> file_content) \<Rightarrow> (string \<Rightarrow> string \<Rightarrow> string + yaml_node) \<Rightarrow> string
    \<Rightarrow> config_document status_or" where
  "parse_yaml file ryml path =
    (case file path of
       Unopenable \<Rightarrow> Inl (Status kNotFound (''cannot open configuration: '' @ path))
     | Unreadable \<Rightarrow> Inl (config_error (''cannot read '' @ path))
     | Content source \<Rightarrow>
         (case ryml path source of
            Inl what \<Rightarrow> Inl (config_error what)
          | Inr tree \<Rightarrow> read_mapping tree [] empty_document))"

definition load_config_document :: "(string \<Rightarrow> file_content) \<Rightarrow> (string \<Rightarrow> string \<Rightarrow> string + yaml_node) \<Rightarrow> string
    \<Rightarrow> config_document status_or" where
  "load_config_document file ryml path = parse_yaml file ryml path"

section \<open>What the document holds\<close>

datatype entry = Scalar string | Items "string list" | Section

definition entry_at :: "config_document \<Rightarrow> string \<Rightarrow> entry option" where
  "entry_at document path =
    (case smap_find (cd_scalars document) path of
       Some v \<Rightarrow> Some (Scalar v)
     | None \<Rightarrow> (case smap_find (cd_lists document) path of
         Some vs \<Rightarrow> Some (Items vs)
       | None \<Rightarrow> if path \<in> set (cd_mappings document) then Some Section else None))"

definition entry_of :: "yaml_node \<Rightarrow> entry" where
  "entry_of n = (if ni_is_map (info n) then Section
     else if ni_is_seq (info n) then Items (map (\<lambda>item. ni_val (info item)) (children n))
     else Scalar (ni_val (info n)))"

fun reaches :: "yaml_node \<Rightarrow> string list \<Rightarrow> yaml_node \<Rightarrow> bool" where
  "reaches n [] m = (m = n)"
| "reaches n (k # ks) m = (ni_is_map (info n)
     \<and> (\<exists>c\<in>set (children n). ni_key (info c) = k \<and> reaches c ks m))"

text \<open>Keys a document may use: not empty, without dots. Paths joined from them are unambiguous.\<close>

definition plain_key :: "string \<Rightarrow> bool" where
  "plain_key k \<longleftrightarrow> k \<noteq> [] \<and> CHR ''.'' \<notin> set k"

fun dotted :: "string list \<Rightarrow> string" where
  "dotted [] = []"
| "dotted [k] = k"
| "dotted (k # ks) = k @ CHR ''.'' # dotted ks"

lemma dotted_inj:
  "list_all plain_key ks \<Longrightarrow> list_all plain_key ks' \<Longrightarrow> dotted ks = dotted ks' \<Longrightarrow> ks = ks'"
proof (induction ks arbitrary: ks' rule: dotted.induct)
  case 1
  then show ?case by (cases ks' rule: dotted.cases) (auto simp: plain_key_def)
next
  case (2 k)
  then show ?case by (cases ks' rule: dotted.cases) (auto simp: plain_key_def)
next
  case (3 k k2 ks)
  show ?case
  proof (cases ks' rule: dotted.cases)
    case (3 l l2 ls)
    then have "k @ CHR ''.'' # dotted (k2 # ks) = l @ CHR ''.'' # dotted (l2 # ls)"
      using "3.prems"(3) by simp
    then have "k = l \<and> dotted (k2 # ks) = dotted (l2 # ls)"
      using "3.prems"(1,2) 3 by (intro split_at_first) (auto simp: plain_key_def)
    then show ?thesis using "3.IH" [of "l2 # ls"] "3.prems"(1,2) 3 by auto
  qed (use "3.prems" in \<open>auto simp: plain_key_def\<close>)
qed

section \<open>The document is the tree\<close>

text \<open>The entries below a node whose own path is \<open>prefix\<close>.\<close>

definition joined_path :: "string \<Rightarrow> string list \<Rightarrow> string" where
  "joined_path prefix ks = (if prefix = [] then dotted ks else prefix @ CHR ''.'' # dotted ks)"

definition holds_below :: "yaml_node list \<Rightarrow> string \<Rightarrow> string \<Rightarrow> entry \<Rightarrow> bool" where
  "holds_below cs prefix path e \<longleftrightarrow> (\<exists>c\<in>set cs. \<exists>ks m. list_all plain_key (ni_key (info c) # ks)
     \<and> path = joined_path prefix (ni_key (info c) # ks) \<and> reaches c ks m \<and> entry_of m = e)"

lemma holds_below_Nil [simp]: "\<not> holds_below [] prefix path e"
  by (simp add: holds_below_def)

lemma joined_path_Cons:
  "ks \<noteq> [] \<Longrightarrow> k \<noteq> [] \<Longrightarrow> joined_path prefix (k # ks) = joined_path (child_path prefix k) ks"
  by (cases ks) (auto simp: joined_path_def child_path_def)

lemma joined_path_single: "joined_path prefix [k] = child_path prefix k"
  by (simp add: joined_path_def child_path_def)

lemma holds_below_Cons:
  "holds_below (c # cs) prefix path e \<longleftrightarrow> holds_below cs prefix path e
     \<or> plain_key (ni_key (info c)) \<and> (path = child_path prefix (ni_key (info c)) \<and> e = entry_of c
         \<or> ni_is_map (info c) \<and> holds_below (children c) (child_path prefix (ni_key (info c))) path e)"
proof -
  have "(\<exists>ks m. list_all plain_key (ni_key (info c) # ks) \<and> path = joined_path prefix (ni_key (info c) # ks)
        \<and> reaches c ks m \<and> entry_of m = e)
    \<longleftrightarrow> plain_key (ni_key (info c)) \<and> (path = child_path prefix (ni_key (info c)) \<and> e = entry_of c
         \<or> ni_is_map (info c) \<and> holds_below (children c) (child_path prefix (ni_key (info c))) path e)"
    (is "(\<exists>ks m. ?P ks m) \<longleftrightarrow> ?k \<and> (?here \<or> ?below)")
  proof
    assume "\<exists>ks m. ?P ks m"
    then obtain ks m where P: "?P ks m" by blast
    then show "?k \<and> (?here \<or> ?below)"
    proof (cases ks)
      case Nil
      then show ?thesis using P by (auto simp: joined_path_single)
    next
      case (Cons k ks')
      then obtain c' where c': "c' \<in> set (children c)" "ni_key (info c') = k" "reaches c' ks' m"
        using P by auto
      then have "holds_below (children c) (child_path prefix (ni_key (info c))) path e"
        using P Cons unfolding holds_below_def
        by (intro bexI [of _ c'] exI [of _ ks'] exI [of _ m])
          (auto simp: joined_path_Cons plain_key_def)
      then show ?thesis using P Cons by auto
    qed
  next
    assume *: "?k \<and> (?here \<or> ?below)"
    show "\<exists>ks m. ?P ks m"
    proof (cases ?here)
      case True
      then show ?thesis using * by (intro exI [of _ "[]"] exI [of _ c]) (simp add: joined_path_single)
    next
      case False
      then obtain c' ks m where "c' \<in> set (children c)" "list_all plain_key (ni_key (info c') # ks)"
        "path = joined_path (child_path prefix (ni_key (info c))) (ni_key (info c') # ks)"
        "reaches c' ks m" "entry_of m = e" "ni_is_map (info c)"
        using * unfolding holds_below_def by blast
      then show ?thesis using *
        by (intro exI [of _ "ni_key (info c') # ks"] exI [of _ m]) (auto simp: joined_path_Cons plain_key_def)
    qed
  qed
  then show ?thesis unfolding holds_below_def by auto
qed

lemma entry_at_known: "known_path document path \<longleftrightarrow> entry_at document path \<noteq> None"
  by (auto simp: known_path_def entry_at_def split: option.split)

lemma entry_at_add:
  assumes "\<not> known_path document path"
  shows "entry_at (document\<lparr>cd_mappings := insort_insert path (cd_mappings document)\<rparr>) = (entry_at document)(path \<mapsto> Section)"
    and "entry_at (document\<lparr>cd_lists := smap_emplace path vs (cd_lists document)\<rparr>) = (entry_at document)(path \<mapsto> Items vs)"
    and "entry_at (document\<lparr>cd_scalars := smap_emplace path v (cd_scalars document)\<rparr>) = (entry_at document)(path \<mapsto> Scalar v)"
  using assms
  by (auto simp: entry_at_def known_path_def set_insort_insert fun_eq_iff split: option.split)

lemma upd_entry:
  "f p = None \<Longrightarrow> (f(p \<mapsto> v)) q = Some e \<longleftrightarrow> f q = Some e \<or> q = p \<and> e = v"
  by auto

lemma read_entries:
  "read_mapping n prefix document = Inr document' \<Longrightarrow> ni_is_map (info n) \<and>
    (\<forall>path e. entry_at document' path = Some e \<longleftrightarrow>
       entry_at document path = Some e \<or> holds_below (children n) prefix path e)"
  "read_children cs prefix document = Inr document' \<Longrightarrow>
    (\<forall>path e. entry_at document' path = Some e \<longleftrightarrow>
       entry_at document path = Some e \<or> holds_below cs prefix path e)"
proof (induction n prefix document and cs prefix document arbitrary: document' and document'
    rule: read_mapping_read_children.induct)
  case (1 i cs prefix document)
  then show ?case by (auto split: if_splits)
next
  case (2 prefix document)
  then show ?case by simp
next
  case (3 i cs rest prefix document)
  let ?p = "child_path prefix (ni_key i)"
  have ok: "\<not> bad_key i" "\<not> known_path document ?p"
    using "3.prems" by (auto simp: Let_def split: if_splits)
  then have key: "plain_key (ni_key i)" by (simp add: bad_key_def plain_key_def)
  have none: "entry_at document ?p = None" using ok(2) by (simp add: entry_at_known)
  note add = entry_at_add [OF ok(2)] upd_entry [where f = "entry_at document" and p = ?p, OF none]
  consider (map) "ni_is_map i" | (seq) "\<not> ni_is_map i" "ni_is_seq i" | (val) "\<not> ni_is_map i" "\<not> ni_is_seq i"
    by blast
  then show ?case
  proof cases
    case map
    let ?d = "document\<lparr>cd_mappings := insort_insert ?p (cd_mappings document)\<rparr>"
    obtain d1 where d1: "read_mapping (Node i cs) ?p ?d = Inr d1" "read_children rest prefix d1 = Inr document'"
      using "3.prems" ok map by (auto simp: Let_def split: sum.splits)
    note 1 = "3.IH"(1) [OF refl ok map d1(1)]
    note 2 = "3.IH"(2) [OF refl ok map d1(1) d1(2)]
    show ?thesis using 1 2 key map by (auto simp: holds_below_Cons add none entry_of_def)
  next
    case seq
    then have "read_children rest prefix (document\<lparr>cd_lists := smap_emplace ?p
        (map (\<lambda>item. ni_val (info item)) cs) (cd_lists document)\<rparr>) = Inr document'"
      and "\<not> list_ex (\<lambda>item. bad_item (info item)) cs"
      using "3.prems" ok by (auto simp: Let_def split: if_splits)
    with "3.IH"(3) [OF refl ok seq] show ?thesis
      using key seq by (auto simp: holds_below_Cons add none entry_of_def)
  next
    case val
    then have "read_children rest prefix (document\<lparr>cd_scalars := smap_emplace ?p (ni_val i)
        (cd_scalars document)\<rparr>) = Inr document'" and v: "ni_has_val i \<and> \<not> ni_val_is_null i"
      using "3.prems" ok by (auto simp: Let_def split: if_splits)
    with "3.IH"(4) [OF refl ok val v] show ?thesis
      using key val by (auto simp: holds_below_Cons add none entry_of_def)
  qed
qed

text \<open>
  Claim C28. Flattening is faithful: when a file is accepted, the document has an entry at a
  dotted path exactly when the tree has a node there, and the entry is that node's scalar,
  its list of items or the mark of a section. Keys with dots or without characters cannot
  occur, so no two places of the tree can share a path.
\<close>

theorem document_is_the_tree:
  assumes "read_mapping tree [] empty_document = Inr document"
    and "ks \<noteq> []" and "list_all plain_key ks"
  shows "entry_at document (dotted ks) = Some e \<longleftrightarrow> (\<exists>m. reaches tree ks m \<and> entry_of m = e)"
proof -
  have map: "ni_is_map (info tree)"
    and iff: "entry_at document (dotted ks) = Some e \<longleftrightarrow> holds_below (children tree) [] (dotted ks) e"
    using read_entries(1) [OF assms(1)] by (simp_all add: entry_at_def empty_document_def)
  obtain k ks' where ks: "ks = k # ks'" using assms(2) by (cases ks) auto
  have same: "ni_key (info c) = k \<and> js = ks'"
    if "list_all plain_key (ni_key (info c) # js)" "dotted ks = joined_path [] (ni_key (info c) # js)" for c js
    using dotted_inj [OF assms(3) that(1)] that(2) ks by (simp add: joined_path_def)
  have "holds_below (children tree) [] (dotted ks) e \<longleftrightarrow>
      (\<exists>c\<in>set (children tree). ni_key (info c) = k \<and> (\<exists>m. reaches c ks' m \<and> entry_of m = e))"
    unfolding holds_below_def using same assms(3) ks by (auto simp: joined_path_def)
  then show ?thesis using iff map ks by auto
qed

definition demo_node :: "string \<Rightarrow> node_info" where
  "demo_node k = \<lparr>ni_is_map = False, ni_is_seq = False, ni_is_val = False, ni_has_val = False,
     ni_val_is_null = False, ni_has_anchor = False, ni_is_ref = False, ni_has_key_tag = False,
     ni_has_val_tag = False, ni_key = k, ni_val = []\<rparr>"

definition demo_section :: "string \<Rightarrow> yaml_node list \<Rightarrow> yaml_node" where
  "demo_section k cs = Node ((demo_node k)\<lparr>ni_is_map := True\<rparr>) cs"

definition demo_scalar :: "string \<Rightarrow> string \<Rightarrow> yaml_node" where
  "demo_scalar k v = Node ((demo_node k)\<lparr>ni_is_val := True, ni_has_val := True, ni_val := v\<rparr>) []"

definition demo_list :: "string \<Rightarrow> string list \<Rightarrow> yaml_node" where
  "demo_list k vs = Node ((demo_node k)\<lparr>ni_is_seq := True\<rparr>) (map (demo_scalar []) vs)"

theorem document_is_the_tree_witness:
  "\<exists>document. read_mapping (demo_section [] [demo_section ''robot'' [demo_scalar ''id'' ''r1'']]) [] empty_document
       = Inr document \<and> entry_at document ''robot.id'' = Some (Scalar ''r1'')"
proof -
  let ?tree = "demo_section [] [demo_section ''robot'' [demo_scalar ''id'' ''r1'']]"
  have "\<not> isl (read_mapping ?tree [] empty_document)" by code_simp
  then obtain document where r: "read_mapping ?tree [] empty_document = Inr document"
    by (cases "read_mapping ?tree [] empty_document") auto
  have "reaches ?tree [''robot'', ''id''] (demo_scalar ''id'' ''r1'')"
    by (simp add: demo_section_def demo_scalar_def demo_node_def)
  moreover have "entry_of (demo_scalar ''id'' ''r1'') = Scalar ''r1''"
    by (simp add: entry_of_def demo_scalar_def demo_node_def)
  moreover have "list_all plain_key [''robot'', ''id'']" by (simp add: plain_key_def)
  ultimately have "entry_at document (dotted [''robot'', ''id'']) = Some (Scalar ''r1'')"
    using document_is_the_tree [OF r, of "[''robot'', ''id'']"] by blast
  then show ?thesis using r by auto
qed

end
