(* ===== verification/ConfigLoader.thy ===== *)
theory ConfigLoader
  imports ConfigDocument ExecutorOps
begin

text \<open>
  \<open>src/config/config_loader.cc\<close>, second part, and \<open>config_loader.h\<close>: the service settings are
  read out of a flat document, checked and assembled. \<open>strtod\<close>, whose reading of a number
  depends on the process locale, is a parameter: it gives the value, how many characters it
  consumed and whether it set \<open>errno\<close>.
\<close>

type_synonym strtod_fun = "string \<Rightarrow> dbl \<times> nat \<times> bool"

record service_config =
  sc_instance_id :: string
  sc_driver_name :: string
  sc_connection :: connection_options
  sc_safety_policy :: safety_policy
  sc_executor_options :: executor_options

definition default_service_config :: service_config where
  "default_service_config = \<lparr>sc_instance_id = [], sc_driver_name = [],
     sc_connection = default_connection, sc_safety_policy = default_policy,
     sc_executor_options = default_options\<rparr>"

section \<open>Chains of checks\<close>

text \<open>\<open>if (!x.ok()) return x.status();\<close> and \<open>if (bad) return ConfigError(m);\<close>.\<close>

definition on_ok :: "'a status_or \<Rightarrow> ('a \<Rightarrow> 'b status_or) \<Rightarrow> 'b status_or" where
  "on_ok r k = (case r of Inl status \<Rightarrow> Inl status | Inr v \<Rightarrow> k v)"

definition reject_if :: "bool \<Rightarrow> string \<Rightarrow> 'b status_or \<Rightarrow> 'b status_or" where
  "reject_if bad message k = (if bad then Inl (config_error message) else k)"

lemma on_ok_Inr [config_ok]: "on_ok r k = Inr v \<longleftrightarrow> (\<exists>u. r = Inr u \<and> k u = Inr v)"
  by (cases r) (simp_all add: on_ok_def)

lemma reject_if_Inr [config_ok]: "reject_if bad message k = Inr v \<longleftrightarrow> \<not> bad \<and> k = Inr v"
  by (simp add: reject_if_def)

section \<open>CheckKnownKeys\<close>

definition known_scalars :: "string list" where
  "known_scalars = [''schema_version'', ''service.instance_id'', ''service.state_poll_ms'',
     ''service.state_stale_after_ms'', ''service.command_queue_capacity'',
     ''service.command_history_capacity'', ''robot.id'', ''robot.driver'', ''robot.address'',
     ''robot.model'', ''robot.axis_count'', ''robot.verify_sdk_version'',
     ''robot.sdk_debug_logging'', ''control_lease.ttl_ms'',
     ''control_lease.jog_heartbeat_timeout_ms'', ''limits.motion_enabled'',
     ''limits.program_execution_enabled'', ''limits.maximum_joint_speed_percent'',
     ''limits.maximum_linear_speed_mm_per_second'', ''limits.cartesian_workspace.frame'',
     ''limits.cartesian_workspace.x_mm'', ''limits.cartesian_workspace.y_mm'',
     ''limits.cartesian_workspace.z_mm'']"

definition known_lists :: "string list" where
  "known_lists = [''limits.joint_limits_deg'', ''limits.writable_digital_outputs'',
     ''limits.approved_programs'']"

definition known_mappings :: "string list" where
  "known_mappings = [''service'', ''robot'', ''control_lease'', ''limits'',
     ''limits.cartesian_workspace'', ''transport'']"

definition is_transport_extension :: "string \<Rightarrow> bool" where
  "is_transport_extension key = starts_with ''transport.'' key"

definition check_known_keys :: "config_document \<Rightarrow> status" where
  "check_known_keys document =
    (case find (\<lambda>k. k \<notin> set known_scalars \<and> \<not> is_transport_extension k)
            (map fst (cd_scalars document)) of
       Some k \<Rightarrow> config_error (''unknown setting '' @ quoted k)
     | None \<Rightarrow>
    (case find (\<lambda>k. k \<notin> set known_lists \<and> \<not> is_transport_extension k)
            (map fst (cd_lists document)) of
       Some k \<Rightarrow> config_error (''unknown list setting '' @ quoted k)
     | None \<Rightarrow>
    (case find (\<lambda>k. k \<notin> set known_mappings \<and> k \<notin> set known_lists \<and> \<not> is_transport_extension k)
            (cd_mappings document) of
       Some k \<Rightarrow> config_error (''unknown section '' @ quoted k)
     | None \<Rightarrow> StatusOk)))"

section \<open>Reading values\<close>

definition required_scalar :: "config_document \<Rightarrow> string \<Rightarrow> string status_or" where
  "required_scalar document key =
    (case smap_find (cd_scalars document) key of
       None \<Rightarrow> Inl (config_error (''missing required setting '' @ quoted key))
     | Some v \<Rightarrow> if v = [] then Inl (config_error (''missing required setting '' @ quoted key)) else Inr v)"

definition parse_bool :: "config_document \<Rightarrow> string \<Rightarrow> bool status_or" where
  "parse_bool document key =
    on_ok (required_scalar document key) (\<lambda>v.
      if v = ''true'' then Inr True
      else if v = ''false'' then Inr False
      else Inl (config_error (''setting '' @ quoted key @ '' must be true or false'')))"

text \<open>
  \<open>strtol(..., 10)\<close> on a C string: white space, a sign, decimal digits. The result is the
  number read and the rest of the string, or nothing when there is no digit. A number outside
  \<open>long\<close> sets \<open>errno\<close>; it lies outside \<open>int\<close> too, which is checked in the same condition.
\<close>

definition c_str :: "string \<Rightarrow> string" where
  "c_str s = takeWhile (\<lambda>c. c \<noteq> CHR 0x00) s"

definition is_space :: "char \<Rightarrow> bool" where
  "is_space c = (c \<in> {CHR 0x20, CHR 0x09, CHR 0x0A, CHR 0x0B, CHR 0x0C, CHR 0x0D})"

definition is_digit :: "char \<Rightarrow> bool" where
  "is_digit c = (48 \<le> (of_char c :: nat) \<and> (of_char c :: nat) \<le> 57)"

definition decimal :: "string \<Rightarrow> nat" where
  "decimal ds = foldl (\<lambda>n c. 10 * n + (of_char c - 48)) 0 ds"

definition strtol :: "string \<Rightarrow> (int \<times> string) option" where
  "strtol s =
    (let s1 = dropWhile is_space s;
         negative = (s1 \<noteq> [] \<and> hd s1 = CHR ''-'');
         s2 = (if s1 \<noteq> [] \<and> (hd s1 = CHR ''-'' \<or> hd s1 = CHR ''+'') then tl s1 else s1);
         ds = takeWhile is_digit s2
     in if ds = [] then None
        else Some (if negative then - int (decimal ds) else int (decimal ds), dropWhile is_digit s2))"

definition parse_int :: "config_document \<Rightarrow> string \<Rightarrow> int status_or" where
  "parse_int document key =
    on_ok (required_scalar document key) (\<lambda>v.
      case strtol (c_str v) of
        None \<Rightarrow> Inl (config_error (''setting '' @ quoted key @ '' must be an integer''))
      | Some (parsed, rest) \<Rightarrow>
          if rest \<noteq> [] \<or> parsed < - (2 ^ 31) \<or> parsed > 2 ^ 31 - 1 then
            Inl (config_error (''setting '' @ quoted key @ '' must be an integer''))
          else Inr parsed)"

definition parse_int_scalar :: "string \<Rightarrow> string \<Rightarrow> int status_or" where
  "parse_int_scalar v key = parse_int (empty_document\<lparr>cd_scalars := [(key, v)]\<rparr>) key"

definition parse_double :: "strtod_fun \<Rightarrow> string \<Rightarrow> string \<Rightarrow> dbl status_or" where
  "parse_double strtod v key =
    (let (parsed, consumed, errno_set) = strtod (c_str v) in
     if errno_set \<or> consumed = 0 \<or> consumed \<noteq> length (c_str v) \<or> \<not> isfinite parsed then
       Inl (config_error (''setting '' @ quoted key @ '' must be a finite number''))
     else Inr parsed)"

definition parse_range :: "strtod_fun \<Rightarrow> string \<Rightarrow> string \<Rightarrow> joint_limit status_or" where
  "parse_range strtod v key =
    (let before = takeWhile (\<lambda>c. c \<noteq> CHR '':'') v;
         after = tl (dropWhile (\<lambda>c. c \<noteq> CHR '':'') v) in
     reject_if (CHR '':'' \<notin> set v \<or> CHR '':'' \<in> set after)
       (''setting '' @ quoted key @ '' must use min:max'') (
     on_ok (parse_double strtod before key) (\<lambda>minimum.
     on_ok (parse_double strtod after key) (\<lambda>maximum.
     reject_if (dbl_le maximum minimum) (''setting '' @ quoted key @ '' must have min < max'') (
     Inr \<lparr>minimum_deg = minimum, maximum_deg = maximum\<rparr>)))))"

definition optional_list :: "config_document \<Rightarrow> string \<Rightarrow> string list status_or" where
  "optional_list document key =
    (case smap_find (cd_lists document) key of
       None \<Rightarrow>
         reject_if (key \<in> set (cd_mappings document) \<or> smap_find (cd_scalars document) key \<noteq> None)
           (''setting '' @ quoted key @ '' must be a scalar list'') (Inr [])
     | Some vs \<Rightarrow> reject_if (vs = []) (''list '' @ quoted key @ '' must not be empty'') (Inr vs))"

section \<open>LoadServiceConfig\<close>

text \<open>
  The seventeen required settings: the code reads them all and reports the first error in
  this order, then checks their ranges.
\<close>

definition read_settings :: "config_document \<Rightarrow> service_config status_or" where
  "read_settings document =
    on_ok (required_scalar document ''service.instance_id'') (\<lambda>instance_id.
    on_ok (required_scalar document ''robot.id'') (\<lambda>robot_id.
    on_ok (required_scalar document ''robot.driver'') (\<lambda>driver_name.
    on_ok (required_scalar document ''robot.address'') (\<lambda>address.
    on_ok (required_scalar document ''robot.model'') (\<lambda>model_name.
    on_ok (parse_bool document ''robot.verify_sdk_version'') (\<lambda>verify_sdk.
    on_ok (parse_bool document ''robot.sdk_debug_logging'') (\<lambda>sdk_debug.
    on_ok (parse_int document ''service.state_poll_ms'') (\<lambda>state_poll.
    on_ok (parse_int document ''service.state_stale_after_ms'') (\<lambda>state_stale.
    on_ok (parse_int document ''service.command_queue_capacity'') (\<lambda>queue_size.
    on_ok (parse_int document ''service.command_history_capacity'') (\<lambda>history_size.
    on_ok (parse_int document ''control_lease.ttl_ms'') (\<lambda>lease_ttl.
    on_ok (parse_int document ''control_lease.jog_heartbeat_timeout_ms'') (\<lambda>jog_timeout.
    on_ok (parse_bool document ''limits.motion_enabled'') (\<lambda>motion_enabled.
    on_ok (parse_bool document ''limits.program_execution_enabled'') (\<lambda>programs_enabled.
    on_ok (parse_int document ''limits.maximum_joint_speed_percent'') (\<lambda>maximum_joint_speed.
    on_ok (parse_int document ''limits.maximum_linear_speed_mm_per_second'') (\<lambda>maximum_linear_speed.
    reject_if (state_poll < 1 \<or> state_stale < state_poll \<or> queue_size < 1 \<or> history_size < 1
        \<or> lease_ttl < 1 \<or> jog_timeout < state_poll \<or> maximum_joint_speed < 1
        \<or> maximum_joint_speed > 100 \<or> maximum_linear_speed < 1)
      ''timing, queue, or speed limits are out of range'' (
    Inr (default_service_config\<lparr>sc_instance_id := instance_id, sc_driver_name := driver_name,
      sc_connection := default_connection\<lparr>co_robot_id := robot_id, co_address := address,
        co_expected_model := model_name, co_verify_sdk_version := verify_sdk,
        co_sdk_debug_logging := sdk_debug\<rparr>,
      sc_executor_options := default_options\<lparr>eo_state_poll_interval := state_poll,
        eo_state_stale_after := state_stale, eo_control_lease_ttl := lease_ttl,
        eo_jog_heartbeat_timeout := jog_timeout, eo_maximum_queue_size := nat queue_size,
        eo_maximum_command_history := nat history_size\<rparr>,
      sc_safety_policy := default_policy\<lparr>sp_motion_enabled := motion_enabled,
        sp_program_execution_enabled := programs_enabled,
        sp_maximum_joint_speed_percent := maximum_joint_speed,
        sp_maximum_linear_speed_mm_per_second := maximum_linear_speed\<rparr>\<rparr>)))))))))))))))))))"

text \<open>The optional axis count; 0 when it is not given.\<close>

definition read_axis_count :: "config_document \<Rightarrow> nat status_or" where
  "read_axis_count document =
    (case smap_find (cd_scalars document) ''robot.axis_count'' of
       None \<Rightarrow> Inr 0
     | Some v \<Rightarrow>
         (case parse_int_scalar v ''robot.axis_count'' of
            Inl _ \<Rightarrow> Inl (config_error ''robot.axis_count must be a positive integer'')
          | Inr n \<Rightarrow> reject_if (n < 1) ''robot.axis_count must be a positive integer'' (Inr (nat n))))"

fun parse_ranges :: "strtod_fun \<Rightarrow> string list \<Rightarrow> joint_limit list status_or" where
  "parse_ranges strtod [] = Inr []"
| "parse_ranges strtod (v # vs) =
    on_ok (parse_range strtod v ''limits.joint_limits_deg'') (\<lambda>r.
    on_ok (parse_ranges strtod vs) (\<lambda>rs. Inr (r # rs)))"

text \<open>The joint limits, and whether they were given.\<close>

definition read_joint_limits :: "strtod_fun \<Rightarrow> config_document \<Rightarrow> nat \<Rightarrow> safety_policy \<Rightarrow> safety_policy status_or" where
  "read_joint_limits strtod document axis_count policy =
    on_ok (optional_list document ''limits.joint_limits_deg'') (\<lambda>items.
    on_ok (parse_ranges strtod items) (\<lambda>limits.
    let policy = (if items \<noteq> [] then policy\<lparr>sp_joint_limits := limits, sp_joint_limits_verified := True\<rparr>
                  else policy) in
    reject_if (axis_count \<noteq> 0 \<and> sp_joint_limits_verified policy
        \<and> length (sp_joint_limits policy) \<noteq> axis_count)
      ''limits.joint_limits_deg count must match robot.axis_count'' (
    reject_if (sp_motion_enabled policy \<and> \<not> sp_joint_limits_verified policy)
      ''motion requires verified joint limits'' (
    Inr policy))))"

definition read_workspace :: "strtod_fun \<Rightarrow> config_document \<Rightarrow> safety_policy \<Rightarrow> safety_policy status_or" where
  "read_workspace strtod document policy =
    (let frame = smap_find (cd_scalars document) ''limits.cartesian_workspace.frame'';
         x_range = smap_find (cd_scalars document) ''limits.cartesian_workspace.x_mm'';
         y_range = smap_find (cd_scalars document) ''limits.cartesian_workspace.y_mm'';
         z_range = smap_find (cd_scalars document) ''limits.cartesian_workspace.z_mm'' in
     if frame = None \<and> x_range = None \<and> y_range = None \<and> z_range = None then Inr policy
     else case (frame, x_range, y_range, z_range) of
       (Some f, Some xs, Some ys, Some zs) \<Rightarrow>
         reject_if (f = []) ''cartesian workspace requires frame and x_mm/y_mm/z_mm ranges'' (
         on_ok (parse_range strtod xs ''limits.cartesian_workspace.x_mm'') (\<lambda>x.
         on_ok (parse_range strtod ys ''limits.cartesian_workspace.y_mm'') (\<lambda>y.
         on_ok (parse_range strtod zs ''limits.cartesian_workspace.z_mm'') (\<lambda>z.
         Inr (policy\<lparr>sp_cartesian_workspace :=
             \<lparr>minimum_x_mm = minimum_deg x, maximum_x_mm = maximum_deg x,
              minimum_y_mm = minimum_deg y, maximum_y_mm = maximum_deg y,
              minimum_z_mm = minimum_deg z, maximum_z_mm = maximum_deg z\<rparr>,
           sp_cartesian_workspace_frame := f, sp_cartesian_workspace_verified := True\<rparr>)))))
     | _ \<Rightarrow> Inl (config_error ''cartesian workspace requires frame and x_mm/y_mm/z_mm ranges''))"

fun parse_outputs :: "string list \<Rightarrow> u32 list status_or" where
  "parse_outputs [] = Inr []"
| "parse_outputs (v # vs) =
    (case parse_int_scalar v ''writable output'' of
       Inl _ \<Rightarrow> Inl (config_error ''limits.writable_digital_outputs contains an invalid index'')
     | Inr i \<Rightarrow>
         reject_if (i < 0) ''limits.writable_digital_outputs contains an invalid index'' (
         on_ok (parse_outputs vs) (\<lambda>is. Inr (word_of_int i # is))))"

definition load_service_config :: "(string \<Rightarrow> file_content) \<Rightarrow> (string \<Rightarrow> string \<Rightarrow> string + yaml_node)
    \<Rightarrow> strtod_fun \<Rightarrow> string \<Rightarrow> service_config status_or" where
  "load_service_config file ryml strtod path =
    on_ok (load_config_document file ryml path) (\<lambda>document.
    let known_keys = check_known_keys document in
    if \<not> status_ok known_keys then Inl known_keys
    else
    on_ok (parse_int document ''schema_version'') (\<lambda>schema_version.
    reject_if (schema_version \<noteq> 1) ''unsupported schema_version'' (
    on_ok (read_settings document) (\<lambda>config.
    on_ok (read_axis_count document) (\<lambda>axis_count.
    on_ok (read_joint_limits strtod document axis_count (sc_safety_policy config)) (\<lambda>policy.
    on_ok (read_workspace strtod document policy) (\<lambda>policy.
    on_ok (optional_list document ''limits.writable_digital_outputs'') (\<lambda>items.
    on_ok (parse_outputs items) (\<lambda>outputs.
    on_ok (optional_list document ''limits.approved_programs'') (\<lambda>programs.
    reject_if (sp_program_execution_enabled policy \<and> programs = [])
      ''program execution requires approved programs'' (
    Inr (config\<lparr>
      sc_connection := (sc_connection config)\<lparr>co_expected_axis_count := axis_count\<rparr>,
      sc_safety_policy := policy\<lparr>sp_writable_digital_outputs := outputs,
        sp_approved_programs := programs\<rparr>\<rparr>))))))))))))"

section \<open>What a loaded configuration guarantees\<close>

definition proper_range :: "dbl \<Rightarrow> dbl \<Rightarrow> bool" where
  "proper_range a b \<longleftrightarrow> isfinite a \<and> isfinite b \<and> dbl_lt a b"

lemma parse_double_finite: "parse_double strtod v key = Inr d \<Longrightarrow> isfinite d"
  by (auto simp: parse_double_def split: prod.splits if_splits)

lemma parse_range_proper:
  "parse_range strtod v key = Inr r \<Longrightarrow> proper_range (minimum_deg r) (maximum_deg r)"
  using parse_double_finite
  by (auto simp: parse_range_def config_ok proper_range_def Let_def not_dbl_lt_finite [symmetric])

lemma parse_ranges_proper:
  "parse_ranges strtod vs = Inr rs \<Longrightarrow> length rs = length vs
     \<and> (\<forall>r\<in>set rs. proper_range (minimum_deg r) (maximum_deg r))"
  by (induction vs arbitrary: rs) (auto simp: config_ok dest: parse_range_proper)

lemma parse_int_range: "parse_int document key = Inr i \<Longrightarrow> - (2 ^ 31) \<le> i \<and> i \<le> 2 ^ 31 - 1"
  by (clarsimp simp: parse_int_def config_ok) (auto split: option.split_asm prod.split_asm if_split_asm)

lemma optional_list_ok: "optional_list document key = Inr vs \<Longrightarrow>
    smap_find (cd_lists document) key = (if vs = [] then None else Some vs)"
  by (auto simp: optional_list_def config_ok split: option.splits)

text \<open>Timing and capacity settings as \<open>read_settings\<close> accepts them.\<close>

definition settings_ok :: "service_config \<Rightarrow> bool" where
  "settings_ok c \<longleftrightarrow>
    (let o' = sc_executor_options c; p = sc_safety_policy c in
     0 < eo_state_poll_interval o' \<and> eo_state_poll_interval o' \<le> eo_state_stale_after o'
     \<and> eo_state_stale_after o' < 2 ^ 31 \<and> eo_motion_start_grace o' = 500
     \<and> 0 < eo_control_lease_ttl o' \<and> eo_control_lease_ttl o' < 2 ^ 31
     \<and> eo_state_poll_interval o' \<le> eo_jog_heartbeat_timeout o' \<and> eo_jog_heartbeat_timeout o' < 2 ^ 31
     \<and> 0 < eo_maximum_queue_size o' \<and> 0 < eo_maximum_command_history o'
     \<and> 1 \<le> sp_maximum_joint_speed_percent p \<and> sp_maximum_joint_speed_percent p \<le> 100
     \<and> 1 \<le> sp_maximum_linear_speed_mm_per_second p)"

lemma read_settings_ok:
  assumes "read_settings document = Inr c"
  shows "settings_ok c \<and> sp_joint_limits (sc_safety_policy c) = [] \<and> \<not> sp_joint_limits_verified (sc_safety_policy c)
    \<and> \<not> sp_cartesian_workspace_verified (sc_safety_policy c)"
  using assms
  by (auto simp: read_settings_def config_ok settings_ok_def default_service_config_def default_options_def
      default_policy_def Let_def dest!: parse_int_range)

lemma read_joint_limits_ok:
  assumes "read_joint_limits strtod document n policy = Inr policy'"
    and "sp_joint_limits policy = []" "\<not> sp_joint_limits_verified policy"
  shows "\<exists>ls v. policy' = policy\<lparr>sp_joint_limits := ls, sp_joint_limits_verified := v\<rparr>
    \<and> (v \<longleftrightarrow> ls \<noteq> []) \<and> (\<forall>l\<in>set ls. proper_range (minimum_deg l) (maximum_deg l))
    \<and> (n \<noteq> 0 \<longrightarrow> v \<longrightarrow> length ls = n) \<and> (sp_motion_enabled policy \<longrightarrow> v)"
proof -
  obtain items ls where o': "parse_ranges strtod items = Inr ls"
    and p: "policy' = (if items \<noteq> [] then policy\<lparr>sp_joint_limits := ls, sp_joint_limits_verified := True\<rparr> else policy)"
    and c: "\<not> (n \<noteq> 0 \<and> sp_joint_limits_verified policy' \<and> length (sp_joint_limits policy') \<noteq> n)"
      "\<not> (sp_motion_enabled policy' \<and> \<not> sp_joint_limits_verified policy')"
    using assms(1) unfolding read_joint_limits_def Let_def by (auto simp: config_ok)
  note r = parse_ranges_proper [OF o']
  show ?thesis
  proof (cases "items = []")
    case True
    then show ?thesis using p c assms(2,3) by (intro exI [of _ "[]"] exI [of _ False]) auto
  next
    case False
    then show ?thesis using p c r by (intro exI [of _ ls] exI [of _ True]) auto
  qed
qed

definition proper_workspace :: "cartesian_workspace \<Rightarrow> bool" where
  "proper_workspace w \<longleftrightarrow> proper_range (minimum_x_mm w) (maximum_x_mm w)
     \<and> proper_range (minimum_y_mm w) (maximum_y_mm w) \<and> proper_range (minimum_z_mm w) (maximum_z_mm w)"

lemma read_workspace_ok:
  assumes "read_workspace strtod document policy = Inr p"
  shows "sp_motion_enabled p = sp_motion_enabled policy" "sp_joint_limits p = sp_joint_limits policy"
    "sp_joint_limits_verified p = sp_joint_limits_verified policy"
    "sp_program_execution_enabled p = sp_program_execution_enabled policy"
    "sp_maximum_joint_speed_percent p = sp_maximum_joint_speed_percent policy"
    "sp_maximum_linear_speed_mm_per_second p = sp_maximum_linear_speed_mm_per_second policy"
    "sp_cartesian_workspace_verified p \<Longrightarrow> sp_cartesian_workspace_verified policy
       \<or> sp_cartesian_workspace_frame p \<noteq> [] \<and> proper_workspace (sp_cartesian_workspace p)"
  using assms
  by (auto simp: read_workspace_def config_ok proper_workspace_def Let_def
      dest!: parse_range_proper split: option.splits if_splits)

lemma load_service_config_stages:
  assumes "load_service_config file ryml strtod path = Inr c"
  obtains document c0 n p1 p2 outputs programs where "load_config_document file ryml path = Inr document"
    "status_ok (check_known_keys document)" "read_settings document = Inr c0" "read_axis_count document = Inr n"
    "read_joint_limits strtod document n (sc_safety_policy c0) = Inr p1" "read_workspace strtod document p1 = Inr p2"
    "sp_program_execution_enabled p2 \<longrightarrow> programs \<noteq> []"
    "c = c0\<lparr>sc_connection := (sc_connection c0)\<lparr>co_expected_axis_count := n\<rparr>,
      sc_safety_policy := p2\<lparr>sp_writable_digital_outputs := outputs, sp_approved_programs := programs\<rparr>\<rparr>"
  using assms unfolding load_service_config_def Let_def
  by (clarsimp simp: config_ok split: if_split_asm)

text \<open>All that the checks of the loader establish.\<close>

definition config_safe :: "service_config \<Rightarrow> bool" where
  "config_safe c \<longleftrightarrow> settings_ok c \<and> (let p = sc_safety_policy c; n = co_expected_axis_count (sc_connection c) in
      (sp_motion_enabled p \<longrightarrow> sp_joint_limits_verified p)
    \<and> (sp_joint_limits_verified p \<longleftrightarrow> sp_joint_limits p \<noteq> [])
    \<and> (\<forall>l\<in>set (sp_joint_limits p). proper_range (minimum_deg l) (maximum_deg l))
    \<and> (n \<noteq> 0 \<and> sp_joint_limits_verified p \<longrightarrow> length (sp_joint_limits p) = n)
    \<and> (sp_cartesian_workspace_verified p \<longrightarrow> sp_cartesian_workspace_frame p \<noteq> []
         \<and> proper_workspace (sp_cartesian_workspace p))
    \<and> (sp_program_execution_enabled p \<longrightarrow> sp_approved_programs p \<noteq> []))"

lemma load_safe:
  assumes "load_service_config file ryml strtod path = Inr c"
  shows "config_safe c"
proof -
  obtain document c0 n p1 p2 outputs programs where st:
    "read_settings document = Inr c0" "read_joint_limits strtod document n (sc_safety_policy c0) = Inr p1"
    "read_workspace strtod document p1 = Inr p2" "sp_program_execution_enabled p2 \<longrightarrow> programs \<noteq> []"
    "c = c0\<lparr>sc_connection := (sc_connection c0)\<lparr>co_expected_axis_count := n\<rparr>,
      sc_safety_policy := p2\<lparr>sp_writable_digital_outputs := outputs, sp_approved_programs := programs\<rparr>\<rparr>"
    using load_service_config_stages [OF assms] by metis
  note s = read_settings_ok [OF st(1)]
  obtain ls v where p1: "p1 = (sc_safety_policy c0)\<lparr>sp_joint_limits := ls, sp_joint_limits_verified := v\<rparr>"
    "v \<longleftrightarrow> ls \<noteq> []" "\<forall>l\<in>set ls. proper_range (minimum_deg l) (maximum_deg l)"
    "n \<noteq> 0 \<longrightarrow> v \<longrightarrow> length ls = n" "sp_motion_enabled (sc_safety_policy c0) \<longrightarrow> v"
    using read_joint_limits_ok [OF st(2)] s by blast
  note w = read_workspace_ok [OF st(3)]
  have "settings_ok c" using s w(5,6) st(5) p1(1) by (simp add: settings_ok_def Let_def)
  moreover have "sp_motion_enabled (sc_safety_policy c) \<longrightarrow> sp_joint_limits_verified (sc_safety_policy c)"
    using w(1,3) st(5) p1(1,5) by simp
  moreover have "sp_cartesian_workspace_verified (sc_safety_policy c) \<longrightarrow> sp_cartesian_workspace_frame (sc_safety_policy c) \<noteq> []
      \<and> proper_workspace (sp_cartesian_workspace (sc_safety_policy c))"
    using w(7) s st(5) p1(1) by simp
  ultimately show ?thesis using w(2,3,4) st(4,5) p1 by (simp add: config_safe_def Let_def)
qed

text \<open>
  Claim C11. Only safe settings load: in every configuration that loads, motion is enabled
  only with verified joint limits; the limits are verified exactly when some are given, each
  a finite proper range, one per axis when the axis count is set; a verified workspace has a
  frame and finite proper ranges; speeds are within 1 to 100 percent and at least 1 mm/s;
  programs are enabled only with a list of approved ones; timings and capacities are positive,
  in order and small enough to be exact in nanoseconds.
\<close>

theorem loaded_config_is_safe:
  assumes "load_service_config file ryml strtod path = Inr c"
  shows "settings_ok c \<and> (let p = sc_safety_policy c; n = co_expected_axis_count (sc_connection c) in
      (sp_motion_enabled p \<longrightarrow> sp_joint_limits_verified p)
    \<and> (sp_joint_limits_verified p \<longleftrightarrow> sp_joint_limits p \<noteq> [])
    \<and> (\<forall>l\<in>set (sp_joint_limits p). proper_range (minimum_deg l) (maximum_deg l))
    \<and> (n \<noteq> 0 \<and> sp_joint_limits_verified p \<longrightarrow> length (sp_joint_limits p) = n)
    \<and> (sp_cartesian_workspace_verified p \<longrightarrow> sp_cartesian_workspace_frame p \<noteq> []
         \<and> proper_workspace (sp_cartesian_workspace p))
    \<and> (sp_program_execution_enabled p \<longrightarrow> sp_approved_programs p \<noteq> []))"
  using load_safe [OF assms] unfolding config_safe_def .

section \<open>A configuration for the witnesses\<close>

definition demo_strtod :: strtod_fun where
  "demo_strtod s = (if s = ''1'' then (Fin 1, 1, False)
     else if s = ''-1'' then (Fin (- 1), 2, False) else (NaN, 0, False))"

definition demo_site_tree :: "string \<Rightarrow> string \<Rightarrow> string \<Rightarrow> string list \<Rightarrow> string \<Rightarrow> yaml_node" where
  "demo_site_tree driver model axes limits history = demo_section [] [
     demo_scalar ''schema_version'' ''1'',
     demo_section ''service'' [demo_scalar ''instance_id'' ''cell-1'', demo_scalar ''state_poll_ms'' ''50'',
       demo_scalar ''state_stale_after_ms'' ''500'', demo_scalar ''command_queue_capacity'' ''16'',
       demo_scalar ''command_history_capacity'' history],
     demo_section ''robot'' [demo_scalar ''id'' ''r1'', demo_scalar ''driver'' driver,
       demo_scalar ''address'' ''10.0.0.2'', demo_scalar ''model'' model, demo_scalar ''axis_count'' axes,
       demo_scalar ''verify_sdk_version'' ''true'', demo_scalar ''sdk_debug_logging'' ''false''],
     demo_section ''control_lease'' [demo_scalar ''ttl_ms'' ''3000'', demo_scalar ''jog_heartbeat_timeout_ms'' ''300''],
     demo_section ''limits'' [demo_scalar ''motion_enabled'' ''true'',
       demo_scalar ''program_execution_enabled'' ''false'', demo_scalar ''maximum_joint_speed_percent'' ''20'',
       demo_scalar ''maximum_linear_speed_mm_per_second'' ''500'', demo_list ''joint_limits_deg'' limits]]"

definition demo_tree :: "string \<Rightarrow> yaml_node" where
  "demo_tree = demo_site_tree ''mock'' ''mock'' ''1'' [''-1:1'']"

definition demo_load :: "string \<Rightarrow> service_config status_or" where
  "demo_load history = load_service_config (\<lambda>_. Content []) (\<lambda>_ _. Inr (demo_tree history)) demo_strtod ''robot.yaml''"

lemma demo_loads:
  "case demo_load ''16'' of Inl _ \<Rightarrow> False
   | Inr c \<Rightarrow> eo_maximum_command_history (sc_executor_options c) = eo_maximum_queue_size (sc_executor_options c)"
  by code_simp

theorem loaded_config_is_safe_witness:
  "\<exists>c. demo_load ''16'' = Inr c \<and> settings_ok c"
proof -
  obtain c where c: "demo_load ''16'' = Inr c" using demo_loads by (cases "demo_load ''16''") auto
  then show ?thesis using loaded_config_is_safe [OF c [unfolded demo_load_def]] by blast
qed

text \<open>
  Claim C38. What the loader leaves to \<open>Start\<close>: of a loaded configuration the executor
  refuses exactly those whose command history is not larger than its queue, a relation the
  loader does not check; all of its time limits are exact in nanoseconds.
\<close>

theorem loaded_config_meets_start:
  assumes "load_service_config file ryml strtod path = Inr c" and "o' = sc_executor_options c"
  shows "options_invalid o' = (eo_maximum_command_history o' \<le> eo_maximum_queue_size o')
    \<and> (\<forall>ms. 0 \<le> ms \<and> ms \<le> max (eo_state_stale_after o') (max (eo_control_lease_ttl o') (eo_jog_heartbeat_timeout o'))
         \<longrightarrow> ns_of_ms ms = ms * 1000000)"
proof -
  obtain document c0 n p1 p2 outputs programs where st: "read_settings document = Inr c0"
    "c = c0\<lparr>sc_connection := (sc_connection c0)\<lparr>co_expected_axis_count := n\<rparr>,
      sc_safety_policy := p2\<lparr>sp_writable_digital_outputs := outputs, sp_approved_programs := programs\<rparr>\<rparr>"
    using load_service_config_stages [OF assms(1)] by metis
  have "settings_ok c0" using read_settings_ok [OF st(1)] by blast
  then have ok: "0 < eo_state_poll_interval o'" "eo_state_poll_interval o' \<le> eo_state_stale_after o'"
    "eo_state_stale_after o' < 2 ^ 31" "eo_motion_start_grace o' = 500" "0 < eo_control_lease_ttl o'"
    "eo_control_lease_ttl o' < 2 ^ 31" "eo_state_poll_interval o' \<le> eo_jog_heartbeat_timeout o'"
    "eo_jog_heartbeat_timeout o' < 2 ^ 31" "0 < eo_maximum_queue_size o'"
    unfolding settings_ok_def Let_def assms(2) st(2) by simp_all
  have "ns_of_ms ms = ms * 1000000"
    if "0 \<le> ms" "ms \<le> max (eo_state_stale_after o') (max (eo_control_lease_ttl o') (eo_jog_heartbeat_timeout o'))" for ms
    using that ok by (intro ns_of_ms_int32) auto
  moreover have "options_invalid o' = (eo_maximum_command_history o' \<le> eo_maximum_queue_size o')"
    using ok by (auto simp: options_invalid_def)
  ultimately show ?thesis by blast
qed

theorem loaded_config_meets_start_witness:
  "\<exists>c. demo_load ''16'' = Inr c \<and> options_invalid (sc_executor_options c)"
proof -
  obtain c where c: "demo_load ''16'' = Inr c"
    "eo_maximum_command_history (sc_executor_options c) = eo_maximum_queue_size (sc_executor_options c)"
    using demo_loads by (cases "demo_load ''16''") auto
  then show ?thesis using loaded_config_meets_start [OF c(1) [unfolded demo_load_def] refl] by auto
qed

end
