(* ===== verification/GuardedAdapter.thy ===== *)
theory GuardedAdapter
  imports EfortSafety ConfigLoader
begin

text \<open>
  The guard, the configuration and the EFORT adapter together: the adapter repeats some of the
  guard's checks, and for a six-axis configuration the guard's are the stronger ones.
\<close>

section \<open>Errors that come from the SDK\<close>

definition sdk_error :: "'w sdk \<Rightarrow> status \<Rightarrow> bool" where
  "sdk_error R st \<longleftrightarrow>
    (\<exists>code operation. code \<noteq> sdk_constant R ERROR_OK \<and> st = map_efort_error (sdk_constant R) code operation)"

text \<open>The outcome of a call that the adapter itself does not refuse.\<close>

definition sdk_decides :: "'w sdk \<Rightarrow> status \<times> 'w efort \<Rightarrow> bool" where
  "sdk_decides R r \<longleftrightarrow> fst r = StatusOk \<or> sdk_error R (fst r)"

lemma mapped_decides [simp]: "sdk_decides R (map_efort_error (sdk_constant R) code operation, d)"
  by (cases "code = sdk_constant R ERROR_OK") (auto simp: sdk_decides_def sdk_error_def map_efort_error_def)

lemma ok_decides [simp]: "sdk_decides R (StatusOk, d)"
  by (simp add: sdk_decides_def)

lemma do_decides [simp]: "sdk_decides R (sdk_do R call operation d)"
  by (simp add: sdk_do_def case_prod_beta)

lemma get_decides: "sdk_get R query operation d = (st, v, d') \<Longrightarrow> sdk_decides R (st, d'')"
  by (auto simp: sdk_get_def case_prod_beta)

lemma and_then_decides [intro!]:
  "sdk_decides R r \<Longrightarrow> (\<And>d. sdk_decides R (k d)) \<Longrightarrow> sdk_decides R (and_then r k)"
  by (simp add: and_then_def)

lemma decides_status: "sdk_decides R (st, d) \<longleftrightarrow> sdk_decides R (st, d')"
  by (simp add: sdk_decides_def)

lemma call_jog_decides [simp]: "sdk_decides R (call_jog R j b d)"
  by (simp add: call_jog_def Let_def case_prod_beta)

lemma stop_jog_decides [simp]: "sdk_decides R (stop_active_jog R d)"
  using call_jog_decides [of R "ef_active_jog d" False d]
  by (simp add: stop_active_jog_def sdk_decides_def case_prod_beta)

lemma jog_decides:
  assumes "1 \<le> jc_axis j" "unat (jc_axis j) \<le> efort_axis_count"
  shows "sdk_decides R (efort_jog R j d)"
proof -
  have "sdk_decides R (let (status, d1) = call_jog R j True d in (status,
      if status_ok status then d1\<lparr>ef_active_jog := j, ef_has_active_jog := True\<rparr> else d1))" for d
    using call_jog_decides [of R j True d] by (simp add: sdk_decides_def case_prod_beta)
  then show ?thesis using assms leD [OF assms(1)] by (auto simp: efort_jog_def)
qed

lemma status_decides: "sdk_decides R r \<Longrightarrow> sdk_decides R (case r of (st, d1) \<Rightarrow> (st, f st d1))"
  by (simp add: sdk_decides_def case_prod_beta)

lemma program_part_decides [simp]: "sdk_decides R (stop_program_part R d)"
  using get_decides by (auto simp: stop_program_part_def Let_def split: prod.splits)

lemma motion_part_decides [simp]: "sdk_decides R (stop_motion_part R d)"
  using get_decides by (auto simp: stop_motion_part_def Let_def split: prod.splits)

lemma power_off_decides [simp]: "sdk_decides R (efort_power_off R d)"
  by (auto simp: efort_power_off_def)

lemma stop_decides: "mode \<noteq> kQuick \<Longrightarrow> sdk_decides R (efort_stop R mode d)"
  by (auto simp: efort_stop_def)

lemma frames_decide [simp]: "sdk_decides R (select_frames R tool wobj d)"
  by (auto simp: select_frames_def)

text \<open>The one refusal that depends on the controller: clearing faults in emergency stop.\<close>

definition emergency_now :: "'w sdk \<Rightarrow> 'w efort \<Rightarrow> bool" where
  "emergency_now R d \<longleftrightarrow> fst (snd (sdk_get R (GetCurrentEmgStatus R False) ''GetCurrentEmgStatus'' d))"

lemma clear_fault_decides: "\<not> emergency_now R d \<Longrightarrow> sdk_decides R (efort_clear_fault R d)"
  using get_decides by (auto simp: efort_clear_fault_def emergency_now_def Let_def split: prod.splits)

lemma plain_calls_decide:
  "sdk_decides R (efort_acquire_control R d)" "sdk_decides R (efort_release_control R d)"
  "sdk_decides R (efort_power_on R d)" "sdk_decides R (efort_hold R d)" "sdk_decides R (efort_resume R d)"
  "sdk_decides R (efort_start_program R d)" "sdk_decides R (efort_stop_program R d)"
  "sdk_decides R (efort_move_l R lt lp d)" "sdk_decides R (efort_move_c R ct cp d)"
  by (auto simp: efort_acquire_control_def efort_release_control_def efort_power_on_def efort_hold_def
      efort_resume_def efort_start_program_def efort_stop_program_def efort_move_l_def efort_move_c_def
      intro!: status_decides)

section \<open>What the guard's checks imply\<close>

text \<open>What the guard must know for its checks to cover the adapter's.\<close>

definition six_axes :: "safety_policy \<Rightarrow> bool" where
  "six_axes pol \<longleftrightarrow> length (sp_joint_limits pol) = efort_axis_count
     \<and> 1 \<le> sp_maximum_joint_speed_percent pol \<and> sp_maximum_joint_speed_percent pol \<le> 100"

lemma speed_in_range:
  assumes "six_axes pol" and "speed_permits pol ratio"
  shows "\<not> (ratio < 1 \<or> ratio > 100)"
proof -
  have "unat (max_speed_unsigned pol) \<le> 100"
    using assms(1) by (simp add: six_axes_def max_speed_unsigned_def unsigned_of_int take_bit_int_eq_self nat_le_iff)
  then show ?thesis
    using assms(2) unat_gt_0 [of ratio] by (auto simp: speed_permits_def word_le_nat_alt word_less_nat_alt)
qed

text \<open>The commands the adapter may refuse by itself although the guard let them through.\<close>

definition adapter_only :: "'w sdk \<Rightarrow> 'w efort \<Rightarrow> command_request \<Rightarrow> bool" where
  "adapter_only R d rq \<longleftrightarrow>
     rq_type rq = kStop \<and> rq_payload rq = StopPayload kQuick
   \<or> rq_type rq = kClearFault \<and> emergency_now R d
   \<or> rq_type rq = kWriteDigitalOutput
       \<and> (\<exists>p. rq_payload rq = DigitalOutputPayload p \<and> efort_digital_io_count \<le> unat (do_index p))"

lemma payload_kinds:
  "payload_permits pol sn ja kStop payload \<Longrightarrow> payload = Monostate \<or> (\<exists>m. payload = StopPayload m)"
  "payload_permits pol sn ja kMoveL payload \<Longrightarrow> \<exists>m. payload = MoveLPayload m"
  "payload_permits pol sn ja kMoveC payload \<Longrightarrow> \<exists>m. payload = MoveCPayload m"
  by (cases payload; auto simp: payload_permits_def)+

lemma axis_positive: "a \<noteq> 0 \<Longrightarrow> Suc 0 \<le> unat (a :: u32)"
  using unat_gt_0 [of a] by simp

lemma payload_decides:
  assumes "six_axes pol" and "payload_permits pol sn ja t payload"
  shows "t = kSetGlobalSpeed \<Longrightarrow> \<exists>r. payload = SpeedPayload r \<and> sdk_decides R (efort_set_global_speed R r d)"
    and "t = kMoveJ \<Longrightarrow> \<exists>m. payload = MoveJPayload m \<and> sdk_decides R (efort_move_j R (mj_target m) (mj_profile m) d)"
    and "t = kJog \<Longrightarrow> \<exists>j. payload = JogPayload j \<and> sdk_decides R (efort_jog R j d)"
    and "t = kLoadProgram \<Longrightarrow> \<exists>n. payload = ProgramPayload n \<and> sdk_decides R (efort_load_program R n d)"
    and "t = kWriteDigitalOutput \<Longrightarrow> \<exists>p. payload = DigitalOutputPayload p
      \<and> (unat (do_index p) < efort_digital_io_count \<longrightarrow> sdk_decides R (efort_write_digital_output R (do_index p) (do_value p) d))"
proof -
  note permits = assms(2) [unfolded payload_permits_def]
  show "\<exists>r. payload = SpeedPayload r \<and> sdk_decides R (efort_set_global_speed R r d)" if "t = kSetGlobalSpeed"
    using permits that speed_in_range [OF assms(1)]
    by (cases payload) (auto simp: efort_set_global_speed_def)
  show "\<exists>m. payload = MoveJPayload m \<and> sdk_decides R (efort_move_j R (mj_target m) (mj_profile m) d)" if "t = kMoveJ"
    using permits that assms(1)
    by (cases payload) (auto simp: efort_move_j_def move_j_permits_def joints_within_def six_axes_def dest: list_all2_lengthD)
  show "\<exists>j. payload = JogPayload j \<and> sdk_decides R (efort_jog R j d)" if "t = kJog"
    using permits that assms(1)
    by (cases payload) (auto simp: jog_permits_def six_axes_def efort_axis_count_def word_le_nat_alt axis_positive intro!: jog_decides)
  show "\<exists>n. payload = ProgramPayload n \<and> sdk_decides R (efort_load_program R n d)" if "t = kLoadProgram"
    using permits that by (cases payload) (auto simp: efort_load_program_def)
  show "\<exists>p. payload = DigitalOutputPayload p
      \<and> (unat (do_index p) < efort_digital_io_count \<longrightarrow> sdk_decides R (efort_write_digital_output R (do_index p) (do_value p) d))"
    if "t = kWriteDigitalOutput"
    using permits that by (cases payload) (auto simp: efort_write_digital_output_def)
qed

lemma permitted_decides:
  assumes "six_axes pol" and "permitted pol rq sn lease ja" and "\<not> adapter_only R d rq"
  shows "\<exists>r. execute (efort_driver R) rq d = (Returned (fst r), snd r) \<and> sdk_decides R r"
proof -
  have permits: "payload_permits pol sn ja (rq_type rq) (rq_payload rq)" using assms(2) by (simp add: permitted_def)
  note unfolds = execute_def efort_driver_def no_throw_def
  note calls = payload_decides [OF assms(1) permits, of R d]
  show ?thesis
  proof (cases "rq_type rq")
    case kStop
    then show ?thesis
      using payload_kinds(1) [OF permits [unfolded kStop]] assms(3) stop_decides [of _ R d]
      by (fastforce simp: unfolds adapter_only_def)
  next
    case kMoveL
    then show ?thesis
      using payload_kinds(2) [OF permits [unfolded kMoveL]] plain_calls_decide(8) [of R]
      by (fastforce simp: unfolds)
  next
    case kMoveC
    then show ?thesis
      using payload_kinds(3) [OF permits [unfolded kMoveC]] plain_calls_decide(9) [of R]
      by (fastforce simp: unfolds)
  next
    case kClearFault
    then show ?thesis using assms(3) clear_fault_decides [of R d] by (fastforce simp: unfolds adapter_only_def)
  next
    case kWriteDigitalOutput
    then show ?thesis using calls(5) assms(3) by (fastforce simp: unfolds adapter_only_def not_le)
  next
    case kSetGlobalSpeed
    then show ?thesis using calls(1) by (fastforce simp: unfolds)
  next
    case kMoveJ
    then show ?thesis using calls(2) by (fastforce simp: unfolds)
  next
    case kJog
    then show ?thesis using calls(3) by (fastforce simp: unfolds)
  next
    case kLoadProgram
    then show ?thesis using calls(4) by (fastforce simp: unfolds)
  qed (use plain_calls_decide(1-7) [of R d] in \<open>fastforce simp: unfolds\<close>)+
qed

section \<open>The claim\<close>

lemma loaded_six_axes:
  assumes "load_service_config file ryml strtod path = Inr c"
    and "co_expected_axis_count (sc_connection c) = efort_axis_count"
    and "sp_joint_limits (sc_safety_policy c) \<noteq> []"
  shows "six_axes (sc_safety_policy c)"
  using load_safe [OF assms(1)] assms(2,3)
  by (auto simp: config_safe_def settings_ok_def six_axes_def efort_axis_count_def Let_def)

text \<open>
  Claim C13. The guard covers the adapter: with a loaded configuration of six axes with joint
  limits, a command the guard permits never fails in the EFORT adapter's own checks; every
  error it reports is one the SDK returned, translated, except for a quick stop (which the
  SDK does not have), an emergency stop seen only when clearing a fault, and a digital output
  above 175 that the configuration lists as writable.
\<close>

theorem guard_covers_adapter:
  assumes "load_service_config file ryml strtod path = Inr c"
    and "co_expected_axis_count (sc_connection c) = efort_axis_count" and "sp_joint_limits (sc_safety_policy c) \<noteq> []"
    and "status_ok (validate (sc_safety_policy c) rq sn lease ja)"
    and "execute (efort_driver R) rq d = (r, d')"
    and "rq_payload rq \<noteq> StopPayload kQuick"
    and "\<And>p. rq_payload rq = DigitalOutputPayload p \<Longrightarrow> unat (do_index p) < efort_digital_io_count"
    and "rq_type rq = kClearFault \<Longrightarrow> \<not> emergency_now R d"
  shows "r = Returned StatusOk
    \<or> (\<exists>code operation. code \<noteq> sdk_constant R ERROR_OK
         \<and> r = Returned (map_efort_error (sdk_constant R) code operation))"
proof -
  have "permitted (sc_safety_policy c) rq sn lease ja" using assms(4) by (simp add: validate_ok_iff)
  moreover have "\<not> adapter_only R d rq" using assms(6-8) by (fastforce simp: adapter_only_def)
  ultimately obtain x where x: "execute (efort_driver R) rq d = (Returned (fst x), snd x)" "sdk_decides R x"
    using permitted_decides [OF loaded_six_axes [OF assms(1-3)]] by blast
  then show ?thesis using assms(5) by (auto simp: sdk_decides_def sdk_error_def)
qed

definition demo_arm :: yaml_node where
  "demo_arm = demo_site_tree ''efort'' ''ER7-900'' ''6'' (replicate 6 ''-1:1'') ''64''"

definition demo_manual :: robot_snapshot where
  "demo_manual = default_snapshot\<lparr>sn_lifecycle := kReady, sn_connected := True, sn_api_control := True,
     sn_controller_mode := kManual, sn_servo_on := True, sn_speed_ratio := 10\<rparr>"

definition demo_jog :: command_request where
  "demo_jog = default_request\<lparr>rq_type := kJog, rq_payload := JogPayload default_jog, rq_client_id := ''cell'',
     rq_lease_id := ''lease-1-1'', rq_idempotency_key := ''j1''\<rparr>"

lemma demo_arm_loads:
  "case load_service_config (\<lambda>_. Content []) (\<lambda>_ _. Inr demo_arm) demo_strtod ''robot.yaml'' of Inl _ \<Rightarrow> False
   | Inr c \<Rightarrow> co_expected_axis_count (sc_connection c) = efort_axis_count
       \<and> sp_joint_limits (sc_safety_policy c) \<noteq> []
       \<and> status_ok (validate (sc_safety_policy c) demo_jog demo_manual True False)"
  by code_simp

theorem guard_covers_adapter_witness:
  "\<exists>code operation. code \<noteq> demo_constants ERROR_OK
     \<and> fst (execute (efort_driver demo_sdk) demo_jog (demo_efort True))
       = Returned (map_efort_error demo_constants code operation)"
proof -
  obtain c where c: "load_service_config (\<lambda>_. Content []) (\<lambda>_ _. Inr demo_arm) demo_strtod ''robot.yaml'' = Inr c"
    "co_expected_axis_count (sc_connection c) = efort_axis_count" "sp_joint_limits (sc_safety_policy c) \<noteq> []"
    "status_ok (validate (sc_safety_policy c) demo_jog demo_manual True False)"
    using demo_arm_loads by (auto split: sum.splits)
  obtain r d' where e: "execute (efort_driver demo_sdk) demo_jog (demo_efort True) = (r, d')" by fastforce
  have "fst (execute (efort_driver demo_sdk) demo_jog (demo_efort True)) \<noteq> Returned StatusOk" by code_simp
  then have "r \<noteq> Returned StatusOk" by (simp add: e)
  moreover have "rq_payload demo_jog = JogPayload default_jog" "rq_type demo_jog = kJog" by (simp_all add: demo_jog_def)
  ultimately have "\<exists>code operation. code \<noteq> sdk_constant demo_sdk ERROR_OK
      \<and> r = Returned (map_efort_error (sdk_constant demo_sdk) code operation)"
    using guard_covers_adapter [OF c e] by simp
  moreover have "sdk_constant demo_sdk = demo_constants" by (simp add: demo_sdk_def)
  ultimately show ?thesis by (simp add: e)
qed

end
