(* ===== verification/GrpcEndpoint.thy ===== *)
theory GrpcEndpoint
  imports ExecutorOps "HOL-Library.Signed_Division"
begin

text \<open>
  \<open>apps/robot_manager/transport/grpc_server.cc\<close>: the protocol endpoint in front of the
  executor. Protocol messages are records of the fields of \<open>robot_control.proto\<close>; protocol
  enums are open, hence integers with the numbers of the \<open>.proto\<close> file. What gRPC itself
  does (connections, threads, certificate verification) is outside: a call sees its peer's
  verified identities.
\<close>

section \<open>Protocol vocabulary\<close>

datatype grpc_code = GRPC_OK | UNAUTHENTICATED | INVALID_ARGUMENT | FAILED_PRECONDITION
  | PERMISSION_DENIED | NOT_FOUND | ALREADY_EXISTS | RESOURCE_EXHAUSTED | UNAVAILABLE
  | DEADLINE_EXCEEDED | INTERNAL

record grpc_status =
  gs_code :: grpc_code
  gs_message :: string

abbreviation GrpcStatus :: "grpc_code \<Rightarrow> string \<Rightarrow> grpc_status" where
  "GrpcStatus c m \<equiv> \<lparr>gs_code = c, gs_message = m\<rparr>"

definition grpc_ok :: "grpc_status \<Rightarrow> bool" where
  "grpc_ok s = (gs_code s = GRPC_OK)"

primrec grpc_code_of :: "status_code \<Rightarrow> grpc_code" where
  "grpc_code_of kOk = GRPC_OK"
| "grpc_code_of kInvalidArgument = INVALID_ARGUMENT"
| "grpc_code_of kFailedPrecondition = FAILED_PRECONDITION"
| "grpc_code_of kControllerFault = FAILED_PRECONDITION"
| "grpc_code_of kPermissionDenied = PERMISSION_DENIED"
| "grpc_code_of kNotFound = NOT_FOUND"
| "grpc_code_of kAlreadyExists = ALREADY_EXISTS"
| "grpc_code_of kResourceExhausted = RESOURCE_EXHAUSTED"
| "grpc_code_of kUnavailable = UNAVAILABLE"
| "grpc_code_of kDeadlineExceeded = DEADLINE_EXCEEDED"
| "grpc_code_of kInternal = INTERNAL"

definition to_grpc_status :: "status \<Rightarrow> grpc_status" where
  "to_grpc_status status =
    (if status_ok status then GrpcStatus GRPC_OK []
     else GrpcStatus (grpc_code_of (st_code status)) (st_message status))"

primrec to_proto_command_state :: "command_state \<Rightarrow> int" where
  "to_proto_command_state kQueued = 1"
| "to_proto_command_state kRunning = 2"
| "to_proto_command_state kSucceeded = 3"
| "to_proto_command_state kFailed = 4"
| "to_proto_command_state kCancelled = 5"
| "to_proto_command_state kTimedOut = 6"
| "to_proto_command_state kStopped = 7"

primrec to_proto_lifecycle_state :: "robot_lifecycle_state \<Rightarrow> int" where
  "to_proto_lifecycle_state kDisconnected = 1"
| "to_proto_lifecycle_state kConnecting = 2"
| "to_proto_lifecycle_state kStandby = 3"
| "to_proto_lifecycle_state kReady = 4"
| "to_proto_lifecycle_state kExecuting = 5"
| "to_proto_lifecycle_state kPaused = 6"
| "to_proto_lifecycle_state kFault = 7"
| "to_proto_lifecycle_state kEmergencyStop = 8"
| "to_proto_lifecycle_state kLifecycleUnknown = 9"

primrec to_proto_controller_mode :: "controller_mode \<Rightarrow> int" where
  "to_proto_controller_mode kManual = 1"
| "to_proto_controller_mode kManualFast = 2"
| "to_proto_controller_mode kAutomatic = 3"
| "to_proto_controller_mode kModeUnknown = 4"

record pb_pose =
  pp_x_mm :: dbl
  pp_y_mm :: dbl
  pp_z_mm :: dbl
  pp_a_deg :: dbl
  pp_b_deg :: dbl
  pp_c_deg :: dbl
  pp_configuration :: int
  pp_joint_1_turn :: int
  pp_joint_4_turn :: int
  pp_joint_6_turn :: int

definition from_proto_pose :: "pb_pose \<Rightarrow> cartesian_pose" where
  "from_proto_pose pose = \<lparr>x_mm = pp_x_mm pose, y_mm = pp_y_mm pose, z_mm = pp_z_mm pose,
     a_deg = pp_a_deg pose, b_deg = pp_b_deg pose, c_deg = pp_c_deg pose,
     configuration = pp_configuration pose, joint_1_turn = pp_joint_1_turn pose,
     joint_4_turn = pp_joint_4_turn pose, joint_6_turn = pp_joint_6_turn pose\<rparr>"

definition populate_pose :: "cartesian_pose \<Rightarrow> pb_pose" where
  "populate_pose pose = \<lparr>pp_x_mm = x_mm pose, pp_y_mm = y_mm pose, pp_z_mm = z_mm pose,
     pp_a_deg = a_deg pose, pp_b_deg = b_deg pose, pp_c_deg = c_deg pose,
     pp_configuration = configuration pose, pp_joint_1_turn = joint_1_turn pose,
     pp_joint_4_turn = joint_4_turn pose, pp_joint_6_turn = joint_6_turn pose\<rparr>"

section \<open>Commands\<close>

record pb_move_j =
  pj_target :: "dbl list"
  pj_speed_percent :: int
  pj_blend :: dbl
  pj_tool_name :: string
  pj_work_object_name :: string

record pb_move_l =
  pl_target :: pb_pose
  pl_speed_mm_per_second :: int
  pl_blend_mm :: dbl
  pl_tool_name :: string
  pl_work_object_name :: string

record pb_move_c =
  pc_via :: pb_pose
  pc_target :: pb_pose
  pc_speed_mm_per_second :: int
  pc_blend_mm :: dbl
  pc_tool_name :: string
  pc_work_object_name :: string

record pb_jog =
  pg_frame :: int
  pg_axis :: u32
  pg_direction :: int
  pg_start :: bool

datatype pb_command =
    PbAcquireControl | PbReleaseControl | PbPowerOn | PbPowerOff | PbClearFault
  | PbSetGlobalSpeed u32 | PbMoveJ pb_move_j | PbMoveL pb_move_l | PbMoveC pb_move_c
  | PbHold | PbResume | PbStop int | PbJog pb_jog | PbWriteDigitalOutput u32 bool
  | PbLoadProgram string | PbStartProgram | PbStopProgram | PbCommandNotSet

record pb_command_request =
  pr_robot_id :: string
  pr_client_id :: string
  pr_lease_id :: string
  pr_idempotency_key :: string
  pr_timeout_ms :: int
  pr_command :: pb_command

definition to_stop_mode :: "int \<Rightarrow> stop_mode" where
  "to_stop_mode mode = (if mode = 2 then kQuick else if mode = 3 then kPowerOffRequest else kControlled)"

definition to_jog_frame :: "int \<Rightarrow> jog_frame" where
  "to_jog_frame frame = (if frame = 2 then kRobot else if frame = 3 then kTool
     else if frame = 4 then kUser else if frame = 5 then kWorld else kJoint)"

definition from_proto_command :: "pb_command_request \<Rightarrow> command_request status_or" where
  "from_proto_command source =
    (if pr_timeout_ms source < 0 then
       Inl (Status kInvalidArgument ''command timeout must not be negative'')
     else
       let destination = default_request\<lparr>rq_client_id := pr_client_id source,
             rq_lease_id := pr_lease_id source, rq_idempotency_key := pr_idempotency_key source,
             rq_timeout := (if pr_timeout_ms source > 0 then pr_timeout_ms source else 30000)\<rparr> in
       case pr_command source of
         PbAcquireControl \<Rightarrow> Inr (destination\<lparr>rq_type := kAcquireControl\<rparr>)
       | PbReleaseControl \<Rightarrow> Inr (destination\<lparr>rq_type := kReleaseControl\<rparr>)
       | PbPowerOn \<Rightarrow> Inr (destination\<lparr>rq_type := kPowerOn\<rparr>)
       | PbPowerOff \<Rightarrow> Inr (destination\<lparr>rq_type := kPowerOff\<rparr>)
       | PbClearFault \<Rightarrow> Inr (destination\<lparr>rq_type := kClearFault\<rparr>)
       | PbSetGlobalSpeed ratio \<Rightarrow>
           Inr (destination\<lparr>rq_type := kSetGlobalSpeed, rq_payload := SpeedPayload ratio\<rparr>)
       | PbMoveJ m \<Rightarrow>
           (if pj_target m = [] then
              Inl (Status kInvalidArgument ''MoveJ requires at least one joint value'')
            else Inr (destination\<lparr>rq_type := kMoveJ, rq_payload := MoveJPayload
              \<lparr>mj_target = \<lparr>jt_position = pj_target m, jt_tool_name = pj_tool_name m,
                 jt_work_object_name = pj_work_object_name m\<rparr>,
               mj_profile = \<lparr>jp_speed_percent = pj_speed_percent m, jp_blend = pj_blend m\<rparr>\<rparr>\<rparr>))
       | PbMoveL m \<Rightarrow>
           Inr (destination\<lparr>rq_type := kMoveL, rq_payload := MoveLPayload
              \<lparr>ml_target = \<lparr>ct_pose = from_proto_pose (pl_target m), ct_tool_name = pl_tool_name m,
                 ct_work_object_name = pl_work_object_name m\<rparr>,
               ml_profile = \<lparr>cp_speed_mm_per_second = pl_speed_mm_per_second m, cp_blend_mm = pl_blend_mm m\<rparr>\<rparr>\<rparr>)
       | PbMoveC m \<Rightarrow>
           Inr (destination\<lparr>rq_type := kMoveC, rq_payload := MoveCPayload
              \<lparr>mc_target = \<lparr>cc_via = from_proto_pose (pc_via m), cc_target = from_proto_pose (pc_target m),
                 cc_tool_name = pc_tool_name m, cc_work_object_name = pc_work_object_name m\<rparr>,
               mc_profile = \<lparr>cp_speed_mm_per_second = pc_speed_mm_per_second m, cp_blend_mm = pc_blend_mm m\<rparr>\<rparr>\<rparr>)
       | PbHold \<Rightarrow> Inr (destination\<lparr>rq_type := kHold\<rparr>)
       | PbResume \<Rightarrow> Inr (destination\<lparr>rq_type := kResume\<rparr>)
       | PbStop mode \<Rightarrow>
           Inr (destination\<lparr>rq_type := kStop, rq_payload := StopPayload (to_stop_mode mode)\<rparr>)
       | PbJog j \<Rightarrow>
           (if pg_frame j \<notin> {0, 1, 2, 3, 4, 5} then
              Inl (Status kInvalidArgument ''jog frame is invalid'')
            else if pg_direction j \<noteq> -1 \<and> pg_direction j \<noteq> 1 then
              Inl (Status kInvalidArgument ''jog direction must be -1 or 1'')
            else Inr (destination\<lparr>rq_type := kJog, rq_payload := JogPayload
              \<lparr>jc_frame = to_jog_frame (pg_frame j), jc_axis = pg_axis j,
               jc_direction = (if pg_direction j < 0 then kNegative else kPositive),
               jc_start = pg_start j\<rparr>\<rparr>))
       | PbWriteDigitalOutput i v \<Rightarrow>
           Inr (destination\<lparr>rq_type := kWriteDigitalOutput,
             rq_payload := DigitalOutputPayload \<lparr>do_index = i, do_value = v\<rparr>\<rparr>)
       | PbLoadProgram name \<Rightarrow>
           Inr (destination\<lparr>rq_type := kLoadProgram, rq_payload := ProgramPayload name\<rparr>)
       | PbStartProgram \<Rightarrow> Inr (destination\<lparr>rq_type := kStartProgram\<rparr>)
       | PbStopProgram \<Rightarrow> Inr (destination\<lparr>rq_type := kStopProgram\<rparr>)
       | PbCommandNotSet \<Rightarrow> Inl (Status kInvalidArgument ''command payload is required''))"

section \<open>States, leases and times\<close>

text \<open>\<open>duration_cast\<close> rounds towards zero. The system clock counts nanoseconds since 1970.\<close>

definition duration_cast :: "int \<Rightarrow> int \<Rightarrow> int" where
  "duration_cast unit d = d sdiv unit"

record pb_state =
  ps_robot_id :: string
  ps_sequence :: nat
  ps_seconds :: int
  ps_nanos :: int
  ps_lifecycle :: int
  ps_connected :: bool
  ps_api_control :: bool
  ps_servo_on :: bool
  ps_emergency_stop :: bool
  ps_alarm_active :: bool
  ps_moving :: bool
  ps_paused :: bool
  ps_program_running :: bool
  ps_controller_mode :: int
  ps_state_age_ms :: int
  ps_state_stale :: bool
  ps_speed_ratio :: u32
  ps_tcp_speed_mm_per_second :: dbl
  ps_controller_model :: string
  ps_active_tool :: string
  ps_active_work_object :: string
  ps_joints :: "dbl list"
  ps_tcp_pose :: pb_pose

definition state_age_ms :: "time \<Rightarrow> time \<Rightarrow> int" where
  "state_age_ms steady_now observed_at =
    (if observed_at \<noteq> 0 \<and> observed_at \<le> steady_now
     then duration_cast 1000000 (steady_now - observed_at) else 0)"

text \<open>The wall-clock time of the observation: now, less the snapshot's age.\<close>

definition wall_time :: "time \<Rightarrow> time \<Rightarrow> time \<Rightarrow> time" where
  "wall_time system_now timestamp_now observed_at =
    (if observed_at \<noteq> 0 \<and> observed_at \<le> timestamp_now
     then system_now - (timestamp_now - observed_at) else system_now)"

text \<open>\<open>clk 0\<close> and \<open>clk 1\<close> are the two readings of the steady clock.\<close>

definition populate_state :: "string \<Rightarrow> clock \<Rightarrow> time \<Rightarrow> robot_snapshot \<Rightarrow> pb_state" where
  "populate_state robot_id clk system_now source =
    (let observed_at = wall_time system_now (clk 1) (sn_observed_at source);
         seconds = duration_cast 1000000000 observed_at in
     \<lparr>ps_robot_id = robot_id, ps_sequence = sn_sequence source, ps_seconds = seconds,
      ps_nanos = observed_at - seconds * 1000000000,
      ps_lifecycle = to_proto_lifecycle_state (sn_lifecycle source),
      ps_connected = sn_connected source, ps_api_control = sn_api_control source,
      ps_servo_on = sn_servo_on source, ps_emergency_stop = sn_emergency_stop source,
      ps_alarm_active = sn_alarm_active source, ps_moving = sn_moving source,
      ps_paused = sn_paused source, ps_program_running = sn_program_running source,
      ps_controller_mode = to_proto_controller_mode (sn_controller_mode source),
      ps_state_age_ms = state_age_ms (clk 0) (sn_observed_at source),
      ps_state_stale = (sn_lifecycle source = kLifecycleUnknown),
      ps_speed_ratio = sn_speed_ratio source,
      ps_tcp_speed_mm_per_second = sn_tcp_speed_mm_per_second source,
      ps_controller_model = sn_controller_model source, ps_active_tool = sn_active_tool source,
      ps_active_work_object = sn_active_work_object source, ps_joints = sn_joints source,
      ps_tcp_pose = populate_pose (sn_tcp_pose source)\<rparr>)"

record pb_lease =
  pz_lease_id :: string
  pz_client_id :: string
  pz_expires_in_ms :: int

definition populate_lease :: "time \<Rightarrow> control_lease \<Rightarrow> pb_lease" where
  "populate_lease now lease = \<lparr>pz_lease_id = cl_id lease, pz_client_id = cl_client_id lease,
     pz_expires_in_ms = max 0 (duration_cast 1000000 (cl_expires_at lease - now))\<rparr>"

record pb_record =
  pk_command_id :: nat
  pk_state :: int
  pk_error_message :: string
  pk_vendor_error_code :: int

definition populate_command :: "command_record \<Rightarrow> pb_record" where
  "populate_command r = \<lparr>pk_command_id = rc_id r, pk_state = to_proto_command_state (rc_state r),
     pk_error_message = st_message (rc_result r), pk_vendor_error_code = st_vendor_code (rc_result r)\<rparr>"

section \<open>What crosses the wire\<close>

lemma pose_roundtrip [simp]: "from_proto_pose (populate_pose p) = p" "populate_pose (from_proto_pose q) = q"
  by (simp_all add: from_proto_pose_def populate_pose_def)

text \<open>The message a client sends for a domain command: the inverse of the endpoint's decoder.\<close>

primrec proto_stop_mode :: "stop_mode \<Rightarrow> int" where
  "proto_stop_mode kControlled = 1"
| "proto_stop_mode kQuick = 2"
| "proto_stop_mode kPowerOffRequest = 3"

primrec proto_jog_frame :: "jog_frame \<Rightarrow> int" where
  "proto_jog_frame kJoint = 1"
| "proto_jog_frame kRobot = 2"
| "proto_jog_frame kTool = 3"
| "proto_jog_frame kUser = 4"
| "proto_jog_frame kWorld = 5"

definition encode_command :: "command_request \<Rightarrow> pb_command" where
  "encode_command rq =
    (case rq_payload rq of
       SpeedPayload r \<Rightarrow> PbSetGlobalSpeed r
     | MoveJPayload m \<Rightarrow> PbMoveJ \<lparr>pj_target = jt_position (mj_target m),
         pj_speed_percent = jp_speed_percent (mj_profile m), pj_blend = jp_blend (mj_profile m),
         pj_tool_name = jt_tool_name (mj_target m), pj_work_object_name = jt_work_object_name (mj_target m)\<rparr>
     | MoveLPayload m \<Rightarrow> PbMoveL \<lparr>pl_target = populate_pose (ct_pose (ml_target m)),
         pl_speed_mm_per_second = cp_speed_mm_per_second (ml_profile m), pl_blend_mm = cp_blend_mm (ml_profile m),
         pl_tool_name = ct_tool_name (ml_target m), pl_work_object_name = ct_work_object_name (ml_target m)\<rparr>
     | MoveCPayload m \<Rightarrow> PbMoveC \<lparr>pc_via = populate_pose (cc_via (mc_target m)),
         pc_target = populate_pose (cc_target (mc_target m)),
         pc_speed_mm_per_second = cp_speed_mm_per_second (mc_profile m), pc_blend_mm = cp_blend_mm (mc_profile m),
         pc_tool_name = cc_tool_name (mc_target m), pc_work_object_name = cc_work_object_name (mc_target m)\<rparr>
     | StopPayload mode \<Rightarrow> PbStop (proto_stop_mode mode)
     | JogPayload j \<Rightarrow> PbJog \<lparr>pg_frame = proto_jog_frame (jc_frame j), pg_axis = jc_axis j,
         pg_direction = (if jc_direction j = kNegative then -1 else 1), pg_start = jc_start j\<rparr>
     | DigitalOutputPayload p \<Rightarrow> PbWriteDigitalOutput (do_index p) (do_value p)
     | ProgramPayload n \<Rightarrow> PbLoadProgram n
     | Monostate \<Rightarrow>
         (case rq_type rq of kAcquireControl \<Rightarrow> PbAcquireControl | kReleaseControl \<Rightarrow> PbReleaseControl
          | kPowerOn \<Rightarrow> PbPowerOn | kPowerOff \<Rightarrow> PbPowerOff | kClearFault \<Rightarrow> PbClearFault
          | kHold \<Rightarrow> PbHold | kResume \<Rightarrow> PbResume | kStartProgram \<Rightarrow> PbStartProgram
          | kStopProgram \<Rightarrow> PbStopProgram | _ \<Rightarrow> PbCommandNotSet))"

definition encode_request :: "string \<Rightarrow> command_request \<Rightarrow> pb_command_request" where
  "encode_request robot_id rq = \<lparr>pr_robot_id = robot_id, pr_client_id = rq_client_id rq,
     pr_lease_id = rq_lease_id rq, pr_idempotency_key = rq_idempotency_key rq,
     pr_timeout_ms = rq_timeout rq, pr_command = encode_command rq\<rparr>"

text \<open>Commands that have a message: a stop names its mode and a joint move has joints.\<close>

definition sendable :: "command_request \<Rightarrow> bool" where
  "sendable rq \<longleftrightarrow> payload_type_valid (rq_type rq) (rq_payload rq) \<and> rq_timeout rq > 0
     \<and> (rq_type rq = kStop \<longrightarrow> rq_payload rq \<noteq> Monostate)
     \<and> (\<forall>m. rq_payload rq = MoveJPayload m \<longrightarrow> jt_position (mj_target m) \<noteq> [])"

lemma stop_mode_roundtrip [simp]: "to_stop_mode (proto_stop_mode m) = m"
  by (cases m) (simp_all add: to_stop_mode_def)

lemma jog_frame_roundtrip [simp]: "to_jog_frame (proto_jog_frame f) = f" "proto_jog_frame f \<in> {0, 1, 2, 3, 4, 5}"
  by (cases f; simp add: to_jog_frame_def)+

lemma not_negative: "d \<noteq> kNegative \<longleftrightarrow> d = kPositive"
  by (cases d) simp_all

lemma jog_roundtrip:
  "rq_type rq = kJog \<Longrightarrow> rq_payload rq = JogPayload j \<Longrightarrow> rq_timeout rq > 0
     \<Longrightarrow> from_proto_command (encode_request robot_id rq) = Inr rq"
  by (cases rq; cases j; cases "jc_direction j")
    (auto simp: from_proto_command_def encode_request_def encode_command_def default_request_def
      simp del: insert_iff)

text \<open>
  Claim C17. Commands survive the wire: decoding the message of any sendable command gives
  that command back, identity, lease, key, timeout and every parameter included.
\<close>

theorem command_survives_the_wire:
  assumes "sendable rq"
  shows "from_proto_command (encode_request robot_id rq) = Inr rq"
proof (cases "rq_type rq = kJog")
  case True
  then show ?thesis
    using assms jog_roundtrip by (cases "rq_payload rq") (auto simp: sendable_def payload_type_valid_def)
next
  case False
  then show ?thesis
    using assms
    by (cases rq; cases "rq_type rq"; cases "rq_payload rq")
      (auto simp: from_proto_command_def encode_request_def encode_command_def sendable_def
        payload_type_valid_def default_request_def)
qed

theorem command_survives_the_wire_witness:
  "from_proto_command (encode_request ''r1'' (default_request\<lparr>rq_payload := StopPayload kQuick\<rparr>))
     = Inr (default_request\<lparr>rq_payload := StopPayload kQuick\<rparr>)"
  by (rule command_survives_the_wire) (simp add: sendable_def default_request_def payload_type_valid_def)

text \<open>
  Claim C39. Decoded commands are well formed: whatever a client sends, a decoded command has
  the payload its type requires, a positive timeout and the sender's client, lease and key,
  so the guard's payload check and the executor's timeout check cannot fail on it; a stop
  always names its mode and a joint move has joints.
\<close>

theorem decoded_commands_are_well_formed:
  assumes "from_proto_command p = Inr rq"
  shows "sendable rq \<and> status_ok (validate_payload_type rq) \<and> rq_client_id rq = pr_client_id p
    \<and> rq_lease_id rq = pr_lease_id p \<and> rq_idempotency_key rq = pr_idempotency_key p
    \<and> (pr_timeout_ms p > 0 \<longrightarrow> rq_timeout rq = pr_timeout_ms p)"
  using assms
  by (cases "pr_command p")
    (auto simp: from_proto_command_def sendable_def payload_type_valid_def validate_payload_type_def
      default_request_def split: if_splits)

theorem decoded_commands_are_well_formed_witness:
  "sendable (default_request\<lparr>rq_type := kHold\<rparr>)"
proof -
  have "from_proto_command (encode_request ''r1'' (default_request\<lparr>rq_type := kHold\<rparr>))
      = Inr (default_request\<lparr>rq_type := kHold\<rparr>)" by code_simp
  then show ?thesis using decoded_commands_are_well_formed by blast
qed

text \<open>
  Times on the wire are exact: the age of a state is its age in whole
  milliseconds, the timestamp's seconds and nanoseconds add up to the wall-clock time of the
  observation with nanoseconds below one second, and a lease is never reported to last longer
  than it does.
\<close>

theorem wire_times_exact:
  assumes "0 < sn_observed_at sn" "sn_observed_at sn \<le> clk 0" "clk 0 \<le> clk 1"
    and "clk 1 - sn_observed_at sn \<le> system_now"
  shows "ps_state_age_ms (populate_state r clk system_now sn) * 1000000 \<le> clk 0 - sn_observed_at sn
    \<and> clk 0 - sn_observed_at sn < (ps_state_age_ms (populate_state r clk system_now sn) + 1) * 1000000
    \<and> ps_seconds (populate_state r clk system_now sn) * 1000000000 + ps_nanos (populate_state r clk system_now sn)
        = system_now - (clk 1 - sn_observed_at sn)
    \<and> 0 \<le> ps_nanos (populate_state r clk system_now sn) \<and> ps_nanos (populate_state r clk system_now sn) < 1000000000
    \<and> pz_expires_in_ms (populate_lease t lease) * 1000000 \<le> max 0 (cl_expires_at lease - t)"
proof -
  have q: "duration_cast u d = d div u" if "0 \<le> d" "0 < u" for u d :: int
    using that by (cases "d = 0") (simp_all add: duration_cast_def signed_divide_int_def)
  have n: "duration_cast u d \<le> 0" if "d < 0" "0 < u" for u d :: int
    using that pos_imp_zdiv_nonneg_iff [of u "- d"]
    by (simp add: duration_cast_def signed_divide_int_def)
  have age: "ps_state_age_ms (populate_state r clk system_now sn) = (clk 0 - sn_observed_at sn) div 1000000"
    using assms by (simp add: populate_state_def state_age_ms_def q Let_def)
  have w: "wall_time system_now (clk 1) (sn_observed_at sn) = system_now - (clk 1 - sn_observed_at sn)"
    using assms by (simp add: wall_time_def)
  let ?w = "system_now - (clk 1 - sn_observed_at sn)"
  have s: "ps_seconds (populate_state r clk system_now sn) = ?w div 1000000000"
    "ps_nanos (populate_state r clk system_now sn) = ?w - ?w div 1000000000 * 1000000000"
    using assms unfolding populate_state_def Let_def w by (simp_all add: q)
  have l: "pz_expires_in_ms (populate_lease t lease) * 1000000 \<le> max 0 (cl_expires_at lease - t)"
    using q [of "cl_expires_at lease - t" 1000000] n [of "cl_expires_at lease - t" 1000000]
    by (cases "cl_expires_at lease - t < 0") (auto simp: populate_lease_def)
  have dm: "d div u * u \<le> d \<and> d < (d div u + 1) * u" if "0 < u" for u d :: int
    using that div_mult_mod_eq [of d u] pos_mod_bound [of u d] pos_mod_sign [of u d]
    unfolding distrib_right by (intro conjI; linarith)
  have e: "a + (b - a) = b" for a b :: int by simp
  note a = dm [of 1000000 "clk 0 - sn_observed_at sn", OF zero_less_numeral]
  note b = dm [of 1000000000 ?w, OF zero_less_numeral]
  show ?thesis unfolding age s
  proof (intro conjI)
    show "?w - ?w div 1000000000 * 1000000000 < 1000000000" using b by (simp only: distrib_right mult_1)
  qed (use l a b in \<open>simp_all only: diff_add_cancel add_diff_cancel_left' diff_ge_0_iff_ge e\<close>)
qed

end
