(* ===== verification/GrpcConfig.thy ===== *)
theory GrpcConfig
  imports ConfigLoader
begin

text \<open>
  \<open>apps/robot_manager/transport/grpc_config_loader.cc\<close> and \<open>grpc_options.h\<close>: the transport
  section of the same flat document.
\<close>

record grpc_server_options =
  go_listen_address :: string
  go_allow_insecure_loopback :: bool
  go_trusted_client_ca_file :: string
  go_server_certificate_chain_file :: string
  go_server_private_key_file :: string
  go_allowed_client_common_names :: "string list"

definition default_grpc_options :: grpc_server_options where
  "default_grpc_options = \<lparr>go_listen_address = [], go_allow_insecure_loopback = False,
     go_trusted_client_ca_file = [], go_server_certificate_chain_file = [],
     go_server_private_key_file = [], go_allowed_client_common_names = []\<rparr>"

definition grpc_config_error :: "string \<Rightarrow> status" where
  "grpc_config_error message = Status kInvalidArgument (''gRPC configuration: '' @ message)"

definition is_loopback_listen_address :: "string \<Rightarrow> bool" where
  "is_loopback_listen_address address \<longleftrightarrow> starts_with ''127.'' address
     \<or> starts_with ''localhost:'' address \<or> starts_with ''[::1]:'' address
     \<or> starts_with ''unix:'' address"

definition grpc_required :: "config_document \<Rightarrow> string \<Rightarrow> string status_or" where
  "grpc_required document key =
    (case smap_find (cd_scalars document) key of
       None \<Rightarrow> Inl (grpc_config_error (''missing required setting '' @ quoted key))
     | Some v \<Rightarrow> if v = [] then Inl (grpc_config_error (''missing required setting '' @ quoted key)) else Inr v)"

definition copy_optional :: "config_document \<Rightarrow> string \<Rightarrow> string \<Rightarrow> string" where
  "copy_optional document key destination =
    (case smap_find (cd_scalars document) key of None \<Rightarrow> destination | Some v \<Rightarrow> v)"

definition grpc_known_scalars :: "string list" where
  "grpc_known_scalars = [''transport.grpc.listen'', ''transport.grpc.allow_insecure_loopback'',
     ''transport.grpc.client_ca_file'', ''transport.grpc.server_certificate_chain_file'',
     ''transport.grpc.server_private_key_file'']"

definition common_names_key :: string where
  "common_names_key = ''transport.grpc.allowed_client_common_names''"

text \<open>The three loops over the document's keys; \<open>None\<close> when nothing unknown is found.\<close>

definition grpc_unknown_key :: "config_document \<Rightarrow> status option" where
  "grpc_unknown_key document =
    (case find (\<lambda>k. starts_with ''transport.grpc.'' k \<and> k \<notin> set grpc_known_scalars)
            (map fst (cd_scalars document)) of
       Some k \<Rightarrow> Some (grpc_config_error (''unknown setting '' @ quoted k))
     | None \<Rightarrow>
    (case find (\<lambda>k. starts_with ''transport.grpc.'' k \<and> k \<noteq> common_names_key)
            (map fst (cd_lists document)) of
       Some k \<Rightarrow> Some (grpc_config_error (''unknown list setting '' @ quoted k))
     | None \<Rightarrow>
    (case find (\<lambda>k. starts_with ''transport.grpc'' k \<and> k \<noteq> ''transport.grpc'')
            (cd_mappings document) of
       Some k \<Rightarrow> Some (grpc_config_error (''unknown section '' @ quoted k))
     | None \<Rightarrow> None)))"

definition load_grpc_server_options :: "(string \<Rightarrow> file_content) \<Rightarrow> (string \<Rightarrow> string \<Rightarrow> string + yaml_node)
    \<Rightarrow> string \<Rightarrow> grpc_server_options status_or" where
  "load_grpc_server_options file ryml path =
    on_ok (load_config_document file ryml path) (\<lambda>document.
    case grpc_unknown_key document of Some status \<Rightarrow> Inl status | None \<Rightarrow>
    on_ok (grpc_required document ''transport.grpc.listen'') (\<lambda>listen.
    on_ok (grpc_required document ''transport.grpc.allow_insecure_loopback'') (\<lambda>insecure.
    if insecure \<noteq> ''true'' \<and> insecure \<noteq> ''false'' then
      Inl (grpc_config_error ''allow_insecure_loopback must be true or false'')
    else
      let options = \<lparr>go_listen_address = listen, go_allow_insecure_loopback = (insecure = ''true''),
            go_trusted_client_ca_file = copy_optional document ''transport.grpc.client_ca_file'' [],
            go_server_certificate_chain_file =
              copy_optional document ''transport.grpc.server_certificate_chain_file'' [],
            go_server_private_key_file =
              copy_optional document ''transport.grpc.server_private_key_file'' [],
            go_allowed_client_common_names =
              (case smap_find (cd_lists document) common_names_key of None \<Rightarrow> [] | Some names \<Rightarrow> names)\<rparr>
      in if go_allow_insecure_loopback options then
           (if \<not> is_loopback_listen_address (go_listen_address options) then
              Inl (grpc_config_error ''insecure transport is permitted only on loopback'')
            else Inr options)
         else if go_trusted_client_ca_file options = []
           \<or> go_server_certificate_chain_file options = []
           \<or> go_server_private_key_file options = []
           \<or> go_allowed_client_common_names options = [] then
           Inl (grpc_config_error
             ''mTLS requires CA, certificate, private key, and allowed client names'')
         else Inr options)))"

text \<open>What the endpoint may rely on; of a listen address in clear only its first characters.\<close>

definition transport_protected :: "grpc_server_options \<Rightarrow> bool" where
  "transport_protected o' \<longleftrightarrow> go_listen_address o' \<noteq> []
     \<and> (if go_allow_insecure_loopback o' then is_loopback_listen_address (go_listen_address o')
        else go_trusted_client_ca_file o' \<noteq> [] \<and> go_server_certificate_chain_file o' \<noteq> []
          \<and> go_server_private_key_file o' \<noteq> [] \<and> go_allowed_client_common_names o' \<noteq> [])"

lemma load_grpc_protected:
  "load_grpc_server_options file ryml path = Inr o' \<Longrightarrow> transport_protected o'"
  by (clarsimp simp: load_grpc_server_options_def config_ok grpc_required_def Let_def transport_protected_def
      split: option.split_asm if_split_asm)

text \<open>A host name can begin with \<open>127.\<close> too.\<close>

lemma loopback_by_prefix: "is_loopback_listen_address ''127.example.com:50051''"
  by code_simp

definition demo_transport :: "yaml_node list \<Rightarrow> yaml_node" where
  "demo_transport cs = demo_section [] [demo_section ''transport'' [demo_section ''grpc'' cs]]"

definition demo_tls :: "yaml_node list" where
  "demo_tls = [demo_scalar ''listen'' ''0.0.0.0:1'', demo_scalar ''allow_insecure_loopback'' ''false'',
     demo_scalar ''client_ca_file'' ''a'', demo_scalar ''server_certificate_chain_file'' ''b'',
     demo_scalar ''server_private_key_file'' ''c'', demo_list ''allowed_client_common_names'' [''cell'']]"

definition demo_load_grpc :: "yaml_node list \<Rightarrow> grpc_server_options status_or" where
  "demo_load_grpc cs = load_grpc_server_options (\<lambda>_. Content []) (\<lambda>_ _. Inr (demo_transport cs)) ''robot.yaml''"

lemma demo_tls_loads: "\<not> isl (demo_load_grpc demo_tls)"
  by code_simp

end
