(* ===== verification/GrpcService.thy ===== *)
theory GrpcService
  imports GrpcEndpoint GrpcConfig ExecutorHistory
begin

text \<open>
  \<open>apps/robot_manager/transport/grpc_server.cc\<close>, the handlers of \<open>RobotControlEndpoint\<close> over
  \<open>RobotService\<close> (\<open>include/robot/control/robot_service.h\<close>), and \<open>RunGrpcServer\<close> up to the
  running server. \<open>RobotService\<close> is a record of operations over the state behind it;
  \<open>executor_service\<close> is the one the executor provides, each call running to its end.
\<close>

section \<open>The service\<close>

record 's robot_service =
  rs_acquire_control_lease :: "string \<Rightarrow> 's \<Rightarrow> control_lease status_or \<times> 's"
  rs_renew_control_lease :: "string \<Rightarrow> string \<Rightarrow> 's \<Rightarrow> control_lease status_or \<times> 's"
  rs_release_control_lease :: "string \<Rightarrow> string \<Rightarrow> 's \<Rightarrow> status \<times> 's"
  rs_submit :: "command_request \<Rightarrow> 's \<Rightarrow> nat status_or outcome \<times> 's"
  rs_get_command :: "nat \<Rightarrow> 's \<Rightarrow> command_record status_or"
  rs_get_state :: "'s \<Rightarrow> robot_snapshot"
  rs_read_alarms :: "'s \<Rightarrow> alarm list status_or \<times> 's"
  rs_read_digital_input :: "u32 \<Rightarrow> 's \<Rightarrow> bool status_or \<times> 's"
  rs_read_digital_output :: "u32 \<Rightarrow> 's \<Rightarrow> bool status_or \<times> 's"

definition release_control_lease :: "string \<Rightarrow> string \<Rightarrow> clock \<Rightarrow> time \<Rightarrow> exec_state \<Rightarrow> status \<times> exec_state" where
  "release_control_lease lease_id client_id clk now s =
    (let (st, s1) = release_lease_begin lease_id client_id s in
     if \<not> status_ok st then (st, s1)
     else (StatusOk, release_lease_finish lease_id client_id clk now s1))"

definition executor_service :: "safety_policy \<Rightarrow> executor_options \<Rightarrow> 'd robot_driver \<Rightarrow> time \<Rightarrow> clock
    \<Rightarrow> (exec_state \<times> 'd) robot_service" where
  "executor_service policy opts drv now clk = \<lparr>
     rs_acquire_control_lease = (\<lambda>c (s, d). let (r, s') = acquire_control_lease now c s in (r, s', d)),
     rs_renew_control_lease = (\<lambda>l c (s, d). let (r, s') = renew_control_lease now l c s in (r, s', d)),
     rs_release_control_lease = (\<lambda>l c (s, d). let (r, s') = release_control_lease l c clk now s in (r, s', d)),
     rs_submit = (\<lambda>rq (s, d). let (r, s') = submit policy opts now clk rq s in (r, s', d)),
     rs_get_command = (\<lambda>i (s, d). get_command i s),
     rs_get_state = (\<lambda>(s, d). get_state s),
     rs_read_alarms = (\<lambda>(s, d). let (r, d') = read_alarms drv s d in (r, s, d')),
     rs_read_digital_input = (\<lambda>i (s, d). let (r, d') = read_digital_input drv i s d in (r, s, d')),
     rs_read_digital_output = (\<lambda>i (s, d). let (r, d') = read_digital_output drv i s d in (r, s, d'))\<rparr>"

section \<open>Authorization\<close>

record endpoint =
  ep_robot_id :: string
  ep_allowed_client_common_names :: "string list"

text \<open>A peer is the identities of its verified certificate, or has no authentication context.\<close>

type_synonym peer = "string list option"

definition authorize :: "endpoint \<Rightarrow> peer \<Rightarrow> grpc_status" where
  "authorize ep peer =
    (if ep_allowed_client_common_names ep = [] then GrpcStatus GRPC_OK []
     else case peer of
       None \<Rightarrow> GrpcStatus UNAUTHENTICATED ''mTLS client certificate is required''
     | Some identities \<Rightarrow>
         if list_ex (\<lambda>name. name \<in> set (ep_allowed_client_common_names ep)) identities
         then GrpcStatus GRPC_OK []
         else GrpcStatus PERMISSION_DENIED ''client certificate identity is not authorized'')"

definition validate_robot_id :: "endpoint \<Rightarrow> string \<Rightarrow> grpc_status" where
  "validate_robot_id ep robot_id =
    (if robot_id \<noteq> ep_robot_id ep then GrpcStatus NOT_FOUND ''robot_id is not served by this instance''
     else GrpcStatus GRPC_OK [])"

definition validate_request :: "endpoint \<Rightarrow> peer \<Rightarrow> string \<Rightarrow> grpc_status" where
  "validate_request ep peer robot_id =
    (let status = authorize ep peer in if grpc_ok status then validate_robot_id ep robot_id else status)"

section \<open>Handlers\<close>

datatype reply = NoReply | LeaseReply pb_lease | EmptyReply | AcceptedReply nat
  | CommandReply pb_record | StateReply pb_state | AlarmsReply "alarm list" | DigitalReply u32 bool

text \<open>An answer is a status and the message filled in; \<open>Threw\<close> is what \<open>Submit\<close> threw.\<close>

type_synonym 's answer = "(grpc_status \<times> reply) outcome \<times> 's"

definition refuse :: "grpc_status \<Rightarrow> 's \<Rightarrow> 's answer" where
  "refuse st s = (Returned (st, NoReply), s)"

definition answer :: "reply \<Rightarrow> 's \<Rightarrow> 's answer" where
  "answer r s = (Returned (GrpcStatus GRPC_OK [], r), s)"

text \<open>The two lines every handler starts with.\<close>

definition checked :: "endpoint \<Rightarrow> peer \<Rightarrow> string \<Rightarrow> ('s \<Rightarrow> 's answer) \<Rightarrow> 's \<Rightarrow> 's answer" where
  "checked ep peer robot_id handler s =
    (let status = validate_request ep peer robot_id in
     if \<not> grpc_ok status then refuse status s else handler s)"

definition rpc_acquire_control_lease :: "'s robot_service \<Rightarrow> time \<Rightarrow> string \<Rightarrow> 's \<Rightarrow> 's answer" where
  "rpc_acquire_control_lease srv t client_id s =
    (case rs_acquire_control_lease srv client_id s of
       (Inl e, s') \<Rightarrow> refuse (to_grpc_status e) s'
     | (Inr lease, s') \<Rightarrow> answer (LeaseReply (populate_lease t lease)) s')"

definition rpc_renew_control_lease :: "'s robot_service \<Rightarrow> time \<Rightarrow> string \<Rightarrow> string \<Rightarrow> 's \<Rightarrow> 's answer" where
  "rpc_renew_control_lease srv t lease_id client_id s =
    (case rs_renew_control_lease srv lease_id client_id s of
       (Inl e, s') \<Rightarrow> refuse (to_grpc_status e) s'
     | (Inr lease, s') \<Rightarrow> answer (LeaseReply (populate_lease t lease)) s')"

definition rpc_release_control_lease :: "'s robot_service \<Rightarrow> string \<Rightarrow> string \<Rightarrow> 's \<Rightarrow> 's answer" where
  "rpc_release_control_lease srv lease_id client_id s =
    (let (st, s') = rs_release_control_lease srv lease_id client_id s
     in (Returned (to_grpc_status st, EmptyReply), s'))"

definition rpc_submit_command :: "'s robot_service \<Rightarrow> pb_command_request \<Rightarrow> 's \<Rightarrow> 's answer" where
  "rpc_submit_command srv request s =
    (case from_proto_command request of
       Inl e \<Rightarrow> refuse (to_grpc_status e) s
     | Inr command \<Rightarrow>
         (case rs_submit srv command s of
            (Returned (Inl e), s') \<Rightarrow> refuse (to_grpc_status e) s'
          | (Returned (Inr i), s') \<Rightarrow> answer (AcceptedReply i) s'
          | (Threw what, s') \<Rightarrow> (Threw what, s')))"

definition rpc_get_command :: "'s robot_service \<Rightarrow> nat \<Rightarrow> 's \<Rightarrow> 's answer" where
  "rpc_get_command srv command_id s =
    (case rs_get_command srv command_id s of
       Inl e \<Rightarrow> refuse (to_grpc_status e) s
     | Inr r \<Rightarrow> answer (CommandReply (populate_command r)) s)"

definition rpc_get_state :: "'s robot_service \<Rightarrow> endpoint \<Rightarrow> clock \<Rightarrow> time \<Rightarrow> 's \<Rightarrow> 's answer" where
  "rpc_get_state srv ep clk system_now s =
    answer (StateReply (populate_state (ep_robot_id ep) clk system_now (rs_get_state srv s))) s"

definition rpc_read_alarms :: "'s robot_service \<Rightarrow> 's \<Rightarrow> 's answer" where
  "rpc_read_alarms srv s =
    (case rs_read_alarms srv s of
       (Inl e, s') \<Rightarrow> refuse (to_grpc_status e) s'
     | (Inr alarms, s') \<Rightarrow> answer (AlarmsReply alarms) s')"

definition rpc_read_digital_input :: "'s robot_service \<Rightarrow> u32 \<Rightarrow> 's \<Rightarrow> 's answer" where
  "rpc_read_digital_input srv index s =
    (case rs_read_digital_input srv index s of
       (Inl e, s') \<Rightarrow> refuse (to_grpc_status e) s'
     | (Inr v, s') \<Rightarrow> answer (DigitalReply index v) s')"

definition rpc_read_digital_output :: "'s robot_service \<Rightarrow> u32 \<Rightarrow> 's \<Rightarrow> 's answer" where
  "rpc_read_digital_output srv index s =
    (case rs_read_digital_output srv index s of
       (Inl e, s') \<Rightarrow> refuse (to_grpc_status e) s'
     | (Inr v, s') \<Rightarrow> answer (DigitalReply index v) s')"

text \<open>The unary calls and their dispatch, each behind the same check.\<close>

datatype rpc =
    AcquireControlLease string string
  | RenewControlLease string string string
  | ReleaseControlLease string string string
  | SubmitCommand pb_command_request
  | GetCommand string nat
  | GetState string
  | ReadAlarms string
  | ReadDigitalInput string u32
  | ReadDigitalOutput string u32

primrec rpc_robot_id :: "rpc \<Rightarrow> string" where
  "rpc_robot_id (AcquireControlLease r _) = r"
| "rpc_robot_id (RenewControlLease r _ _) = r"
| "rpc_robot_id (ReleaseControlLease r _ _) = r"
| "rpc_robot_id (SubmitCommand request) = pr_robot_id request"
| "rpc_robot_id (GetCommand r _) = r"
| "rpc_robot_id (GetState r) = r"
| "rpc_robot_id (ReadAlarms r) = r"
| "rpc_robot_id (ReadDigitalInput r _) = r"
| "rpc_robot_id (ReadDigitalOutput r _) = r"

definition serve :: "'s robot_service \<Rightarrow> endpoint \<Rightarrow> clock \<Rightarrow> time \<Rightarrow> peer \<Rightarrow> rpc \<Rightarrow> 's \<Rightarrow> 's answer" where
  "serve srv ep clk system_now peer call s =
    checked ep peer (rpc_robot_id call) (\<lambda>s.
      case call of
        AcquireControlLease _ client_id \<Rightarrow> rpc_acquire_control_lease srv (clk 0) client_id s
      | RenewControlLease _ client_id lease_id \<Rightarrow> rpc_renew_control_lease srv (clk 0) lease_id client_id s
      | ReleaseControlLease _ client_id lease_id \<Rightarrow> rpc_release_control_lease srv lease_id client_id s
      | SubmitCommand request \<Rightarrow> rpc_submit_command srv request s
      | GetCommand _ command_id \<Rightarrow> rpc_get_command srv command_id s
      | GetState _ \<Rightarrow> rpc_get_state srv ep clk system_now s
      | ReadAlarms _ \<Rightarrow> rpc_read_alarms srv s
      | ReadDigitalInput _ index \<Rightarrow> rpc_read_digital_input srv index s
      | ReadDigitalOutput _ index \<Rightarrow> rpc_read_digital_output srv index s) s"

text \<open>
  \<open>StreamState\<close>: the interval in milliseconds from the requested rate, and the loop. A turn is
  whether the call was cancelled before it, what \<open>GetState\<close> and the clocks gave, and whether its
  \<open>Write\<close> succeeded. The loop yields the states written, the time slept, and whether it ended
  within the turns given; the handler's status is \<open>None\<close> while it has not.
\<close>

record stream_turn =
  tn_cancelled :: bool
  tn_snapshot :: robot_snapshot
  tn_clock :: clock
  tn_system_now :: time
  tn_written :: bool

definition stream_rate :: "u32 \<Rightarrow> nat" where
  "stream_rate maximum_rate_hz =
    (if maximum_rate_hz = 0 then 20 else max 1 (min (unat maximum_rate_hz) 50))"

definition stream_interval :: "u32 \<Rightarrow> millis" where
  "stream_interval maximum_rate_hz = int (1000 div stream_rate maximum_rate_hz)"

fun stream_loop :: "string \<Rightarrow> millis \<Rightarrow> stream_turn list \<Rightarrow> pb_state list \<times> millis \<times> bool" where
  "stream_loop robot_id interval [] = ([], 0, False)"
| "stream_loop robot_id interval (t # turns) =
    (if tn_cancelled t then ([], 0, True)
     else
       let state = populate_state robot_id (tn_clock t) (tn_system_now t) (tn_snapshot t) in
       if \<not> tn_written t then ([], 0, True)
       else
         let (states, slept, ended) = stream_loop robot_id interval turns
         in (state # states, interval + slept, ended))"

definition rpc_stream_state :: "endpoint \<Rightarrow> peer \<Rightarrow> string \<Rightarrow> u32 \<Rightarrow> stream_turn list
    \<Rightarrow> grpc_status option \<times> pb_state list \<times> millis" where
  "rpc_stream_state ep peer robot_id maximum_rate_hz turns =
    (let status = validate_request ep peer robot_id in
     if \<not> grpc_ok status then (Some status, [], 0)
     else
       let (states, slept, ended) = stream_loop (ep_robot_id ep) (stream_interval maximum_rate_hz) turns
       in (if ended then Some (GrpcStatus GRPC_OK []) else None, states, slept))"

section \<open>Starting the server\<close>

datatype credentials = Insecure | MutualTls string string string

definition server_is_loopback :: "string \<Rightarrow> bool" where
  "server_is_loopback address \<longleftrightarrow> starts_with ''127.'' address
     \<or> starts_with ''localhost:'' address \<or> starts_with ''[::1]:'' address
     \<or> starts_with ''unix:'' address"

definition read_credential :: "(string \<Rightarrow> string option) \<Rightarrow> string \<Rightarrow> string status_or" where
  "read_credential file path =
    (case file path of
       None \<Rightarrow> Inl (Status kNotFound (''unable to read gRPC credential file: '' @ path))
     | Some content \<Rightarrow> Inr content)"

text \<open>
  \<open>RunGrpcServer\<close> until \<open>BuildAndStart\<close>: the credentials and the endpoint the server gets, or
  the error. \<open>given\<close>: neither the service nor the stop flag is a null pointer.
\<close>

definition prepare_grpc_server :: "(string \<Rightarrow> string option) \<Rightarrow> grpc_server_options \<Rightarrow> string \<Rightarrow> bool
    \<Rightarrow> (credentials \<times> endpoint) status_or" where
  "prepare_grpc_server file options robot_id given =
    (if go_listen_address options = [] \<or> \<not> given then
       Inl (Status kInvalidArgument ''gRPC listen address and executor are required'')
     else if go_allow_insecure_loopback options
       \<and> \<not> server_is_loopback (go_listen_address options) then
       Inl (Status kInvalidArgument ''insecure gRPC is permitted only on a loopback address'')
     else if \<not> go_allow_insecure_loopback options
       \<and> (go_trusted_client_ca_file options = [] \<or> go_server_certificate_chain_file options = []
          \<or> go_server_private_key_file options = []
          \<or> go_allowed_client_common_names options = []) then
       Inl (Status kInvalidArgument ''gRPC mTLS requires credentials and allowed identities'')
     else
       let ep = \<lparr>ep_robot_id = robot_id,
             ep_allowed_client_common_names = go_allowed_client_common_names options\<rparr> in
       if go_allow_insecure_loopback options then Inr (Insecure, ep)
       else
         on_ok (read_credential file (go_trusted_client_ca_file options)) (\<lambda>client_ca.
         on_ok (read_credential file (go_server_certificate_chain_file options)) (\<lambda>certificate_chain.
         on_ok (read_credential file (go_server_private_key_file options)) (\<lambda>private_key.
         Inr (MutualTls client_ca certificate_chain private_key, ep)))))"

definition run_grpc_server :: "(string \<Rightarrow> string option) \<Rightarrow> (credentials \<Rightarrow> endpoint \<Rightarrow> bool)
    \<Rightarrow> grpc_server_options \<Rightarrow> string \<Rightarrow> bool \<Rightarrow> status" where
  "run_grpc_server file build_and_start options robot_id given =
    (case prepare_grpc_server file options robot_id given of
       Inl status \<Rightarrow> status
     | Inr (creds, ep) \<Rightarrow>
         if \<not> build_and_start creds ep then Status kUnavailable ''failed to start the gRPC server''
         else StatusOk)"

section \<open>The gate\<close>

text \<open>Who may call: anybody without an allowlist, else a peer with an identity on it.\<close>

definition admitted :: "endpoint \<Rightarrow> peer \<Rightarrow> bool" where
  "admitted ep peer \<longleftrightarrow> ep_allowed_client_common_names ep = []
     \<or> (\<exists>identities name. peer = Some identities \<and> name \<in> set identities
          \<and> name \<in> set (ep_allowed_client_common_names ep))"

lemma authorize_admits: "grpc_ok (authorize ep peer) \<longleftrightarrow> admitted ep peer"
  by (auto simp: authorize_def admitted_def grpc_ok_def list_ex_iff split: option.split)

lemma validate_request_ok:
  "grpc_ok (validate_request ep peer r) \<longleftrightarrow> admitted ep peer \<and> r = ep_robot_id ep"
  using authorize_admits [of ep peer]
  by (auto simp: validate_request_def validate_robot_id_def grpc_ok_def Let_def)

lemma validate_request_code:
  "\<not> grpc_ok (validate_request ep peer r)
     \<Longrightarrow> gs_code (validate_request ep peer r) \<in> {UNAUTHENTICATED, PERMISSION_DENIED, NOT_FOUND}"
  by (auto simp: validate_request_def validate_robot_id_def authorize_def grpc_ok_def Let_def split: option.splits if_splits)

text \<open>
  Claim C14. Every call is gated: a peer that is not admitted, or that names another robot,
  gets an error of the transport and an empty reply from every call, and nothing behind the
  endpoint changes.
\<close>

theorem outsiders_change_nothing:
  assumes "\<not> admitted ep peer \<or> rpc_robot_id call \<noteq> ep_robot_id ep"
  shows "\<exists>st. serve srv ep clk system_now peer call s = (Returned (st, NoReply), s)
    \<and> gs_code st \<in> {UNAUTHENTICATED, PERMISSION_DENIED, NOT_FOUND}"
  using assms validate_request_ok validate_request_code
  by (auto simp: serve_def checked_def refuse_def Let_def)

definition demo_endpoint :: endpoint where
  "demo_endpoint = \<lparr>ep_robot_id = ''r1'', ep_allowed_client_common_names = [''cell'']\<rparr>"

definition demo_service :: "(exec_state \<times> mock) robot_service" where
  "demo_service = executor_service demo_policy demo_options mock_driver 0 demo_clk"

theorem outsiders_change_nothing_witness:
  "snd (serve demo_service demo_endpoint demo_clk 0 (Some [''hmi''])
     (AcquireControlLease ''r1'' ''hmi'') (demo_s1, demo_d1)) = (demo_s1, demo_d1)"
proof -
  have "\<not> admitted demo_endpoint (Some [''hmi'']) \<or> rpc_robot_id (AcquireControlLease ''r1'' ''hmi'') \<noteq> ep_robot_id demo_endpoint"
    by (simp add: admitted_def demo_endpoint_def)
  from outsiders_change_nothing [OF this, of demo_service demo_clk 0 "(demo_s1, demo_d1)"]
  show ?thesis by auto
qed

section \<open>The transport a configuration opens\<close>

lemma loopback_same: "server_is_loopback = is_loopback_listen_address"
  by (simp add: server_is_loopback_def is_loopback_listen_address_def fun_eq_iff)

lemma prepare_protected:
  assumes "transport_protected o'"
  shows "prepare_grpc_server file o' robot_id True =
    (let ep = \<lparr>ep_robot_id = robot_id, ep_allowed_client_common_names = go_allowed_client_common_names o'\<rparr> in
     if go_allow_insecure_loopback o' then Inr (Insecure, ep)
     else on_ok (read_credential file (go_trusted_client_ca_file o')) (\<lambda>ca.
       on_ok (read_credential file (go_server_certificate_chain_file o')) (\<lambda>chain.
       on_ok (read_credential file (go_server_private_key_file o')) (\<lambda>key.
       Inr (MutualTls ca chain key, ep)))))"
  using assms by (auto simp: prepare_grpc_server_def transport_protected_def loopback_same Let_def split: if_splits)

text \<open>
  Claim C30. In clear only when configured so, else mutual TLS with the configured files and
  identities. With options its own loader accepted, the service listens in clear
  exactly when \<open>allow_insecure_loopback\<close> is set, and the listen address then
  begins with \<open>127.\<close>, \<open>localhost:\<close>, \<open>[::1]:\<close> or \<open>unix:\<close>; this is all that is checked of it, and
  \<open>insecure_beyond_loopback\<close> below shows that it does not mean the loopback interface.
  Otherwise the server demands client certificates, its credentials are the contents of the
  three configured files (the only error left is that one cannot be read), the allowlist is
  the configured one and not empty, and a peer without an identity on it gets an error and an
  empty reply from every call and changes nothing.
\<close>

theorem transport_is_as_configured:
  assumes "load_grpc_server_options config ryml path = Inr o'"
  shows "if go_allow_insecure_loopback o'
    then (starts_with ''127.'' (go_listen_address o') \<or> starts_with ''localhost:'' (go_listen_address o')
        \<or> starts_with ''[::1]:'' (go_listen_address o') \<or> starts_with ''unix:'' (go_listen_address o'))
      \<and> (\<exists>ep. prepare_grpc_server file o' robot_id True = Inr (Insecure, ep))
    else go_allowed_client_common_names o' \<noteq> [] \<and>
      (case prepare_grpc_server file o' robot_id True of
         Inl e \<Rightarrow> st_code e = kNotFound \<and> (file (go_trusted_client_ca_file o') = None
           \<or> file (go_server_certificate_chain_file o') = None \<or> file (go_server_private_key_file o') = None)
       | Inr (creds, ep) \<Rightarrow>
           (\<exists>ca chain key. creds = MutualTls ca chain key \<and> file (go_trusted_client_ca_file o') = Some ca
              \<and> file (go_server_certificate_chain_file o') = Some chain
              \<and> file (go_server_private_key_file o') = Some key)
         \<and> (\<forall>peer call s. \<not> (\<exists>ids. peer = Some ids \<and> set ids \<inter> set (go_allowed_client_common_names o') \<noteq> {})
              \<longrightarrow> (\<exists>st. serve srv ep clk system_now peer call s = (Returned (st, NoReply), s)
                    \<and> gs_code st \<in> {UNAUTHENTICATED, PERMISSION_DENIED, NOT_FOUND})))"
proof (cases "go_allow_insecure_loopback o'")
  case True
  then show ?thesis using load_grpc_protected [OF assms]
    by (simp add: prepare_protected [OF load_grpc_protected [OF assms]] transport_protected_def
        is_loopback_listen_address_def Let_def)
next
  case False
  note p = load_grpc_protected [OF assms]
  define ep where "ep = \<lparr>ep_robot_id = robot_id, ep_allowed_client_common_names = go_allowed_client_common_names o'\<rparr>"
  have names: "go_allowed_client_common_names o' \<noteq> []" using p False by (simp add: transport_protected_def)
  have out: "\<exists>st. serve srv ep clk system_now peer call s = (Returned (st, NoReply), s)
      \<and> gs_code st \<in> {UNAUTHENTICATED, PERMISSION_DENIED, NOT_FOUND}"
    if "\<not> (\<exists>ids. peer = Some ids \<and> set ids \<inter> set (go_allowed_client_common_names o') \<noteq> {})" for peer call s
  proof -
    have "\<not> admitted ep peer" using that names by (auto simp: admitted_def ep_def)
    then have "\<not> grpc_ok (validate_request ep peer (rpc_robot_id call))" using validate_request_ok by blast
    then show ?thesis using validate_request_code by (simp add: serve_def checked_def refuse_def Let_def)
  qed
  show ?thesis
    using False names out unfolding prepare_protected [OF p] Let_def ep_def [symmetric]
    by (auto simp: on_ok_def read_credential_def split: option.split)
qed

theorem transport_is_as_configured_witness:
  "\<exists>o'. demo_load_grpc demo_tls = Inr o' \<and> go_allowed_client_common_names o' \<noteq> []
     \<and> (case prepare_grpc_server (\<lambda>_. None) o' ''r1'' True of Inl e \<Rightarrow> st_code e = kNotFound | Inr _ \<Rightarrow> False)"
proof -
  obtain o' where o': "demo_load_grpc demo_tls = Inr o'" using demo_tls_loads by (cases "demo_load_grpc demo_tls") auto
  have "case demo_load_grpc demo_tls of Inr o' \<Rightarrow> \<not> go_allow_insecure_loopback o' | Inl e \<Rightarrow> False" by code_simp
  then have "\<not> go_allow_insecure_loopback o'" by (simp add: o')
  then have "go_allowed_client_common_names o' \<noteq> []
      \<and> (case prepare_grpc_server (\<lambda>_. None) o' ''r1'' True of Inl e \<Rightarrow> st_code e = kNotFound | Inr _ \<Rightarrow> False)"
    using transport_is_as_configured [OF o' [unfolded demo_load_grpc_def], of "\<lambda>_. None" "''r1''"]
    by (fastforce split: sum.splits)
  then show ?thesis using o' by blast
qed

text \<open>
  The prefixes are not the loopback interface: a host name that begins with \<open>127.\<close> is accepted
  by the loader and by the server, which then serves it in clear to anybody.
\<close>

lemma insecure_beyond_loopback:
  "case demo_load_grpc [demo_scalar ''listen'' ''127.example.com:50051'',
      demo_scalar ''allow_insecure_loopback'' ''true''] of
     Inl e \<Rightarrow> False
   | Inr o' \<Rightarrow> prepare_grpc_server (\<lambda>_. None) o' ''r1'' True
       = Inr (Insecure, \<lparr>ep_robot_id = ''r1'', ep_allowed_client_common_names = []\<rparr>)"
  by code_simp

section \<open>Streaming\<close>

lemma stream_interval_bounds: "20 \<le> stream_interval r \<and> stream_interval r \<le> 1000"
proof -
  have r: "1 \<le> stream_rate r" "stream_rate r \<le> 50" by (simp_all add: stream_rate_def)
  then have "1000 div 50 \<le> 1000 div stream_rate r" by (intro div_le_mono2) auto
  moreover have "1000 div stream_rate r \<le> 1000" by simp
  ultimately show ?thesis by (simp add: stream_interval_def)
qed

text \<open>The turns in which a state is sent.\<close>

definition sent_turns :: "stream_turn list \<Rightarrow> stream_turn list" where
  "sent_turns turns = takeWhile (\<lambda>t. \<not> tn_cancelled t \<and> tn_written t) turns"

lemma stream_loop_sends:
  "stream_loop robot_id i turns =
    (map (\<lambda>t. populate_state robot_id (tn_clock t) (tn_system_now t) (tn_snapshot t)) (sent_turns turns),
     int (length (sent_turns turns)) * i, sent_turns turns \<noteq> turns)"
  by (induction robot_id i turns rule: stream_loop.induct) (auto simp: sent_turns_def algebra_simps Let_def)

text \<open>
  A stream shows the states and cannot flood a client: an admitted peer that names this robot
  gets, in order, the snapshot of each turn until the call is cancelled or a write fails,
  anybody else nothing; and whatever rate is asked for, \<open>n\<close> states take between \<open>20 n\<close>
  milliseconds and \<open>n\<close> seconds of pauses.
\<close>

theorem stream_rate_is_bounded:
  "case rpc_stream_state ep peer robot_id rate turns of (st, states, slept) \<Rightarrow>
     states = (if admitted ep peer \<and> robot_id = ep_robot_id ep
         then map (\<lambda>t. populate_state robot_id (tn_clock t) (tn_system_now t) (tn_snapshot t)) (sent_turns turns)
         else [])
     \<and> 20 * int (length states) \<le> slept \<and> slept \<le> 1000 * int (length states)"
  using stream_interval_bounds [of rate] validate_request_ok [of ep peer robot_id]
  by (simp add: rpc_stream_state_def stream_loop_sends Let_def mult.commute [of 20] mult.commute [of 1000] mult_left_mono)

section \<open>Commands submitted over the wire\<close>

lemma lookup_hit:
  assumes "exec_inv infl s" and "idempotency_lookup rq s = Some (Returned (Inr i))"
  shows "\<exists>r. find_command s i = Some r \<and> payloads_equal (rc_request r) rq = Some True
    \<and> idempotency_map_key (rc_request r) = idempotency_map_key rq"
  using assms
  by (auto simp: idempotency_lookup_def exec_inv_def core_inv_def index_ok_def find_command_def Let_def
      split: option.splits if_splits bool.splits) fastforce+

lemma submit_on_record:
  assumes inv: "exec_inv infl s" and "submit policy opts now clk rq s = (Returned (Inr i), s')"
  shows "\<exists>r. find_command s' i = Some r \<and> payloads_equal (rc_request r) rq = Some True
    \<and> idempotency_map_key (rc_request r) = idempotency_map_key rq"
proof (cases "submit_begin rq s")
  case (Inl a)
  then have "s' = s" "a = Returned (Inr i)" using assms(2) by (auto simp: submit_def)
  then have "idempotency_lookup rq s = Some (Returned (Inr i))"
    using Inl by (auto simp: submit_begin_def split: if_splits option.splits)
  then show ?thesis using lookup_hit [OF inv] \<open>s' = s\<close> by simp
next
  case (Inr b)
  obtain snapshot jog where b: "b = (snapshot, jog)" by fastforce
  let ?v = "validate policy rq snapshot (lease_is_valid now (rq_lease_id rq) (rq_client_id rq) (ex_lease_manager s)) jog"
  have v: "status_ok ?v" and c: "submit_commit opts clk rq s = (Returned (Inr i), s')"
    using assms(2) Inr b by (auto simp: submit_def Let_def split: if_splits)
  have none: "idempotency_lookup rq s = None"
    using Inr by (auto simp: submit_begin_def split: if_splits option.splits)
  obtain s1 where s1: "submit_enqueue opts (clk 1) rq s1 = (Returned (Inr i), s')"
    "s1 = s \<and> length (ex_queue s) < eo_maximum_queue_size opts
      \<or> rq_type rq = kStop \<and> displace_for_stop (clk 0) s = Some s1"
    using commit_accepts [OF c none] by blast
  have "moves {} infl s infl s1" using s1(2) moves_displace by blast
  then have inv1: "exec_inv infl s1" using inv by (auto simp: moves_def)
  have "payloads_equal rq rq = Some True" using validate_sound_request [OF v] by (simp add: sound_request_def)
  then show ?thesis using enqueue_accepts(3) [OF inv1 s1(1)] by auto
qed

text \<open>
  Claim C20. An accepted call is a recorded command: when \<open>SubmitCommand\<close> answers with an id,
  the peer was admitted, its message decoded to a well-formed command, and under that id the
  executor holds a record of an equal command with the same client and key; the robot itself
  was not touched by the call.
\<close>

theorem accepted_call_is_recorded:
  assumes "exec_inv infl s"
    and "serve (executor_service policy opts drv now clk) ep t system_now peer (SubmitCommand p) (s, d)
      = (Returned (st, AcceptedReply i), s', d')"
  shows "admitted ep peer \<and> pr_robot_id p = ep_robot_id ep \<and> d' = d
    \<and> (\<exists>rq r. from_proto_command p = Inr rq \<and> find_command s' i = Some r
         \<and> payloads_equal (rc_request r) rq = Some True
         \<and> idempotency_map_key (rc_request r) = idempotency_map_key rq)"
proof -
  have gate: "admitted ep peer" "pr_robot_id p = ep_robot_id ep"
    using assms(2) validate_request_ok [of ep peer "pr_robot_id p"]
    by (auto simp: serve_def checked_def refuse_def Let_def split: if_splits)
  have r: "rpc_submit_command (executor_service policy opts drv now clk) p (s, d)
      = (Returned (st, AcceptedReply i), s', d')"
    using assms(2) by (auto simp: serve_def checked_def refuse_def Let_def split: if_splits)
  then obtain rq where rq: "from_proto_command p = Inr rq"
    by (auto simp: rpc_submit_command_def refuse_def split: sum.splits)
  have "submit policy opts now clk rq s = (Returned (Inr i), s') \<and> d' = d"
    using r rq
    by (auto simp: rpc_submit_command_def executor_service_def refuse_def answer_def
        split: sum.splits outcome.splits prod.splits)
  then show ?thesis using gate rq submit_on_record [OF assms(1)] by blast
qed

theorem accepted_call_is_recorded_witness:
  "case serve demo_service demo_endpoint demo_clk 0 (Some [''cell''])
      (SubmitCommand (encode_request ''r1'' demo_move)) (demo_s2, demo_d1) of
     (_, s', d') \<Rightarrow> d' = demo_d1
       \<and> (\<exists>r. find_command s' 1 = Some r \<and> payloads_equal (rc_request r) demo_move = Some True)"
proof -
  let ?call = "serve demo_service demo_endpoint demo_clk 0 (Some [''cell''])
      (SubmitCommand (encode_request ''r1'' demo_move)) (demo_s2, demo_d1)"
  obtain s' d' where c: "?call = (fst ?call, s', d')" by (metis prod.exhaust_sel)
  have "fst ?call = Returned (GrpcStatus GRPC_OK [], AcceptedReply 1)" by code_simp
  with c have call: "serve (executor_service demo_policy demo_options mock_driver 0 demo_clk) demo_endpoint demo_clk 0
      (Some [''cell'']) (SubmitCommand (encode_request ''r1'' demo_move)) (demo_s2, demo_d1)
      = (Returned (GrpcStatus GRPC_OK [], AcceptedReply 1), s', d')" by (simp add: demo_service_def)
  have d: "from_proto_command (encode_request ''r1'' demo_move) = Inr demo_move" by code_simp
  show ?thesis
    using accepted_call_is_recorded [OF demo_inv_s2 call] d call by (auto simp: demo_service_def)
qed

end
