(* ===== verification/ServiceRuns.thy ===== *)
theory ServiceRuns
  imports GrpcService ExecutorSafety
begin

text \<open>
  What the endpoint relies on when it calls \<open>RobotService\<close>, as an interface, and the executor
  behind it: each remote call is a run of one client thread of the interleaved system, so that
  what holds in every reachable state of the executor holds for the service.
\<close>

section \<open>The interface the endpoint calls\<close>

lemmas rpc_handlers = rpc_acquire_control_lease_def rpc_renew_control_lease_def rpc_release_control_lease_def
  rpc_get_command_def rpc_get_state_def rpc_read_alarms_def rpc_read_digital_input_def rpc_read_digital_output_def

text \<open>
  \<open>ok\<close>: the states in which calls arrive; \<open>runs s s'\<close>: the provider can go from \<open>s\<close> to \<open>s'\<close> by
  steps of its own. No operation throws.
\<close>

locale service_contract =
  fixes srv :: "'s robot_service"
    and ok :: "'s \<Rightarrow> bool"
    and runs :: "'s \<Rightarrow> 's \<Rightarrow> bool"
  assumes stays: "runs s s"
    and acquire: "ok s \<Longrightarrow> rs_acquire_control_lease srv c s = (lease, s') \<Longrightarrow> runs s s'"
    and renew: "ok s \<Longrightarrow> rs_renew_control_lease srv l c s = (lease, s') \<Longrightarrow> runs s s'"
    and release: "ok s \<Longrightarrow> rs_release_control_lease srv l c s = (st, s') \<Longrightarrow> runs s s'"
    and submit: "ok s \<Longrightarrow> rs_submit srv rq s = (r, s') \<Longrightarrow> runs s s' \<and> (\<exists>a. r = Returned a)"
    and alarms: "ok s \<Longrightarrow> rs_read_alarms srv s = (read, s') \<Longrightarrow> runs s s'"
    and din: "ok s \<Longrightarrow> rs_read_digital_input srv i s = (level, s') \<Longrightarrow> runs s s'"
    and dout: "ok s \<Longrightarrow> rs_read_digital_output srv i s = (level, s') \<Longrightarrow> runs s s'"
begin

lemmas calls = acquire renew release alarms din dout

lemma submit_parts:
  assumes "ok s" and "rs_submit srv rq s = (r, s')"
  shows "runs s s'" and "\<exists>a. r = Returned a"
  using submit [OF assms] by auto

lemma submit_command_runs:
  assumes "ok s" and "rpc_submit_command srv request s = (ans, s')"
  shows "runs s s' \<and> (\<exists>a. ans = Returned a)"
proof (cases "from_proto_command request")
  case (Inr command)
  obtain r s1 where r: "rs_submit srv command s = (r, s1)" by fastforce
  obtain a where "r = Returned a" using submit_parts(2) [OF assms(1) r] by blast
  then show ?thesis
    using assms(2) submit_parts(1) [OF assms(1) r] r Inr
    by (cases a) (auto simp: rpc_submit_command_def refuse_def answer_def)
qed (use assms(2) stays in \<open>auto simp: rpc_submit_command_def refuse_def\<close>)

lemma rpc_runs:
  assumes "ok s" and "serve srv ep clk system_now peer call s = (ans, s')"
  shows "runs s s' \<and> (\<exists>a. ans = Returned a)"
proof (cases "grpc_ok (validate_request ep peer (rpc_robot_id call))")
  case False
  then show ?thesis using assms(2) stays by (auto simp: serve_def checked_def refuse_def Let_def)
next
  case True
  note handler = assms(2) [unfolded serve_def checked_def Let_def]
  show ?thesis
  proof (cases call)
    case (SubmitCommand request)
    then show ?thesis using handler True submit_command_runs [OF assms(1)] by simp
  qed (use handler True calls [OF assms(1)] stays in
      \<open>auto simp: rpc_handlers refuse_def answer_def split: sum.splits prod.splits\<close>)
qed

end

section \<open>The executor provides it\<close>

definition client_runs :: "'d robot_driver \<Rightarrow> safety_policy \<Rightarrow> executor_options
    \<Rightarrow> exec_state \<times> 'd \<Rightarrow> exec_state \<times> 'd \<Rightarrow> bool" where
  "client_runs drv pol opts x x' \<longleftrightarrow>
    (client_step drv pol opts)\<^sup>*\<^sup>* (CIdle, fst x, snd x) (CIdle, fst x', snd x')"

lemma client_two:
  "client_step drv pol opts (CIdle, s, d) (pc, s1, d1) \<Longrightarrow> client_step drv pol opts (pc, s1, d1) (CIdle, s', d')
     \<Longrightarrow> client_runs drv pol opts (s, d) (s', d')"
  by (simp add: client_runs_def)

lemma client_stays: "client_runs drv pol opts x x"
  by (simp add: client_runs_def)

lemma acquire_is_a_run:
  assumes "acquire_control_lease now c s = (r, s')"
  shows "client_runs drv pol opts (s, d) (s', d)"
proof (cases "is_accepting s")
  case True
  obtain r m where "lease_acquire now c (ex_lease_manager s) = (r, m)" by fastforce
  then show ?thesis
    using assms True client_two [OF client_step.acquire_begin [OF True] client_step.acquire]
    by (auto simp: acquire_control_lease_def)
qed (use assms client_stays in \<open>auto simp: acquire_control_lease_def\<close>)

lemma renew_is_a_run:
  assumes "renew_control_lease now l c s = (r, s')"
  shows "client_runs drv pol opts (s, d) (s', d)"
proof (cases "is_accepting s")
  case True
  obtain r m where "lease_renew now l c (ex_lease_manager s) = (r, m)" by fastforce
  then show ?thesis
    using assms True client_two [OF client_step.renew_begin [OF True] client_step.renew]
    by (auto simp: renew_control_lease_def)
qed (use assms client_stays in \<open>auto simp: renew_control_lease_def\<close>)

lemma release_is_a_run:
  assumes "release_control_lease l c clk now s = (st, s')"
  shows "client_runs drv pol opts (s, d) (s', d)"
proof -
  obtain st1 s1 where b: "release_lease_begin l c s = (st1, s1)" by fastforce
  show ?thesis
  proof (cases "status_ok st1")
    case True
    then show ?thesis
      using assms b client_two [OF client_step.release_begun [OF b True] client_step.release [of _ _ _ l c s1 d clk now]]
      by (simp add: release_control_lease_def)
  next
    case False
    then show ?thesis
      using assms b client_step.release_refused [OF b False, of drv pol opts d]
      by (auto simp: release_control_lease_def client_runs_def)
  qed
qed

lemma submit_is_a_run:
  assumes "submit pol opts now clk rq s = (r, s')"
  shows "client_runs drv pol opts (s, d) (s', d)"
proof (cases "submit_begin rq s")
  case (Inl a)
  then show ?thesis
    using assms client_two [OF client_step.submit_answered [OF Inl] client_step.returned]
    by (simp add: submit_def)
next
  case (Inr p)
  obtain snapshot jog where p: "p = (snapshot, jog)" by fastforce
  let ?v = "validate pol rq snapshot (record_lease_valid now rq s) jog"
  have begun: "client_step drv pol opts (CIdle, s, d) (CSubmitting rq snapshot jog, s, d)"
    by (rule client_step.submit_begun) (simp add: Inr p)
  have v: "validate pol rq snapshot (lease_is_valid now (rq_lease_id rq) (rq_client_id rq) (ex_lease_manager s)) jog = ?v"
    by (simp add: record_lease_valid_def)
  show ?thesis
  proof (cases "status_ok ?v")
    case True
    have commit: "submit_commit opts clk rq s = (r, s')"
      using assms Inr p True v by (simp add: submit_def Let_def)
    have "(client_step drv pol opts)\<^sup>*\<^sup>* (CIdle, s, d) (CApproved rq, s, d)"
      using begun client_step.submit_approved [OF True] by (meson converse_rtranclp_into_rtranclp rtranclp.rtrancl_refl)
    moreover have "(client_step drv pol opts)\<^sup>*\<^sup>* (CApproved rq, s, d) (CIdle, s', d)"
      using client_step.submit_committed [OF commit] client_step.returned
      by (meson converse_rtranclp_into_rtranclp rtranclp.rtrancl_refl)
    ultimately show ?thesis unfolding client_runs_def by (simp add: rtranclp_trans)
  next
    case False
    have "s' = s" using assms Inr p False v by (simp add: submit_def Let_def)
    moreover have "(client_step drv pol opts)\<^sup>*\<^sup>* (CIdle, s, d) (CIdle, s, d)" by simp
    ultimately show ?thesis by (simp add: client_runs_def)
  qed
qed

lemma submit_answers:
  "exec_inv infl s \<Longrightarrow> submit pol opts now clk rq s = (r, s') \<Longrightarrow> \<exists>a. r = Returned a"
  using submit_begin_returns submit_commit_returns
  by (auto simp: submit_def Let_def split: sum.splits prod.splits if_splits)

lemma reads_are_runs:
  "read_alarms drv s d = (r, d') \<Longrightarrow> client_runs drv pol opts (s, d) (s, d')"
  "read_digital_input drv i s d = (v, d') \<Longrightarrow> client_runs drv pol opts (s, d) (s, d')"
  "read_digital_output drv i s d = (v, d') \<Longrightarrow> client_runs drv pol opts (s, d) (s, d')"
  using client_two [OF client_step.alarms_begin client_step.alarms, of s drv pol opts d]
    client_two [OF client_step.din_begin client_step.din, of s drv pol opts d i]
    client_two [OF client_step.dout_begin client_step.dout, of s drv pol opts d i]
  by (auto simp: read_alarms_def read_digital_input_def read_digital_output_def client_stays split: if_splits)

lemmas calls_are_runs = acquire_is_a_run renew_is_a_run release_is_a_run reads_are_runs

interpretation served: service_contract "executor_service pol opts drv now clk" "\<lambda>x. exec_inv infl (fst x)"
  "client_runs drv pol opts" for pol opts drv now clk infl
proof unfold_locales
  fix x x' :: "exec_state \<times> 'a" and rq r
  assume "exec_inv infl (fst x)" "rs_submit (executor_service pol opts drv now clk) rq x = (r, x')"
  then show "client_runs drv pol opts x x' \<and> (\<exists>a. r = Returned a)"
    using submit_is_a_run submit_answers
    by (cases x) (auto simp: executor_service_def split: prod.splits)
qed (auto simp: executor_service_def client_stays split: prod.splits intro: calls_are_runs)

section \<open>Remote calls in the running system\<close>

lemma client_run_in_system:
  assumes "(client_step drv pol opts)\<^sup>*\<^sup>* (pc, s, d) (pc', s', d')"
    and "sy_clients y i = pc" "sy_exec y = s" "sy_driver y = d"
  shows "(sys_step drv pol opts)\<^sup>*\<^sup>* y (y\<lparr>sy_clients := (sy_clients y)(i := pc'), sy_exec := s', sy_driver := d'\<rparr>)"
  using assms(1)
proof (induction "(pc', s', d')" arbitrary: pc' s' d' rule: rtranclp_induct)
  case base
  then show ?case using assms(2-) by auto
next
  case (step x)
  obtain pc1 s1 d1 where x: "x = (pc1, s1, d1)" using prod_cases3 by blast
  let ?y = "y\<lparr>sy_clients := (sy_clients y)(i := pc1), sy_exec := s1, sy_driver := d1\<rparr>"
  have "(sys_step drv pol opts)\<^sup>*\<^sup>* y ?y" using step(3) [OF x] .
  moreover have "sys_step drv pol opts ?y (y\<lparr>sy_clients := (sy_clients y)(i := pc'), sy_exec := s', sy_driver := d'\<rparr>)"
    using sys_step.client [of drv pol opts ?y i pc' s' d'] step(2) x by simp
  ultimately show ?case by (rule rtranclp.rtrancl_into_rtrancl)
qed

text \<open>
  Claim C5. The service refines the executor: a remote call that arrives in any reachable state
  returns (no exception leaves the handler) and is a run of one client thread of the
  interleaved system that ends with that thread idle again, so every guarantee of reachable
  states holds for clients over the network.
\<close>

theorem rpc_is_a_client_run:
  assumes "reachable drv pol opts y" and "sy_clients y i = CIdle"
    and "serve (executor_service pol opts drv now clk) ep tick system_now peer call (sy_exec y, sy_driver y)
      = (ans, s', d')"
  shows "(sys_step drv pol opts)\<^sup>*\<^sup>* y (y\<lparr>sy_exec := s', sy_driver := d'\<rparr>)
    \<and> reachable drv pol opts (y\<lparr>sy_exec := s', sy_driver := d'\<rparr>) \<and> (\<exists>a. ans = Returned a)"
proof -
  have "client_runs drv pol opts (sy_exec y, sy_driver y) (s', d') \<and> (\<exists>a. ans = Returned a)"
    using served.rpc_runs [OF _ assms(3)] reach_exec [OF assms(1)] by simp
  then have run: "(client_step drv pol opts)\<^sup>*\<^sup>* (CIdle, sy_exec y, sy_driver y) (CIdle, s', d')"
    and returns: "\<exists>a. ans = Returned a"
    by (simp_all add: client_runs_def)
  have idle: "(sy_clients y)(i := CIdle) = sy_clients y" using assms(2) by (simp add: fun_upd_idem)
  have steps: "(sys_step drv pol opts)\<^sup>*\<^sup>* y (y\<lparr>sy_exec := s', sy_driver := d'\<rparr>)"
    using client_run_in_system [OF run assms(2) refl refl] by (simp add: idle)
  then show ?thesis using returns steps_reach [OF steps assms(1)] by blast
qed

theorem rpc_is_a_client_run_witness:
  "\<exists>y. reachable mock_driver demo_policy demo_options y
     \<and> (sy_exec y, sy_driver y) = snd (serve demo_service demo_endpoint demo_clk 0 (Some [''cell''])
       (AcquireControlLease ''r1'' ''cell'') (demo_s1, demo_d1))"
proof -
  have "ex_running demo_s1" by (simp add: demo_s1_def)
  then have r: "reachable mock_driver demo_policy demo_options (started demo_s1 demo_d1)"
    by (rule reachable.init [OF demo_start])
  obtain ans s d where c: "serve demo_service demo_endpoint demo_clk 0 (Some [''cell''])
      (AcquireControlLease ''r1'' ''cell'') (demo_s1, demo_d1) = (ans, s, d)" using prod_cases3 by blast
  have "sy_clients (started demo_s1 demo_d1) 0 = CIdle" by (simp add: started_def)
  then have "reachable mock_driver demo_policy demo_options ((started demo_s1 demo_d1)\<lparr>sy_exec := s, sy_driver := d\<rparr>)"
    using rpc_is_a_client_run [OF r, of 0 0 demo_clk demo_endpoint demo_clk 0 "Some [''cell'']" "AcquireControlLease ''r1'' ''cell''" ans s d] c
    by (simp add: started_def demo_service_def)
  then show ?thesis by (rule exI [where x = "(started demo_s1 demo_d1)\<lparr>sy_exec := s, sy_driver := d\<rparr>", OF conjI]) (simp add: c)
qed

end
