(* ===== verification/ServiceProcess.thy ===== *)
theory ServiceProcess
  imports GrpcService EfortSafety ConfigLoader
begin

text \<open>
  \<open>apps/robot_manager/main.cc\<close>: the composition of configuration, driver, executor and
  transport into one process, its exit codes and what it has done when it exits. The
  environment of the process, files, YAML parser, controller and gRPC's \<open>BuildAndStart\<close>, is
  a record of parameters.
\<close>

section \<open>Drivers\<close>

text \<open>The build options \<open>ROBOT_HAS_MOCK\<close>, \<open>ROBOT_HAS_EFORT\<close> and \<open>ROBOT_HAS_GRPC\<close>.\<close>

record build =
  has_mock :: bool
  has_efort :: bool
  has_grpc :: bool

datatype driver_kind = MockKind | EfortKind

definition create_driver :: "build \<Rightarrow> string \<Rightarrow> driver_kind option" where
  "create_driver b driver_name =
    (if has_mock b \<and> driver_name = ''mock'' then Some MockKind
     else if has_efort b \<and> driver_name = ''efort'' then Some EfortKind
     else None)"

record 'w environment =
  en_file :: "string \<Rightarrow> file_content"
  en_credential_file :: "string \<Rightarrow> string option"
  en_ryml :: "string \<Rightarrow> string \<Rightarrow> string + yaml_node"
  en_strtod :: strtod_fun
  en_sdk :: "'w sdk"
  en_controller :: 'w
  en_clock :: clock
  en_threads :: thread_start
  en_build_and_start :: "credentials \<Rightarrow> endpoint \<Rightarrow> bool"

text \<open>The default constructor of \<open>MockDriver\<close> takes a motion duration of 150 ms.\<close>

definition start_kind :: "'w environment \<Rightarrow> driver_kind \<Rightarrow> service_config \<Rightarrow> status" where
  "start_kind E kind c =
    (let opts = sc_executor_options c in
     case kind of
       MockKind \<Rightarrow> fst (start opts (Some mock_driver) (sc_connection c) (en_clock E 0)
         (en_threads E) (new_executor opts) (new_mock 150 (en_clock E)))
     | EfortKind \<Rightarrow> fst (start opts (Some (efort_driver (en_sdk E))) (sc_connection c) (en_clock E 0)
         (en_threads E) (new_executor opts) (new_efort (en_controller E) (en_clock E))))"

section \<open>Run and main\<close>

text \<open>
  What a process has done, in order: called \<open>Start\<close>, run with a started executor, served gRPC
  until a signal (or, in a build without gRPC, printed states until one), called \<open>Shutdown\<close>.
\<close>

datatype process_event = StartCalled driver_kind | ExecutorStarted | GrpcServed | StatesPrinted
  | ShutdownCalled

definition run_process :: "build \<Rightarrow> 'w environment \<Rightarrow> string \<Rightarrow> int \<times> process_event list" where
  "run_process b E config_path =
    (case load_service_config (en_file E) (en_ryml E) (en_strtod E) config_path of
       Inl _ \<Rightarrow> (2, [])
     | Inr config \<Rightarrow>
    (let grpc = (if has_grpc b then Some (load_grpc_server_options (en_file E) (en_ryml E) config_path)
                 else None) in
     case grpc of
       Some (Inl _) \<Rightarrow> (2, [])
     | _ \<Rightarrow>
    (case create_driver b (sc_driver_name config) of
       None \<Rightarrow> (2, [])
     | Some kind \<Rightarrow>
         if \<not> status_ok (start_kind E kind config) then (1, [StartCalled kind])
         else
           (case grpc of
              Some (Inr options) \<Rightarrow>
                if \<not> status_ok (run_grpc_server (en_credential_file E) (en_build_and_start E) options
                     (co_robot_id (sc_connection config)) True)
                then (1, [StartCalled kind, ExecutorStarted, ShutdownCalled])
                else (0, [StartCalled kind, ExecutorStarted, GrpcServed, ShutdownCalled])
            | _ \<Rightarrow> (0, [StartCalled kind, ExecutorStarted, StatesPrinted, ShutdownCalled])))))"

definition default_config_path :: string where
  "default_config_path = ''/etc/robot-manager/robot.yaml''"

text \<open>The arguments are those after the program's name.\<close>

definition robot_manager_main :: "build \<Rightarrow> 'w environment \<Rightarrow> string list \<Rightarrow> int \<times> process_event list" where
  "robot_manager_main b E args =
    (if args = [''--version''] then (0, [])
     else if length args = 2 \<and> args ! 0 = ''--config'' then run_process b E (args ! 1)
     else if args \<noteq> [] then (2, [])
     else run_process b E default_config_path)"

section \<open>What a serving process rests on\<close>

lemma start_checks_options: "status_ok (fst (start opts (Some drv) con now threads s d)) \<Longrightarrow>
    \<not> options_invalid opts \<and> status_ok (fst (rd_connect drv con d))"
  by (auto simp: start_def Let_def split: if_splits prod.splits)

lemma start_kind_needs:
  assumes "status_ok (start_kind E kind c)"
  shows "\<not> options_invalid (sc_executor_options c) \<and> co_address (sc_connection c) \<noteq> []"
proof (cases kind)
  case MockKind
  then have s: "status_ok (fst (start (sc_executor_options c) (Some mock_driver) (sc_connection c) (en_clock E 0)
      (en_threads E) (new_executor (sc_executor_options c)) (new_mock 150 (en_clock E))))"
    using assms by (simp add: start_kind_def Let_def)
  have "co_address (sc_connection c) \<noteq> []"
    using start_checks_options [OF s] mock.connect_empty [of "sc_connection c" "new_mock 150 (en_clock E)"] by auto
  then show ?thesis using start_checks_options [OF s] by simp
next
  case EfortKind
  then have s: "status_ok (fst (start (sc_executor_options c) (Some (efort_driver (en_sdk E))) (sc_connection c)
      (en_clock E 0) (en_threads E) (new_executor (sc_executor_options c)) (new_efort (en_controller E) (en_clock E))))"
    using assms by (simp add: start_kind_def Let_def)
  have "co_address (sc_connection c) \<noteq> []"
    using start_checks_options [OF s]
      efort.connect_empty [of "sc_connection c" "en_sdk E" "new_efort (en_controller E) (en_clock E)"] by auto
  then show ?thesis using start_checks_options [OF s] by simp
qed

text \<open>What \<open>prepare_grpc_server\<close> hands to gRPC for options of the loader.\<close>

lemma prepared_transport:
  assumes "load_grpc_server_options file ryml path = Inr o'"
    and "prepare_grpc_server cred o' robot_id True = Inr (creds, ep)"
  shows "ep_robot_id ep = robot_id \<and>
    (if creds = Insecure then is_loopback_listen_address (go_listen_address o')
     else ep_allowed_client_common_names ep \<noteq> [])"
  using assms(2) load_grpc_protected [OF assms(1)]
  unfolding prepare_protected [OF load_grpc_protected [OF assms(1)]]
  by (auto simp: transport_protected_def config_ok Let_def split: if_splits)

text \<open>How a process that has served got there.\<close>

lemma run_process_served:
  assumes "run_process b E path = (code, events)" and "GrpcServed \<in> set events"
  obtains c kind o' where "load_service_config (en_file E) (en_ryml E) (en_strtod E) path = Inr c"
    "create_driver b (sc_driver_name c) = Some kind" "status_ok (start_kind E kind c)"
    "events = [StartCalled kind, ExecutorStarted, GrpcServed, ShutdownCalled]" "code = 0"
    "load_grpc_server_options (en_file E) (en_ryml E) path = Inr o'"
    "status_ok (run_grpc_server (en_credential_file E) (en_build_and_start E) o' (co_robot_id (sc_connection c)) True)"
  using assms by (auto simp: run_process_def Let_def split: sum.splits option.splits if_splits)

lemma run_grpc_server_ok:
  assumes "status_ok (run_grpc_server cred start_server o' robot_id True)"
  obtains creds ep where "prepare_grpc_server cred o' robot_id True = Inr (creds, ep)" "start_server creds ep"
  using assms
  by (auto simp: run_grpc_server_def prepare_grpc_server_def config_ok read_credential_def on_ok_def Let_def
      split: sum.splits option.splits if_splits)

text \<open>
  Claim C10. A process that serves is a safe one: when robot-manager has served gRPC, its
  configuration passed every check of both loaders, motion is enabled only with verified
  limits, \<open>Start\<close> had accepted the executor's options and connected the configured driver,
  the endpoint serves the configured robot, in clear only on an address with
  one of the four prefixes that the loader takes for loopback (a test of its text, which
  \<open>insecure_beyond_loopback\<close> in \<open>GrpcService\<close> defeats), and the executor was shut down before
  the exit with code 0.
\<close>

theorem serving_process_is_safe:
  assumes "run_process b E path = (code, events)" and "GrpcServed \<in> set events"
  shows "\<exists>c kind o' creds ep. load_service_config (en_file E) (en_ryml E) (en_strtod E) path = Inr c
    \<and> config_safe c \<and> create_driver b (sc_driver_name c) = Some kind \<and> status_ok (start_kind E kind c)
    \<and> events = [StartCalled kind, ExecutorStarted, GrpcServed, ShutdownCalled] \<and> code = 0
    \<and> \<not> options_invalid (sc_executor_options c) \<and> co_address (sc_connection c) \<noteq> []
    \<and> load_grpc_server_options (en_file E) (en_ryml E) path = Inr o'
    \<and> en_build_and_start E creds ep \<and> ep_robot_id ep = co_robot_id (sc_connection c)
    \<and> (if creds = Insecure then is_loopback_listen_address (go_listen_address o')
       else ep_allowed_client_common_names ep \<noteq> [])"
proof -
  obtain c kind o' where st: "load_service_config (en_file E) (en_ryml E) (en_strtod E) path = Inr c"
    "create_driver b (sc_driver_name c) = Some kind" "status_ok (start_kind E kind c)"
    "events = [StartCalled kind, ExecutorStarted, GrpcServed, ShutdownCalled]" "code = 0"
    "load_grpc_server_options (en_file E) (en_ryml E) path = Inr o'"
    "status_ok (run_grpc_server (en_credential_file E) (en_build_and_start E) o' (co_robot_id (sc_connection c)) True)"
    by (rule run_process_served [OF assms])
  obtain creds ep where g: "prepare_grpc_server (en_credential_file E) o' (co_robot_id (sc_connection c)) True
      = Inr (creds, ep)" "en_build_and_start E creds ep"
    by (rule run_grpc_server_ok [OF st(7)])
  show ?thesis
    using st g load_safe [OF st(1)] start_kind_needs [OF st(3)] prepared_transport [OF st(6) g(1)] by blast
qed

text \<open>A process of the mock build whose one configuration file holds both parts.\<close>

definition demo_full_tree :: yaml_node where
  "demo_full_tree = demo_section [] [
     demo_scalar ''schema_version'' ''1'',
     demo_section ''service'' [demo_scalar ''instance_id'' ''cell-1'', demo_scalar ''state_poll_ms'' ''50'',
       demo_scalar ''state_stale_after_ms'' ''500'', demo_scalar ''command_queue_capacity'' ''4'',
       demo_scalar ''command_history_capacity'' ''8''],
     demo_section ''robot'' [demo_scalar ''id'' ''r1'', demo_scalar ''driver'' ''mock'',
       demo_scalar ''address'' ''sim'', demo_scalar ''model'' ''mock'', demo_scalar ''axis_count'' ''1'',
       demo_scalar ''verify_sdk_version'' ''true'', demo_scalar ''sdk_debug_logging'' ''false''],
     demo_section ''control_lease'' [demo_scalar ''ttl_ms'' ''3000'', demo_scalar ''jog_heartbeat_timeout_ms'' ''300''],
     demo_section ''limits'' [demo_scalar ''motion_enabled'' ''true'',
       demo_scalar ''program_execution_enabled'' ''false'', demo_scalar ''maximum_joint_speed_percent'' ''20'',
       demo_scalar ''maximum_linear_speed_mm_per_second'' ''500'', demo_list ''joint_limits_deg'' [''-1:1'']],
     demo_section ''transport'' [demo_section ''grpc'' demo_tls]]"

definition demo_environment :: "controller environment" where
  "demo_environment = \<lparr>en_file = (\<lambda>_. Content []), en_credential_file = (\<lambda>path. Some path),
     en_ryml = (\<lambda>_ _. Inr demo_full_tree), en_strtod = demo_strtod, en_sdk = demo_sdk,
     en_controller = ef_controller (demo_efort False), en_clock = demo_clk, en_threads = ThreadsStarted,
     en_build_and_start = (\<lambda>_ _. True)\<rparr>"

definition demo_build :: build where
  "demo_build = \<lparr>has_mock = True, has_efort = False, has_grpc = True\<rparr>"

lemma demo_process:
  "run_process demo_build demo_environment ''robot.yaml''
     = (0, [StartCalled MockKind, ExecutorStarted, GrpcServed, ShutdownCalled])"
  by code_simp

theorem serving_process_is_safe_witness:
  "\<exists>c. load_service_config (\<lambda>_. Content []) (\<lambda>_ _. Inr demo_full_tree) demo_strtod ''robot.yaml'' = Inr c
     \<and> sc_driver_name c = ''mock'' \<and> config_safe c"
proof -
  have "GrpcServed \<in> set [StartCalled MockKind, ExecutorStarted, GrpcServed, ShutdownCalled]" by simp
  from serving_process_is_safe [OF demo_process this] show ?thesis
    by (auto simp: demo_environment_def create_driver_def demo_build_def split: if_splits)
qed

text \<open>
  The exit code tells how far the process got: 2 exactly when it refused its command
  line or configuration before it called \<open>Start\<close>, 0 exactly when it printed its version or ran until a
  signal, and an executor that was started is always shut down, as the last thing done.
\<close>

theorem exit_code_tells_progress:
  "case robot_manager_main b E args of (code, events) \<Rightarrow>
      code \<in> {0, 1, 2}
    \<and> (code = 2) = (events = [] \<and> args \<noteq> [''--version''])
    \<and> (code = 0) = (args = [''--version''] \<or> GrpcServed \<in> set events \<or> StatesPrinted \<in> set events)
    \<and> (ExecutorStarted \<in> set events) = (events \<noteq> [] \<and> last events = ShutdownCalled)"
proof -
  have r: "case run_process b E path of (code, events) \<Rightarrow> code \<in> {0, 1, 2} \<and> (code = 2) = (events = [])
      \<and> (code = 0) = (GrpcServed \<in> set events \<or> StatesPrinted \<in> set events)
      \<and> (ExecutorStarted \<in> set events) = (events \<noteq> [] \<and> last events = ShutdownCalled)" for path
    by (auto simp: run_process_def Let_def split: sum.splits option.splits if_splits)
  show ?thesis using r [of "args ! 1"] r [of default_config_path]
    by (auto simp: robot_manager_main_def split: prod.splits)
qed

end
