(* ===== verification/ConfigKeys.thy ===== *)
theory ConfigKeys
  imports ServiceProcess
begin

text \<open>
  The two loaders read one file; between them every setting of the file must be one they know.
  What they let through unseen is a transport other than gRPC.
\<close>

section \<open>Accepted keys\<close>

lemma children_plain:
  "read_mapping n prefix document = Inr document' \<Longrightarrow> reaches n ks m \<Longrightarrow> list_all plain_key ks"
  "read_children cs prefix document = Inr document'
     \<Longrightarrow> (\<forall>c\<in>set cs. plain_key (ni_key (info c)) \<and> (\<forall>ks m. reaches c ks m \<longrightarrow> list_all plain_key ks))"
proof (induction n prefix document and cs prefix document arbitrary: document' ks m and document'
    rule: read_mapping_read_children.induct)
  case (1 i cs prefix document)
  then show ?case by (cases ks) (auto split: if_splits)
next
  case (3 i cs rest prefix document)
  let ?p = "child_path prefix (ni_key i)"
  have ok: "\<not> bad_key i" "\<not> known_path document ?p"
    using "3.prems" by (auto simp: Let_def split: if_splits)
  then have key: "plain_key (ni_key i)" by (simp add: bad_key_def plain_key_def)
  have leaf: "reaches (Node i cs) ks m \<Longrightarrow> ks = []" if "\<not> ni_is_map i" for ks m using that by (cases ks) auto
  consider (map) "ni_is_map i" | (seq) "\<not> ni_is_map i" "ni_is_seq i" | (val) "\<not> ni_is_map i" "\<not> ni_is_seq i"
    by blast
  then show ?case
  proof cases
    case map
    then obtain d1 where d1: "read_mapping (Node i cs) ?p (document\<lparr>cd_mappings := insort_insert ?p (cd_mappings document)\<rparr>) = Inr d1"
      "read_children rest prefix d1 = Inr document'"
      using "3.prems" ok by (auto simp: Let_def split: sum.splits)
    show ?thesis using "3.IH"(1) [OF refl ok map d1(1)] "3.IH"(2) [OF refl ok map d1(1) d1(2)] key by auto
  next
    case seq
    then have r: "read_children rest prefix (document\<lparr>cd_lists := smap_emplace ?p
        (List.map (\<lambda>item. ni_val (info item)) cs) (cd_lists document)\<rparr>) = Inr document'"
      and b: "\<not> list_ex (\<lambda>item. bad_item (info item)) cs"
      using "3.prems" ok by (auto simp: Let_def split: if_splits)
    show ?thesis using "3.IH"(3) [OF refl ok seq b r] key leaf [OF seq(1)] by fastforce
  next
    case val
    then have r: "read_children rest prefix (document\<lparr>cd_scalars := smap_emplace ?p (ni_val i)
        (cd_scalars document)\<rparr>) = Inr document'" and v: "ni_has_val i \<and> \<not> ni_val_is_null i"
      using "3.prems" ok by (auto simp: Let_def split: if_splits)
    show ?thesis using "3.IH"(4) [OF refl ok val v r] key leaf [OF val(1)] by fastforce
  qed
qed simp

lemma reached_entry:
  assumes "read_mapping tree [] empty_document = Inr document" and "reaches tree ks m" and "ks \<noteq> []"
  shows "entry_at document (dotted ks) = Some (entry_of m)"
proof -
  have map: "ni_is_map (info tree)"
    and iff: "\<And>e. entry_at document (dotted ks) = Some e \<longleftrightarrow> holds_below (children tree) [] (dotted ks) e"
    using read_entries(1) [OF assms(1)] by (simp_all add: entry_at_def empty_document_def)
  obtain k ks' where ks: "ks = k # ks'" using assms(3) by (cases ks) auto
  then obtain c where c: "c \<in> set (children tree)" "ni_key (info c) = k" "reaches c ks' m" using assms(2) by auto
  have "holds_below (children tree) [] (dotted ks) (entry_of m)"
    unfolding holds_below_def using c ks children_plain(1) [OF assms(1,2)]
    by (intro bexI [of _ c] exI [of _ ks'] exI [of _ m]) (auto simp: joined_path_def)
  then show ?thesis using iff by blast
qed

text \<open>The entries each loader lets through.\<close>

definition service_knows :: "string \<Rightarrow> entry \<Rightarrow> bool" where
  "service_knows p e = (case e of Scalar _ \<Rightarrow> p \<in> set known_scalars | Items _ \<Rightarrow> p \<in> set known_lists
     | Section \<Rightarrow> p \<in> set known_mappings)"

definition grpc_knows :: "string \<Rightarrow> entry \<Rightarrow> bool" where
  "grpc_knows p e = (case e of Scalar _ \<Rightarrow> p \<in> set grpc_known_scalars | Items _ \<Rightarrow> p = common_names_key
     | Section \<Rightarrow> p = ''transport.grpc'')"

lemma entry_cases:
  assumes "entry_at document p = Some e"
  obtains (scalar) v where "e = Scalar v" "p \<in> set (map fst (cd_scalars document))"
  | (items) vs where "e = Items vs" "p \<in> set (map fst (cd_lists document))"
  | (sect) "e = Section" "p \<in> set (cd_mappings document)"
  using assms
  by (force simp: entry_at_def smap_find_def split: option.splits if_splits dest: map_of_SomeD)

lemma starts_with_grows: "starts_with (a @ b) p \<Longrightarrow> starts_with a p"
  by (induction a p rule: starts_with.induct) auto

text \<open>\<open>CheckKnownKeys\<close> lets a mapping pass at the path of a list; \<open>OptionalList\<close> refuses it later.\<close>

lemma optional_list_no_section: "optional_list document p = Inr vs \<Longrightarrow> entry_at document p \<noteq> Some Section"
  by (auto simp: optional_list_def entry_at_def config_ok split: option.splits if_splits)

lemma loaded_lists_no_section:
  assumes "load_service_config file ryml strtod path = Inr c"
    and "load_config_document file ryml path = Inr document" and "p \<in> set known_lists"
  shows "entry_at document p \<noteq> Some Section"
proof -
  have "(\<exists>n p0 p1. read_joint_limits strtod document n p0 = Inr p1)
      \<and> (\<exists>vs. optional_list document ''limits.writable_digital_outputs'' = Inr vs)
      \<and> (\<exists>vs. optional_list document ''limits.approved_programs'' = Inr vs)"
    using assms(1,2) unfolding load_service_config_def Let_def
    by (clarsimp simp: config_ok split: if_split_asm) blast
  then obtain n p0 p1 vs ws where j: "read_joint_limits strtod document n p0 = Inr p1"
    and "optional_list document ''limits.writable_digital_outputs'' = Inr vs"
      "optional_list document ''limits.approved_programs'' = Inr ws" by blast
  moreover obtain us where "optional_list document ''limits.joint_limits_deg'' = Inr us"
    using j by (auto simp: read_joint_limits_def config_ok Let_def)
  ultimately show ?thesis
    using assms(3) optional_list_no_section by (fastforce simp: known_lists_def)
qed

lemma check_known_entry:
  assumes "status_ok (check_known_keys document)" and "entry_at document p = Some e"
    and "p \<in> set known_lists \<Longrightarrow> e \<noteq> Section"
  shows "service_knows p e \<or> is_transport_extension p"
proof -
  have known: "\<forall>k\<in>set (map fst (cd_scalars document)). k \<in> set known_scalars \<or> is_transport_extension k"
    "\<forall>k\<in>set (map fst (cd_lists document)). k \<in> set known_lists \<or> is_transport_extension k"
    "\<forall>k\<in>set (cd_mappings document). k \<in> set known_mappings \<or> k \<in> set known_lists \<or> is_transport_extension k"
    using assms(1) by (auto simp: check_known_keys_def config_error_def find_None_iff split: option.splits)
  from assms(2) show ?thesis
    by (cases rule: entry_cases) (use known assms(3) in \<open>auto simp: service_knows_def\<close>)
qed

lemma grpc_known_entry:
  assumes "grpc_unknown_key document = None" and "entry_at document p = Some e" and "starts_with ''transport.grpc.'' p"
  shows "grpc_knows p e"
proof -
  have p: "starts_with ''transport.grpc'' p" using assms(3) starts_with_grows [of "''transport.grpc''" "''.''"] by simp
  have known: "\<forall>k\<in>set (map fst (cd_scalars document)). starts_with ''transport.grpc.'' k \<longrightarrow> k \<in> set grpc_known_scalars"
    "\<forall>k\<in>set (map fst (cd_lists document)). starts_with ''transport.grpc.'' k \<longrightarrow> k = common_names_key"
    "\<forall>k\<in>set (cd_mappings document). starts_with ''transport.grpc'' k \<longrightarrow> k = ''transport.grpc''"
    using assms(1) by (auto simp: grpc_unknown_key_def find_None_iff split: option.splits)
  from assms(2) show ?thesis by (cases rule: entry_cases) (use known assms(3) p in \<open>auto simp: grpc_knows_def\<close>)
qed

section \<open>The claim\<close>

text \<open>
  Claim C29. No setting is ignored, but for other transports: when robot-manager has served gRPC,
  every scalar, list and section of its configuration file is one that the loader of the
  service or of gRPC knows as a scalar, list or section (a section in the place of a list does
  not load), or it lies under \<open>transport\<close> and outside \<open>transport.grpc\<close>, where
  neither loader looks; a misspelt safety limit therefore never goes unnoticed.
\<close>

theorem no_setting_is_ignored:
  assumes "run_process b E path = (code, events)" and "GrpcServed \<in> set events"
    and "en_file E path = Content source" and "en_ryml E path source = Inr tree"
    and "reaches tree ks m" and "ks \<noteq> []"
  shows "service_knows (dotted ks) (entry_of m) \<or> grpc_knows (dotted ks) (entry_of m)
    \<or> is_transport_extension (dotted ks) \<and> \<not> starts_with ''transport.grpc.'' (dotted ks)"
proof -
  obtain c o' where loads: "load_service_config (en_file E) (en_ryml E) (en_strtod E) path = Inr c"
    "load_grpc_server_options (en_file E) (en_ryml E) path = Inr o'"
    by (rule run_process_served [OF assms(1,2)]) blast
  obtain document where d: "load_config_document (en_file E) (en_ryml E) path = Inr document"
    "status_ok (check_known_keys document)"
    using load_service_config_stages [OF loads(1)] by metis
  have g: "grpc_unknown_key document = None"
    using loads(2) d(1) by (auto simp: load_grpc_server_options_def config_ok split: option.splits)
  have "read_mapping tree [] empty_document = Inr document"
    using d(1) assms(3,4) by (simp add: load_config_document_def parse_yaml_def)
  from reached_entry [OF this assms(5,6)] have e: "entry_at document (dotted ks) = Some (entry_of m)" .
  have "entry_of m \<noteq> Section" if "dotted ks \<in> set known_lists"
    using loaded_lists_no_section [OF loads(1) d(1) that] e by simp
  then show ?thesis using check_known_entry [OF d(2) e] grpc_known_entry [OF g e] by blast
qed

theorem no_setting_is_ignored_witness:
  "service_knows ''limits.motion_enabled'' (Scalar ''true'')"
proof -
  let ?E = demo_environment and ?ks = "[''limits'', ''motion_enabled'']"
  have "GrpcServed \<in> set [StartCalled MockKind, ExecutorStarted, GrpcServed, ShutdownCalled]" by simp
  moreover have "en_file ?E ''robot.yaml'' = Content []" "en_ryml ?E ''robot.yaml'' [] = Inr demo_full_tree"
    by (simp_all add: demo_environment_def)
  moreover have "reaches demo_full_tree ?ks (demo_scalar ''motion_enabled'' ''true'')"
    by (simp add: demo_full_tree_def demo_section_def demo_scalar_def demo_list_def demo_node_def)
  ultimately have "service_knows (dotted ?ks) (entry_of (demo_scalar ''motion_enabled'' ''true''))
      \<or> grpc_knows (dotted ?ks) (entry_of (demo_scalar ''motion_enabled'' ''true''))
      \<or> is_transport_extension (dotted ?ks) \<and> \<not> starts_with ''transport.grpc.'' (dotted ?ks)"
    by (intro no_setting_is_ignored [OF demo_process]) simp_all
  then show ?thesis
    by (simp add: entry_of_def demo_scalar_def demo_node_def grpc_knows_def grpc_known_scalars_def is_transport_extension_def)
qed

text \<open>What is let through: a transport the service does not have.\<close>

lemma other_transports_pass:
  "status_ok (check_known_keys \<lparr>cd_scalars = [(''transport.rest.listen'', ''0.0.0.0:80'')], cd_lists = [],
     cd_mappings = [''limits'', ''transport'', ''transport.rest'']\<rparr>)
   \<and> grpc_unknown_key \<lparr>cd_scalars = [(''transport.rest.listen'', ''0.0.0.0:80'')], cd_lists = [],
     cd_mappings = [''limits'', ''transport'', ''transport.rest'']\<rparr> = None"
  by code_simp

end
