(* ===== verification/RobotCtl.thy ===== *)
theory RobotCtl
  imports ServiceProcess
begin

text \<open>
  \<open>apps/robot_manager/robotctl/main.cc\<close>: the command line client of the service, with what it
  prints. The stub's \<open>GetState\<close> over an insecure channel is a parameter; at the end it is the
  endpoint of \<open>GrpcService\<close> itself, called by a peer without an authentication context.
\<close>

section \<open>The tool\<close>

text \<open>The values \<open>robot/version.h\<close> is generated with.\<close>

record build_info =
  bi_version :: string
  bi_commit :: string
  bi_branch :: string
  bi_date :: string
  bi_time :: string
  bi_compiler :: string

definition newline :: string where
  "newline = [CHR 0x0A]"

text \<open>Exit code, standard output, standard error.\<close>

record tool_result =
  tr_code :: int
  tr_out :: string
  tr_err :: string

definition ctl_usage :: string where
  "ctl_usage = ''Usage:'' @ newline @ ''  robotctl version'' @ newline @ ''  robotctl models'' @ newline
     @ ''  robotctl state <endpoint> <robot-id>'' @ newline"

definition ctl_print_version :: "build_info \<Rightarrow> tool_result" where
  "ctl_print_version i = \<lparr>tr_code = 0,
     tr_out = ''robotctl '' @ bi_version i @ newline
       @ ''git: '' @ bi_commit i @ '' ('' @ bi_branch i @ '')'' @ newline
       @ ''built: '' @ bi_date i @ '' '' @ bi_time i @ '' with '' @ bi_compiler i @ newline,
     tr_err = []\<rparr>"

text \<open>A truth value as \<open>operator<<\<close> prints it.\<close>

definition show_flag :: "bool \<Rightarrow> string" where
  "show_flag b = (if b then ''1'' else ''0'')"

definition state_line :: "pb_state \<Rightarrow> string" where
  "state_line response = ''robot_id='' @ ps_robot_id response @ '' model='' @ ps_controller_model response
     @ '' state='' @ show_int (ps_lifecycle response) @ '' connected='' @ show_flag (ps_connected response)
     @ '' servo='' @ show_flag (ps_servo_on response) @ '' moving='' @ show_flag (ps_moving response) @ newline"

type_synonym get_state_stub = "string \<Rightarrow> string \<Rightarrow> grpc_status \<times> pb_state"

definition ctl_print_state :: "get_state_stub \<Rightarrow> string \<Rightarrow> string \<Rightarrow> tool_result" where
  "ctl_print_state stub target robot_id =
    (let (status, response) = stub target robot_id in
     if \<not> grpc_ok status then
       \<lparr>tr_code = 1, tr_out = [], tr_err = ''GetState failed: '' @ gs_message status @ newline\<rparr>
     else \<lparr>tr_code = 0, tr_out = state_line response, tr_err = []\<rparr>)"

text \<open>The arguments are those after the program's name.\<close>

definition robotctl_main :: "build \<Rightarrow> build_info \<Rightarrow> get_state_stub \<Rightarrow> string list \<Rightarrow> tool_result" where
  "robotctl_main b about stub args =
    (if args = [''version''] then ctl_print_version about
     else if length args = 3 \<and> args ! 0 = ''state'' then
       (if has_grpc b then ctl_print_state stub (args ! 1) (args ! 2)
        else \<lparr>tr_code = 2, tr_out = [], tr_err = ''robotctl was built without gRPC support'' @ newline\<rparr>)
     else \<lparr>tr_code = 2, tr_out = ctl_usage, tr_err = []\<rparr>)"

text \<open>
  The usage text of \<open>robotctl\<close> offers a command \<open>models\<close> that \<open>main\<close> does not know.
\<close>

lemma robotctl_models_unknown: "robotctl_main b about stub [''models''] = \<lparr>tr_code = 2, tr_out = ctl_usage, tr_err = []\<rparr>"
  by (simp add: robotctl_main_def)

section \<open>The tool against the endpoint\<close>

text \<open>The stub connected to an endpoint over the executor.\<close>

definition endpoint_stub :: "'s robot_service \<Rightarrow> endpoint \<Rightarrow> clock \<Rightarrow> time \<Rightarrow> 's \<Rightarrow> get_state_stub" where
  "endpoint_stub srv ep clk system_now s target robot_id =
    (case fst (serve srv ep clk system_now None (GetState robot_id) s) of
       Returned (st, StateReply p) \<Rightarrow> (st, p)
     | Returned (st, _) \<Rightarrow> (st, populate_state [] clk system_now default_snapshot)
     | Threw _ \<Rightarrow> (GrpcStatus UNAVAILABLE [], populate_state [] clk system_now default_snapshot))"

lemma stub_answers: "endpoint_stub srv ep clk system_now s target robot_id =
    (validate_request ep None robot_id,
     if grpc_ok (validate_request ep None robot_id)
     then populate_state (ep_robot_id ep) clk system_now (rs_get_state srv s)
     else populate_state [] clk system_now default_snapshot)"
  by (cases "validate_request ep None robot_id")
    (auto simp: endpoint_stub_def serve_def checked_def rpc_get_state_def answer_def refuse_def Let_def
      validate_request_def validate_robot_id_def authorize_def grpc_ok_def split: if_splits)

text \<open>
  The tool shows the robot: in a build with gRPC, \<open>robotctl state\<close> against an endpoint
  over the executor prints the identity, lifecycle and flags of the executor's latest snapshot and exits with 0
  exactly when the endpoint serves the robot asked for and has no allowlist; otherwise, as
  against every endpoint with mutual TLS, it prints no state and exits with 1.
\<close>

theorem tool_shows_the_robot:
  assumes "has_grpc b" and "sn = ex_latest_state s"
  shows "robotctl_main b about (endpoint_stub (executor_service pol opts drv now clk) ep tick system_now (s, d))
      [''state'', target, robot_id] =
    (if ep_allowed_client_common_names ep = [] \<and> robot_id = ep_robot_id ep
     then \<lparr>tr_code = 0, tr_out = ''robot_id='' @ robot_id @ '' model='' @ sn_controller_model sn
         @ '' state='' @ show_int (to_proto_lifecycle_state (sn_lifecycle sn))
         @ '' connected='' @ show_flag (sn_connected sn) @ '' servo='' @ show_flag (sn_servo_on sn)
         @ '' moving='' @ show_flag (sn_moving sn) @ newline, tr_err = []\<rparr>
     else \<lparr>tr_code = 1, tr_out = [], tr_err = ''GetState failed: ''
         @ (if ep_allowed_client_common_names ep \<noteq> [] then ''mTLS client certificate is required''
            else ''robot_id is not served by this instance'') @ newline\<rparr>)"
  using assms
  by (auto simp: robotctl_main_def ctl_print_state_def stub_answers validate_request_def validate_robot_id_def
      authorize_def grpc_ok_def executor_service_def get_state_def populate_state_def state_line_def Let_def)

end
