(* ===== verification/RobotShell.thy ===== *)
theory RobotShell
  imports ServiceProcess
begin

text \<open>
  \<open>apps/robotsh/main.cc\<close>: the command line that drives a robot through its own executor. Its
  two polling loops are functions of the readings they take, one entry per turn, and yield
  \<open>None\<close> while the readings given do not end them; the script of \<open>RunMoveJ\<close> is a function of the
  executor's answers and yields the exit code and the requests submitted.
\<close>

section \<open>Waiting\<close>

text \<open>
  \<open>WaitSnapshot\<close>: the clock, the stop flag and \<open>GetState()\<close>, read every 20 ms until the deadline
  ten seconds after the first reading.
\<close>

fun wait_snapshot :: "time \<Rightarrow> (robot_snapshot \<Rightarrow> bool) \<Rightarrow> (time \<times> bool \<times> robot_snapshot) list \<Rightarrow> bool option" where
  "wait_snapshot deadline predicate [] = None"
| "wait_snapshot deadline predicate ((now, stop_requested, snapshot) # turns) =
    (if \<not> now < deadline then Some False
     else if stop_requested then Some False
     else if predicate snapshot then Some True
     else wait_snapshot deadline predicate turns)"

definition snapshot_deadline :: "time \<Rightarrow> time" where
  "snapshot_deadline now = now + 10 * 1000000000"

text \<open>\<open>WaitDone\<close>: the stop flag and the answer of \<open>GetCommand\<close>, every 20 ms, without a deadline.\<close>

fun wait_done :: "(bool \<times> command_record status_or) list \<Rightarrow> bool option" where
  "wait_done [] = None"
| "wait_done ((stop_requested, record) # turns) =
    (if stop_requested then Some False
     else case record of
       Inl _ \<Rightarrow> Some False
     | Inr r \<Rightarrow>
         (case rc_state r of
            kSucceeded \<Rightarrow> Some True
          | kFailed \<Rightarrow> Some False | kCancelled \<Rightarrow> Some False | kTimedOut \<Rightarrow> Some False
          | kStopped \<Rightarrow> Some False
          | kQueued \<Rightarrow> wait_done turns | kRunning \<Rightarrow> wait_done turns))"

section \<open>The script of RunMoveJ\<close>

text \<open>
  What the executor answers: the lease, the answer to each submission, and the readings of the
  loops, in the order the script takes them.
\<close>

record shell_answers =
  sa_lease :: "control_lease status_or"
  sa_submit :: "command_request \<Rightarrow> nat status_or"
  sa_done :: "nat \<Rightarrow> (bool \<times> command_record status_or) list"
  sa_control_since :: "time"
  sa_control :: "(time \<times> bool \<times> robot_snapshot) list"
  sa_ready_since :: "time"
  sa_ready :: "(time \<times> bool \<times> robot_snapshot) list"

definition shell_request :: "control_lease \<Rightarrow> command_type \<Rightarrow> command_payload \<Rightarrow> string \<Rightarrow> command_request" where
  "shell_request lease ty body key =
    default_request\<lparr>rq_type := ty, rq_payload := body, rq_client_id := ''robotsh'',
      rq_lease_id := cl_id lease, rq_idempotency_key := key\<rparr>"

text \<open>\<open>WaitDone(...) && WaitSnapshot(...)\<close>.\<close>

definition wait_both :: "bool option \<Rightarrow> bool option \<Rightarrow> bool option" where
  "wait_both done seen = (case done of Some True \<Rightarrow> seen | r \<Rightarrow> r)"

definition control_wait :: "shell_answers \<Rightarrow> nat \<Rightarrow> bool option" where
  "control_wait sa i = wait_both (wait_done (sa_done sa i))
    (wait_snapshot (snapshot_deadline (sa_control_since sa)) sn_api_control (sa_control sa))"

definition ready_wait :: "shell_answers \<Rightarrow> nat \<Rightarrow> bool option" where
  "ready_wait sa i = wait_both (wait_done (sa_done sa i))
    (wait_snapshot (snapshot_deadline (sa_ready_since sa)) (\<lambda>sn. sn_lifecycle sn = kReady) (sa_ready sa))"

text \<open>
  The script from the lease on: exit code and submitted requests, or \<open>None\<close> while it waits.
  Every way out calls \<open>Shutdown\<close>.
\<close>

definition move_script :: "move_j_payload \<Rightarrow> shell_answers \<Rightarrow> (int \<times> command_request list) option" where
  "move_script payload sa =
    (case sa_lease sa of
       Inl _ \<Rightarrow> Some (1, [])
     | Inr lease \<Rightarrow>
         let acquire = shell_request lease kAcquireControl Monostate ''acquire'';
             power = shell_request lease kPowerOn Monostate ''power-on'';
             move = shell_request lease kMoveJ (MoveJPayload payload) ''movej'' in
         (case sa_submit sa acquire of
            Inl _ \<Rightarrow> Some (1, [acquire])
          | Inr i \<Rightarrow>
         (case control_wait sa i of
            None \<Rightarrow> None
          | Some False \<Rightarrow> Some (1, [acquire])
          | Some True \<Rightarrow>
         (case sa_submit sa power of
            Inl _ \<Rightarrow> Some (1, [acquire, power])
          | Inr j \<Rightarrow>
         (case ready_wait sa j of
            None \<Rightarrow> None
          | Some False \<Rightarrow> Some (1, [acquire, power])
          | Some True \<Rightarrow>
         (case sa_submit sa move of
            Inl _ \<Rightarrow> Some (1, [acquire, power, move])
          | Inr k \<Rightarrow>
         (case wait_done (sa_done sa k) of
            None \<Rightarrow> None
          | Some ok \<Rightarrow> Some (if ok then 0 else 1, [acquire, power, move]))))))))"

section \<open>The command line\<close>

text \<open>
  The payload from the arguments after \<open>movej\<close> and the configuration: six joints, read by
  \<open>strtod\<close> without looking at how much of the argument it read, and an optional speed.
\<close>

definition joint_argument :: "strtod_fun \<Rightarrow> string \<Rightarrow> dbl" where
  "joint_argument strtod a = fst (strtod (c_str a))"

definition speed_argument :: "string \<Rightarrow> int" where
  "speed_argument a = (case strtol (c_str a) of None \<Rightarrow> 0 | Some (n, _) \<Rightarrow> n)"

definition move_payload :: "strtod_fun \<Rightarrow> string list \<Rightarrow> move_j_payload option" where
  "move_payload strtod args =
    (let target = \<lparr>jt_position = map (joint_argument strtod) (take 6 args),
           jt_tool_name = ''tool0'', jt_work_object_name = ''wobj0''\<rparr>;
         payload = \<lparr>mj_target = target, mj_profile = \<lparr>jp_speed_percent = 10, jp_blend = dbl_zero\<rparr>\<rparr> in
     if 7 \<le> length args then
       (let speed = speed_argument (args ! 6) in
        if speed \<le> 0 \<or> speed > 100 then None
        else Some (payload\<lparr>mj_profile := \<lparr>jp_speed_percent = speed, jp_blend = dbl_zero\<rparr>\<rparr>))
     else Some payload)"

text \<open>
  Configuration, driver and \<open>Start\<close>, which \<open>PrintState\<close> and \<open>RunMoveJ\<close> share: an exit code, or
  the configuration of the running executor.
\<close>

definition shell_start :: "build \<Rightarrow> 'w environment \<Rightarrow> string \<Rightarrow> int + service_config" where
  "shell_start b E config_path =
    (case load_service_config (en_file E) (en_ryml E) (en_strtod E) config_path of
       Inl _ \<Rightarrow> Inl 2
     | Inr config \<Rightarrow>
    (case create_driver b (sc_driver_name config) of
       None \<Rightarrow> Inl 2
     | Some kind \<Rightarrow> if \<not> status_ok (start_kind E kind config) then Inl 1 else Inr config))"

definition shell_print_state :: "build \<Rightarrow> 'w environment \<Rightarrow> string \<Rightarrow> int" where
  "shell_print_state b E config_path = (case shell_start b E config_path of Inl code \<Rightarrow> code | Inr _ \<Rightarrow> 0)"

definition run_move_j :: "build \<Rightarrow> 'w environment \<Rightarrow> shell_answers \<Rightarrow> string \<Rightarrow> string list
    \<Rightarrow> (int \<times> command_request list) option" where
  "run_move_j b E sa config_path joints =
    (case move_payload (en_strtod E) joints of
       None \<Rightarrow> Some (2, [])
     | Some payload \<Rightarrow>
    (case shell_start b E config_path of
       Inl code \<Rightarrow> Some (code, [])
     | Inr _ \<Rightarrow> move_script payload sa))"

definition robotsh_main :: "build \<Rightarrow> 'w environment \<Rightarrow> shell_answers \<Rightarrow> string list
    \<Rightarrow> (int \<times> command_request list) option" where
  "robotsh_main b E sa args =
    (if args = [''version''] then Some (0, [])
     else if length args = 2 \<and> args ! 0 = ''state'' then Some (shell_print_state b E (args ! 1), [])
     else if 8 \<le> length args \<and> args ! 0 = ''movej'' then run_move_j b E sa (args ! 1) (drop 2 args)
     else Some (2, []))"

text \<open>
  An argument \<open>strtod\<close> converts nothing of, for which C prescribes the result zero, is a joint at
  zero degrees.
\<close>

lemma bad_joint_is_zero:
  assumes "\<And>a. fst (snd (strtod a)) = 0 \<Longrightarrow> fst (strtod a) = dbl_zero"
    and "length args = 6" "\<And>a. a \<in> set args \<Longrightarrow> fst (snd (strtod (c_str a))) = 0"
  shows "map_option (\<lambda>p. jt_position (mj_target p)) (move_payload strtod args) = Some (replicate 6 dbl_zero)"
  using assms by (auto simp: move_payload_def joint_argument_def Let_def intro!: nth_equalityI)

section \<open>What the loops tell\<close>

lemma wait_snapshot_true: "wait_snapshot deadline p turns = Some True \<Longrightarrow>
    \<exists>now sn. (now, False, sn) \<in> set turns \<and> p sn \<and> now < deadline"
  by (induction turns rule: wait_snapshot.induct [of _ "deadline" p]) (auto split: if_splits)

lemma wait_done_true: "wait_done turns = Some True \<Longrightarrow>
    \<exists>r. (False, Inr r) \<in> set turns \<and> rc_state r = kSucceeded"
  by (induction turns rule: wait_done.induct)
    (auto split: if_splits sum.splits command_state.splits)

lemma wait_both_true: "wait_both d s = Some True \<longleftrightarrow> d = Some True \<and> s = Some True"
  by (auto simp: wait_both_def split: option.splits bool.splits)

definition saw_success :: "shell_answers \<Rightarrow> nat \<Rightarrow> bool" where
  "saw_success sa i \<longleftrightarrow> (\<exists>r. (False, Inr r) \<in> set (sa_done sa i) \<and> rc_state r = kSucceeded)"

lemma control_wait_true: "control_wait sa i = Some True \<Longrightarrow>
    saw_success sa i \<and> (\<exists>now sn. (now, False, sn) \<in> set (sa_control sa) \<and> sn_api_control sn)"
  using wait_done_true wait_snapshot_true by (fastforce simp: control_wait_def wait_both_true saw_success_def)

lemma ready_wait_true: "ready_wait sa i = Some True \<Longrightarrow>
    saw_success sa i \<and> (\<exists>now sn. (now, False, sn) \<in> set (sa_ready sa) \<and> sn_lifecycle sn = kReady)"
  using wait_done_true wait_snapshot_true by (fastforce simp: ready_wait_def wait_both_true saw_success_def)

text \<open>
  Claim C32. The shell moves only a ready robot: when \<open>movej\<close> has ended, it submitted at most
  one joint move, last, under the lease it was granted; the move went out only after the
  acquire and power-on commands were seen to succeed and API control and then the ready state
  were observed; and the exit code is 0 exactly when the executor accepted the move and
  reported that it succeeded.
\<close>

theorem shell_moves_only_when_ready:
  assumes "run_move_j b E sa path args = Some (code, requests)"
  shows "(\<exists>lease payload. sa_lease sa = Inr lease \<and> move_payload (en_strtod E) args = Some payload
      \<and> requests = [shell_request lease kAcquireControl Monostate ''acquire'',
          shell_request lease kPowerOn Monostate ''power-on'',
          shell_request lease kMoveJ (MoveJPayload payload) ''movej'']
      \<and> (\<exists>i j. sa_submit sa (requests ! 0) = Inr i \<and> saw_success sa i
          \<and> sa_submit sa (requests ! 1) = Inr j \<and> saw_success sa j)
      \<and> (\<exists>now sn. (now, False, sn) \<in> set (sa_control sa) \<and> sn_api_control sn)
      \<and> (\<exists>now sn. (now, False, sn) \<in> set (sa_ready sa) \<and> sn_lifecycle sn = kReady)
      \<and> (code = 0) = (\<exists>k. sa_submit sa (requests ! 2) = Inr k \<and> wait_done (sa_done sa k) = Some True))
    \<or> code \<noteq> 0 \<and> (\<forall>rq\<in>set requests. rq_type rq = kAcquireControl \<or> rq_type rq = kPowerOn)"
proof -
  consider "code = 2 \<and> requests = []" | e where "requests = []" "shell_start b E path = Inl e" "code = e"
    | payload where "move_payload (en_strtod E) args = Some payload" "move_script payload sa = Some (code, requests)"
    using assms by (auto simp: run_move_j_def split: option.splits sum.splits)
  then show ?thesis
  proof cases
    case (2 e)
    then have "code \<noteq> 0" by (auto simp: shell_start_def split: sum.splits option.splits if_splits)
    then show ?thesis using 2 by simp
  next
    case (3 payload)
    then show ?thesis using control_wait_true ready_wait_true
      by (auto simp: move_script_def Let_def shell_request_def
          split: sum.splits option.splits bool.splits if_splits)
  qed simp
qed

text \<open>A session in which everything is answered at once.\<close>

definition demo_done_record :: "nat \<Rightarrow> command_record" where
  "demo_done_record i = default_record\<lparr>rc_id := i, rc_state := kSucceeded\<rparr>"

definition demo_answers :: shell_answers where
  "demo_answers = \<lparr>sa_lease = Inr (lm_active (ex_lease_manager demo_s2)),
     sa_submit = (\<lambda>rq. Inr (case rq_type rq of kAcquireControl \<Rightarrow> 1 | kPowerOn \<Rightarrow> 2 | _ \<Rightarrow> 3)),
     sa_done = (\<lambda>i. [(False, Inr (demo_done_record i))]),
     sa_control_since = 0, sa_control = [(0, False, demo_snapshot)],
     sa_ready_since = 0, sa_ready = [(0, False, demo_snapshot)]\<rparr>"

lemma demo_shell_starts: "\<not> isl (shell_start demo_build demo_environment ''robot.yaml'')"
  using demo_process
  by (auto simp: run_process_def shell_start_def Let_def split: sum.splits option.splits if_splits)

lemma demo_shell_runs:
  "\<exists>requests. run_move_j demo_build demo_environment demo_answers ''robot.yaml'' (replicate 6 ''1'') = Some (0, requests)"
proof -
  obtain payload where p: "move_payload (en_strtod demo_environment) (replicate 6 ''1'') = Some payload"
    by (simp add: move_payload_def Let_def)
  have "fst (the (move_script payload demo_answers)) = 0" "move_script payload demo_answers \<noteq> None"
    by (simp_all add: move_script_def Let_def demo_answers_def shell_request_def control_wait_def ready_wait_def
        wait_both_def demo_done_record_def demo_snapshot_def snapshot_deadline_def)
  then show ?thesis using p demo_shell_starts
    by (auto simp: run_move_j_def split: sum.splits)
qed

theorem shell_moves_only_when_ready_witness:
  "\<exists>requests. run_move_j demo_build demo_environment demo_answers ''robot.yaml'' (replicate 6 ''1'') = Some (0, requests)
     \<and> length requests = 3"
proof -
  obtain requests where r: "run_move_j demo_build demo_environment demo_answers ''robot.yaml'' (replicate 6 ''1'')
      = Some (0, requests)" using demo_shell_runs by blast
  then show ?thesis using shell_moves_only_when_ready [OF r] by auto
qed

text \<open>The readings \<open>WaitSnapshot\<close> looks at: before the deadline and before a signal.\<close>

definition live_readings :: "time \<Rightarrow> (time \<times> bool \<times> robot_snapshot) list \<Rightarrow> robot_snapshot list" where
  "live_readings deadline turns =
    map (\<lambda>(now, stop_requested, sn). sn) (takeWhile (\<lambda>(now, stop_requested, sn). now < deadline \<and> \<not> stop_requested) turns)"

lemma wait_snapshot_sees: "wait_snapshot deadline p turns = Some seen \<Longrightarrow>
    seen = list_ex p (live_readings deadline turns)"
  by (induction turns rule: wait_snapshot.induct [of _ deadline p]) (auto simp: live_readings_def split: if_splits)

lemma wait_snapshot_past:
  "i < length turns \<Longrightarrow> deadline \<le> fst (turns ! i) \<Longrightarrow> wait_snapshot deadline p turns \<noteq> None"
proof (induction turns arbitrary: i rule: wait_snapshot.induct [of _ deadline p])
  case (2 now stop_requested snapshot turns)
  then show ?case by (cases i) auto
qed simp

text \<open>
  Waiting for a state ends: readings that lie 20 ms apart bring \<open>WaitSnapshot\<close> to an
  answer within 501 turns, and the answer is whether the state was seen in a reading before the
  deadline and before a signal.
\<close>

theorem waiting_for_state_ends:
  assumes "length turns = 501" and "\<And>i. i < 501 \<Longrightarrow> since + int i * 20000000 \<le> fst (turns ! i)"
  shows "wait_snapshot (snapshot_deadline since) p turns
    = Some (list_ex p (live_readings (snapshot_deadline since) turns))"
proof -
  have "snapshot_deadline since \<le> fst (turns ! 500)" using assms(2) [of 500] by (simp add: snapshot_deadline_def)
  then have "wait_snapshot (snapshot_deadline since) p turns \<noteq> None"
    using wait_snapshot_past [of 500 turns] assms(1) by simp
  then show ?thesis using wait_snapshot_sees by blast
qed

end
