(* ===== verification/BasicMove.thy ===== *)
theory BasicMove
  imports ExecutorSafety
begin

text \<open>
  \<open>examples/basic_move.cc\<close>: the example client that moves the mock robot through its own
  executor, as a function of the executor's answers; and a run of the executor in which the
  example fails although every part works.
\<close>

section \<open>The example\<close>

definition example_policy :: safety_policy where
  "example_policy = default_policy\<lparr>sp_motion_enabled := True, sp_joint_limits_verified := True,
     sp_maximum_joint_speed_percent := 20,
     sp_joint_limits := replicate 6 \<lparr>minimum_deg = Fin (-360), maximum_deg = Fin 360\<rparr>\<rparr>"

definition example_options :: executor_options where
  "example_options = default_options\<lparr>eo_state_poll_interval := 10, eo_motion_start_grace := 50\<rparr>"

definition example_connection :: connection_options where
  "example_connection = default_connection\<lparr>co_robot_id := ''example-robot'', co_address := ''mock://example''\<rparr>"

definition example_client :: string where
  "example_client = ''basic-move-example''"

definition example_request :: "control_lease \<Rightarrow> command_type \<Rightarrow> command_payload \<Rightarrow> string \<Rightarrow> command_request" where
  "example_request lease ty body key = default_request\<lparr>rq_type := ty, rq_payload := body,
     rq_client_id := example_client, rq_lease_id := cl_id lease, rq_idempotency_key := key\<rparr>"

definition example_move :: move_j_payload where
  "example_move = \<lparr>mj_target = \<lparr>jt_position = [Fin 0, Fin (-10), Fin 20, Fin 0, Fin 30, Fin 0],
       jt_tool_name = ''tool0'', jt_work_object_name = ''wobj0''\<rparr>,
     mj_profile = \<lparr>jp_speed_percent = 10, jp_blend = dbl_zero\<rparr>\<rparr>"

text \<open>
  \<open>WaitFor\<close>: each turn reads the clock and then \<open>GetCommand\<close>, ten milliseconds apart, until the
  deadline two seconds after the first reading. \<open>None\<close>: the turns given do not end it.
\<close>

fun wait_for :: "time \<Rightarrow> (time \<times> command_record status_or) list \<Rightarrow> bool option" where
  "wait_for deadline [] = None"
| "wait_for deadline ((now, record) # turns) =
    (if \<not> now < deadline then Some False
     else case record of
       Inl _ \<Rightarrow> wait_for deadline turns
     | Inr r \<Rightarrow>
         if rc_state r = kSucceeded then Some True
         else if rc_state r \<noteq> kQueued \<and> rc_state r \<noteq> kRunning then Some False
         else wait_for deadline turns)"

definition wait_deadline :: "time \<Rightarrow> time" where
  "wait_deadline since = since + 2 * 1000000000"

text \<open>What the executor answers, and the readings of \<open>WaitFor\<close> for each command.\<close>

record example_answers =
  xa_start :: status
  xa_lease :: "control_lease status_or"
  xa_submit :: "command_request \<Rightarrow> nat status_or"
  xa_since :: "nat \<Rightarrow> time"
  xa_turns :: "nat \<Rightarrow> (time \<times> command_record status_or) list"

definition example_wait :: "example_answers \<Rightarrow> nat \<Rightarrow> bool option" where
  "example_wait xa i = wait_for (wait_deadline (xa_since xa i)) (xa_turns xa i)"

text \<open>
  \<open>main\<close>: the exit code and the requests submitted. The ways out after the lease call
  \<open>Shutdown\<close>; the two before it leave that to the destructor.
\<close>

definition example_main :: "example_answers \<Rightarrow> (int \<times> command_request list) option" where
  "example_main xa =
    (if \<not> status_ok (xa_start xa) then Some (1, [])
     else case xa_lease xa of
       Inl _ \<Rightarrow> Some (1, [])
     | Inr lease \<Rightarrow>
         let acquire = example_request lease kAcquireControl Monostate ''acquire-control'';
             power = example_request lease kPowerOn Monostate ''power-on'';
             move = example_request lease kMoveJ (MoveJPayload example_move) ''move-j-1'' in
         (case xa_submit xa acquire of
            Inl _ \<Rightarrow> Some (1, [acquire])
          | Inr i \<Rightarrow>
         (case example_wait xa i of
            None \<Rightarrow> None
          | Some False \<Rightarrow> Some (1, [acquire])
          | Some True \<Rightarrow>
         (case xa_submit xa power of
            Inl _ \<Rightarrow> Some (1, [acquire, power])
          | Inr j \<Rightarrow>
         (case example_wait xa j of
            None \<Rightarrow> None
          | Some False \<Rightarrow> Some (1, [acquire, power])
          | Some True \<Rightarrow>
         (case xa_submit xa move of
            Inl _ \<Rightarrow> Some (1, [acquire, power, move])
          | Inr k \<Rightarrow>
         (case example_wait xa k of
            None \<Rightarrow> None
          | Some ok \<Rightarrow> Some (if ok then 0 else 1, [acquire, power, move]))))))))"

section \<open>A run in which it fails\<close>

text \<open>The executor after \<open>Start\<close> on a fresh mock robot, and after the lease.\<close>

definition example_standby :: robot_snapshot where
  "example_standby = default_snapshot\<lparr>sn_sequence := 1, sn_lifecycle := kStandby,
     sn_controller_mode := kAutomatic, sn_connected := True, sn_speed_ratio := 10,
     sn_controller_model := ''mock'', sn_axis_count := 6, sn_active_tool := ''tool0'',
     sn_active_work_object := ''wobj0'', sn_joints := replicate 6 dbl_zero\<rparr>"

definition example_s1 :: exec_state where
  "example_s1 = (new_executor example_options)\<lparr>ex_running := True, ex_started_once := True,
     ex_threads_joinable := True, ex_latest_state := example_standby\<rparr>"

definition example_d1 :: mock where
  "example_d1 = snd (snd (start example_options (Some mock_driver) example_connection 0 ThreadsStarted
     (new_executor example_options) (new_mock 150 demo_clk)))"

definition example_lease :: control_lease where
  "example_lease = \<lparr>cl_id = ''lease-1-1'', cl_client_id = example_client, cl_expires_at = 3000000001\<rparr>"

definition example_s2 :: exec_state where
  "example_s2 = example_s1\<lparr>ex_lease_manager := \<lparr>lm_lease_ttl = 3000, lm_active = example_lease,
     lm_has_active = True, lm_next_id = 2\<rparr>\<rparr>"

definition example_acquire :: command_request where
  "example_acquire = example_request example_lease kAcquireControl Monostate ''acquire-control''"

definition example_power :: command_request where
  "example_power = example_request example_lease kPowerOn Monostate ''power-on''"

definition example_s3 :: exec_state where
  "example_s3 = snd (submit_commit example_options demo_clk example_acquire example_s2)"

definition example_s4 :: exec_state where
  "example_s4 = snd (worker_take 0 example_s3)"

definition example_record :: command_record where
  "example_record = \<lparr>rc_id = 1, rc_request = example_acquire, rc_state = kRunning, rc_result = StatusOk,
     rc_created_at = 0, rc_updated_at = 0\<rparr>"

definition example_s5 :: exec_state where
  "example_s5 = worker_finish example_options demo_clk example_record StatusOk example_s4"

definition example_refusal :: status where
  "example_refusal = validate example_policy example_power (ex_latest_state example_s5)
     (record_lease_valid 0 example_power example_s5) (ex_jog_active example_s5)"

lemma example_started:
  "start example_options (Some mock_driver) example_connection 0 ThreadsStarted (new_executor example_options)
     (new_mock 150 demo_clk) = (StatusOk, example_s1, example_d1)"
proof -
  let ?r = "start example_options (Some mock_driver) example_connection 0 ThreadsStarted
    (new_executor example_options) (new_mock 150 demo_clk)"
  have "fst ?r = StatusOk" "fst (snd ?r) = example_s1" by code_simp+
  then show ?thesis by (simp add: prod_eq_iff example_d1_def)
qed

abbreviation example_reach :: "mock system \<Rightarrow> bool" where
  "example_reach \<equiv> reachable mock_driver example_policy example_options"

lemma example_leased: "example_reach (idle_sys example_s2 example_d1 CIdle [])"
proof -
  have run: "ex_running example_s1" and ac: "is_accepting example_s1"
    by (simp_all add: example_s1_def is_accepting_def new_executor_def)
  have "example_reach (started example_s1 example_d1)" by (rule reachable.init [OF example_started run])
  then have "example_reach (idle_sys example_s1 example_d1 CIdle [])"
    by (simp add: started_def idle_sys_def fun_upd_idem)
  from idle_client [OF this client_step.acquire_begin [OF ac]]
  have 1: "example_reach (idle_sys example_s1 example_d1 (CAcquiring example_client) [])" .
  have "snd (lease_acquire 1 example_client (ex_lease_manager example_s1)) = ex_lease_manager example_s2"
    by code_simp
  then have "lease_acquire 1 example_client (ex_lease_manager example_s1)
      = (fst (lease_acquire 1 example_client (ex_lease_manager example_s1)), ex_lease_manager example_s2)"
    by (simp add: prod_eq_iff)
  from idle_client [OF 1 client_step.acquire [OF this]] show ?thesis by (simp add: example_s2_def)
qed

definition example_d2 :: mock where
  "example_d2 = snd (execute_caught mock_driver example_acquire example_d1)"

lemma example_acquired:
  "\<exists>calls. example_reach (idle_sys example_s5 example_d2 (CReturned example_acquire (Returned (Inr 1))) calls)"
proof -
  have b: "submit_begin example_acquire example_s2 = Inr (ex_latest_state example_s2, False)" by code_simp
  have v: "status_ok (validate example_policy example_acquire (ex_latest_state example_s2)
      (record_lease_valid 0 example_acquire example_s2) False)" by code_simp
  have "fst (submit_commit example_options demo_clk example_acquire example_s2) = Returned (Inr 1)" by code_simp
  then have c: "submit_commit example_options demo_clk example_acquire example_s2 = (Returned (Inr 1), example_s3)"
    by (simp add: example_s3_def prod_eq_iff)
  have w: "worker_wakes 0 example_s3" by code_simp
  have "fst (worker_take 0 example_s3) = TakeRun example_record" by code_simp
  then have t: "worker_take 0 example_s3 = (TakeRun example_record, example_s4)"
    by (simp add: example_s4_def prod_eq_iff)
  have p: "status_ok (worker_check_program example_record (validate example_policy (rc_request example_record)
      (ex_latest_state example_s4) (record_lease_valid 0 (rc_request example_record) example_s4)
      (ex_jog_active example_s4)) example_s4)" by code_simp
  have r: "rc_request example_record = example_acquire" by (simp add: example_record_def)
  have "fst (execute_caught mock_driver example_acquire example_d1) = StatusOk" by code_simp
  then have e: "execute_caught mock_driver (rc_request example_record) example_d1 = (StatusOk, example_d2)"
    by (simp add: prod_eq_iff example_d2_def r)
  show ?thesis using run_command [OF example_leased b v c w t p e] by (simp add: example_s5_def)
qed

text \<open>What the example sees of this run.\<close>

definition example_view :: "command_record \<Rightarrow> status \<Rightarrow> example_answers" where
  "example_view r refusal = \<lparr>xa_start = StatusOk, xa_lease = Inr example_lease,
     xa_submit = (\<lambda>rq. if rq = example_acquire then Inr 1 else Inl refusal),
     xa_since = (\<lambda>_. 0), xa_turns = (\<lambda>_. [(0, Inr r)])\<rparr>"

text \<open>
  Claim C33. The example can outrun the poller: it waits for the acquire command to succeed, but
  not for the snapshot in which the executor has observed the control, so there is a run in
  which the robot is under API control, the command has succeeded, the power-on command is
  refused for lack of API control, and the example exits with code 1 without having moved.
\<close>

theorem example_can_outrun_the_poller:
  "\<exists>y r. reachable mock_driver example_policy example_options y
     \<and> sn_api_control (md_state (sy_driver y))
     \<and> find_command (sy_exec y) 1 = Some r \<and> rc_request r = example_acquire \<and> rc_state r = kSucceeded
     \<and> sy_clients y 0 = CReturned example_power (Returned (Inl example_refusal))
     \<and> st_code example_refusal = kFailedPrecondition
     \<and> example_main (example_view r example_refusal) = Some (1, [example_acquire, example_power])"
proof -
  obtain calls where "example_reach (idle_sys example_s5 example_d2 (CReturned example_acquire (Returned (Inr 1))) calls)"
    using example_acquired by blast
  from idle_client [OF this client_step.returned]
  have 1: "example_reach (idle_sys example_s5 example_d2 CIdle calls)" .
  have "submit_begin example_power example_s5 = Inr (ex_latest_state example_s5, ex_jog_active example_s5)" by code_simp
  from idle_client [OF 1 client_step.submit_begun [OF this]]
  have 2: "example_reach (idle_sys example_s5 example_d2
      (CSubmitting example_power (ex_latest_state example_s5) (ex_jog_active example_s5)) calls)" .
  have code: "st_code example_refusal = kFailedPrecondition" by code_simp
  then have "\<not> status_ok example_refusal" by (simp add: status_ok_def)
  from idle_client [OF 2 client_step.submit_rejected [OF example_refusal_def this]]
  have 3: "example_reach (idle_sys example_s5 example_d2 (CReturned example_power (Returned (Inl example_refusal))) calls)" .
  have api: "sn_api_control (md_state example_d2)" by code_simp
  have "case find_command example_s5 1 of None \<Rightarrow> False
      | Some r \<Rightarrow> rc_request r = example_acquire \<and> rc_state r = kSucceeded" by code_simp
  then obtain r where r: "find_command example_s5 1 = Some r" "rc_request r = example_acquire" "rc_state r = kSucceeded"
    by (auto split: option.splits)
  have "example_power \<noteq> example_acquire" by code_simp
  then have "example_main (example_view r example_refusal) = Some (1, [example_acquire, example_power])"
    using r(3) by (simp add: example_main_def example_view_def example_wait_def wait_deadline_def
        example_acquire_def [symmetric] example_power_def [symmetric] Let_def)
  then show ?thesis using 3 api r code by (intro exI conjI) (auto simp: idle_sys_def)
qed

end
