(* ===== verification/Spec2Isabelle.thy ===== *)
theory Spec2Isabelle
  imports ExecutorSafety ExecutorHistory ExecutorMotion ExecutorLimits ExecutorLedger
    ExecutorProgress EfortSafety GuardedAdapter ServiceRuns ConfigKeys RobotCtl RobotShell BasicMove
begin

text \<open>
  A model of the robot manager, a service that puts one industrial robot behind a safety gate
  and a single command queue, with the theorems that make it correct.

  \<^bold>\<open>The program.\<close> One process owns one robot. Clients call it over gRPC; the endpoint
  (\<open>apps/robot_manager/transport/grpc_server.cc\<close>) checks who calls, decodes the message and hands a
  \<open>CommandRequest\<close> to the command executor (\<open>src/control/command_executor.cc\<close>). The executor admits
  it when the command guard (\<open>src/control/command_guard.cc\<close>) and the control lease
  (\<open>src/control/control_lease.cc\<close>) allow it on the latest snapshot, queues it, and one worker thread
  validates it again and calls the driver. A poller thread reads the robot's state, decides when
  a motion has ended, and requests a stop when the state becomes unsafe, a command runs out of
  time or a lease or jog heartbeat lapses. The driver is an \<open>IRobotDriver\<close>: the simulated
  \<open>MockDriver\<close> or the \<open>EfortDriver\<close> over a vendor SDK. A YAML file configures all of it
  (\<open>src/config/config_loader.cc\<close>, \<open>transport/grpc_config_loader.cc\<close>), and \<open>main.cc\<close> puts the parts
  together; \<open>robotsh\<close> and \<open>robotctl\<close> are command line tools, and \<open>examples/basic_move.cc\<close> is a sample
  client of the executor.

  \<^bold>\<open>Theories and sources.\<close>
  \<^item> \<open>Prelude\<close>: C++ doubles under comparison, clock readings, milliseconds to nanoseconds at 64
    bits, numbers as text, list facts. \<open>CommandStore\<close>: \<open>std::unordered_map\<close> as an association list and its
    interface, the locale \<open>keyed_store\<close>.
  \<^item> \<open>Types\<close>: \<open>include/robot/types\<close> (\<open>status.h\<close>, \<open>types.h\<close>, \<open>command.h\<close>). \<open>StateMachine\<close>:
    \<open>state_machine.cc\<close>.
  \<^item> \<open>ControlLease\<close>: \<open>control_lease.cc\<close>; its contract towards the executor is the locale
    \<open>lease_authority\<close> and its extension \<open>fresh_lease_authority\<close>.
  \<^item> \<open>CommandGuard\<close>: \<open>command_guard.cc\<close>, and the safety matrix \<open>permitted\<close> it implements.
  \<^item> \<open>RobotDriver\<close>: \<open>robot_driver.h\<close> as a record of functions over the driver's state, the dispatch
    of \<open>Execute\<close>, and the contract of an adapter, the locale \<open>driver_contract\<close>; \<open>MockDriver\<close> and
    \<open>EfortErrors\<close>, \<open>EfortDriver\<close> are the two adapters, each an interpretation of it.
  \<^item> \<open>ExecutorState\<close>, \<open>ExecutorOps\<close>: the members of \<open>CommandExecutor::Impl\<close> and one function per
    section that runs under its mutex. \<open>ExecutorSystem\<close>: the interleaving of worker, poller, clients
    and \<open>Shutdown\<close> as step relations over those sections (a thread's position between two sections is
    its program counter) and the reachable states. \<open>ExecutorInvariant\<close>, \<open>ExecutorPreserve\<close>: the
    invariant and, per operation, that it is kept and records only move forward.
  \<^item> \<open>ConfigDocument\<close>, \<open>ConfigLoader\<close>: \<open>config_loader.cc\<close>. \<open>GrpcConfig\<close>: \<open>grpc_config_loader.cc\<close>.
  \<^item> \<open>GrpcEndpoint\<close>, \<open>GrpcService\<close>: \<open>grpc_server.cc\<close> over \<open>robot_service.h\<close>.
    The endpoint's interface to the service behind it is the locale \<open>service_contract\<close> of
    \<open>ServiceRuns\<close>, interpreted on the executor.
  \<^item> \<open>ServiceProcess\<close>: \<open>robot_manager/main.cc\<close>. \<open>RobotCtl\<close>: \<open>robotctl/main.cc\<close>. \<open>RobotShell\<close>:
    \<open>robotsh/main.cc\<close>. \<open>BasicMove\<close>: \<open>examples/basic_move.cc\<close>.

  \<^bold>\<open>What the theorems show.\<close>
  \<^item> \<open>ExecutorSafety\<close>, in every reachable state of the interleaved system, for every driver,
    policy and clock: at most one live motion, only commands permitted on what the worker read
    after taking them reach the driver, records move forward, stops overtake the queue, the queue is exactly the queued commands, shutdown
    settles everything. \<open>ExecutorLedger\<close>: all of this as a refinement, each step of the executor
    is a sequence of steps of a small abstract ledger of commands. \<open>ExecutorShutdown\<close>: \<open>Shutdown\<close>
    ends within 13 sections, and a run in which a command overtakes its stop.
    \<open>ExecutorProgress\<close>: a command the worker has taken is finished, and whatever makes a waiting
    thread's condition true is followed by a notification.
  \<^item> \<open>ExecutorHistory\<close>: idempotent retries, admission of stops, pruning of the history.
    \<open>ExecutorMotion\<close>: what one poll concludes, and that it queues a stop. \<open>ExecutorLimits\<close>: what release withdraws, and
    the limits of the design: wrapped timeouts, colliding idempotency keys, a spinning worker,
    an automatic stop that is not retried.
  \<^item> \<open>CommandGuard\<close>, \<open>ControlLease\<close>, \<open>StateMachine\<close>, \<open>MockDriver\<close>: equivalence of \<open>Validate\<close> with the
    safety matrix, exclusivity and freshness of leases, the derived state is the most dangerous
    one, the mock robot's invariant.
  \<^item> \<open>EfortSafety\<close>, for every behaviour of the SDK: the calls a successful stop has made, and that
    all of them succeeded; connecting opens a session or closes it again; what a failed jog stop
    loses; every field of a snapshot is what the controller answered.
  \<^item> \<open>ConfigDocument\<close>, \<open>ConfigLoader\<close>, \<open>GrpcConfig\<close>: the flat document says what the tree says, and
    only safe settings load. \<open>GrpcEndpoint\<close>, \<open>GrpcService\<close>: commands survive the wire, outsiders
    change nothing, an accepted call is a recorded command, a stream is paced. \<open>ServiceRuns\<close>:
    every remote call is a run of one client thread of the executor, so the theorems about
    reachable states hold over the network. \<open>ConfigKeys\<close>: which settings the two loaders know
    between them. \<open>GuardedAdapter\<close>: guard, configuration and EFORT adapter together, the adapter's
    own checks refuse nothing the guard let through, but for three named cases.
  \<^item> \<open>ServiceProcess\<close>, \<open>RobotShell\<close>: the composition, a process that serves has safe settings, an
    accepted executor and the configured transport; the shell moves only a robot seen to be ready.
    \<open>RobotCtl\<close>: the tool shows the executor's latest snapshot. \<open>BasicMove\<close>: the example, which
    does not wait for the state as the shell does, can lose a race with the poller.

  \<^bold>\<open>Bounds and loops.\<close> No definition uses fuel. Pruning the history removes an entry in every round, so it
  ends with the table; a YAML tree is finite, so its reading is structural;
  \<open>StreamState\<close>, \<open>WaitSnapshot\<close>, \<open>WaitDone\<close> and the example's \<open>WaitFor\<close>, which run until the outside ends them, take the readings
  of their turns as a list. \<open>WaitSnapshot\<close> is proved to end within 501 readings. The worker and the
  poller are step relations; the measures \<open>worker_left\<close> and \<open>sections_left\<close> bound what they have
  still to do. Command ids are naturals (the code's 64-bit counter
  is not followed to its end); milliseconds are converted to nanoseconds with the wrap-around of
  64 bits; IO indices, jog axes and speed ratios are 32-bit words.

  \<^bold>\<open>Parameters.\<close> The vendor SDK (a record of functions over the state of the controller, its
  constants by name), the YAML parser, \<open>strtod\<close>, the file system, gRPC's \<open>BuildAndStart\<close> and client
  call, the peer identities of a certificate, and every clock reading. No theorem assumes
  anything of them beyond naming their results: in particular nothing is assumed of what the
  SDK's stop functions do to the robot (docs/sdk_integration.md lists that as still to be
  verified), and a listen address counts as loopback only as far as the code looks at it, by
  its first characters (\<open>insecure_beyond_loopback\<close> in \<open>GrpcService\<close>).

  \<^bold>\<open>Not modelled.\<close> Console output (but for \<open>robotctl\<close>'s), signal handlers, thread creation and condition variable
  wake-ups as such (any thread may step whenever its section allows it, so every schedule is
  covered);
  the protobuf encoding itself (messages are records of their fields); the TLS handshake; the
  text of YAML; the executor's destructor, which calls \<open>Shutdown\<close>; and the unit tests. Double
  arithmetic does not occur in the code: doubles are copied, compared and tested for finiteness.
\<close>

end
